(* ===== verification/Prelude.thy ===== *)
theory Prelude
  imports Main "HOL-Library.Word" "HOL-Library.Char_ord" "HOL-Library.List_Lexorder"
    "HOL-Library.Sublist"
begin

text \<open>
  What every component of the model shares.

  A Go function that returns \<open>(T, error)\<close> is a HOL function into \<open>string + 'a\<close>: \<open>Inl msg\<close> is
  a non-nil error and \<open>msg\<close> the text of \<open>err.Error()\<close>, because the program itself inspects that
  text (\<open>isMissingTransfer\<close>, \<open>friendlyChaincodeMessage\<close>). Go strings are byte sequences, so
  they are HOL strings and \<open>length\<close> is Go's \<open>len\<close>. Go's \<open>int64\<close> is \<open>64 word\<close>, read
  through \<open>sint\<close>; \<open>+\<close> and \<open>-\<close> wrap exactly as in Go.
\<close>

section \<open>Fallible computations\<close>

type_synonym 'a res = "string + 'a"

named_theorems res_inv \<open>inversion rules for results that are known to be \<open>Inr\<close>\<close>
named_theorems read_inv \<open>what a successful read of the state says about the ledger\<close>
named_theorems req_inv \<open>what a passed access check says about the caller\<close>

text \<open>The idiom \<open>x, err := m; if err != nil { return err }; f(x)\<close>.\<close>

definition bindE :: "'a res \<Rightarrow> ('a \<Rightarrow> 'b res) \<Rightarrow> 'b res" where
  "bindE m f = (case m of Inl e \<Rightarrow> Inl e | Inr x \<Rightarrow> f x)"

text \<open>The idiom \<open>fmt.Errorf("prefix: %w", err)\<close> around a fallible call.\<close>

definition wrapE :: "string \<Rightarrow> 'a res \<Rightarrow> 'a res" where
  "wrapE p m = (case m of Inl e \<Rightarrow> Inl (p @ e) | Inr x \<Rightarrow> Inr x)"

lemma bindE_simps [simp]:
  "bindE (Inl e) f = Inl e"
  "bindE (Inr x) f = f x"
  by (simp_all add: bindE_def)

lemma wrapE_simps [simp]:
  "wrapE p (Inl e) = Inl (p @ e)"
  "wrapE p (Inr x) = Inr x"
  by (simp_all add: wrapE_def)

lemma bindE_Inr [res_inv]: "bindE m f = Inr y \<longleftrightarrow> (\<exists>x. m = Inr x \<and> f x = Inr y)"
  by (cases m) auto

lemma bindE_Inl: "bindE m f = Inl e \<longleftrightarrow> m = Inl e \<or> (\<exists>x. m = Inr x \<and> f x = Inl e)"
  by (cases m) auto

lemma wrapE_Inr [res_inv]: "wrapE p m = Inr y \<longleftrightarrow> m = Inr y"
  by (cases m) auto

lemma guard_Inr [res_inv]: "(if c then Inl e else m) = Inr y \<longleftrightarrow> \<not> c \<and> m = Inr y"
  by simp

lemma bindE_assoc: "bindE (bindE m f) g = bindE m (\<lambda>x. bindE (f x) g)"
  by (cases m) auto

lemma bindE_cong [fundef_cong]:
  "m = m' \<Longrightarrow> (\<And>x. m' = Inr x \<Longrightarrow> f x = f' x) \<Longrightarrow> bindE m f = bindE m' f'"
  by (cases m) auto

text \<open>A loop that decodes every item and stops at the first error.\<close>

fun mapE :: "('a \<Rightarrow> 'b res) \<Rightarrow> 'a list \<Rightarrow> 'b list res" where
  "mapE f [] = Inr []"
| "mapE f (x # xs) = bindE (f x) (\<lambda>y. bindE (mapE f xs) (\<lambda>ys. Inr (y # ys)))"

lemma mapE_Inr_iff: "mapE f xs = Inr ys \<longleftrightarrow> list_all2 (\<lambda>x y. f x = Inr y) xs ys"
  by (induction xs arbitrary: ys) (auto simp: res_inv list_all2_Cons1)

lemma mapE_set: "mapE f xs = Inr ys \<Longrightarrow> y \<in> set ys \<longleftrightarrow> (\<exists>x \<in> set xs. f x = Inr y)"
  by (induction xs arbitrary: ys) (auto simp: res_inv)

lemma mapE_total: "(\<And>x. x \<in> set xs \<Longrightarrow> f x = Inr (g x)) \<Longrightarrow> mapE f xs = Inr (map g xs)"
  by (induction xs) auto

section \<open>64-bit integers\<close>

type_synonym int64 = "64 word"

abbreviation max_int64 :: int where "max_int64 \<equiv> 9223372036854775807"
abbreviation min_int64 :: int where "min_int64 \<equiv> -9223372036854775808"

lemma sint64_bounds: "min_int64 \<le> sint (a :: int64)" "sint (a :: int64) \<le> max_int64"
  using sint_ge [of a] sint_lt [of a] by simp_all

lemma sint64_of_int:
  "min_int64 \<le> i \<Longrightarrow> i \<le> max_int64 \<Longrightarrow> sint (word_of_int i :: int64) = i"
  by (simp add: sint_sbintrunc' signed_take_bit_int_eq_self)

lemma sint64_add:
  fixes a b :: int64
  assumes "min_int64 \<le> sint a + sint b" "sint a + sint b \<le> max_int64"
  shows "sint (a + b) = sint a + sint b"
  using assms by (simp add: sint_word_ariths(1) signed_take_bit_int_eq_self)

lemma sint64_sub:
  fixes a b :: int64
  assumes "min_int64 \<le> sint a - sint b" "sint a - sint b \<le> max_int64"
  shows "sint (a - b) = sint a - sint b"
  using assms by (simp add: sint_word_ariths(2) signed_take_bit_int_eq_self)

lemma sint64_eq_iff: "(a :: int64) = b \<longleftrightarrow> sint a = sint b"
  by (rule word_eq_iff_signed)

end
