(* ===== verification/GoStrings.thy ===== *)
theory GoStrings
  imports Prelude
begin

text \<open>
  The parts of Go's \<open>strings\<close>, \<open>strconv\<close>, \<open>encoding/hex\<close> and \<open>time\<close> packages that the program
  calls. Strings are UTF-8 byte sequences, as in Go. \<open>TrimSpace\<close> knows every rune of
  \<open>unicode.IsSpace\<close> by its encoding. \<open>ToUpper\<close> and \<open>ToLower\<close> map the ASCII letters and the
  four other runes whose image is an ASCII letter; the remaining runes keep their bytes,
  which the program cannot observe where it compares the result with an ASCII word.
\<close>

section \<open>Searching\<close>

fun contains :: "string \<Rightarrow> string \<Rightarrow> bool" where
  "contains [] sub = (sub = [])"
| "contains (c # cs) sub = (prefix sub (c # cs) \<or> contains cs sub)"

lemma contains_iff_sublist: "contains s sub \<longleftrightarrow> sublist sub s"
  by (induction s) (auto simp: sublist_Cons_right)

lemma contains_append_middle: "contains (a @ sub @ b) sub"
  by (auto simp: contains_iff_sublist)

definition contains_any :: "string \<Rightarrow> string \<Rightarrow> bool" where
  "contains_any s chars = list_ex (\<lambda>c. c \<in> set chars) s"

lemma contains_any_iff [simp]: "contains_any s chars \<longleftrightarrow> set s \<inter> set chars \<noteq> {}"
  by (auto simp: contains_any_def list_ex_iff)

section \<open>TrimSpace\<close>

text \<open>The white-space runes, by the number of bytes of their encoding.\<close>

definition space1 :: "char \<Rightarrow> bool" where
  "space1 a = (a = CHR 0x20 \<or> a = CHR 0x09 \<or> a = CHR 0x0A \<or> a = CHR 0x0B \<or> a = CHR 0x0C \<or> a = CHR 0x0D)"

definition space2 :: "char \<Rightarrow> char \<Rightarrow> bool" where
  "space2 a b = (a = CHR 0xC2 \<and> (b = CHR 0x85 \<or> b = CHR 0xA0))"

definition space3 :: "char \<Rightarrow> char \<Rightarrow> char \<Rightarrow> bool" where
  "space3 a b c =
    (a = CHR 0xE1 \<and> b = CHR 0x9A \<and> c = CHR 0x80 \<or>
     a = CHR 0xE2 \<and> b = CHR 0x80 \<and>
       (CHR 0x80 \<le> c \<and> c \<le> CHR 0x8A \<or> c = CHR 0xA8 \<or> c = CHR 0xA9 \<or> c = CHR 0xAF) \<or>
     a = CHR 0xE2 \<and> b = CHR 0x81 \<and> c = CHR 0x9F \<or>
     a = CHR 0xE3 \<and> b = CHR 0x80 \<and> c = CHR 0x80)"

fun trim_by ::
  "(char \<Rightarrow> bool) \<Rightarrow> (char \<Rightarrow> char \<Rightarrow> bool) \<Rightarrow> (char \<Rightarrow> char \<Rightarrow> char \<Rightarrow> bool) \<Rightarrow> string \<Rightarrow> string"
where
  "trim_by p q r [] = []"
| "trim_by p q r [a] = (if p a then [] else [a])"
| "trim_by p q r [a, b] =
     (if p a then trim_by p q r [b] else if q a b then [] else [a, b])"
| "trim_by p q r (a # b # c # s) =
     (if p a then trim_by p q r (b # c # s)
      else if q a b then trim_by p q r (c # s)
      else if r a b c then trim_by p q r s
      else a # b # c # s)"

definition trim_left :: "string \<Rightarrow> string" where
  "trim_left s = trim_by space1 space2 space3 s"

definition trim_right :: "string \<Rightarrow> string" where
  "trim_right s = rev (trim_by space1 (\<lambda>a b. space2 b a) (\<lambda>a b c. space3 c b a) (rev s))"

definition TrimSpace :: "string \<Rightarrow> string" where
  "TrimSpace s = trim_right (trim_left s)"

lemma TrimSpace_Nil [simp]: "TrimSpace [] = []"
  by (simp add: TrimSpace_def trim_left_def trim_right_def)

lemma trim_by_suffix: "suffix (trim_by p q r s) s"
  by (induction p q r s rule: trim_by.induct) (auto intro: suffix_ConsI)

lemma trim_by_idem: "trim_by p q r (trim_by p q r s) = trim_by p q r s"
  by (induction p q r s rule: trim_by.induct) auto

text \<open>A prefix of a string that starts with no white space starts with none either.\<close>

lemma trim_by_prefix:
  "trim_by p q r (s @ t) = s @ t \<Longrightarrow> trim_by p q r s = s"
proof (induction p q r s rule: trim_by.induct)
  case (2 p q r a)
  have "\<not> p a"
  proof
    assume "p a"
    then have "length (trim_by p q r ([a] @ t)) < length ([a] @ t)"
      using trim_by_suffix [of p q r t]
      by (cases t rule: remdups_adj.cases)
        (auto dest!: suffix_length_le intro: le_imp_less_Suc
          simp: suffix_length_le [OF trim_by_suffix] le_imp_less_Suc)
    with "2.prems" show False by simp
  qed
  then show ?case by simp
next
  case (3 p q r a b)
  show ?case
    using "3.prems" trim_by_suffix [of p q r "b # t"] trim_by_suffix [of p q r t]
    by (cases t) (auto split: if_splits dest!: suffix_length_le)
next
  case (4 p q r a b c s)
  then show ?case
    using trim_by_suffix [of p q r "b # c # s @ t"] trim_by_suffix [of p q r "c # s @ t"]
      trim_by_suffix [of p q r "s @ t"]
    by (auto split: if_splits dest!: suffix_length_le)
qed simp

lemma TrimSpace_idem [simp]: "TrimSpace (TrimSpace s) = TrimSpace s"
proof -
  let ?l = "trim_left s"
  obtain t where t: "?l = trim_right ?l @ t"
    using trim_by_suffix [of space1 "\<lambda>a b. space2 b a" "\<lambda>a b c. space3 c b a" "rev ?l"]
    by (auto simp: trim_right_def suffix_def) (metis rev_append rev_rev_ident)
  have "trim_left (trim_right ?l @ t) = trim_right ?l @ t"
    using t trim_by_idem [of space1 space2 space3 s] by (metis trim_left_def)
  then have "trim_left (trim_right ?l) = trim_right ?l"
    unfolding trim_left_def by (rule trim_by_prefix)
  then show ?thesis
    by (simp add: TrimSpace_def) (simp add: trim_right_def trim_by_idem)
qed

lemma TrimSpace_length: "length (TrimSpace s) \<le> length s"
proof -
  have "length (trim_left s) \<le> length s" for s
    by (simp add: trim_left_def suffix_length_le [OF trim_by_suffix])
  moreover have "length (trim_right s) \<le> length s" for s
    by (simp add: trim_right_def) (metis length_rev suffix_length_le trim_by_suffix)
  ultimately show ?thesis unfolding TrimSpace_def by (meson le_trans)
qed

lemma TrimSpace_set: "set (TrimSpace s) \<subseteq> set s"
proof -
  have "set (trim_left s) \<subseteq> set s" for s
    unfolding trim_left_def by (rule set_mono_suffix [OF trim_by_suffix])
  moreover have "set (trim_right s) \<subseteq> set s" for s
    using set_mono_suffix [OF trim_by_suffix] by (fastforce simp: trim_right_def)
  ultimately show ?thesis unfolding TrimSpace_def by (meson order_trans)
qed

text \<open>A string without white space is left alone.\<close>

lemma trim_by_same: "(\<And>a. a \<in> set s \<Longrightarrow> \<not> p a) \<Longrightarrow> (\<And>a b. a \<in> set s \<Longrightarrow> b \<in> set s \<Longrightarrow> \<not> q a b) \<Longrightarrow>
    (\<And>a b c. a \<in> set s \<Longrightarrow> b \<in> set s \<Longrightarrow> c \<in> set s \<Longrightarrow> \<not> r a b c) \<Longrightarrow> trim_by p q r s = s"
  by (cases "(p, q, r, s)" rule: trim_by.cases) simp_all

lemma TrimSpace_same:
  assumes "\<And>a. a \<in> set s \<Longrightarrow> \<not> space1 a \<and> a \<notin> {CHR 0xC2, CHR 0xE1, CHR 0xE2, CHR 0xE3}"
  shows "TrimSpace s = s"
proof -
  have no: "\<not> space2 a b" "\<not> space3 a b c" if "a \<in> set s" for a b c
    using assms [OF that] by (auto simp: space2_def space3_def)
  have "trim_left s = s" "trim_right s = s"
    unfolding trim_left_def trim_right_def by (subst trim_by_same; simp add: no assms)+
  then show ?thesis by (simp add: TrimSpace_def)
qed

section \<open>Case mapping\<close>

definition upper_byte :: "char \<Rightarrow> char" where
  "upper_byte c = (let n = of_char c :: nat in if 97 \<le> n \<and> n \<le> 122 then char_of (n - 32) else c)"

definition lower_byte :: "char \<Rightarrow> char" where
  "lower_byte c = (let n = of_char c :: nat in if 65 \<le> n \<and> n \<le> 90 then char_of (n + 32) else c)"

text \<open>U+0131 and U+017F are the non-ASCII runes with an ASCII upper case.\<close>

fun ToUpper :: "string \<Rightarrow> string" where
  "ToUpper (a # b # s) =
     (if a = CHR 0xC4 \<and> b = CHR 0xB1 then CHR ''I'' # ToUpper s
      else if a = CHR 0xC5 \<and> b = CHR 0xBF then CHR ''S'' # ToUpper s
      else upper_byte a # ToUpper (b # s))"
| "ToUpper [a] = [upper_byte a]"
| "ToUpper [] = []"

text \<open>U+0130 and U+212A (the Kelvin sign) are the ones with an ASCII lower case.\<close>

fun ToLower :: "string \<Rightarrow> string" where
  "ToLower (a # b # c # s) =
     (if a = CHR 0xC4 \<and> b = CHR 0xB0 then CHR ''i'' # ToLower (c # s)
      else if a = CHR 0xE2 \<and> b = CHR 0x84 \<and> c = CHR 0xAA then CHR ''k'' # ToLower s
      else lower_byte a # ToLower (b # c # s))"
| "ToLower [a, b] =
     (if a = CHR 0xC4 \<and> b = CHR 0xB0 then ''i'' else [lower_byte a, lower_byte b])"
| "ToLower [a] = [lower_byte a]"
| "ToLower [] = []"

text \<open>
  \<open>strings.EqualFold\<close> on the strings the program passes, one of which is in ASCII (a name of a JSON member, a
  hexadecimal digest). The letters of ASCII fold with each other, U+017F folds with \<open>s\<close> and U+212A with
  \<open>k\<close>; no other rune folds with one of ASCII.
\<close>

fun fold_case :: "string \<Rightarrow> string" where
  "fold_case (a # b # c # s) =
     (if a = CHR 0xC5 \<and> b = CHR 0xBF then CHR ''s'' # fold_case (c # s)
      else if a = CHR 0xE2 \<and> b = CHR 0x84 \<and> c = CHR 0xAA then CHR ''k'' # fold_case s
      else lower_byte a # fold_case (b # c # s))"
| "fold_case [a, b] = (if a = CHR 0xC5 \<and> b = CHR 0xBF then ''s'' else [lower_byte a, lower_byte b])"
| "fold_case [a] = [lower_byte a]"
| "fold_case [] = []"

definition EqualFold :: "string \<Rightarrow> string \<Rightarrow> bool" where
  "EqualFold s t \<longleftrightarrow> fold_case s = fold_case t"

lemma EqualFold_refl [simp]: "EqualFold s s"
  by (simp add: EqualFold_def)

section \<open>Decimal and hexadecimal text\<close>

definition is_digit :: "char \<Rightarrow> bool" where
  "is_digit c = (let n = of_char c :: nat in 48 \<le> n \<and> n \<le> 57)"

definition digit_val :: "char \<Rightarrow> int" where
  "digit_val c = int (of_char c :: nat) - 48"

definition digit_char :: "nat \<Rightarrow> char" where
  "digit_char d = char_of (48 + d)"

fun digits_val :: "int \<Rightarrow> string \<Rightarrow> int" where
  "digits_val acc [] = acc"
| "digits_val acc (c # cs) = digits_val (10 * acc + digit_val c) cs"

definition parse_nat :: "string \<Rightarrow> int option" where
  "parse_nat s = (if s \<noteq> [] \<and> list_all is_digit s then Some (digits_val 0 s) else None)"

text \<open>
  \<open>strconv.ParseInt(s, 10, 64)\<close> (and \<open>strconv.Atoi\<close> on a 64-bit machine): an optional sign,
  digits, and a range check; \<open>None\<close> is the syntax or range error, whose text no caller uses.
\<close>

definition ParseInt :: "string \<Rightarrow> int64 option" where
  "ParseInt s =
    (case s of
       [] \<Rightarrow> None
     | c # cs \<Rightarrow>
         (let v = (if c = CHR ''-'' then map_option uminus (parse_nat cs)
                   else if c = CHR ''+'' then parse_nat cs else parse_nat s)
          in case v of None \<Rightarrow> None
             | Some i \<Rightarrow> if min_int64 \<le> i \<and> i \<le> max_int64 then Some (word_of_int i) else None))"

fun nat_digits :: "nat \<Rightarrow> string" where
  "nat_digits n = (if n < 10 then [digit_char n] else nat_digits (n div 10) @ [digit_char (n mod 10)])"

declare nat_digits.simps [simp del]

text \<open>\<open>strconv.FormatInt(v, 10)\<close>, which is also \<open>%d\<close>.\<close>

definition FormatInt :: "int64 \<Rightarrow> string" where
  "FormatInt v = (if sint v < 0 then CHR ''-'' # nat_digits (nat (- sint v)) else nat_digits (nat (sint v)))"

definition is_hex_digit :: "char \<Rightarrow> bool" where
  "is_hex_digit c =
    (let n = of_char c :: nat in 48 \<le> n \<and> n \<le> 57 \<or> 97 \<le> n \<and> n \<le> 102 \<or> 65 \<le> n \<and> n \<le> 70)"

text \<open>\<open>hex.DecodeString\<close> succeeds on an even number of hexadecimal digits.\<close>

definition hex_decodable :: "string \<Rightarrow> bool" where
  "hex_decodable s \<longleftrightarrow> even (length s) \<and> list_all is_hex_digit s"

lemma is_digit_digit_char [simp]: "d < 10 \<Longrightarrow> is_digit (digit_char d)"
  by (auto simp: is_digit_def digit_char_def Let_def)

lemma digit_val_digit_char [simp]: "d < 10 \<Longrightarrow> digit_val (digit_char d) = int d"
  by (simp add: digit_val_def digit_char_def of_char_of)

lemma digits_val_snoc: "digits_val acc (s @ [c]) = 10 * digits_val acc s + digit_val c"
  by (induction s arbitrary: acc) auto

lemma nat_digits_all: "list_all is_digit (nat_digits n)"
proof (induction n rule: nat_digits.induct)
  case (1 n)
  then show ?case by (subst nat_digits.simps) simp
qed

lemma nat_digits_ne [simp]: "nat_digits n \<noteq> []"
  by (subst nat_digits.simps) simp

lemma digits_val_nat_digits: "digits_val 0 (nat_digits n) = int n"
proof (induction n rule: nat_digits.induct)
  case (1 n)
  show ?case
  proof (cases "n < 10")
    case True
    then show ?thesis by (subst nat_digits.simps) simp
  next
    case False
    with 1 have "digits_val 0 (nat_digits (n div 10)) = int (n div 10)" by simp
    with False show ?thesis
      by (subst nat_digits.simps) (simp add: digits_val_snoc, presburger)
  qed
qed

lemma parse_nat_digits [simp]: "parse_nat (nat_digits n) = Some (int n)"
  by (simp add: parse_nat_def nat_digits_all digits_val_nat_digits)

lemma nat_digits_hd: "nat_digits n = c # cs \<Longrightarrow> c \<noteq> CHR ''-'' \<and> c \<noteq> CHR ''+''"
  using nat_digits_all [of n] by (auto simp: is_digit_def)

text \<open>What \<open>FormatInt\<close> writes, \<open>ParseInt\<close> reads back.\<close>

lemma ParseInt_FormatInt: "ParseInt (FormatInt v) = Some v"
proof (cases "sint v < 0")
  case True
  then show ?thesis using sint64_bounds [of v]
    by (simp add: ParseInt_def FormatInt_def)
next
  case False
  obtain c cs where c: "nat_digits (nat (sint v)) = c # cs"
    by (cases "nat_digits (nat (sint v))") auto
  have "parse_nat (c # cs) = Some (sint v)"
    using False parse_nat_digits [of "nat (sint v)"] by (simp add: c)
  with False nat_digits_hd [OF c] sint64_bounds [of v] show ?thesis
    by (simp add: ParseInt_def FormatInt_def c)
qed

text \<open>A hexadecimal string is ASCII, so lower-casing it keeps its length.\<close>

lemma non_hex_bytes: "\<not> is_hex_digit CHR 0xC4" "\<not> is_hex_digit CHR 0xE2"
  by (simp_all add: is_hex_digit_def)

lemma ToLower_hex:
  "\<forall>c \<in> set s. is_hex_digit c \<Longrightarrow> ToLower s = map lower_byte s"
  by (induction s rule: ToLower.induct) (auto simp: non_hex_bytes)

lemma length_ToLower_hex: "hex_decodable s \<Longrightarrow> length (ToLower s) = length s"
  by (simp add: hex_decodable_def ToLower_hex list_all_iff)

end
