(* ===== verification/Json.thy ===== *)
theory Json
  imports GoStrings
begin

text \<open>
  JSON documents as \<open>encoding/json\<close> sees them, at the level of syntax trees, with the rules of
  \<open>json.Marshal\<close> and \<open>json.Unmarshal\<close> for the struct fields the program declares: a missing
  member and \<open>null\<close> leave the zero value, a value of another kind is an error, a number must fit
  its field (\<open>JReal\<close> is a number whose literal, which it holds, is no integer), the last of several members with one name counts. The last section prints a
  document as the bytes \<open>json.Marshal\<close> produces, which the content hash of an invoice is
  computed over.
\<close>

datatype json =
    JNull
  | JBool bool
  | JInt int
  | JReal string
  | JStr string
  | JArr "json list"
  | JObj "(string \<times> json) list"

definition kind_name :: "json \<Rightarrow> string" where
  "kind_name j = (case j of JNull \<Rightarrow> ''null'' | JBool _ \<Rightarrow> ''bool'' | JInt _ \<Rightarrow> ''number'' | JReal _ \<Rightarrow> ''number''
     | JStr _ \<Rightarrow> ''string'' | JArr _ \<Rightarrow> ''array'' | JObj _ \<Rightarrow> ''object'')"

definition type_error :: "json \<Rightarrow> string \<Rightarrow> string \<Rightarrow> string" where
  "type_error j field ty =
    ''json: cannot unmarshal '' @ kind_name j @ '' into Go struct field '' @ field @ '' of type '' @ ty"

definition members :: "string \<Rightarrow> json \<Rightarrow> (string \<times> json) list option res" where
  "members ty j = (case j of JObj ms \<Rightarrow> Inr (Some ms) | JNull \<Rightarrow> Inr None
     | _ \<Rightarrow> Inl (''json: cannot unmarshal '' @ kind_name j @ '' into Go value of type '' @ ty))"

definition member :: "(string \<times> json) list option \<Rightarrow> string \<Rightarrow> json" where
  "member ms name = (case ms of None \<Rightarrow> JNull
     | Some l \<Rightarrow> (case map_of (rev l) name of None \<Rightarrow> JNull | Some j \<Rightarrow> j))"

definition get_str :: "(string \<times> json) list option \<Rightarrow> string \<Rightarrow> string res" where
  "get_str ms name = (case member ms name of JStr s \<Rightarrow> Inr s | JNull \<Rightarrow> Inr []
     | j \<Rightarrow> Inl (type_error j name ''string''))"

definition get_int64 :: "(string \<times> json) list option \<Rightarrow> string \<Rightarrow> int64 res" where
  "get_int64 ms name = (case member ms name of
       JInt i \<Rightarrow> if min_int64 \<le> i \<and> i \<le> max_int64 then Inr (word_of_int i)
                 else Inl (type_error (JInt i) name ''int64'')
     | JNull \<Rightarrow> Inr 0
     | j \<Rightarrow> Inl (type_error j name ''int64''))"

definition get_bool :: "(string \<times> json) list option \<Rightarrow> string \<Rightarrow> bool res" where
  "get_bool ms name = (case member ms name of JBool b \<Rightarrow> Inr b | JNull \<Rightarrow> Inr False
     | j \<Rightarrow> Inl (type_error j name ''bool''))"

definition JInt64 :: "int64 \<Rightarrow> json" where
  "JInt64 v = JInt (sint v)"

text \<open>Field readers on an object given by its members.\<close>

lemma members_JObj [simp]: "members ty (JObj ms) = Inr (Some ms)"
  by (simp add: members_def)

lemma get_str_hit: "map_of (rev ms) n = Some (JStr s) \<Longrightarrow> get_str (Some ms) n = Inr s"
  by (simp add: get_str_def member_def)

lemma get_int64_hit: "map_of (rev ms) n = Some (JInt64 v) \<Longrightarrow> get_int64 (Some ms) n = Inr v"
  using sint64_bounds [of v] by (simp add: get_int64_def member_def JInt64_def)

lemma get_bool_hit: "map_of (rev ms) n = Some (JBool b) \<Longrightarrow> get_bool (Some ms) n = Inr b"
  by (simp add: get_bool_def member_def)

lemma get_str_miss: "map_of (rev ms) n = None \<Longrightarrow> get_str (Some ms) n = Inr []"
  by (simp add: get_str_def member_def)

lemma JInt64_eq_iff [simp]: "JInt64 a = JInt64 b \<longleftrightarrow> a = b"
  by (simp add: JInt64_def sint64_eq_iff)

lemmas get_hits = get_str_hit get_int64_hit get_bool_hit get_str_miss

section \<open>The text of a document\<close>

definition cont_byte :: "char \<Rightarrow> bool" where
  "cont_byte c \<longleftrightarrow> CHR 0x80 \<le> c \<and> c \<le> CHR 0xBF"

text \<open>The length of the UTF-8 rune a string starts with; 0 when its first byte is invalid.\<close>

definition rune_len :: "string \<Rightarrow> nat" where
  "rune_len s = (case s of [] \<Rightarrow> 0 | a # s1 \<Rightarrow>
     if a < CHR 0x80 then 1 else (case s1 of [] \<Rightarrow> 0 | b # s2 \<Rightarrow>
     if CHR 0xC2 \<le> a \<and> a \<le> CHR 0xDF \<and> cont_byte b then 2 else (case s2 of [] \<Rightarrow> 0 | c # s3 \<Rightarrow>
     if cont_byte c \<and> (a = CHR 0xE0 \<and> CHR 0xA0 \<le> b \<and> b \<le> CHR 0xBF
          \<or> a = CHR 0xED \<and> CHR 0x80 \<le> b \<and> b \<le> CHR 0x9F
          \<or> CHR 0xE1 \<le> a \<and> a \<le> CHR 0xEF \<and> a \<noteq> CHR 0xED \<and> cont_byte b) then 3
     else (case s3 of [] \<Rightarrow> 0 | d # _ \<Rightarrow>
     if cont_byte c \<and> cont_byte d \<and> (a = CHR 0xF0 \<and> CHR 0x90 \<le> b \<and> b \<le> CHR 0xBF
          \<or> a = CHR 0xF4 \<and> CHR 0x80 \<le> b \<and> b \<le> CHR 0x8F
          \<or> CHR 0xF1 \<le> a \<and> a \<le> CHR 0xF3 \<and> cont_byte b) then 4 else 0))))"

definition hex_char :: "nat \<Rightarrow> char" where
  "hex_char d = (if d < 10 then char_of (48 + d) else char_of (87 + d))"

definition esc_ascii :: "char \<Rightarrow> string" where
  "esc_ascii a =
    (if a = CHR 0x22 \<or> a = CHR 0x5C then [CHR 0x5C, a]
     else if a = CHR 0x08 then [CHR 0x5C, CHR ''b'']
     else if a = CHR 0x0C then [CHR 0x5C, CHR ''f'']
     else if a = CHR 0x0A then [CHR 0x5C, CHR ''n'']
     else if a = CHR 0x0D then [CHR 0x5C, CHR ''r'']
     else if a = CHR 0x09 then [CHR 0x5C, CHR ''t'']
     else if a < CHR 0x20 \<or> a = CHR ''<'' \<or> a = CHR ''>'' \<or> a = CHR ''&'' then
       [CHR 0x5C, CHR ''u'', CHR ''0'', CHR ''0'', hex_char (of_char a div 16), hex_char (of_char a mod 16)]
     else [a])"

definition esc_rune :: "string \<Rightarrow> string" where
  "esc_rune r =
    (if r = [CHR 0xE2, CHR 0x80, CHR 0xA8] then CHR 0x5C # ''u2028''
     else if r = [CHR 0xE2, CHR 0x80, CHR 0xA9] then CHR 0x5C # ''u2029''
     else r)"

function json_escape :: "string \<Rightarrow> string" where
  "json_escape s =
    (if s = [] then []
     else if rune_len s = 0 then CHR 0x5C # ''ufffd'' @ json_escape (tl s)
     else if rune_len s = 1 then esc_ascii (hd s) @ json_escape (tl s)
     else esc_rune (take (rune_len s) s) @ json_escape (drop (rune_len s) s))"
  by pat_completeness auto
termination
  by (relation "measure length") auto

declare json_escape.simps [simp del]

definition quote :: "string \<Rightarrow> string" where
  "quote s = CHR 0x22 # json_escape s @ [CHR 0x22]"

fun intersperse :: "string \<Rightarrow> string list \<Rightarrow> string" where
  "intersperse sep [] = []"
| "intersperse sep [x] = x"
| "intersperse sep (x # y # xs) = x @ sep @ intersperse sep (y # xs)"

definition int_text :: "int \<Rightarrow> string" where
  "int_text i = (if i < 0 then CHR ''-'' # nat_digits (nat (- i)) else nat_digits (nat i))"

fun json_text :: "json \<Rightarrow> string" where
  "json_text JNull = ''null''"
| "json_text (JBool b) = (if b then ''true'' else ''false'')"
| "json_text (JInt i) = int_text i"
| "json_text (JReal t) = t"
| "json_text (JStr s) = quote s"
| "json_text (JArr js) = ''['' @ intersperse '','' (map json_text js) @ '']''"
| "json_text (JObj ms) = ''{'' @ intersperse '',''
     (map (\<lambda>(n, j). quote n @ '':'' @ json_text j) ms) @ ''}''"

end
