(* ===== verification/GoTime.thy ===== *)
theory GoTime
  imports GoStrings
begin

text \<open>
  The calendar part of Go's \<open>time\<close> package that the program uses: parsing with the layout
  \<open>2006-01-02\<close> and formatting UTC instants as RFC 3339. Seconds are exact for the years
  0000 to 9999, the range of a protobuf \<open>Timestamp\<close> and of the program's data.
\<close>

definition is_leap :: "int \<Rightarrow> bool" where
  "is_leap y \<longleftrightarrow> y mod 4 = 0 \<and> (y mod 100 \<noteq> 0 \<or> y mod 400 = 0)"

definition days_in_month :: "int \<Rightarrow> int \<Rightarrow> int" where
  "days_in_month y m =
    (if m = 2 then (if is_leap y then 29 else 28)
     else if m = 4 \<or> m = 6 \<or> m = 9 \<or> m = 11 then 30 else 31)"

text \<open>\<open>time.Parse("2006-01-02", s)\<close>: exactly \<open>dddd-dd-dd\<close>, and a day that exists.\<close>

definition parse_iso_date :: "string \<Rightarrow> (int \<times> int \<times> int) option" where
  "parse_iso_date s =
    (if length s = 10 \<and> list_all is_digit (take 4 s) \<and> s ! 4 = CHR ''-''
        \<and> list_all is_digit (take 2 (drop 5 s)) \<and> s ! 7 = CHR ''-'' \<and> list_all is_digit (drop 8 s)
     then (let y = digits_val 0 (take 4 s); m = digits_val 0 (take 2 (drop 5 s));
               d = digits_val 0 (drop 8 s)
           in if 1 \<le> m \<and> m \<le> 12 \<and> 1 \<le> d \<and> d \<le> days_in_month y m then Some (y, m, d) else None)
     else None)"

definition validISODate :: "string \<Rightarrow> bool" where
  "validISODate value = (parse_iso_date (TrimSpace value) \<noteq> None)"

text \<open>Days since 1970-01-01 to year, month and day of the proleptic Gregorian calendar.\<close>

definition civil_from_days :: "int \<Rightarrow> int \<times> int \<times> int" where
  "civil_from_days days =
    (let z = days + 719468;
         era = z div 146097;
         doe = z mod 146097;
         yoe = (doe - doe div 1460 + doe div 36524 - doe div 146096) div 365;
         doy = doe - (365 * yoe + yoe div 4 - yoe div 100);
         mp = (5 * doy + 2) div 153;
         d = doy - (153 * mp + 2) div 5 + 1;
         m = (if mp < 10 then mp + 3 else mp - 9);
         y = yoe + era * 400 + (if m \<le> 2 then 1 else 0)
     in (y, m, d))"

definition pad2 :: "int \<Rightarrow> string" where
  "pad2 n = [digit_char (nat (n div 10 mod 10)), digit_char (nat (n mod 10))]"

definition pad4 :: "int \<Rightarrow> string" where
  "pad4 n = (if n < 0 then CHR ''-'' # pad2 (- n div 100) @ pad2 (- n mod 100)
             else if n < 10000 then pad2 (n div 100) @ pad2 (n mod 100) else nat_digits (nat n))"

definition format_rfc3339 :: "int \<Rightarrow> string" where
  "format_rfc3339 secs =
    (let days = secs div 86400; rest = secs mod 86400; (y, m, d) = civil_from_days days
     in pad4 y @ ''-'' @ pad2 m @ ''-'' @ pad2 d @ ''T''
        @ pad2 (rest div 3600) @ '':'' @ pad2 (rest mod 3600 div 60) @ '':'' @ pad2 (rest mod 60) @ ''Z'')"

text \<open>\<open>time.Unix(seconds, nanos).UTC().Format(time.RFC3339)\<close>: excess nanoseconds carry.\<close>

definition timestampText :: "int64 \<Rightarrow> int64 \<Rightarrow> string" where
  "timestampText seconds nanos =
    format_rfc3339 (sint (seconds + word_of_int (sint nanos div 1000000000)))"

lemma parse_iso_date_bounds:
  "parse_iso_date s = Some (y, m, d) \<Longrightarrow> 1 \<le> m \<and> m \<le> 12 \<and> 1 \<le> d \<and> d \<le> days_in_month y m"
  by (auto simp: parse_iso_date_def Let_def split: if_splits)

lemma validISODate_length: "validISODate s \<Longrightarrow> length (TrimSpace s) = 10"
  by (auto simp: validISODate_def parse_iso_date_def split: if_splits)

end
