(* ===== verification/Ledger.thy ===== *)
theory Ledger
  imports Json GoTime
begin

text \<open>
  The world state a transaction runs against and the interface the chaincode calls, the shim's
  \<open>ChaincodeStubInterface\<close> and \<open>ClientIdentity\<close>. The state is a list of key/value pairs sorted by
  key, as Fabric's state database keeps it, so that a range scan is a filter. A value is a JSON
  document or raw bytes (the two index families store a bare identifier).

  As in Fabric, reads see the committed state only: \<open>PutState\<close> and \<open>DelState\<close> are collected in a
  write list that is applied when the transaction commits, and dropped when the function returns
  an error. Every call that can fail in Go can fail here: the stub carries the errors its methods
  return, as functions of the key.
\<close>

section \<open>The world state\<close>

datatype blob = Doc json | Raw string

type_synonym ledger = "(string \<times> blob) list"

fun put_kv :: "string \<Rightarrow> blob \<Rightarrow> ledger \<Rightarrow> ledger" where
  "put_kv k v [] = [(k, v)]"
| "put_kv k v ((k', v') # l) =
     (if k < k' then (k, v) # (k', v') # l
      else if k = k' then (k, v) # l else (k', v') # put_kv k v l)"

fun del_kv :: "string \<Rightarrow> ledger \<Rightarrow> ledger" where
  "del_kv k [] = []"
| "del_kv k ((k', v') # l) = (if k = k' then l else (k', v') # del_kv k l)"

definition get_kv :: "ledger \<Rightarrow> string \<Rightarrow> blob option" where
  "get_kv l k = map_of l k"

definition wf_ledger :: "ledger \<Rightarrow> bool" where
  "wf_ledger l \<longleftrightarrow> sorted_wrt (<) (map fst l)"

definition range_kv :: "ledger \<Rightarrow> string \<Rightarrow> string \<Rightarrow> (string \<times> blob) list" where
  "range_kv l start end' = filter (\<lambda>(k, _). start \<le> k \<and> k < end') l"

text \<open>The promises of a key/value store that the chaincode relies on.\<close>

locale kv_store =
  fixes empty :: 's
    and put :: "'k::linorder \<Rightarrow> 'v \<Rightarrow> 's \<Rightarrow> 's"
    and del :: "'k \<Rightarrow> 's \<Rightarrow> 's"
    and get :: "'s \<Rightarrow> 'k \<Rightarrow> 'v option"
    and range :: "'s \<Rightarrow> 'k \<Rightarrow> 'k \<Rightarrow> ('k \<times> 'v) list"
    and inv :: "'s \<Rightarrow> bool"
  assumes inv_empty: "inv empty"
    and inv_put: "inv s \<Longrightarrow> inv (put k v s)"
    and inv_del: "inv s \<Longrightarrow> inv (del k s)"
    and get_empty: "get empty k = None"
    and get_put: "inv s \<Longrightarrow> get (put k v s) = (get s)(k \<mapsto> v)"
    and get_del: "inv s \<Longrightarrow> get (del k s) = (get s)(k := None)"
    and set_range: "inv s \<Longrightarrow> set (range s a b) = {(k, v). get s k = Some v \<and> a \<le> k \<and> k < b}"
    and distinct_range: "inv s \<Longrightarrow> distinct (map fst (range s a b))"
begin

text \<open>A property of all entries is kept by writing an entry that has it and by deleting.\<close>

definition all_entries :: "('k \<Rightarrow> 'v \<Rightarrow> bool) \<Rightarrow> 's \<Rightarrow> bool" where
  "all_entries P s \<longleftrightarrow> (\<forall>k v. get s k = Some v \<longrightarrow> P k v)"

lemma all_entries_empty: "all_entries P empty"
  by (simp add: all_entries_def get_empty)

lemma all_entries_put: "inv s \<Longrightarrow> all_entries P s \<Longrightarrow> P k v \<Longrightarrow> all_entries P (put k v s)"
  by (auto simp: all_entries_def get_put)

lemma all_entries_del: "inv s \<Longrightarrow> all_entries P s \<Longrightarrow> all_entries P (del k s)"
  by (auto simp: all_entries_def get_del)

lemma all_entries_range:
  "inv s \<Longrightarrow> all_entries P s \<Longrightarrow> (k, v) \<in> set (range s a b) \<Longrightarrow> P k v"
  by (auto simp: all_entries_def set_range)

end

lemma put_kv_keys: "set (map fst (put_kv k v l)) = insert k (set (map fst l))"
  by (induction l rule: put_kv.induct) auto

lemma del_kv_sub: "p \<in> set (del_kv k l) \<Longrightarrow> p \<in> set l"
  by (induction k l rule: del_kv.induct) (auto split: if_splits)

lemma wf_put_kv: "wf_ledger l \<Longrightarrow> wf_ledger (put_kv k v l)"
  unfolding wf_ledger_def
proof (induction l)
  case (Cons p l)
  then show ?case
    using put_kv_keys [of k v l] by (cases p) (auto simp: strict_sorted_iff less_le)
qed simp

lemma wf_del_kv: "wf_ledger l \<Longrightarrow> wf_ledger (del_kv k l)"
  unfolding wf_ledger_def
proof (induction l)
  case (Cons p l)
  then show ?case
    by (cases p) (auto dest!: del_kv_sub)
qed simp

lemma get_put_kv: "get_kv (put_kv k v l) = (get_kv l)(k \<mapsto> v)"
  by (induction k v l rule: put_kv.induct) (auto simp: get_kv_def fun_eq_iff)

lemma get_del_kv: "wf_ledger l \<Longrightarrow> get_kv (del_kv k l) = (get_kv l)(k := None)"
  by (induction k l rule: del_kv.induct)
    (auto simp: get_kv_def wf_ledger_def fun_eq_iff map_of_eq_None_iff image_iff)

lemma wf_ledger_distinct: "wf_ledger l \<Longrightarrow> distinct (map fst l)"
  by (simp add: wf_ledger_def strict_sorted_iff)

interpretation kv: kv_store "[]" put_kv del_kv get_kv range_kv wf_ledger
proof unfold_locales
  show "wf_ledger []" by (simp add: wf_ledger_def)
  show "set (range_kv s a b) = {(k, v). get_kv s k = Some v \<and> a \<le> k \<and> k < b}" if "wf_ledger s" for s a b
    using wf_ledger_distinct [OF that] by (auto simp: range_kv_def get_kv_def)
  show "distinct (map fst (range_kv s a b))" if "wf_ledger s" for s a b
    using wf_ledger_distinct [OF that] by (simp add: range_kv_def distinct_map_filter)
qed (simp_all add: wf_put_kv wf_del_kv get_put_kv get_del_kv get_kv_def)

section \<open>The stub of a transaction\<close>

record history_entry =
  he_TxId :: string
  he_IsDelete :: bool
  he_Value :: "blob option"
  he_Seconds :: int64
  he_Nanos :: int64

record stub =
  st_ledger :: ledger
  st_mspid :: "string res"
  st_time :: "(int64 \<times> int64) res"
  st_txid :: string
  st_get_err :: "string \<Rightarrow> string option"
  st_put_err :: "string \<Rightarrow> string option"
  st_del_err :: "string \<Rightarrow> string option"
  st_range_err :: "string \<Rightarrow> string option"
  st_next_err :: "string \<Rightarrow> string option"
  st_history :: "string \<Rightarrow> history_entry list res"

datatype wr = Put string blob | Del string

definition GetState :: "stub \<Rightarrow> string \<Rightarrow> blob option res" where
  "GetState ctx k = (case st_get_err ctx k of Some e \<Rightarrow> Inl e | None \<Rightarrow> Inr (get_kv (st_ledger ctx) k))"

definition PutState :: "stub \<Rightarrow> string \<Rightarrow> blob \<Rightarrow> wr list res" where
  "PutState ctx k v = (case st_put_err ctx k of Some e \<Rightarrow> Inl e | None \<Rightarrow> Inr [Put k v])"

definition DelState :: "stub \<Rightarrow> string \<Rightarrow> wr list res" where
  "DelState ctx k = (case st_del_err ctx k of Some e \<Rightarrow> Inl e | None \<Rightarrow> Inr [Del k])"

definition GetStateByRange :: "stub \<Rightarrow> string \<Rightarrow> string \<Rightarrow> (string \<times> blob) list res" where
  "GetStateByRange ctx a b =
    (case st_range_err ctx a of Some e \<Rightarrow> Inl e | None \<Rightarrow> Inr (range_kv (st_ledger ctx) a b))"

text \<open>\<open>iterator.Next()\<close> on one item of a scan.\<close>

definition NextItem :: "stub \<Rightarrow> string \<times> blob \<Rightarrow> blob res" where
  "NextItem ctx item =
    (case st_next_err ctx (fst item) of Some e \<Rightarrow> Inl e | None \<Rightarrow> Inr (snd item))"

text \<open>\<open>json.Unmarshal\<close> of stored bytes: only a JSON document decodes.\<close>

definition Unmarshal :: "(json \<Rightarrow> 'a res) \<Rightarrow> blob \<Rightarrow> 'a res" where
  "Unmarshal dec b = (case b of Doc j \<Rightarrow> dec j | Raw s \<Rightarrow> Inl ''invalid JSON document'')"

text \<open>The conversion \<open>string(bytes)\<close>.\<close>

definition blob_string :: "blob \<Rightarrow> string" where
  "blob_string b = (case b of Raw s \<Rightarrow> s | Doc j \<Rightarrow> json_text j)"

text \<open>Two writing steps in sequence; the first error stops the transaction.\<close>

definition thenW :: "wr list res \<Rightarrow> wr list res \<Rightarrow> wr list res" where
  "thenW m n = bindE m (\<lambda>a. bindE n (\<lambda>b. Inr (a @ b)))"

fun apply_write :: "wr \<Rightarrow> ledger \<Rightarrow> ledger" where
  "apply_write (Put k v) l = put_kv k v l"
| "apply_write (Del k) l = del_kv k l"

definition commit :: "wr list \<Rightarrow> ledger \<Rightarrow> ledger" where
  "commit ws l = fold apply_write ws l"

text \<open>The end of a transaction: a function that returned an error changes nothing.\<close>

definition finish :: "wr list res \<Rightarrow> ledger \<Rightarrow> ledger" where
  "finish r l = (case r of Inl _ \<Rightarrow> l | Inr ws \<Rightarrow> commit ws l)"

lemma GetState_Inr [res_inv]: "GetState ctx k = Inr v \<longleftrightarrow> st_get_err ctx k = None \<and> v = get_kv (st_ledger ctx) k"
  by (auto simp: GetState_def split: option.splits)

lemma PutState_Inr [res_inv]: "PutState ctx k v = Inr ws \<longleftrightarrow> st_put_err ctx k = None \<and> ws = [Put k v]"
  by (auto simp: PutState_def split: option.splits)

lemma DelState_Inr [res_inv]: "DelState ctx k = Inr ws \<longleftrightarrow> st_del_err ctx k = None \<and> ws = [Del k]"
  by (auto simp: DelState_def split: option.splits)

lemma thenW_Inr [res_inv]: "thenW m n = Inr ws \<longleftrightarrow> (\<exists>a b. m = Inr a \<and> n = Inr b \<and> ws = a @ b)"
  by (auto simp: thenW_def res_inv)

lemma NextItem_Inr [res_inv]: "NextItem ctx item = Inr v \<longleftrightarrow> st_next_err ctx (fst item) = None \<and> v = snd item"
  by (auto simp: NextItem_def split: option.splits)

lemma GetStateByRange_Inr [res_inv]:
  "GetStateByRange ctx a b = Inr l \<longleftrightarrow> st_range_err ctx a = None \<and> l = range_kv (st_ledger ctx) a b"
  by (auto simp: GetStateByRange_def split: option.splits)

lemma Unmarshal_simps [simp]:
  "Unmarshal dec (Doc j) = dec j"
  "Unmarshal dec (Raw s) = Inl ''invalid JSON document''"
  by (simp_all add: Unmarshal_def)

lemma Unmarshal_Inr [res_inv]: "Unmarshal dec b = Inr x \<longleftrightarrow> (\<exists>j. b = Doc j \<and> dec j = Inr x)"
  by (auto simp: Unmarshal_def split: blob.splits)

lemma blob_string_Raw [simp]: "blob_string (Raw s) = s"
  by (simp add: blob_string_def)

lemma commit_simps [simp]:
  "commit [] l = l"
  "commit (w # ws) l = commit ws (apply_write w l)"
  by (simp_all add: commit_def)

lemma commit_append [simp]: "commit (a @ b) l = commit b (commit a l)"
  by (simp add: commit_def)

lemma wf_apply_write: "wf_ledger l \<Longrightarrow> wf_ledger (apply_write w l)"
  by (cases w) (auto intro: kv.inv_put kv.inv_del)

lemma wf_commit: "wf_ledger l \<Longrightarrow> wf_ledger (commit ws l)"
  by (induction ws arbitrary: l) (auto intro: wf_apply_write)

lemma wf_finish: "wf_ledger l \<Longrightarrow> wf_ledger (finish r l)"
  by (auto simp: finish_def wf_commit split: sum.splits)

text \<open>A property of all entries survives a commit whose puts all have it.\<close>

definition put_ok :: "(string \<Rightarrow> blob \<Rightarrow> bool) \<Rightarrow> wr \<Rightarrow> bool" where
  "put_ok P w = (case w of Put k v \<Rightarrow> P k v | Del _ \<Rightarrow> True)"

lemma put_ok_simps [simp]: "put_ok P (Put k v) = P k v" "put_ok P (Del k)"
  by (simp_all add: put_ok_def)

lemma all_entries_commit:
  "wf_ledger l \<Longrightarrow> kv.all_entries P l \<Longrightarrow> list_all (put_ok P) ws \<Longrightarrow> kv.all_entries P (commit ws l)"
proof (induction ws arbitrary: l)
  case (Cons w ws)
  have "kv.all_entries P (apply_write w l)"
    using Cons.prems by (cases w) (auto intro: kv.all_entries_put kv.all_entries_del)
  with Cons show ?case by (auto intro: wf_apply_write)
qed simp

text \<open>Keys that no write names keep their value.\<close>

fun write_key :: "wr \<Rightarrow> string" where
  "write_key (Put k _) = k"
| "write_key (Del k) = k"

lemma get_commit_other:
  "wf_ledger l \<Longrightarrow> k \<notin> write_key ` set ws \<Longrightarrow> get_kv (commit ws l) k = get_kv l k"
proof (induction ws arbitrary: l)
  case (Cons w ws)
  have "get_kv (apply_write w l) k = get_kv l k"
    using Cons.prems by (cases w) (auto simp: kv.get_put kv.get_del)
  with Cons.prems Cons.IH [OF wf_apply_write, of l w] show ?case by simp
qed simp

lemma range_kv_mem:
  "wf_ledger l \<Longrightarrow> (k, v) \<in> set (range_kv l a b) \<longleftrightarrow> get_kv l k = Some v \<and> a \<le> k \<and> k < b"
  by (simp add: kv.set_range)

text \<open>A scan from a prefix to its successor visits exactly the keys with that prefix.\<close>

lemma prefix_range_iff:
  assumes "\<And>x::char. c < x \<longleftrightarrow> c' \<le> x"
  shows "p @ [c] \<le> k \<and> k < p @ [c'] \<longleftrightarrow> prefix (p @ [c]) k"
proof (induction p arbitrary: k)
  case Nil
  have x: "(c < y \<or> c = y) \<and> y < c' \<longleftrightarrow> c = y" for y
    using assms [of y] assms [of c'] by (metis leD le_less_linear order_refl)
  show ?case
  proof (cases k)
    case (Cons y ys)
    have "[c] \<le> y # ys \<longleftrightarrow> c < y \<or> c = y" by auto
    moreover have "y # ys < [c'] \<longleftrightarrow> y < c'" by auto
    ultimately show ?thesis using x [of y] Cons by simp
  qed simp
next
  case (Cons a p)
  show ?case
  proof (cases k)
    case (Cons y ys)
    with Cons.IH [of ys] show ?thesis by auto
  qed simp
qed

end
