(* ===== verification/Entities.thy ===== *)
theory Entities
  imports Ledger
begin

text \<open>
  The records of \<open>chaincode/invoice_contract.go\<close>, field by field, with the JSON form their struct
  tags give them (\<open>enc_*\<close> is \<open>json.Marshal\<close>, \<open>dec_*\<close> is \<open>json.Unmarshal\<close> into a fresh variable),
  and the state keys they are stored under. The round trip \<open>dec (enc v) = Inr v\<close> is proved for
  each; \<open>zero_*\<close> is the Go zero value that a composite literal starts from.
\<close>

section \<open>Records and their JSON form\<close>

text \<open>An invoice as it is stored. Money is in cents; an empty \<open>inv_HashVersion\<close> marks a record of the legacy hash format.\<close>

record Invoice =
  inv_AmountCents :: int64
  inv_Buyer :: string
  inv_BuyerMSPID :: string
  inv_CreatedAt :: string
  inv_Currency :: string
  inv_CurrentHolder :: string
  inv_HolderMSPID :: string
  inv_DataHash :: string
  inv_HashVersion :: string
  inv_ID :: string
  inv_InvoiceNo :: string
  inv_IssueDate :: string
  inv_Issuer :: string
  inv_IssuerOrganizationID :: string
  inv_IssuerMSPID :: string
  inv_HolderOrganizationID :: string
  inv_ProjectID :: string
  inv_CorrectionOf :: string
  inv_Status :: string
  inv_TaxCents :: int64
  inv_TotalCents :: int64
  inv_UpdatedAt :: string
  inv_VoidReason :: string

definition zero_Invoice :: Invoice where
  "zero_Invoice = \<lparr>inv_AmountCents = 0, inv_Buyer = [], inv_BuyerMSPID = [], inv_CreatedAt = [],
     inv_Currency = [], inv_CurrentHolder = [], inv_HolderMSPID = [], inv_DataHash = [],
     inv_HashVersion = [], inv_ID = [], inv_InvoiceNo = [], inv_IssueDate = [],
     inv_Issuer = [], inv_IssuerOrganizationID = [], inv_IssuerMSPID = [], inv_HolderOrganizationID = [],
     inv_ProjectID = [], inv_CorrectionOf = [], inv_Status = [], inv_TaxCents = 0,
     inv_TotalCents = 0, inv_UpdatedAt = [], inv_VoidReason = []\<rparr>"

definition enc_Invoice :: "Invoice \<Rightarrow> json" where
  "enc_Invoice v = JObj
    [(''amountCents'', JInt64 (inv_AmountCents v)),
     (''buyer'', JStr (inv_Buyer v)),
     (''buyerMspId'', JStr (inv_BuyerMSPID v)),
     (''createdAt'', JStr (inv_CreatedAt v)),
     (''currency'', JStr (inv_Currency v)),
     (''currentHolder'', JStr (inv_CurrentHolder v)),
     (''holderMspId'', JStr (inv_HolderMSPID v)),
     (''dataHash'', JStr (inv_DataHash v)),
     (''hashVersion'', JStr (inv_HashVersion v)),
     (''id'', JStr (inv_ID v)),
     (''invoiceNo'', JStr (inv_InvoiceNo v)),
     (''issueDate'', JStr (inv_IssueDate v)),
     (''issuer'', JStr (inv_Issuer v)),
     (''issuerOrganizationId'', JStr (inv_IssuerOrganizationID v)),
     (''issuerMspId'', JStr (inv_IssuerMSPID v)),
     (''holderOrganizationId'', JStr (inv_HolderOrganizationID v)),
     (''projectId'', JStr (inv_ProjectID v)),
     (''correctionOf'', JStr (inv_CorrectionOf v)),
     (''status'', JStr (inv_Status v)),
     (''taxCents'', JInt64 (inv_TaxCents v)),
     (''totalCents'', JInt64 (inv_TotalCents v)),
     (''updatedAt'', JStr (inv_UpdatedAt v)),
     (''voidReason'', JStr (inv_VoidReason v))]"

definition dec_Invoice :: "json \<Rightarrow> Invoice res" where
  "dec_Invoice j = bindE (members ''main.Invoice'' j) (\<lambda>ms.
     bindE (get_int64 ms ''amountCents'') (\<lambda>xAmountCents.
     bindE (get_str ms ''buyer'') (\<lambda>xBuyer.
     bindE (get_str ms ''buyerMspId'') (\<lambda>xBuyerMSPID.
     bindE (get_str ms ''createdAt'') (\<lambda>xCreatedAt.
     bindE (get_str ms ''currency'') (\<lambda>xCurrency.
     bindE (get_str ms ''currentHolder'') (\<lambda>xCurrentHolder.
     bindE (get_str ms ''holderMspId'') (\<lambda>xHolderMSPID.
     bindE (get_str ms ''dataHash'') (\<lambda>xDataHash.
     bindE (get_str ms ''hashVersion'') (\<lambda>xHashVersion.
     bindE (get_str ms ''id'') (\<lambda>xID.
     bindE (get_str ms ''invoiceNo'') (\<lambda>xInvoiceNo.
     bindE (get_str ms ''issueDate'') (\<lambda>xIssueDate.
     bindE (get_str ms ''issuer'') (\<lambda>xIssuer.
     bindE (get_str ms ''issuerOrganizationId'') (\<lambda>xIssuerOrganizationID.
     bindE (get_str ms ''issuerMspId'') (\<lambda>xIssuerMSPID.
     bindE (get_str ms ''holderOrganizationId'') (\<lambda>xHolderOrganizationID.
     bindE (get_str ms ''projectId'') (\<lambda>xProjectID.
     bindE (get_str ms ''correctionOf'') (\<lambda>xCorrectionOf.
     bindE (get_str ms ''status'') (\<lambda>xStatus.
     bindE (get_int64 ms ''taxCents'') (\<lambda>xTaxCents.
     bindE (get_int64 ms ''totalCents'') (\<lambda>xTotalCents.
     bindE (get_str ms ''updatedAt'') (\<lambda>xUpdatedAt.
     bindE (get_str ms ''voidReason'') (\<lambda>xVoidReason.
     Inr \<lparr>inv_AmountCents = xAmountCents, inv_Buyer = xBuyer, inv_BuyerMSPID = xBuyerMSPID, inv_CreatedAt = xCreatedAt,
       inv_Currency = xCurrency, inv_CurrentHolder = xCurrentHolder, inv_HolderMSPID = xHolderMSPID, inv_DataHash = xDataHash,
       inv_HashVersion = xHashVersion, inv_ID = xID, inv_InvoiceNo = xInvoiceNo, inv_IssueDate = xIssueDate,
       inv_Issuer = xIssuer, inv_IssuerOrganizationID = xIssuerOrganizationID, inv_IssuerMSPID = xIssuerMSPID, inv_HolderOrganizationID = xHolderOrganizationID,
       inv_ProjectID = xProjectID, inv_CorrectionOf = xCorrectionOf, inv_Status = xStatus, inv_TaxCents = xTaxCents,
       inv_TotalCents = xTotalCents, inv_UpdatedAt = xUpdatedAt, inv_VoidReason = xVoidReason\<rparr>))))))))))))))))))))))))"

lemma dec_enc_Invoice [simp]: "dec_Invoice (enc_Invoice v) = Inr v"
  by (simp add: dec_Invoice_def enc_Invoice_def get_hits)

lemma enc_Invoice_inject [simp]: "enc_Invoice v = enc_Invoice w \<longleftrightarrow> v = w"
  by (metis dec_enc_Invoice sum.inject(2))

text \<open>One handoff of an invoice; written once, never updated.\<close>

record InvoiceFlow =
  flw_From :: string
  flw_ID :: string
  flw_InvoiceID :: string
  flw_Operator :: string
  flw_Timestamp :: string
  flw_To :: string
  flw_TxID :: string
  flw_Type :: string

definition zero_InvoiceFlow :: InvoiceFlow where
  "zero_InvoiceFlow = \<lparr>flw_From = [], flw_ID = [], flw_InvoiceID = [], flw_Operator = [],
     flw_Timestamp = [], flw_To = [], flw_TxID = [], flw_Type = []\<rparr>"

definition enc_InvoiceFlow :: "InvoiceFlow \<Rightarrow> json" where
  "enc_InvoiceFlow v = JObj
    [(''from'', JStr (flw_From v)),
     (''id'', JStr (flw_ID v)),
     (''invoiceId'', JStr (flw_InvoiceID v)),
     (''operator'', JStr (flw_Operator v)),
     (''timestamp'', JStr (flw_Timestamp v)),
     (''to'', JStr (flw_To v)),
     (''txId'', JStr (flw_TxID v)),
     (''type'', JStr (flw_Type v))]"

definition dec_InvoiceFlow :: "json \<Rightarrow> InvoiceFlow res" where
  "dec_InvoiceFlow j = bindE (members ''main.InvoiceFlow'' j) (\<lambda>ms.
     bindE (get_str ms ''from'') (\<lambda>xFrom.
     bindE (get_str ms ''id'') (\<lambda>xID.
     bindE (get_str ms ''invoiceId'') (\<lambda>xInvoiceID.
     bindE (get_str ms ''operator'') (\<lambda>xOperator.
     bindE (get_str ms ''timestamp'') (\<lambda>xTimestamp.
     bindE (get_str ms ''to'') (\<lambda>xTo.
     bindE (get_str ms ''txId'') (\<lambda>xTxID.
     bindE (get_str ms ''type'') (\<lambda>xType.
     Inr \<lparr>flw_From = xFrom, flw_ID = xID, flw_InvoiceID = xInvoiceID, flw_Operator = xOperator,
       flw_Timestamp = xTimestamp, flw_To = xTo, flw_TxID = xTxID, flw_Type = xType\<rparr>)))))))))"

lemma dec_enc_InvoiceFlow [simp]: "dec_InvoiceFlow (enc_InvoiceFlow v) = Inr v"
  by (simp add: dec_InvoiceFlow_def enc_InvoiceFlow_def get_hits)

lemma enc_InvoiceFlow_inject [simp]: "enc_InvoiceFlow v = enc_InvoiceFlow w \<longleftrightarrow> v = w"
  by (metis dec_enc_InvoiceFlow sum.inject(2))

text \<open>A request to cancel an invoice, waiting for or carrying the issuer's decision.\<close>

record InvoiceVoidRequest =
  vrq_Applicant :: string
  vrq_CreatedAt :: string
  vrq_InvoiceID :: string
  vrq_Reason :: string
  vrq_ReviewOpinion :: string
  vrq_Reviewer :: string
  vrq_Status :: string
  vrq_UpdatedAt :: string

definition zero_InvoiceVoidRequest :: InvoiceVoidRequest where
  "zero_InvoiceVoidRequest = \<lparr>vrq_Applicant = [], vrq_CreatedAt = [], vrq_InvoiceID = [], vrq_Reason = [],
     vrq_ReviewOpinion = [], vrq_Reviewer = [], vrq_Status = [], vrq_UpdatedAt = []\<rparr>"

definition enc_InvoiceVoidRequest :: "InvoiceVoidRequest \<Rightarrow> json" where
  "enc_InvoiceVoidRequest v = JObj
    [(''applicant'', JStr (vrq_Applicant v)),
     (''createdAt'', JStr (vrq_CreatedAt v)),
     (''invoiceId'', JStr (vrq_InvoiceID v)),
     (''reason'', JStr (vrq_Reason v)),
     (''reviewOpinion'', JStr (vrq_ReviewOpinion v)),
     (''reviewer'', JStr (vrq_Reviewer v)),
     (''status'', JStr (vrq_Status v)),
     (''updatedAt'', JStr (vrq_UpdatedAt v))]"

definition dec_InvoiceVoidRequest :: "json \<Rightarrow> InvoiceVoidRequest res" where
  "dec_InvoiceVoidRequest j = bindE (members ''main.InvoiceVoidRequest'' j) (\<lambda>ms.
     bindE (get_str ms ''applicant'') (\<lambda>xApplicant.
     bindE (get_str ms ''createdAt'') (\<lambda>xCreatedAt.
     bindE (get_str ms ''invoiceId'') (\<lambda>xInvoiceID.
     bindE (get_str ms ''reason'') (\<lambda>xReason.
     bindE (get_str ms ''reviewOpinion'') (\<lambda>xReviewOpinion.
     bindE (get_str ms ''reviewer'') (\<lambda>xReviewer.
     bindE (get_str ms ''status'') (\<lambda>xStatus.
     bindE (get_str ms ''updatedAt'') (\<lambda>xUpdatedAt.
     Inr \<lparr>vrq_Applicant = xApplicant, vrq_CreatedAt = xCreatedAt, vrq_InvoiceID = xInvoiceID, vrq_Reason = xReason,
       vrq_ReviewOpinion = xReviewOpinion, vrq_Reviewer = xReviewer, vrq_Status = xStatus, vrq_UpdatedAt = xUpdatedAt\<rparr>)))))))))"

lemma dec_enc_InvoiceVoidRequest [simp]: "dec_InvoiceVoidRequest (enc_InvoiceVoidRequest v) = Inr v"
  by (simp add: dec_InvoiceVoidRequest_def enc_InvoiceVoidRequest_def get_hits)

lemma enc_InvoiceVoidRequest_inject [simp]: "enc_InvoiceVoidRequest v = enc_InvoiceVoidRequest w \<longleftrightarrow> v = w"
  by (metis dec_enc_InvoiceVoidRequest sum.inject(2))

text \<open>A participant of the application.\<close>

record BusinessUser =
  usr_CreatedAt :: string
  usr_DisplayName :: string
  usr_MSPID :: string
  usr_OrganizationID :: string
  usr_Role :: string
  usr_Status :: string
  usr_Username :: string

definition zero_BusinessUser :: BusinessUser where
  "zero_BusinessUser = \<lparr>usr_CreatedAt = [], usr_DisplayName = [], usr_MSPID = [], usr_OrganizationID = [],
     usr_Role = [], usr_Status = [], usr_Username = []\<rparr>"

definition enc_BusinessUser :: "BusinessUser \<Rightarrow> json" where
  "enc_BusinessUser v = JObj
    [(''createdAt'', JStr (usr_CreatedAt v)),
     (''displayName'', JStr (usr_DisplayName v)),
     (''mspId'', JStr (usr_MSPID v)),
     (''organizationId'', JStr (usr_OrganizationID v)),
     (''role'', JStr (usr_Role v)),
     (''status'', JStr (usr_Status v)),
     (''username'', JStr (usr_Username v))]"

definition dec_BusinessUser :: "json \<Rightarrow> BusinessUser res" where
  "dec_BusinessUser j = bindE (members ''main.BusinessUser'' j) (\<lambda>ms.
     bindE (get_str ms ''createdAt'') (\<lambda>xCreatedAt.
     bindE (get_str ms ''displayName'') (\<lambda>xDisplayName.
     bindE (get_str ms ''mspId'') (\<lambda>xMSPID.
     bindE (get_str ms ''organizationId'') (\<lambda>xOrganizationID.
     bindE (get_str ms ''role'') (\<lambda>xRole.
     bindE (get_str ms ''status'') (\<lambda>xStatus.
     bindE (get_str ms ''username'') (\<lambda>xUsername.
     Inr \<lparr>usr_CreatedAt = xCreatedAt, usr_DisplayName = xDisplayName, usr_MSPID = xMSPID, usr_OrganizationID = xOrganizationID,
       usr_Role = xRole, usr_Status = xStatus, usr_Username = xUsername\<rparr>))))))))"

lemma dec_enc_BusinessUser [simp]: "dec_BusinessUser (enc_BusinessUser v) = Inr v"
  by (simp add: dec_BusinessUser_def enc_BusinessUser_def get_hits)

lemma enc_BusinessUser_inject [simp]: "enc_BusinessUser v = enc_BusinessUser w \<longleftrightarrow> v = w"
  by (metis dec_enc_BusinessUser sum.inject(2))

text \<open>An organization of the application, distinct from the two Fabric MSPs.\<close>

record BusinessOrganization =
  org_CreatedAt :: string
  org_CreatedBy :: string
  org_Description :: string
  org_ID :: string
  org_MSPID :: string
  org_Name :: string
  org_ParentID :: string
  org_Status :: string
  org_Type :: string

definition zero_BusinessOrganization :: BusinessOrganization where
  "zero_BusinessOrganization = \<lparr>org_CreatedAt = [], org_CreatedBy = [], org_Description = [], org_ID = [],
     org_MSPID = [], org_Name = [], org_ParentID = [], org_Status = [],
     org_Type = []\<rparr>"

definition enc_BusinessOrganization :: "BusinessOrganization \<Rightarrow> json" where
  "enc_BusinessOrganization v = JObj
    [(''createdAt'', JStr (org_CreatedAt v)),
     (''createdBy'', JStr (org_CreatedBy v)),
     (''description'', JStr (org_Description v)),
     (''id'', JStr (org_ID v)),
     (''mspId'', JStr (org_MSPID v)),
     (''name'', JStr (org_Name v)),
     (''parentId'', JStr (org_ParentID v)),
     (''status'', JStr (org_Status v)),
     (''type'', JStr (org_Type v))]"

definition dec_BusinessOrganization :: "json \<Rightarrow> BusinessOrganization res" where
  "dec_BusinessOrganization j = bindE (members ''main.BusinessOrganization'' j) (\<lambda>ms.
     bindE (get_str ms ''createdAt'') (\<lambda>xCreatedAt.
     bindE (get_str ms ''createdBy'') (\<lambda>xCreatedBy.
     bindE (get_str ms ''description'') (\<lambda>xDescription.
     bindE (get_str ms ''id'') (\<lambda>xID.
     bindE (get_str ms ''mspId'') (\<lambda>xMSPID.
     bindE (get_str ms ''name'') (\<lambda>xName.
     bindE (get_str ms ''parentId'') (\<lambda>xParentID.
     bindE (get_str ms ''status'') (\<lambda>xStatus.
     bindE (get_str ms ''type'') (\<lambda>xType.
     Inr \<lparr>org_CreatedAt = xCreatedAt, org_CreatedBy = xCreatedBy, org_Description = xDescription, org_ID = xID,
       org_MSPID = xMSPID, org_Name = xName, org_ParentID = xParentID, org_Status = xStatus,
       org_Type = xType\<rparr>))))))))))"

lemma dec_enc_BusinessOrganization [simp]: "dec_BusinessOrganization (enc_BusinessOrganization v) = Inr v"
  by (simp add: dec_BusinessOrganization_def enc_BusinessOrganization_def get_hits)

lemma enc_BusinessOrganization_inject [simp]: "enc_BusinessOrganization v = enc_BusinessOrganization w \<longleftrightarrow> v = w"
  by (metis dec_enc_BusinessOrganization sum.inject(2))

text \<open>A project with its budget account.\<close>

record Project =
  prj_Applicant :: string
  prj_ApplicantMSPID :: string
  prj_OrganizationID :: string
  prj_AvailableCents :: int64
  prj_BudgetCents :: int64
  prj_ClosureMaterialsHash :: string
  prj_ClosureMaterials :: string
  prj_Content :: string
  prj_CreatedAt :: string
  prj_ExpectedEndDate :: string
  prj_ID :: string
  prj_Name :: string
  prj_PaidCents :: int64
  prj_ReservedCents :: int64
  prj_RecoveredCents :: int64
  prj_ReviewOpinion :: string
  prj_Reviewer :: string
  prj_Status :: string
  prj_UpdatedAt :: string

definition zero_Project :: Project where
  "zero_Project = \<lparr>prj_Applicant = [], prj_ApplicantMSPID = [], prj_OrganizationID = [], prj_AvailableCents = 0,
     prj_BudgetCents = 0, prj_ClosureMaterialsHash = [], prj_ClosureMaterials = [], prj_Content = [],
     prj_CreatedAt = [], prj_ExpectedEndDate = [], prj_ID = [], prj_Name = [],
     prj_PaidCents = 0, prj_ReservedCents = 0, prj_RecoveredCents = 0, prj_ReviewOpinion = [],
     prj_Reviewer = [], prj_Status = [], prj_UpdatedAt = []\<rparr>"

definition enc_Project :: "Project \<Rightarrow> json" where
  "enc_Project v = JObj
    [(''applicant'', JStr (prj_Applicant v)),
     (''applicantMspId'', JStr (prj_ApplicantMSPID v)),
     (''organizationId'', JStr (prj_OrganizationID v)),
     (''availableCents'', JInt64 (prj_AvailableCents v)),
     (''budgetCents'', JInt64 (prj_BudgetCents v)),
     (''closureMaterialsHash'', JStr (prj_ClosureMaterialsHash v)),
     (''closureMaterials'', JStr (prj_ClosureMaterials v)),
     (''content'', JStr (prj_Content v)),
     (''createdAt'', JStr (prj_CreatedAt v)),
     (''expectedEndDate'', JStr (prj_ExpectedEndDate v)),
     (''id'', JStr (prj_ID v)),
     (''name'', JStr (prj_Name v)),
     (''paidCents'', JInt64 (prj_PaidCents v)),
     (''reservedCents'', JInt64 (prj_ReservedCents v)),
     (''recoveredCents'', JInt64 (prj_RecoveredCents v)),
     (''reviewOpinion'', JStr (prj_ReviewOpinion v)),
     (''reviewer'', JStr (prj_Reviewer v)),
     (''status'', JStr (prj_Status v)),
     (''updatedAt'', JStr (prj_UpdatedAt v))]"

definition dec_Project :: "json \<Rightarrow> Project res" where
  "dec_Project j = bindE (members ''main.Project'' j) (\<lambda>ms.
     bindE (get_str ms ''applicant'') (\<lambda>xApplicant.
     bindE (get_str ms ''applicantMspId'') (\<lambda>xApplicantMSPID.
     bindE (get_str ms ''organizationId'') (\<lambda>xOrganizationID.
     bindE (get_int64 ms ''availableCents'') (\<lambda>xAvailableCents.
     bindE (get_int64 ms ''budgetCents'') (\<lambda>xBudgetCents.
     bindE (get_str ms ''closureMaterialsHash'') (\<lambda>xClosureMaterialsHash.
     bindE (get_str ms ''closureMaterials'') (\<lambda>xClosureMaterials.
     bindE (get_str ms ''content'') (\<lambda>xContent.
     bindE (get_str ms ''createdAt'') (\<lambda>xCreatedAt.
     bindE (get_str ms ''expectedEndDate'') (\<lambda>xExpectedEndDate.
     bindE (get_str ms ''id'') (\<lambda>xID.
     bindE (get_str ms ''name'') (\<lambda>xName.
     bindE (get_int64 ms ''paidCents'') (\<lambda>xPaidCents.
     bindE (get_int64 ms ''reservedCents'') (\<lambda>xReservedCents.
     bindE (get_int64 ms ''recoveredCents'') (\<lambda>xRecoveredCents.
     bindE (get_str ms ''reviewOpinion'') (\<lambda>xReviewOpinion.
     bindE (get_str ms ''reviewer'') (\<lambda>xReviewer.
     bindE (get_str ms ''status'') (\<lambda>xStatus.
     bindE (get_str ms ''updatedAt'') (\<lambda>xUpdatedAt.
     Inr \<lparr>prj_Applicant = xApplicant, prj_ApplicantMSPID = xApplicantMSPID, prj_OrganizationID = xOrganizationID, prj_AvailableCents = xAvailableCents,
       prj_BudgetCents = xBudgetCents, prj_ClosureMaterialsHash = xClosureMaterialsHash, prj_ClosureMaterials = xClosureMaterials, prj_Content = xContent,
       prj_CreatedAt = xCreatedAt, prj_ExpectedEndDate = xExpectedEndDate, prj_ID = xID, prj_Name = xName,
       prj_PaidCents = xPaidCents, prj_ReservedCents = xReservedCents, prj_RecoveredCents = xRecoveredCents, prj_ReviewOpinion = xReviewOpinion,
       prj_Reviewer = xReviewer, prj_Status = xStatus, prj_UpdatedAt = xUpdatedAt\<rparr>))))))))))))))))))))"

lemma dec_enc_Project [simp]: "dec_Project (enc_Project v) = Inr v"
  by (simp add: dec_Project_def enc_Project_def get_hits)

lemma enc_Project_inject [simp]: "enc_Project v = enc_Project w \<longleftrightarrow> v = w"
  by (metis dec_enc_Project sum.inject(2))

text \<open>Membership of a user in a project (role \<open>LEADER\<close> or \<open>MEMBER\<close>).\<close>

record ProjectMember =
  mem_ProjectID :: string
  mem_Username :: string
  mem_Role :: string
  mem_AddedAt :: string
  mem_AddedBy :: string

definition zero_ProjectMember :: ProjectMember where
  "zero_ProjectMember = \<lparr>mem_ProjectID = [], mem_Username = [], mem_Role = [], mem_AddedAt = [],
     mem_AddedBy = []\<rparr>"

definition enc_ProjectMember :: "ProjectMember \<Rightarrow> json" where
  "enc_ProjectMember v = JObj
    [(''projectId'', JStr (mem_ProjectID v)),
     (''username'', JStr (mem_Username v)),
     (''role'', JStr (mem_Role v)),
     (''addedAt'', JStr (mem_AddedAt v)),
     (''addedBy'', JStr (mem_AddedBy v))]"

definition dec_ProjectMember :: "json \<Rightarrow> ProjectMember res" where
  "dec_ProjectMember j = bindE (members ''main.ProjectMember'' j) (\<lambda>ms.
     bindE (get_str ms ''projectId'') (\<lambda>xProjectID.
     bindE (get_str ms ''username'') (\<lambda>xUsername.
     bindE (get_str ms ''role'') (\<lambda>xRole.
     bindE (get_str ms ''addedAt'') (\<lambda>xAddedAt.
     bindE (get_str ms ''addedBy'') (\<lambda>xAddedBy.
     Inr \<lparr>mem_ProjectID = xProjectID, mem_Username = xUsername, mem_Role = xRole, mem_AddedAt = xAddedAt,
       mem_AddedBy = xAddedBy\<rparr>))))))"

lemma dec_enc_ProjectMember [simp]: "dec_ProjectMember (enc_ProjectMember v) = Inr v"
  by (simp add: dec_ProjectMember_def enc_ProjectMember_def get_hits)

lemma enc_ProjectMember_inject [simp]: "enc_ProjectMember v = enc_ProjectMember w \<longleftrightarrow> v = w"
  by (metis dec_enc_ProjectMember sum.inject(2))

text \<open>A proposed handoff; the holder changes only when the recipient accepts.\<close>

record InvoiceTransfer =
  trf_InvoiceID :: string
  trf_From :: string
  trf_To :: string
  trf_ToMSPID :: string
  trf_Note :: string
  trf_Status :: string
  trf_CreatedAt :: string
  trf_UpdatedAt :: string
  trf_Response :: string

definition zero_InvoiceTransfer :: InvoiceTransfer where
  "zero_InvoiceTransfer = \<lparr>trf_InvoiceID = [], trf_From = [], trf_To = [], trf_ToMSPID = [],
     trf_Note = [], trf_Status = [], trf_CreatedAt = [], trf_UpdatedAt = [],
     trf_Response = []\<rparr>"

definition enc_InvoiceTransfer :: "InvoiceTransfer \<Rightarrow> json" where
  "enc_InvoiceTransfer v = JObj
    [(''invoiceId'', JStr (trf_InvoiceID v)),
     (''from'', JStr (trf_From v)),
     (''to'', JStr (trf_To v)),
     (''toMspId'', JStr (trf_ToMSPID v)),
     (''note'', JStr (trf_Note v)),
     (''status'', JStr (trf_Status v)),
     (''createdAt'', JStr (trf_CreatedAt v)),
     (''updatedAt'', JStr (trf_UpdatedAt v)),
     (''response'', JStr (trf_Response v))]"

definition dec_InvoiceTransfer :: "json \<Rightarrow> InvoiceTransfer res" where
  "dec_InvoiceTransfer j = bindE (members ''main.InvoiceTransfer'' j) (\<lambda>ms.
     bindE (get_str ms ''invoiceId'') (\<lambda>xInvoiceID.
     bindE (get_str ms ''from'') (\<lambda>xFrom.
     bindE (get_str ms ''to'') (\<lambda>xTo.
     bindE (get_str ms ''toMspId'') (\<lambda>xToMSPID.
     bindE (get_str ms ''note'') (\<lambda>xNote.
     bindE (get_str ms ''status'') (\<lambda>xStatus.
     bindE (get_str ms ''createdAt'') (\<lambda>xCreatedAt.
     bindE (get_str ms ''updatedAt'') (\<lambda>xUpdatedAt.
     bindE (get_str ms ''response'') (\<lambda>xResponse.
     Inr \<lparr>trf_InvoiceID = xInvoiceID, trf_From = xFrom, trf_To = xTo, trf_ToMSPID = xToMSPID,
       trf_Note = xNote, trf_Status = xStatus, trf_CreatedAt = xCreatedAt, trf_UpdatedAt = xUpdatedAt,
       trf_Response = xResponse\<rparr>))))))))))"

lemma dec_enc_InvoiceTransfer [simp]: "dec_InvoiceTransfer (enc_InvoiceTransfer v) = Inr v"
  by (simp add: dec_InvoiceTransfer_def enc_InvoiceTransfer_def get_hits)

lemma enc_InvoiceTransfer_inject [simp]: "enc_InvoiceTransfer v = enc_InvoiceTransfer w \<longleftrightarrow> v = w"
  by (metis dec_enc_InvoiceTransfer sum.inject(2))

text \<open>One event in the life of a project.\<close>

record ProjectEvent =
  evt_Actor :: string
  evt_ID :: string
  evt_Note :: string
  evt_ProjectID :: string
  evt_ReferenceID :: string
  evt_Timestamp :: string
  evt_TxID :: string
  evt_Type :: string

definition zero_ProjectEvent :: ProjectEvent where
  "zero_ProjectEvent = \<lparr>evt_Actor = [], evt_ID = [], evt_Note = [], evt_ProjectID = [],
     evt_ReferenceID = [], evt_Timestamp = [], evt_TxID = [], evt_Type = []\<rparr>"

definition enc_ProjectEvent :: "ProjectEvent \<Rightarrow> json" where
  "enc_ProjectEvent v = JObj
    [(''actor'', JStr (evt_Actor v)),
     (''id'', JStr (evt_ID v)),
     (''note'', JStr (evt_Note v)),
     (''projectId'', JStr (evt_ProjectID v)),
     (''referenceId'', JStr (evt_ReferenceID v)),
     (''timestamp'', JStr (evt_Timestamp v)),
     (''txId'', JStr (evt_TxID v)),
     (''type'', JStr (evt_Type v))]"

definition dec_ProjectEvent :: "json \<Rightarrow> ProjectEvent res" where
  "dec_ProjectEvent j = bindE (members ''main.ProjectEvent'' j) (\<lambda>ms.
     bindE (get_str ms ''actor'') (\<lambda>xActor.
     bindE (get_str ms ''id'') (\<lambda>xID.
     bindE (get_str ms ''note'') (\<lambda>xNote.
     bindE (get_str ms ''projectId'') (\<lambda>xProjectID.
     bindE (get_str ms ''referenceId'') (\<lambda>xReferenceID.
     bindE (get_str ms ''timestamp'') (\<lambda>xTimestamp.
     bindE (get_str ms ''txId'') (\<lambda>xTxID.
     bindE (get_str ms ''type'') (\<lambda>xType.
     Inr \<lparr>evt_Actor = xActor, evt_ID = xID, evt_Note = xNote, evt_ProjectID = xProjectID,
       evt_ReferenceID = xReferenceID, evt_Timestamp = xTimestamp, evt_TxID = xTxID, evt_Type = xType\<rparr>)))))))))"

lemma dec_enc_ProjectEvent [simp]: "dec_ProjectEvent (enc_ProjectEvent v) = Inr v"
  by (simp add: dec_ProjectEvent_def enc_ProjectEvent_def get_hits)

lemma enc_ProjectEvent_inject [simp]: "enc_ProjectEvent v = enc_ProjectEvent w \<longleftrightarrow> v = w"
  by (metis dec_enc_ProjectEvent sum.inject(2))

text \<open>A claim against the budget of a project for one invoice.\<close>

record Reimbursement =
  rmb_AmountCents :: int64
  rmb_Applicant :: string
  rmb_CreatedAt :: string
  rmb_EvidenceHash :: string
  rmb_Evidence :: string
  rmb_ID :: string
  rmb_InvoiceID :: string
  rmb_ProjectID :: string
  rmb_ReviewOpinion :: string
  rmb_Reviewer :: string
  rmb_Status :: string
  rmb_UpdatedAt :: string

definition zero_Reimbursement :: Reimbursement where
  "zero_Reimbursement = \<lparr>rmb_AmountCents = 0, rmb_Applicant = [], rmb_CreatedAt = [], rmb_EvidenceHash = [],
     rmb_Evidence = [], rmb_ID = [], rmb_InvoiceID = [], rmb_ProjectID = [],
     rmb_ReviewOpinion = [], rmb_Reviewer = [], rmb_Status = [], rmb_UpdatedAt = []\<rparr>"

definition enc_Reimbursement :: "Reimbursement \<Rightarrow> json" where
  "enc_Reimbursement v = JObj
    [(''amountCents'', JInt64 (rmb_AmountCents v)),
     (''applicant'', JStr (rmb_Applicant v)),
     (''createdAt'', JStr (rmb_CreatedAt v)),
     (''evidenceHash'', JStr (rmb_EvidenceHash v)),
     (''evidence'', JStr (rmb_Evidence v)),
     (''id'', JStr (rmb_ID v)),
     (''invoiceId'', JStr (rmb_InvoiceID v)),
     (''projectId'', JStr (rmb_ProjectID v)),
     (''reviewOpinion'', JStr (rmb_ReviewOpinion v)),
     (''reviewer'', JStr (rmb_Reviewer v)),
     (''status'', JStr (rmb_Status v)),
     (''updatedAt'', JStr (rmb_UpdatedAt v))]"

definition dec_Reimbursement :: "json \<Rightarrow> Reimbursement res" where
  "dec_Reimbursement j = bindE (members ''main.Reimbursement'' j) (\<lambda>ms.
     bindE (get_int64 ms ''amountCents'') (\<lambda>xAmountCents.
     bindE (get_str ms ''applicant'') (\<lambda>xApplicant.
     bindE (get_str ms ''createdAt'') (\<lambda>xCreatedAt.
     bindE (get_str ms ''evidenceHash'') (\<lambda>xEvidenceHash.
     bindE (get_str ms ''evidence'') (\<lambda>xEvidence.
     bindE (get_str ms ''id'') (\<lambda>xID.
     bindE (get_str ms ''invoiceId'') (\<lambda>xInvoiceID.
     bindE (get_str ms ''projectId'') (\<lambda>xProjectID.
     bindE (get_str ms ''reviewOpinion'') (\<lambda>xReviewOpinion.
     bindE (get_str ms ''reviewer'') (\<lambda>xReviewer.
     bindE (get_str ms ''status'') (\<lambda>xStatus.
     bindE (get_str ms ''updatedAt'') (\<lambda>xUpdatedAt.
     Inr \<lparr>rmb_AmountCents = xAmountCents, rmb_Applicant = xApplicant, rmb_CreatedAt = xCreatedAt, rmb_EvidenceHash = xEvidenceHash,
       rmb_Evidence = xEvidence, rmb_ID = xID, rmb_InvoiceID = xInvoiceID, rmb_ProjectID = xProjectID,
       rmb_ReviewOpinion = xReviewOpinion, rmb_Reviewer = xReviewer, rmb_Status = xStatus, rmb_UpdatedAt = xUpdatedAt\<rparr>)))))))))))))"

lemma dec_enc_Reimbursement [simp]: "dec_Reimbursement (enc_Reimbursement v) = Inr v"
  by (simp add: dec_Reimbursement_def enc_Reimbursement_def get_hits)

lemma enc_Reimbursement_inject [simp]: "enc_Reimbursement v = enc_Reimbursement w \<longleftrightarrow> v = w"
  by (metis dec_enc_Reimbursement sum.inject(2))

section \<open>State keys\<close>

definition maxMoneyCents :: int64 where "maxMoneyCents = 10000000000"

definition invoicePrefix :: string where "invoicePrefix = ''INVOICE#''"
definition invoiceNumberPrefix :: string where "invoiceNumberPrefix = ''INVOICE_NUMBER#''"
definition flowPrefix :: string where "flowPrefix = ''FLOW#''"
definition projectPrefix :: string where "projectPrefix = ''PROJECT#''"
definition projectMemberPrefix :: string where "projectMemberPrefix = ''PROJECT_MEMBER#''"
definition projectEventPrefix :: string where "projectEventPrefix = ''PROJECT_EVENT#''"
definition reimbursementPrefix :: string where "reimbursementPrefix = ''REIMBURSEMENT#''"
definition reimbursementInvoicePrefix :: string where
  "reimbursementInvoicePrefix = ''REIMBURSEMENT_INVOICE#''"
definition voidRequestPrefix :: string where "voidRequestPrefix = ''VOID_REQUEST#''"
definition transferRequestPrefix :: string where "transferRequestPrefix = ''TRANSFER_REQUEST#''"
definition userPrefix :: string where "userPrefix = ''USER#''"
definition organizationPrefix :: string where "organizationPrefix = ''ORGANIZATION#''"

lemmas prefix_defs = invoicePrefix_def invoiceNumberPrefix_def flowPrefix_def projectPrefix_def
  projectMemberPrefix_def projectEventPrefix_def reimbursementPrefix_def
  reimbursementInvoicePrefix_def voidRequestPrefix_def transferRequestPrefix_def userPrefix_def
  organizationPrefix_def

definition invoiceKey :: "string \<Rightarrow> string" where "invoiceKey ident = invoicePrefix @ ident"
definition invoiceNumberKey :: "string \<Rightarrow> string" where
  "invoiceNumberKey invoiceNo = invoiceNumberPrefix @ TrimSpace invoiceNo"
definition userKey :: "string \<Rightarrow> string" where "userKey username = userPrefix @ username"
definition organizationKey :: "string \<Rightarrow> string" where "organizationKey ident = organizationPrefix @ ident"
definition projectKey :: "string \<Rightarrow> string" where "projectKey ident = projectPrefix @ ident"
definition reimbursementKey :: "string \<Rightarrow> string" where "reimbursementKey ident = reimbursementPrefix @ ident"
definition reimbursementInvoiceKey :: "string \<Rightarrow> string" where
  "reimbursementInvoiceKey invoiceID = reimbursementInvoicePrefix @ invoiceID"
definition voidRequestKey :: "string \<Rightarrow> string" where
  "voidRequestKey invoiceID = voidRequestPrefix @ invoiceID"
definition projectMemberKey :: "string \<Rightarrow> string \<Rightarrow> string" where
  "projectMemberKey projectID username = projectMemberPrefix @ projectID @ ''#'' @ username"
definition transferRequestKey :: "string \<Rightarrow> string" where
  "transferRequestKey invoiceID = transferRequestPrefix @ invoiceID"

text \<open>The keys \<open>createFlow\<close> and \<open>createProjectEventWithReference\<close> build inline.\<close>

definition flowKey :: "string \<Rightarrow> string \<Rightarrow> string" where
  "flowKey invoiceID txID = flowPrefix @ invoiceID @ ''#'' @ txID"
definition projectEventKey :: "string \<Rightarrow> string \<Rightarrow> string" where
  "projectEventKey projectID txID = projectEventPrefix @ projectID @ ''#'' @ txID"

lemmas key_defs = invoiceKey_def invoiceNumberKey_def userKey_def organizationKey_def
  projectKey_def reimbursementKey_def reimbursementInvoiceKey_def voidRequestKey_def
  projectMemberKey_def transferRequestKey_def flowKey_def projectEventKey_def

text \<open>
  The word in front of the first \<open>#\<close> tells the families apart, so keys of different families
  never collide, whatever the identifiers are.
\<close>

definition family :: "string \<Rightarrow> string" where
  "family k = takeWhile (\<lambda>c. c \<noteq> CHR ''#'') k"

lemma family_keys [simp]:
  "family (invoiceKey i) = ''INVOICE''"
  "family (invoiceNumberKey i) = ''INVOICE_NUMBER''"
  "family (userKey i) = ''USER''"
  "family (organizationKey i) = ''ORGANIZATION''"
  "family (projectKey i) = ''PROJECT''"
  "family (reimbursementKey i) = ''REIMBURSEMENT''"
  "family (reimbursementInvoiceKey i) = ''REIMBURSEMENT_INVOICE''"
  "family (voidRequestKey i) = ''VOID_REQUEST''"
  "family (projectMemberKey i u) = ''PROJECT_MEMBER''"
  "family (transferRequestKey i) = ''TRANSFER_REQUEST''"
  "family (flowKey i t) = ''FLOW''"
  "family (projectEventKey i t) = ''PROJECT_EVENT''"
  by (simp_all add: family_def key_defs prefix_defs)

lemma key_inject [simp]:
  "invoiceKey i = invoiceKey j \<longleftrightarrow> i = j"
  "invoiceNumberKey i = invoiceNumberKey j \<longleftrightarrow> TrimSpace i = TrimSpace j"
  "userKey i = userKey j \<longleftrightarrow> i = j"
  "organizationKey i = organizationKey j \<longleftrightarrow> i = j"
  "projectKey i = projectKey j \<longleftrightarrow> i = j"
  "reimbursementKey i = reimbursementKey j \<longleftrightarrow> i = j"
  "reimbursementInvoiceKey i = reimbursementInvoiceKey j \<longleftrightarrow> i = j"
  "voidRequestKey i = voidRequestKey j \<longleftrightarrow> i = j"
  "transferRequestKey i = transferRequestKey j \<longleftrightarrow> i = j"
  by (simp_all add: key_defs)

lemma family_neq: "family k \<noteq> family k' \<Longrightarrow> k \<noteq> k'"
  by auto

text \<open>The same as rewrite rules, one for each pair of families.\<close>

lemma key_neq [simp]:
  "invoiceKey i \<noteq> invoiceNumberKey j"
  "invoiceKey i \<noteq> userKey j"
  "invoiceKey i \<noteq> organizationKey j"
  "invoiceKey i \<noteq> projectKey j"
  "invoiceKey i \<noteq> reimbursementKey j"
  "invoiceKey i \<noteq> reimbursementInvoiceKey j"
  "invoiceKey i \<noteq> voidRequestKey j"
  "invoiceKey i \<noteq> projectMemberKey j t"
  "invoiceKey i \<noteq> transferRequestKey j"
  "invoiceKey i \<noteq> flowKey j t"
  "invoiceKey i \<noteq> projectEventKey j t"
  "invoiceNumberKey i \<noteq> invoiceKey j"
  "invoiceNumberKey i \<noteq> userKey j"
  "invoiceNumberKey i \<noteq> organizationKey j"
  "invoiceNumberKey i \<noteq> projectKey j"
  "invoiceNumberKey i \<noteq> reimbursementKey j"
  "invoiceNumberKey i \<noteq> reimbursementInvoiceKey j"
  "invoiceNumberKey i \<noteq> voidRequestKey j"
  "invoiceNumberKey i \<noteq> projectMemberKey j t"
  "invoiceNumberKey i \<noteq> transferRequestKey j"
  "invoiceNumberKey i \<noteq> flowKey j t"
  "invoiceNumberKey i \<noteq> projectEventKey j t"
  "userKey i \<noteq> invoiceKey j"
  "userKey i \<noteq> invoiceNumberKey j"
  "userKey i \<noteq> organizationKey j"
  "userKey i \<noteq> projectKey j"
  "userKey i \<noteq> reimbursementKey j"
  "userKey i \<noteq> reimbursementInvoiceKey j"
  "userKey i \<noteq> voidRequestKey j"
  "userKey i \<noteq> projectMemberKey j t"
  "userKey i \<noteq> transferRequestKey j"
  "userKey i \<noteq> flowKey j t"
  "userKey i \<noteq> projectEventKey j t"
  "organizationKey i \<noteq> invoiceKey j"
  "organizationKey i \<noteq> invoiceNumberKey j"
  "organizationKey i \<noteq> userKey j"
  "organizationKey i \<noteq> projectKey j"
  "organizationKey i \<noteq> reimbursementKey j"
  "organizationKey i \<noteq> reimbursementInvoiceKey j"
  "organizationKey i \<noteq> voidRequestKey j"
  "organizationKey i \<noteq> projectMemberKey j t"
  "organizationKey i \<noteq> transferRequestKey j"
  "organizationKey i \<noteq> flowKey j t"
  "organizationKey i \<noteq> projectEventKey j t"
  "projectKey i \<noteq> invoiceKey j"
  "projectKey i \<noteq> invoiceNumberKey j"
  "projectKey i \<noteq> userKey j"
  "projectKey i \<noteq> organizationKey j"
  "projectKey i \<noteq> reimbursementKey j"
  "projectKey i \<noteq> reimbursementInvoiceKey j"
  "projectKey i \<noteq> voidRequestKey j"
  "projectKey i \<noteq> projectMemberKey j t"
  "projectKey i \<noteq> transferRequestKey j"
  "projectKey i \<noteq> flowKey j t"
  "projectKey i \<noteq> projectEventKey j t"
  "reimbursementKey i \<noteq> invoiceKey j"
  "reimbursementKey i \<noteq> invoiceNumberKey j"
  "reimbursementKey i \<noteq> userKey j"
  "reimbursementKey i \<noteq> organizationKey j"
  "reimbursementKey i \<noteq> projectKey j"
  "reimbursementKey i \<noteq> reimbursementInvoiceKey j"
  "reimbursementKey i \<noteq> voidRequestKey j"
  "reimbursementKey i \<noteq> projectMemberKey j t"
  "reimbursementKey i \<noteq> transferRequestKey j"
  "reimbursementKey i \<noteq> flowKey j t"
  "reimbursementKey i \<noteq> projectEventKey j t"
  "reimbursementInvoiceKey i \<noteq> invoiceKey j"
  "reimbursementInvoiceKey i \<noteq> invoiceNumberKey j"
  "reimbursementInvoiceKey i \<noteq> userKey j"
  "reimbursementInvoiceKey i \<noteq> organizationKey j"
  "reimbursementInvoiceKey i \<noteq> projectKey j"
  "reimbursementInvoiceKey i \<noteq> reimbursementKey j"
  "reimbursementInvoiceKey i \<noteq> voidRequestKey j"
  "reimbursementInvoiceKey i \<noteq> projectMemberKey j t"
  "reimbursementInvoiceKey i \<noteq> transferRequestKey j"
  "reimbursementInvoiceKey i \<noteq> flowKey j t"
  "reimbursementInvoiceKey i \<noteq> projectEventKey j t"
  "voidRequestKey i \<noteq> invoiceKey j"
  "voidRequestKey i \<noteq> invoiceNumberKey j"
  "voidRequestKey i \<noteq> userKey j"
  "voidRequestKey i \<noteq> organizationKey j"
  "voidRequestKey i \<noteq> projectKey j"
  "voidRequestKey i \<noteq> reimbursementKey j"
  "voidRequestKey i \<noteq> reimbursementInvoiceKey j"
  "voidRequestKey i \<noteq> projectMemberKey j t"
  "voidRequestKey i \<noteq> transferRequestKey j"
  "voidRequestKey i \<noteq> flowKey j t"
  "voidRequestKey i \<noteq> projectEventKey j t"
  "projectMemberKey i u \<noteq> invoiceKey j"
  "projectMemberKey i u \<noteq> invoiceNumberKey j"
  "projectMemberKey i u \<noteq> userKey j"
  "projectMemberKey i u \<noteq> organizationKey j"
  "projectMemberKey i u \<noteq> projectKey j"
  "projectMemberKey i u \<noteq> reimbursementKey j"
  "projectMemberKey i u \<noteq> reimbursementInvoiceKey j"
  "projectMemberKey i u \<noteq> voidRequestKey j"
  "projectMemberKey i u \<noteq> transferRequestKey j"
  "projectMemberKey i u \<noteq> flowKey j t"
  "projectMemberKey i u \<noteq> projectEventKey j t"
  "transferRequestKey i \<noteq> invoiceKey j"
  "transferRequestKey i \<noteq> invoiceNumberKey j"
  "transferRequestKey i \<noteq> userKey j"
  "transferRequestKey i \<noteq> organizationKey j"
  "transferRequestKey i \<noteq> projectKey j"
  "transferRequestKey i \<noteq> reimbursementKey j"
  "transferRequestKey i \<noteq> reimbursementInvoiceKey j"
  "transferRequestKey i \<noteq> voidRequestKey j"
  "transferRequestKey i \<noteq> projectMemberKey j t"
  "transferRequestKey i \<noteq> flowKey j t"
  "transferRequestKey i \<noteq> projectEventKey j t"
  "flowKey i u \<noteq> invoiceKey j"
  "flowKey i u \<noteq> invoiceNumberKey j"
  "flowKey i u \<noteq> userKey j"
  "flowKey i u \<noteq> organizationKey j"
  "flowKey i u \<noteq> projectKey j"
  "flowKey i u \<noteq> reimbursementKey j"
  "flowKey i u \<noteq> reimbursementInvoiceKey j"
  "flowKey i u \<noteq> voidRequestKey j"
  "flowKey i u \<noteq> projectMemberKey j t"
  "flowKey i u \<noteq> transferRequestKey j"
  "flowKey i u \<noteq> projectEventKey j t"
  "projectEventKey i u \<noteq> invoiceKey j"
  "projectEventKey i u \<noteq> invoiceNumberKey j"
  "projectEventKey i u \<noteq> userKey j"
  "projectEventKey i u \<noteq> organizationKey j"
  "projectEventKey i u \<noteq> projectKey j"
  "projectEventKey i u \<noteq> reimbursementKey j"
  "projectEventKey i u \<noteq> reimbursementInvoiceKey j"
  "projectEventKey i u \<noteq> voidRequestKey j"
  "projectEventKey i u \<noteq> projectMemberKey j t"
  "projectEventKey i u \<noteq> transferRequestKey j"
  "projectEventKey i u \<noteq> flowKey j t"
  by (rule family_neq, simp)+

end
