(* ===== verification/Reads.thy ===== *)
theory Reads
  imports Entities
begin

text \<open>
  The helpers and the read operations of \<open>chaincode/invoice_contract.go\<close>: validation of plain
  values, identity and time of the transaction, decoding of stored records, range scans, and the
  two functions that append evidence (\<open>createFlow\<close>, \<open>createProjectEventWithReference\<close>).
\<close>

section \<open>Plain values\<close>

definition parseNonNegative :: "string \<Rightarrow> string \<Rightarrow> int64 res" where
  "parseNonNegative value field =
    (case ParseInt value of
       None \<Rightarrow> Inl (field @ '' must be a non-negative integer in cents'')
     | Some result \<Rightarrow>
         if sint result < 0 \<or> sint result > sint maxMoneyCents
         then Inl (field @ '' must be a non-negative integer in cents'') else Inr result)"

definition checkedAddMoney :: "int64 \<Rightarrow> int64 \<Rightarrow> int64 res" where
  "checkedAddMoney left right =
    (if sint left < 0 \<or> sint right < 0 \<or> sint left > sint (word_of_int max_int64 - right)
        \<or> sint (left + right) > sint maxMoneyCents
     then Inl ''amount plus tax exceeds the allowed invoice limit'' else Inr (left + right))"

definition validateBusinessMSPID :: "string \<Rightarrow> unit res" where
  "validateBusinessMSPID mspID =
    (if mspID \<noteq> ''Org1MSP'' \<and> mspID \<noteq> ''Org2MSP'' then Inl (''unsupported organization '' @ mspID)
     else Inr ())"

definition validBusinessRole :: "string \<Rightarrow> bool" where
  "validBusinessRole role \<longleftrightarrow> role = ''ISSUER'' \<or> role = ''HOLDER'' \<or> role = ''AUDITOR''
     \<or> role = ''PROJECT_MEMBER'' \<or> role = ''PROJECT_REVIEWER'' \<or> role = ''FINANCE_ADMIN''
     \<or> role = ''ORG_ADMIN''"

definition validBusinessOrganizationType :: "string \<Rightarrow> bool" where
  "validBusinessOrganizationType organizationType \<longleftrightarrow> organizationType = ''PRIMARY''
     \<or> organizationType = ''PROJECT_TEAM'' \<or> organizationType = ''EXTERNAL''"

section \<open>The transaction's caller, time and writes\<close>

definition callerMSPID :: "stub \<Rightarrow> string res" where
  "callerMSPID ctx = wrapE ''read caller MSP: '' (st_mspid ctx)"

definition transactionTime :: "stub \<Rightarrow> string res" where
  "transactionTime ctx =
    bindE (st_time ctx) (\<lambda>(seconds, nanos). Inr (timestampText seconds nanos))"

definition putJSON :: "stub \<Rightarrow> string \<Rightarrow> json \<Rightarrow> wr list res" where
  "putJSON ctx key value = PutState ctx key (Doc value)"

definition createFlow ::
  "stub \<Rightarrow> string \<Rightarrow> string \<Rightarrow> string \<Rightarrow> string \<Rightarrow> string \<Rightarrow> string \<Rightarrow> wr list res" where
  "createFlow ctx invoiceID flowType from' to' operator timestamp =
    (let txID = st_txid ctx;
         flow = zero_InvoiceFlow\<lparr>flw_ID := flowKey invoiceID txID, flw_InvoiceID := invoiceID,
           flw_Type := flowType, flw_From := from', flw_To := to', flw_Operator := operator,
           flw_TxID := txID, flw_Timestamp := timestamp\<rparr>
     in putJSON ctx (flw_ID flow) (enc_InvoiceFlow flow))"

definition createProjectEventWithReference ::
  "stub \<Rightarrow> string \<Rightarrow> string \<Rightarrow> string \<Rightarrow> string \<Rightarrow> string \<Rightarrow> wr list res" where
  "createProjectEventWithReference ctx projectID eventType actor note referenceID =
    bindE (transactionTime ctx) (\<lambda>timestamp.
    let txID = st_txid ctx;
        event = zero_ProjectEvent\<lparr>evt_ID := projectEventKey projectID txID,
          evt_ProjectID := projectID, evt_Type := eventType, evt_Actor := actor, evt_Note := note,
          evt_ReferenceID := referenceID, evt_TxID := txID, evt_Timestamp := timestamp\<rparr>
    in putJSON ctx (evt_ID event) (enc_ProjectEvent event))"

definition createProjectEvent ::
  "stub \<Rightarrow> string \<Rightarrow> string \<Rightarrow> string \<Rightarrow> string \<Rightarrow> wr list res" where
  "createProjectEvent ctx projectID eventType actor note =
    createProjectEventWithReference ctx projectID eventType actor note []"

section \<open>Reading one record\<close>

definition ReadInvoice :: "stub \<Rightarrow> string \<Rightarrow> Invoice res" where
  "ReadInvoice ctx ident =
    bindE (wrapE ''read invoice: '' (GetState ctx (invoiceKey ident))) (\<lambda>data.
    case data of None \<Rightarrow> Inl (''invoice '' @ ident @ '' does not exist'')
    | Some b \<Rightarrow> wrapE ''decode invoice: '' (Unmarshal dec_Invoice b))"

definition InvoiceExists :: "stub \<Rightarrow> string \<Rightarrow> bool res" where
  "InvoiceExists ctx ident = bindE (GetState ctx (invoiceKey ident)) (\<lambda>data. Inr (data \<noteq> None))"

definition ReadInvoiceTransfer :: "stub \<Rightarrow> string \<Rightarrow> InvoiceTransfer res" where
  "ReadInvoiceTransfer ctx ident =
    bindE (GetState ctx (transferRequestKey (TrimSpace ident))) (\<lambda>data.
    case data of None \<Rightarrow> Inl (''invoice transfer '' @ ident @ '' does not exist'')
    | Some b \<Rightarrow> Unmarshal dec_InvoiceTransfer b)"

definition isMissingTransfer :: "string \<Rightarrow> bool" where
  "isMissingTransfer err = contains err ''does not exist''"

definition ReadInvoiceVoidRequest :: "stub \<Rightarrow> string \<Rightarrow> InvoiceVoidRequest res" where
  "ReadInvoiceVoidRequest ctx ident =
    bindE (wrapE ''read void request: '' (GetState ctx (voidRequestKey (TrimSpace ident)))) (\<lambda>data.
    case data of None \<Rightarrow> Inl (''void request for invoice '' @ ident @ '' does not exist'')
    | Some b \<Rightarrow> wrapE ''decode void request: '' (Unmarshal dec_InvoiceVoidRequest b))"

definition isMissingVoidRequest :: "string \<Rightarrow> bool" where
  "isMissingVoidRequest err = contains err ''does not exist''"

definition ReadBusinessUser :: "stub \<Rightarrow> string \<Rightarrow> BusinessUser res" where
  "ReadBusinessUser ctx username =
    (let username = TrimSpace username in
    bindE (wrapE ''read business user: '' (GetState ctx (userKey username))) (\<lambda>data.
    case data of
      None \<Rightarrow> Inl (''business user '' @ username @ '' does not exist; please register first'')
    | Some b \<Rightarrow> wrapE ''decode business user: '' (Unmarshal dec_BusinessUser b)))"

definition BusinessUserExists :: "stub \<Rightarrow> string \<Rightarrow> bool res" where
  "BusinessUserExists ctx username =
    bindE (GetState ctx (userKey (TrimSpace username))) (\<lambda>data. Inr (data \<noteq> None))"

definition ReadBusinessOrganization :: "stub \<Rightarrow> string \<Rightarrow> BusinessOrganization res" where
  "ReadBusinessOrganization ctx ident =
    bindE (wrapE ''read business organization: '' (GetState ctx (organizationKey (TrimSpace ident))))
    (\<lambda>data. case data of None \<Rightarrow> Inl (''business organization '' @ ident @ '' does not exist'')
    | Some b \<Rightarrow> wrapE ''decode business organization: '' (Unmarshal dec_BusinessOrganization b))"

definition BusinessOrganizationExists :: "stub \<Rightarrow> string \<Rightarrow> bool res" where
  "BusinessOrganizationExists ctx ident =
    bindE (GetState ctx (organizationKey (TrimSpace ident))) (\<lambda>data. Inr (data \<noteq> None))"

definition ReadProject :: "stub \<Rightarrow> string \<Rightarrow> Project res" where
  "ReadProject ctx ident =
    bindE (wrapE ''read project: '' (GetState ctx (projectKey (TrimSpace ident)))) (\<lambda>data.
    case data of None \<Rightarrow> Inl (''project '' @ ident @ '' does not exist'')
    | Some b \<Rightarrow> wrapE ''decode project: '' (Unmarshal dec_Project b))"

definition ProjectExists :: "stub \<Rightarrow> string \<Rightarrow> bool res" where
  "ProjectExists ctx ident =
    bindE (GetState ctx (projectKey (TrimSpace ident))) (\<lambda>data. Inr (data \<noteq> None))"

definition ReadReimbursement :: "stub \<Rightarrow> string \<Rightarrow> Reimbursement res" where
  "ReadReimbursement ctx ident =
    bindE (wrapE ''read reimbursement: '' (GetState ctx (reimbursementKey (TrimSpace ident)))) (\<lambda>data.
    case data of None \<Rightarrow> Inl (''reimbursement '' @ ident @ '' does not exist'')
    | Some b \<Rightarrow> wrapE ''decode reimbursement: '' (Unmarshal dec_Reimbursement b))"

definition ReimbursementExists :: "stub \<Rightarrow> string \<Rightarrow> bool res" where
  "ReimbursementExists ctx ident =
    bindE (GetState ctx (reimbursementKey (TrimSpace ident))) (\<lambda>data. Inr (data \<noteq> None))"

section \<open>Range scans\<close>

text \<open>The loop body \<open>item, err := iterator.Next(); json.Unmarshal(item.Value, &x)\<close>.\<close>

definition decode_item :: "(json \<Rightarrow> 'a res) \<Rightarrow> stub \<Rightarrow> string \<times> blob \<Rightarrow> 'a res" where
  "decode_item dec ctx item = bindE (NextItem ctx item) (Unmarshal dec)"

definition GetAllBusinessUsers :: "stub \<Rightarrow> BusinessUser list res" where
  "GetAllBusinessUsers ctx = bindE (GetStateByRange ctx userPrefix ''USER$'')
     (mapE (decode_item dec_BusinessUser ctx))"

definition GetAllBusinessOrganizations :: "stub \<Rightarrow> BusinessOrganization list res" where
  "GetAllBusinessOrganizations ctx = bindE (GetStateByRange ctx organizationPrefix ''ORGANIZATION$'')
     (mapE (decode_item dec_BusinessOrganization ctx))"

definition GetAllProjects :: "stub \<Rightarrow> Project list res" where
  "GetAllProjects ctx = bindE (GetStateByRange ctx projectPrefix ''PROJECT$'')
     (mapE (decode_item dec_Project ctx))"

text \<open>The upper end of a prefix scan, \<open>"\<close>U+FFFF\<open>"\<close> in UTF-8.\<close>

definition uffff :: string where "uffff = [CHR 0xEF, CHR 0xBF, CHR 0xBF]"

definition GetProjectEvents :: "stub \<Rightarrow> string \<Rightarrow> ProjectEvent list res" where
  "GetProjectEvents ctx projectID =
    (let p = projectEventPrefix @ TrimSpace projectID @ ''#'' in
     bindE (GetStateByRange ctx p (p @ uffff)) (mapE (decode_item dec_ProjectEvent ctx)))"

definition GetProjectMembers :: "stub \<Rightarrow> string \<Rightarrow> ProjectMember list res" where
  "GetProjectMembers ctx projectID =
    (let p = projectMemberPrefix @ TrimSpace projectID @ ''#'' in
     bindE (GetStateByRange ctx p (p @ uffff)) (mapE (decode_item dec_ProjectMember ctx)))"

definition GetAllReimbursements :: "stub \<Rightarrow> Reimbursement list res" where
  "GetAllReimbursements ctx = bindE (GetStateByRange ctx reimbursementPrefix ''REIMBURSEMENT$'')
     (mapE (decode_item dec_Reimbursement ctx))"

definition GetAllInvoices :: "stub \<Rightarrow> Invoice list res" where
  "GetAllInvoices ctx = bindE (GetStateByRange ctx invoicePrefix ''INVOICE$'')
     (mapE (decode_item dec_Invoice ctx))"

definition GetInvoiceFlows :: "stub \<Rightarrow> string \<Rightarrow> InvoiceFlow list res" where
  "GetInvoiceFlows ctx ident =
    (let p = flowPrefix @ ident @ ''#'' in
     bindE (GetStateByRange ctx p (p @ uffff)) (mapE (decode_item dec_InvoiceFlow ctx)))"

text \<open>The scanning loops of \<open>InvoiceNumberExists\<close> return at the first hit.\<close>

fun scan_invoices :: "(Invoice \<Rightarrow> bool) \<Rightarrow> stub \<Rightarrow> (string \<times> blob) list \<Rightarrow> bool res" where
  "scan_invoices P ctx [] = Inr False"
| "scan_invoices P ctx (item # items) =
     bindE (decode_item dec_Invoice ctx item) (\<lambda>invoice.
     if P invoice then Inr True else scan_invoices P ctx items)"

definition InvoiceNumberExists :: "stub \<Rightarrow> string \<Rightarrow> bool res" where
  "InvoiceNumberExists ctx invoiceNo =
    bindE (GetState ctx (invoiceNumberKey invoiceNo)) (\<lambda>indexed.
    if indexed \<noteq> None then Inr True
    else bindE (GetStateByRange ctx invoicePrefix ''INVOICE$'')
      (scan_invoices (\<lambda>invoice. inv_InvoiceNo invoice = invoiceNo) ctx))"

definition InvoiceNumberExistsExcept :: "stub \<Rightarrow> string \<Rightarrow> string \<Rightarrow> bool res" where
  "InvoiceNumberExistsExcept ctx invoiceNo exceptID =
    bindE (GetState ctx (invoiceNumberKey invoiceNo)) (\<lambda>indexed.
    if indexed \<noteq> None \<and> blob_string (the indexed) \<noteq> exceptID then Inr True
    else bindE (GetStateByRange ctx invoicePrefix ''INVOICE$'')
      (scan_invoices (\<lambda>invoice. inv_ID invoice \<noteq> exceptID \<and> inv_InvoiceNo invoice = invoiceNo) ctx))"

definition ensureInvoiceCanBeVoided :: "stub \<Rightarrow> string \<Rightarrow> unit res" where
  "ensureInvoiceCanBeVoided ctx invoiceID =
    bindE (GetState ctx (reimbursementInvoiceKey invoiceID)) (\<lambda>linked.
    case linked of None \<Rightarrow> Inr ()
    | Some b \<Rightarrow>
      bindE (ReadReimbursement ctx (blob_string b)) (\<lambda>reimbursement.
      Inl (''invoice '' @ invoiceID @ '' is linked to reimbursement '' @ rmb_ID reimbursement
        @ '' in status '' @ rmb_Status reimbursement
        @ ''; resolve or withdraw the reimbursement before voiding'')))"

section \<open>Verification and history of an invoice\<close>

record VerificationResult =
  vr_DataHashMatched :: bool
  vr_Invoice :: Invoice
  vr_Reason :: string
  vr_Valid :: bool

definition VerifyInvoice :: "stub \<Rightarrow> string \<Rightarrow> string \<Rightarrow> VerificationResult res" where
  "VerifyInvoice ctx ident presentedHash =
    bindE (ReadInvoice ctx ident) (\<lambda>invoice.
    let matched = EqualFold (TrimSpace presentedHash) (inv_DataHash invoice)
    in Inr \<lparr>vr_DataHashMatched = matched, vr_Invoice = invoice,
      vr_Reason =
        (if \<not> matched then ''content hash does not match the on-chain record''
         else if inv_Status invoice = ''VOIDED''
         then ''content matches the original on-chain record, but this invoice has been voided''
         else ''content hash matches the on-chain invoice record''),
      vr_Valid = (matched \<and> inv_Status invoice \<noteq> ''VOIDED'')\<rparr>)"

record HistoryRecord =
  hr_IsDelete :: bool
  hr_Timestamp :: string
  hr_TxID :: string
  hr_Value :: "Invoice option"

definition history_record :: "history_entry \<Rightarrow> HistoryRecord res" where
  "history_record entry =
    (let record' = \<lparr>hr_IsDelete = he_IsDelete entry,
       hr_Timestamp = timestampText (he_Seconds entry) (he_Nanos entry),
       hr_TxID = he_TxId entry, hr_Value = None\<rparr>
     in case (he_IsDelete entry, he_Value entry) of
          (False, Some b) \<Rightarrow> bindE (Unmarshal dec_Invoice b) (\<lambda>invoice. Inr (record'\<lparr>hr_Value := Some invoice\<rparr>))
        | _ \<Rightarrow> Inr record')"

definition GetInvoiceHistory :: "stub \<Rightarrow> string \<Rightarrow> HistoryRecord list res" where
  "GetInvoiceHistory ctx ident = bindE (st_history ctx (invoiceKey ident)) (mapE history_record)"

section \<open>What a successful read means\<close>

definition stored :: "ledger \<Rightarrow> (json \<Rightarrow> 'a res) \<Rightarrow> string \<Rightarrow> 'a \<Rightarrow> bool" where
  "stored l dec k x \<longleftrightarrow> (\<exists>j. get_kv l k = Some (Doc j) \<and> dec j = Inr x)"

lemma stored_unique: "stored l dec k x \<Longrightarrow> stored l dec k y \<Longrightarrow> x = y"
  by (auto simp: stored_def)

lemma ReadInvoice_Inr [read_inv]: "ReadInvoice ctx ident = Inr x \<longleftrightarrow>
    st_get_err ctx (invoiceKey ident) = None \<and> stored (st_ledger ctx) dec_Invoice (invoiceKey ident) x"
  by (auto simp: ReadInvoice_def Let_def stored_def res_inv split: option.splits)

lemma ReadInvoiceTransfer_Inr [read_inv]: "ReadInvoiceTransfer ctx ident = Inr x \<longleftrightarrow>
    st_get_err ctx (transferRequestKey (TrimSpace ident)) = None \<and> stored (st_ledger ctx) dec_InvoiceTransfer (transferRequestKey (TrimSpace ident)) x"
  by (auto simp: ReadInvoiceTransfer_def Let_def stored_def res_inv split: option.splits)

lemma ReadInvoiceVoidRequest_Inr [read_inv]: "ReadInvoiceVoidRequest ctx ident = Inr x \<longleftrightarrow>
    st_get_err ctx (voidRequestKey (TrimSpace ident)) = None \<and> stored (st_ledger ctx) dec_InvoiceVoidRequest (voidRequestKey (TrimSpace ident)) x"
  by (auto simp: ReadInvoiceVoidRequest_def Let_def stored_def res_inv split: option.splits)

lemma ReadBusinessUser_Inr [read_inv]: "ReadBusinessUser ctx ident = Inr x \<longleftrightarrow>
    st_get_err ctx (userKey (TrimSpace ident)) = None \<and> stored (st_ledger ctx) dec_BusinessUser (userKey (TrimSpace ident)) x"
  by (auto simp: ReadBusinessUser_def Let_def stored_def res_inv split: option.splits)

lemma ReadBusinessOrganization_Inr [read_inv]: "ReadBusinessOrganization ctx ident = Inr x \<longleftrightarrow>
    st_get_err ctx (organizationKey (TrimSpace ident)) = None \<and> stored (st_ledger ctx) dec_BusinessOrganization (organizationKey (TrimSpace ident)) x"
  by (auto simp: ReadBusinessOrganization_def Let_def stored_def res_inv split: option.splits)

lemma ReadProject_Inr [read_inv]: "ReadProject ctx ident = Inr x \<longleftrightarrow>
    st_get_err ctx (projectKey (TrimSpace ident)) = None \<and> stored (st_ledger ctx) dec_Project (projectKey (TrimSpace ident)) x"
  by (auto simp: ReadProject_def Let_def stored_def res_inv split: option.splits)

lemma ReadReimbursement_Inr [read_inv]: "ReadReimbursement ctx ident = Inr x \<longleftrightarrow>
    st_get_err ctx (reimbursementKey (TrimSpace ident)) = None \<and> stored (st_ledger ctx) dec_Reimbursement (reimbursementKey (TrimSpace ident)) x"
  by (auto simp: ReadReimbursement_def Let_def stored_def res_inv split: option.splits)

lemma InvoiceExists_Inr [res_inv]: "InvoiceExists ctx ident = Inr b \<longleftrightarrow>
    st_get_err ctx (invoiceKey ident) = None \<and> b = (get_kv (st_ledger ctx) (invoiceKey ident) \<noteq> None)"
  by (auto simp: InvoiceExists_def res_inv)

lemma BusinessUserExists_Inr [res_inv]: "BusinessUserExists ctx ident = Inr b \<longleftrightarrow>
    st_get_err ctx (userKey (TrimSpace ident)) = None \<and> b = (get_kv (st_ledger ctx) (userKey (TrimSpace ident)) \<noteq> None)"
  by (auto simp: BusinessUserExists_def res_inv)

lemma BusinessOrganizationExists_Inr [res_inv]: "BusinessOrganizationExists ctx ident = Inr b \<longleftrightarrow>
    st_get_err ctx (organizationKey (TrimSpace ident)) = None \<and> b = (get_kv (st_ledger ctx) (organizationKey (TrimSpace ident)) \<noteq> None)"
  by (auto simp: BusinessOrganizationExists_def res_inv)

lemma ProjectExists_Inr [res_inv]: "ProjectExists ctx ident = Inr b \<longleftrightarrow>
    st_get_err ctx (projectKey (TrimSpace ident)) = None \<and> b = (get_kv (st_ledger ctx) (projectKey (TrimSpace ident)) \<noteq> None)"
  by (auto simp: ProjectExists_def res_inv)

lemma ReimbursementExists_Inr [res_inv]: "ReimbursementExists ctx ident = Inr b \<longleftrightarrow>
    st_get_err ctx (reimbursementKey (TrimSpace ident)) = None \<and> b = (get_kv (st_ledger ctx) (reimbursementKey (TrimSpace ident)) \<noteq> None)"
  by (auto simp: ReimbursementExists_def res_inv)

lemma callerMSPID_Inr [res_inv]: "callerMSPID ctx = Inr m \<longleftrightarrow> st_mspid ctx = Inr m"
  by (simp add: callerMSPID_def res_inv)

lemma validateBusinessMSPID_Inr [res_inv]:
  "validateBusinessMSPID m = Inr u \<longleftrightarrow> m = ''Org1MSP'' \<or> m = ''Org2MSP''"
  by (auto simp: validateBusinessMSPID_def)

lemma putJSON_Inr [res_inv]:
  "putJSON ctx k j = Inr ws \<longleftrightarrow> st_put_err ctx k = None \<and> ws = [Put k (Doc j)]"
  by (simp add: putJSON_def res_inv)

text \<open>An invoice can be voided exactly when no reimbursement link points at it.\<close>

lemma ensureInvoiceCanBeVoided_Inr [res_inv]:
  "ensureInvoiceCanBeVoided ctx i = Inr u \<longleftrightarrow>
    st_get_err ctx (reimbursementInvoiceKey i) = None \<and>
    get_kv (st_ledger ctx) (reimbursementInvoiceKey i) = None"
  by (auto simp: ensureInvoiceCanBeVoided_def res_inv split: option.splits)

text \<open>The flow and the event a handler appends last.\<close>

definition the_flow ::
  "stub \<Rightarrow> string \<Rightarrow> string \<Rightarrow> string \<Rightarrow> string \<Rightarrow> string \<Rightarrow> string \<Rightarrow> InvoiceFlow" where
  "the_flow ctx invoiceID flowType from' to' operator timestamp =
    zero_InvoiceFlow\<lparr>flw_ID := flowKey invoiceID (st_txid ctx), flw_InvoiceID := invoiceID,
      flw_Type := flowType, flw_From := from', flw_To := to', flw_Operator := operator,
      flw_TxID := st_txid ctx, flw_Timestamp := timestamp\<rparr>"

definition the_event ::
  "stub \<Rightarrow> string \<Rightarrow> string \<Rightarrow> string \<Rightarrow> string \<Rightarrow> string \<Rightarrow> string \<Rightarrow> ProjectEvent" where
  "the_event ctx projectID eventType actor note referenceID timestamp =
    zero_ProjectEvent\<lparr>evt_ID := projectEventKey projectID (st_txid ctx),
      evt_ProjectID := projectID, evt_Type := eventType, evt_Actor := actor, evt_Note := note,
      evt_ReferenceID := referenceID, evt_TxID := st_txid ctx, evt_Timestamp := timestamp\<rparr>"

lemma createFlow_Inr [res_inv]:
  "createFlow ctx i ty f t op ts = Inr ws \<longleftrightarrow>
    st_put_err ctx (flowKey i (st_txid ctx)) = None \<and>
    ws = [Put (flowKey i (st_txid ctx)) (Doc (enc_InvoiceFlow (the_flow ctx i ty f t op ts)))]"
  by (simp add: createFlow_def the_flow_def Let_def res_inv)

lemma createProjectEventWithReference_Inr [res_inv]:
  "createProjectEventWithReference ctx p ty a n r = Inr ws \<longleftrightarrow>
    st_put_err ctx (projectEventKey p (st_txid ctx)) = None \<and>
    (\<exists>ts. transactionTime ctx = Inr ts \<and>
      ws = [Put (projectEventKey p (st_txid ctx)) (Doc (enc_ProjectEvent (the_event ctx p ty a n r ts)))])"
  by (auto simp: createProjectEventWithReference_def the_event_def Let_def res_inv)

lemma createProjectEvent_Inr [res_inv]:
  "createProjectEvent ctx p ty a n = Inr ws \<longleftrightarrow>
    st_put_err ctx (projectEventKey p (st_txid ctx)) = None \<and>
    (\<exists>ts. transactionTime ctx = Inr ts \<and>
      ws = [Put (projectEventKey p (st_txid ctx)) (Doc (enc_ProjectEvent (the_event ctx p ty a n [] ts)))])"
  by (simp add: createProjectEvent_def res_inv)

section \<open>Money\<close>

lemma sint_maxMoneyCents [simp]: "sint maxMoneyCents = 10000000000"
  by (simp add: maxMoneyCents_def)

lemma parseNonNegative_bounds:
  "parseNonNegative v f = Inr r \<Longrightarrow> 0 \<le> sint r \<and> sint r \<le> 10000000000"
  by (auto simp: parseNonNegative_def split: option.splits if_splits)

text \<open>The overflow guard is exact: the sum is accepted iff it is within the limit.\<close>

lemma checkedAddMoney_Inr:
  "checkedAddMoney a b = Inr c \<longleftrightarrow>
    0 \<le> sint a \<and> 0 \<le> sint b \<and> sint a + sint b \<le> 10000000000 \<and> c = a + b"
proof (cases "0 \<le> sint a \<and> 0 \<le> sint b")
  case True
  have m: "sint (word_of_int max_int64 :: int64) = max_int64" by simp
  have d: "sint (word_of_int max_int64 - b) = max_int64 - sint b"
    using True sint64_bounds [of b] sint64_sub [of "word_of_int max_int64" b] by (simp add: m)
  show ?thesis
  proof (cases "sint a + sint b \<le> max_int64")
    case True
    with \<open>0 \<le> sint a \<and> 0 \<le> sint b\<close> have "sint (a + b) = sint a + sint b"
      by (intro sint64_add) auto
    with True \<open>0 \<le> sint a \<and> 0 \<le> sint b\<close> d show ?thesis
      by (auto simp: checkedAddMoney_def)
  next
    case False
    with d show ?thesis by (auto simp: checkedAddMoney_def)
  qed
qed (auto simp: checkedAddMoney_def)

lemma checkedAddMoney_sint:
  "checkedAddMoney a b = Inr c \<Longrightarrow> sint c = sint a + sint b"
  by (auto simp: checkedAddMoney_Inr intro: sint64_add)

section \<open>Scans of a family\<close>

lemma scan_range:
  "range_kv l invoicePrefix ''INVOICE$'' = filter (\<lambda>(k, _). prefix invoicePrefix k) l"
  "range_kv l projectPrefix ''PROJECT$'' = filter (\<lambda>(k, _). prefix projectPrefix k) l"
  "range_kv l reimbursementPrefix ''REIMBURSEMENT$'' = filter (\<lambda>(k, _). prefix reimbursementPrefix k) l"
  "range_kv l userPrefix ''USER$'' = filter (\<lambda>(k, _). prefix userPrefix k) l"
  "range_kv l organizationPrefix ''ORGANIZATION$'' = filter (\<lambda>(k, _). prefix organizationPrefix k) l"
proof -
  have c: "CHR ''#'' < x \<longleftrightarrow> CHR ''$'' \<le> x" for x
    by (auto simp: less_char_def less_eq_char_def)
  note pr = prefix_range_iff [of "CHR ''#''" "CHR ''$''", OF c]
  show "range_kv l invoicePrefix ''INVOICE$'' = filter (\<lambda>(k, _). prefix invoicePrefix k) l"
    using pr [of "''INVOICE''"] by (simp add: range_kv_def invoicePrefix_def)
  show "range_kv l projectPrefix ''PROJECT$'' = filter (\<lambda>(k, _). prefix projectPrefix k) l"
    using pr [of "''PROJECT''"] by (simp add: range_kv_def projectPrefix_def)
  show "range_kv l reimbursementPrefix ''REIMBURSEMENT$'' = filter (\<lambda>(k, _). prefix reimbursementPrefix k) l"
    using pr [of "''REIMBURSEMENT''"] by (simp add: range_kv_def reimbursementPrefix_def)
  show "range_kv l userPrefix ''USER$'' = filter (\<lambda>(k, _). prefix userPrefix k) l"
    using pr [of "''USER''"] by (simp add: range_kv_def userPrefix_def)
  show "range_kv l organizationPrefix ''ORGANIZATION$'' = filter (\<lambda>(k, _). prefix organizationPrefix k) l"
    using pr [of "''ORGANIZATION''"] by (simp add: range_kv_def organizationPrefix_def)
qed

lemma scan_invoices_Inr:
  "scan_invoices P ctx items = Inr b \<Longrightarrow>
    b \<longleftrightarrow> (\<exists>item \<in> set items. \<exists>v. decode_item dec_Invoice ctx item = Inr v \<and> P v)"
  by (induction P ctx items rule: scan_invoices.induct) (auto simp: res_inv split: if_splits)

lemma decode_item_Inr: "decode_item dec ctx (k, b) = Inr x \<longleftrightarrow>
    st_next_err ctx k = None \<and> (\<exists>j. b = Doc j \<and> dec j = Inr x)"
  by (auto simp: decode_item_def res_inv)

end
