(* ===== verification/Access.thy ===== *)
theory Access
  imports Reads
begin

text \<open>
  Who may do what: the checks of \<open>chaincode/invoice_contract.go\<close> that tie an operator name to the
  certificate of the caller, to a ledger record of the user and to a project
  (\<open>requireActiveBusinessUser\<close>, \<open>requireRegisteredRole\<close>, \<open>requireActiveHolder\<close>,
  \<open>requireProjectApplicant\<close>, \<open>requireProjectMember\<close>, \<open>requireProjectManager\<close>), and the built-in
  accounts they fall back to. The lemmas say what each check guarantees when it passes.
\<close>

definition demo_accounts :: "(string \<times> string \<times> string) list" where
  "demo_accounts =
    [(''issuer-org1'', ''Org1MSP'', ''ISSUER''), (''holder-org2'', ''Org2MSP'', ''HOLDER''),
     (''auditor'', ''Org1MSP'', ''AUDITOR''), (''project-member'', ''Org1MSP'', ''PROJECT_MEMBER''),
     (''project-reviewer'', ''Org1MSP'', ''PROJECT_REVIEWER''),
     (''finance-admin'', ''Org2MSP'', ''FINANCE_ADMIN''), (''org-admin'', ''Org1MSP'', ''ORG_ADMIN''),
     (''org-admin-org2'', ''Org2MSP'', ''ORG_ADMIN'')]"

definition demoUserRole :: "string \<Rightarrow> string \<Rightarrow> string" where
  "demoUserRole username mspID =
    (case map_of demo_accounts username of
       Some (msp, role) \<Rightarrow> if msp = mspID then role else []
     | None \<Rightarrow> [])"

definition requireActiveHolder :: "stub \<Rightarrow> string \<Rightarrow> string \<Rightarrow> unit res" where
  "requireActiveHolder ctx username mspID =
    bindE (ReadBusinessUser ctx username) (\<lambda>user.
    if usr_Status user \<noteq> ''ACTIVE'' then Inl (''business user '' @ usr_Username user @ '' is not active'')
    else if usr_MSPID user \<noteq> mspID
    then Inl (''business user '' @ usr_Username user @ '' belongs to '' @ usr_MSPID user @ '', not '' @ mspID)
    else if usr_Role user \<noteq> ''HOLDER''
    then Inl (''business user '' @ usr_Username user @ '' must have HOLDER role to receive an invoice'')
    else Inr ())"

definition requireActiveBusinessUser :: "stub \<Rightarrow> string \<Rightarrow> string \<Rightarrow> string list \<Rightarrow> unit res" where
  "requireActiveBusinessUser ctx username mspID roles =
    bindE (callerMSPID ctx) (\<lambda>caller.
    if caller \<noteq> mspID then Inl (''certificate belongs to '' @ caller @ '', not '' @ mspID)
    else (case ReadBusinessUser ctx username of
      Inl err \<Rightarrow>
        if demoUserRole username mspID \<noteq> [] \<and> demoUserRole username mspID \<in> set roles
        then Inr () else Inl err
    | Inr user \<Rightarrow>
        if usr_Status user \<noteq> ''ACTIVE'' \<or> usr_MSPID user \<noteq> mspID
        then Inl (''business user '' @ username @ '' is not active in '' @ mspID)
        else if usr_Role user \<in> set roles then Inr ()
        else Inl (''business user '' @ username @ '' does not have the required role'')))"

definition requireRegisteredRole :: "stub \<Rightarrow> string \<Rightarrow> string \<Rightarrow> string list \<Rightarrow> unit res" where
  "requireRegisteredRole ctx username mspID roles =
    (case ReadBusinessUser ctx username of
      Inl err \<Rightarrow>
        if demoUserRole username mspID \<noteq> [] \<and> demoUserRole username mspID \<in> set roles
        then Inr () else Inl err
    | Inr user \<Rightarrow>
        if usr_Status user \<noteq> ''ACTIVE'' \<or> usr_MSPID user \<noteq> mspID
        then Inl (''business user '' @ username @ '' is not active in '' @ mspID)
        else if usr_Role user \<in> set roles then Inr ()
        else Inl (''business user '' @ username @ '' does not have the required role''))"

definition businessUserOrganization :: "stub \<Rightarrow> string \<Rightarrow> string res" where
  "businessUserOrganization ctx username =
    (case ReadBusinessUser ctx username of
      Inl err \<Rightarrow>
        if demoUserRole username ''Org1MSP'' \<noteq> [] \<or> demoUserRole username ''Org2MSP'' \<noteq> []
        then Inr [] else Inl err
    | Inr user \<Rightarrow> Inr (usr_OrganizationID user))"

definition requireProjectApplicant :: "stub \<Rightarrow> Project \<Rightarrow> string \<Rightarrow> unit res" where
  "requireProjectApplicant ctx project applicant =
    (if TrimSpace applicant \<noteq> prj_Applicant project
     then Inl (''only project applicant '' @ prj_Applicant project @ '' can perform this action'')
     else bindE (callerMSPID ctx) (\<lambda>caller.
     if caller \<noteq> prj_ApplicantMSPID project
     then Inl (''only project organization '' @ prj_ApplicantMSPID project @ '' can perform this action'')
     else bindE (wrapE ''project applicant: ''
       (requireActiveBusinessUser ctx applicant caller [''PROJECT_MEMBER'', ''ISSUER''])) (\<lambda>_.
     bindE (businessUserOrganization ctx applicant) (\<lambda>organizationID.
     if prj_OrganizationID project \<noteq> [] \<and> organizationID \<noteq> [] \<and> organizationID \<noteq> prj_OrganizationID project
     then Inl ''project applicant does not belong to project business organization''
     else Inr ()))))"

definition requireProjectMember :: "stub \<Rightarrow> Project \<Rightarrow> string \<Rightarrow> unit res" where
  "requireProjectMember ctx project username =
    (case requireProjectApplicant ctx project username of
      Inr _ \<Rightarrow> Inr ()
    | Inl _ \<Rightarrow>
        bindE (callerMSPID ctx) (\<lambda>caller.
        if caller \<noteq> prj_ApplicantMSPID project
        then Inl (''only project organization '' @ prj_ApplicantMSPID project @ '' can perform this action'')
        else bindE (requireActiveBusinessUser ctx username caller [''PROJECT_MEMBER'', ''ISSUER'']) (\<lambda>_.
        bindE (GetState ctx (projectMemberKey (prj_ID project) (TrimSpace username))) (\<lambda>data.
        if data = None
        then Inl (''user '' @ username @ '' is not on project '' @ prj_ID project @ '' member list'')
        else Inr ()))))"

definition requireProjectManager :: "stub \<Rightarrow> Project \<Rightarrow> string \<Rightarrow> string \<Rightarrow> unit res" where
  "requireProjectManager ctx project username role =
    bindE (callerMSPID ctx) (\<lambda>caller.
    bindE (requireActiveBusinessUser ctx username caller [role]) (\<lambda>_.
    if prj_OrganizationID project = [] then
      (if caller \<noteq> prj_ApplicantMSPID project
       then Inl (''legacy project belongs to '' @ prj_ApplicantMSPID project) else Inr ())
    else (case ReadBusinessUser ctx username of
      Inl err \<Rightarrow> if demoUserRole username caller \<noteq> [] then Inr () else Inl err
    | Inr user \<Rightarrow>
        if usr_OrganizationID user = prj_OrganizationID project then Inr ()
        else bindE (ReadBusinessOrganization ctx (prj_OrganizationID project)) (\<lambda>projectOrg.
        if org_ParentID projectOrg = usr_OrganizationID user then Inr ()
        else Inl ''operator organization is outside this project's management scope''))))"

section \<open>What a passed check guarantees\<close>

text \<open>
  A role is held by a ledger record of an active user of that MSP, or, only when the record cannot
  be read, by the built-in account of that name and MSP.
\<close>

definition holds_role :: "stub \<Rightarrow> string \<Rightarrow> string \<Rightarrow> string \<Rightarrow> bool" where
  "holds_role ctx username mspID role \<longleftrightarrow>
    (\<exists>u. ReadBusinessUser ctx username = Inr u \<and> usr_Status u = ''ACTIVE'' \<and> usr_MSPID u = mspID
        \<and> usr_Role u = role)
    \<or> (\<exists>e. ReadBusinessUser ctx username = Inl e) \<and> role \<noteq> [] \<and> demoUserRole username mspID = role"

lemma requireActiveBusinessUser_Inr [req_inv]:
  "requireActiveBusinessUser ctx username mspID roles = Inr u \<longleftrightarrow>
    st_mspid ctx = Inr mspID \<and> (\<exists>role \<in> set roles. holds_role ctx username mspID role)"
  by (cases "ReadBusinessUser ctx username")
    (auto simp: requireActiveBusinessUser_def holds_role_def bindE_Inr callerMSPID_Inr)

lemma requireRegisteredRole_Inr [req_inv]:
  "requireRegisteredRole ctx username mspID roles = Inr u \<longleftrightarrow>
    (\<exists>role \<in> set roles. holds_role ctx username mspID role)"
  by (cases "ReadBusinessUser ctx username")
    (auto simp: requireRegisteredRole_def holds_role_def)

lemma requireActiveHolder_Inr [req_inv]:
  "requireActiveHolder ctx username mspID = Inr u \<longleftrightarrow>
    (\<exists>r. ReadBusinessUser ctx username = Inr r \<and> usr_Status r = ''ACTIVE'' \<and> usr_MSPID r = mspID
        \<and> usr_Role r = ''HOLDER'')"
  by (auto simp: requireActiveHolder_def bindE_Inr split: if_splits)

lemma demoUserRole_Some:
  "demoUserRole n m = r \<Longrightarrow> r \<noteq> [] \<Longrightarrow> (n, m, r) \<in> set demo_accounts"
  by (auto simp: demoUserRole_def demo_accounts_def split: option.splits prod.splits if_splits)

definition project_member_ok :: "stub \<Rightarrow> Project \<Rightarrow> string \<Rightarrow> bool" where
  "project_member_ok ctx project username \<longleftrightarrow>
    st_mspid ctx = Inr (prj_ApplicantMSPID project) \<and>
    (\<exists>role \<in> {''PROJECT_MEMBER'', ''ISSUER''}. holds_role ctx username (prj_ApplicantMSPID project) role) \<and>
    (TrimSpace username = prj_Applicant project \<or>
     get_kv (st_ledger ctx) (projectMemberKey (prj_ID project) (TrimSpace username)) \<noteq> None)"

lemma requireProjectApplicant_ok:
  "requireProjectApplicant ctx project applicant = Inr u \<Longrightarrow>
    TrimSpace applicant = prj_Applicant project \<and> project_member_ok ctx project applicant"
  by (auto simp: requireProjectApplicant_def project_member_ok_def res_inv req_inv)

text \<open>Acting for a project needs its MSP's certificate, a working role, and membership.\<close>

lemma requireProjectMember_ok:
  "requireProjectMember ctx project username = Inr u \<Longrightarrow> project_member_ok ctx project username"
  by (auto simp: requireProjectMember_def res_inv req_inv split: sum.splits dest: requireProjectApplicant_ok)
    (auto simp: project_member_ok_def)

definition project_manager_ok :: "stub \<Rightarrow> Project \<Rightarrow> string \<Rightarrow> string \<Rightarrow> bool" where
  "project_manager_ok ctx project username role \<longleftrightarrow>
    (\<exists>caller. st_mspid ctx = Inr caller \<and> holds_role ctx username caller role)"

lemma requireProjectManager_ok:
  "requireProjectManager ctx project username role = Inr u \<Longrightarrow> project_manager_ok ctx project username role"
  by (auto simp: requireProjectManager_def project_manager_ok_def res_inv req_inv)

lemma requireProjectManager_scope:
  assumes "requireProjectManager ctx project username role = Inr u"
    and "ReadBusinessUser ctx username = Inr r" "prj_OrganizationID project \<noteq> []"
  shows "usr_OrganizationID r = prj_OrganizationID project \<or>
    (\<exists>o'. ReadBusinessOrganization ctx (prj_OrganizationID project) = Inr o' \<and> org_ParentID o' = usr_OrganizationID r)"
  using assms by (auto simp: requireProjectManager_def bindE_Inr split: if_splits)

end
