(* ===== verification/Directory.thy ===== *)
theory Directory
  imports Access
begin

text \<open>
  The directory of business users and organizations: \<open>RegisterBusinessUser\<close> and
  \<open>CreateBusinessOrganization\<close> of \<open>chaincode/invoice_contract.go\<close>.
\<close>

definition RegisterBusinessUser ::
  "stub \<Rightarrow> string \<Rightarrow> string \<Rightarrow> string \<Rightarrow> string \<Rightarrow> string \<Rightarrow> wr list res" where
  "RegisterBusinessUser ctx username displayName mspID role organizationID =
    (let username = TrimSpace username; displayName = TrimSpace displayName;
         mspID = TrimSpace mspID; role = ToUpper (TrimSpace role);
         organizationID = TrimSpace organizationID in
    if username = [] \<or> displayName = [] then Inl ''username and display name must not be empty''
    else if contains_any username [CHR ''#'', CHR 0x00, CHR '' '', CHR 0x09, CHR 0x0A]
    then Inl ''username contains an unsupported character''
    else bindE (validateBusinessMSPID mspID) (\<lambda>_.
    if \<not> validBusinessRole role then Inl (''unsupported business role '' @ role)
    else if role \<noteq> ''PROJECT_MEMBER''
    then Inl ''public business-user registration may only create PROJECT_MEMBER; privileged roles require administrator provisioning''
    else bindE (callerMSPID ctx) (\<lambda>callerMSP.
    if callerMSP \<noteq> mspID then Inl (''only '' @ mspID @ '' can register a user for '' @ mspID)
    else bindE (wrapE ''business organization: '' (ReadBusinessOrganization ctx organizationID)) (\<lambda>organization.
    if org_Status organization \<noteq> ''ACTIVE''
    then Inl (''business organization '' @ org_Name organization @ '' is not active'')
    else if org_MSPID organization \<noteq> mspID
    then Inl (''business organization '' @ org_Name organization @ '' belongs to ''
              @ org_MSPID organization @ '', not '' @ mspID)
    else bindE (BusinessUserExists ctx username) (\<lambda>exists.
    if exists then Inl (''business user '' @ username @ '' already exists'')
    else bindE (transactionTime ctx) (\<lambda>now.
    putJSON ctx (userKey username) (enc_BusinessUser (zero_BusinessUser\<lparr>usr_Username := username,
      usr_DisplayName := displayName, usr_MSPID := mspID, usr_OrganizationID := organizationID,
      usr_Role := role, usr_Status := ''ACTIVE'', usr_CreatedAt := now\<rparr>))))))))"

definition CreateBusinessOrganization ::
  "stub \<Rightarrow> string \<Rightarrow> string \<Rightarrow> string \<Rightarrow> string \<Rightarrow> string \<Rightarrow> string \<Rightarrow> wr list res" where
  "CreateBusinessOrganization ctx ident name organizationType parentID description creator =
    (let ident = TrimSpace ident; name = TrimSpace name;
         organizationType = ToUpper (TrimSpace organizationType); parentID = TrimSpace parentID;
         description = TrimSpace description; creator = TrimSpace creator in
    if ident = [] \<or> name = [] \<or> creator = []
    then Inl ''organization id, name and creator must not be empty''
    else if contains_any ident [CHR ''#'', CHR 0x00]
    then Inl ''organization id contains an unsupported character''
    else if \<not> validBusinessOrganizationType organizationType
    then Inl (''unsupported organization type '' @ organizationType)
    else bindE (callerMSPID ctx) (\<lambda>mspID.
    bindE (wrapE ''organization creator: '' (requireActiveBusinessUser ctx creator mspID [''ORG_ADMIN''])) (\<lambda>_.
    bindE (if organizationType = ''PROJECT_TEAM'' then
             (if parentID = [] then Inl ''a project team must select its parent primary organization''
              else bindE (wrapE ''parent organization: '' (ReadBusinessOrganization ctx parentID)) (\<lambda>parent.
                if org_Type parent \<noteq> ''PRIMARY''
                then Inl ''a project team must belong to a primary organization'' else Inr ()))
           else if parentID \<noteq> [] then Inl ''only a project team can have a parent organization''
           else Inr ()) (\<lambda>_.
    bindE (BusinessOrganizationExists ctx ident) (\<lambda>exists.
    if exists then Inl (''business organization '' @ ident @ '' already exists'')
    else bindE (transactionTime ctx) (\<lambda>now.
    putJSON ctx (organizationKey ident) (enc_BusinessOrganization (zero_BusinessOrganization\<lparr>
      org_ID := ident, org_Name := name, org_Type := organizationType, org_ParentID := parentID,
      org_Description := description, org_MSPID := mspID, org_Status := ''ACTIVE'',
      org_CreatedBy := creator, org_CreatedAt := now\<rparr>))))))))"

section \<open>Effects\<close>

text \<open>
  Registration succeeds only for an unused name, with the caller's own MSP and an active
  organization of that MSP, and it stores a \<open>PROJECT_MEMBER\<close> whatever was asked for.
\<close>

lemma RegisterBusinessUser_effect:
  assumes "RegisterBusinessUser ctx n d m r oid = Inr ws"
  shows "\<exists>now org.
    ws = [Put (userKey (TrimSpace n)) (Doc (enc_BusinessUser (zero_BusinessUser\<lparr>
      usr_Username := TrimSpace n, usr_DisplayName := TrimSpace d, usr_MSPID := TrimSpace m,
      usr_OrganizationID := TrimSpace oid, usr_Role := ''PROJECT_MEMBER'', usr_Status := ''ACTIVE'',
      usr_CreatedAt := now\<rparr>)))]
    \<and> get_kv (st_ledger ctx) (userKey (TrimSpace n)) = None
    \<and> st_mspid ctx = Inr (TrimSpace m) \<and> TrimSpace m \<in> {''Org1MSP'', ''Org2MSP''}
    \<and> TrimSpace n \<noteq> [] \<and> TrimSpace d \<noteq> [] \<and> CHR ''#'' \<notin> set (TrimSpace n)
    \<and> ReadBusinessOrganization ctx (TrimSpace oid) = Inr org \<and> org_Status org = ''ACTIVE''
    \<and> org_MSPID org = TrimSpace m"
proof -
  from assms have role: "ToUpper (TrimSpace r) = ''PROJECT_MEMBER''"
    by (auto simp: RegisterBusinessUser_def Let_def bindE_Inr split: if_splits)
  from assms show ?thesis
    unfolding RegisterBusinessUser_def Let_def role by (auto simp: res_inv)
qed

lemma CreateBusinessOrganization_effect:
  assumes "CreateBusinessOrganization ctx i n t p d c = Inr ws"
  shows "\<exists>now m.
    ws = [Put (organizationKey (TrimSpace i)) (Doc (enc_BusinessOrganization (zero_BusinessOrganization\<lparr>
      org_ID := TrimSpace i, org_Name := TrimSpace n, org_Type := ToUpper (TrimSpace t),
      org_ParentID := TrimSpace p, org_Description := TrimSpace d, org_MSPID := m,
      org_Status := ''ACTIVE'', org_CreatedBy := TrimSpace c, org_CreatedAt := now\<rparr>)))]
    \<and> get_kv (st_ledger ctx) (organizationKey (TrimSpace i)) = None
    \<and> st_mspid ctx = Inr m \<and> requireActiveBusinessUser ctx (TrimSpace c) m [''ORG_ADMIN''] = Inr ()
    \<and> TrimSpace i \<noteq> [] \<and> CHR ''#'' \<notin> set (TrimSpace i)
    \<and> validBusinessOrganizationType (ToUpper (TrimSpace t))
    \<and> (ToUpper (TrimSpace t) = ''PROJECT_TEAM'' \<longrightarrow>
        (\<exists>parent. ReadBusinessOrganization ctx (TrimSpace p) = Inr parent \<and> org_Type parent = ''PRIMARY''))
    \<and> (ToUpper (TrimSpace t) \<noteq> ''PROJECT_TEAM'' \<longrightarrow> TrimSpace p = [])"
  using assms unfolding CreateBusinessOrganization_def Let_def
  by (cases "ToUpper (TrimSpace t) = ''PROJECT_TEAM''") (auto simp: res_inv)

end
