(* ===== verification/Projects.thy ===== *)
theory Projects
  imports Access
begin

text \<open>
  The life of a project: \<open>CreateProject\<close>, \<open>UpdateProject\<close>, \<open>SubmitProject\<close>, \<open>ReviewProject\<close>,
  \<open>RequestProjectClosure\<close>, \<open>ReviewProjectClosure\<close>, \<open>FinalizeProjectSettlement\<close> and
  \<open>AddProjectMember\<close> of \<open>chaincode/invoice_contract.go\<close>. Each handler returns the writes of its
  transaction or the error text; the effect lemmas say under which conditions it succeeds and what
  it writes. The identifier is used as the code uses it: \<open>ReadProject\<close> trims it, the write after
  it does not.
\<close>

text \<open>The note \<open>FinalizeProjectSettlement\<close> records, in UTF-8.\<close>

definition note_finalize :: string where
  "note_finalize =
   [CHR 0xE5, CHR 0xAE, CHR 0x8C, CHR 0xE6, CHR 0x88, CHR 0x90, CHR 0xE8, CHR 0xB4,
   CHR 0xA2, CHR 0xE5, CHR 0x8A, CHR 0xA1, CHR 0xE7, CHR 0xBB, CHR 0x93, CHR 0xE7,
   CHR 0xAE, CHR 0x97, CHR 0xEF, CHR 0xBC, CHR 0x8C, CHR 0xE5, CHR 0x9B, CHR 0x9E,
   CHR 0xE6, CHR 0x94, CHR 0xB6, CHR 0xE5, CHR 0x89, CHR 0xA9, CHR 0xE4, CHR 0xBD,
   CHR 0x99, CHR 0xE9, CHR 0xA2, CHR 0x9D, CHR 0xE5, CHR 0xBA, CHR 0xA6]"

definition parseBudget :: "string \<Rightarrow> int64 res" where
  "parseBudget budgetCentsText =
    bindE (parseNonNegative budgetCentsText ''project budget'') (\<lambda>budgetCents.
    if budgetCents = 0 then Inl ''project budget must be greater than zero'' else Inr budgetCents)"

definition CreateProject ::
  "stub \<Rightarrow> string \<Rightarrow> string \<Rightarrow> string \<Rightarrow> string \<Rightarrow> string \<Rightarrow> string \<Rightarrow> string \<Rightarrow> wr list res" where
  "CreateProject ctx ident name content budgetCentsText expectedEndDate applicant organizationID =
    (let ident = TrimSpace ident; name = TrimSpace name; content = TrimSpace content;
         expectedEndDate = TrimSpace expectedEndDate; applicant = TrimSpace applicant;
         organizationID = TrimSpace organizationID in
    if ident = [] \<or> name = [] \<or> content = [] \<or> expectedEndDate = [] \<or> applicant = [] \<or> organizationID = []
    then Inl ''project fields must not be empty''
    else if \<not> validISODate expectedEndDate
    then Inl ''expected end date must be a valid YYYY-MM-DD date''
    else if contains_any ident [CHR ''#'', CHR 0x00]
    then Inl ''project id contains an unsupported character''
    else bindE (parseBudget budgetCentsText) (\<lambda>budgetCents.
    bindE (ProjectExists ctx ident) (\<lambda>exists.
    if exists then Inl (''project '' @ ident @ '' already exists'')
    else bindE (callerMSPID ctx) (\<lambda>mspID.
    bindE (wrapE ''project applicant: ''
      (requireActiveBusinessUser ctx applicant mspID [''PROJECT_MEMBER'', ''ISSUER''])) (\<lambda>_.
    bindE (ReadBusinessUser ctx applicant) (\<lambda>applicantUser.
    if usr_OrganizationID applicantUser \<noteq> organizationID
    then Inl (''project applicant does not belong to organization '' @ organizationID)
    else bindE (transactionTime ctx) (\<lambda>now.
    let project = zero_Project\<lparr>prj_ID := ident, prj_Name := name, prj_Content := content,
          prj_BudgetCents := budgetCents, prj_ExpectedEndDate := expectedEndDate,
          prj_Applicant := applicant, prj_ApplicantMSPID := mspID,
          prj_OrganizationID := organizationID, prj_Status := ''DRAFT'', prj_CreatedAt := now,
          prj_UpdatedAt := now\<rparr>
    in thenW (putJSON ctx (projectKey ident) (enc_Project project))
      (thenW (putJSON ctx (projectMemberKey ident applicant)
          (enc_ProjectMember (zero_ProjectMember\<lparr>mem_ProjectID := ident, mem_Username := applicant,
             mem_Role := ''LEADER'', mem_AddedAt := now, mem_AddedBy := applicant\<rparr>)))
        (createProjectEvent ctx ident ''CREATE_DRAFT'' applicant [])))))))))"

definition UpdateProject ::
  "stub \<Rightarrow> string \<Rightarrow> string \<Rightarrow> string \<Rightarrow> string \<Rightarrow> string \<Rightarrow> string \<Rightarrow> wr list res" where
  "UpdateProject ctx ident name content budgetCentsText expectedEndDate applicant =
    bindE (ReadProject ctx ident) (\<lambda>project.
    if prj_Status project \<noteq> ''DRAFT'' \<and> prj_Status project \<noteq> ''REVISION_REQUIRED''
    then Inl (''project '' @ ident @ '' cannot be edited in status '' @ prj_Status project)
    else bindE (requireProjectApplicant ctx project applicant) (\<lambda>_.
    let name = TrimSpace name; content = TrimSpace content; expectedEndDate = TrimSpace expectedEndDate in
    if name = [] \<or> content = [] \<or> expectedEndDate = [] then Inl ''project fields must not be empty''
    else if \<not> validISODate expectedEndDate
    then Inl ''expected end date must be a valid YYYY-MM-DD date''
    else bindE (parseBudget budgetCentsText) (\<lambda>budgetCents.
    bindE (transactionTime ctx) (\<lambda>now.
    let project = project\<lparr>prj_Name := name, prj_Content := content, prj_BudgetCents := budgetCents,
          prj_ExpectedEndDate := expectedEndDate, prj_Status := ''DRAFT'', prj_UpdatedAt := now,
          prj_ReviewOpinion := [], prj_Reviewer := []\<rparr>
    in thenW (putJSON ctx (projectKey ident) (enc_Project project))
        (createProjectEvent ctx ident ''UPDATE_DRAFT'' applicant [])))))"

definition SubmitProject :: "stub \<Rightarrow> string \<Rightarrow> string \<Rightarrow> wr list res" where
  "SubmitProject ctx ident applicant =
    bindE (ReadProject ctx ident) (\<lambda>project.
    if prj_Status project \<noteq> ''DRAFT'' \<and> prj_Status project \<noteq> ''REVISION_REQUIRED''
    then Inl (''project '' @ ident @ '' cannot be submitted in status '' @ prj_Status project)
    else bindE (requireProjectApplicant ctx project applicant) (\<lambda>_.
    bindE (transactionTime ctx) (\<lambda>now.
    let project = project\<lparr>prj_Status := ''PENDING_REVIEW'', prj_UpdatedAt := now\<rparr>
    in thenW (putJSON ctx (projectKey ident) (enc_Project project))
        (createProjectEvent ctx ident ''SUBMIT_APPLICATION'' applicant []))))"

definition ReviewProject ::
  "stub \<Rightarrow> string \<Rightarrow> string \<Rightarrow> string \<Rightarrow> string \<Rightarrow> wr list res" where
  "ReviewProject ctx ident decision opinion reviewer =
    bindE (ReadProject ctx ident) (\<lambda>project.
    if prj_Status project \<noteq> ''PENDING_REVIEW'' then Inl (''project '' @ ident @ '' is not pending review'')
    else let decision = ToUpper (TrimSpace decision); opinion = TrimSpace opinion; reviewer = TrimSpace reviewer in
    if reviewer = [] \<or> opinion = [] then Inl ''reviewer and review opinion must not be empty''
    else if decision \<noteq> ''APPROVE'' \<and> decision \<noteq> ''REVISION''
    then Inl ''review decision must be APPROVE or REVISION''
    else bindE (requireProjectManager ctx project reviewer ''PROJECT_REVIEWER'') (\<lambda>_.
    bindE (transactionTime ctx) (\<lambda>now.
    let project = project\<lparr>prj_Reviewer := reviewer, prj_ReviewOpinion := opinion, prj_UpdatedAt := now\<rparr>;
        project = (if decision = ''APPROVE'' then project\<lparr>prj_Status := ''EXECUTING''\<rparr>
                   else project\<lparr>prj_Status := ''REVISION_REQUIRED''\<rparr>)
    in thenW (putJSON ctx (projectKey ident) (enc_Project project))
        (createProjectEvent ctx ident (''PROJECT_'' @ decision) reviewer opinion))))"

definition RequestProjectClosure ::
  "stub \<Rightarrow> string \<Rightarrow> string \<Rightarrow> string \<Rightarrow> string \<Rightarrow> wr list res" where
  "RequestProjectClosure ctx ident materials materialsHash applicant =
    bindE (ReadProject ctx ident) (\<lambda>project.
    if prj_Status project \<noteq> ''EXECUTING''
    then Inl (''project '' @ ident @ '' cannot request closure in status '' @ prj_Status project)
    else bindE (requireProjectApplicant ctx project applicant) (\<lambda>_.
    let materials = TrimSpace materials; materialsHash = ToLower (TrimSpace materialsHash) in
    if materials = [] \<or> length materials > 4000
    then Inl ''closure materials must be 1-4000 characters''
    else if length materialsHash \<noteq> 64
    then Inl ''closure materials hash must be a 64-character SHA-256 hex string''
    else bindE (transactionTime ctx) (\<lambda>now.
    let project = project\<lparr>prj_Status := ''CLOSURE_REVIEW'', prj_ClosureMaterials := materials,
          prj_ClosureMaterialsHash := materialsHash, prj_UpdatedAt := now\<rparr>
    in thenW (putJSON ctx (projectKey ident) (enc_Project project))
        (createProjectEvent ctx ident ''REQUEST_CLOSURE'' applicant materialsHash))))"

definition ReviewProjectClosure ::
  "stub \<Rightarrow> string \<Rightarrow> string \<Rightarrow> string \<Rightarrow> string \<Rightarrow> wr list res" where
  "ReviewProjectClosure ctx ident decision opinion reviewer =
    bindE (ReadProject ctx ident) (\<lambda>project.
    if prj_Status project \<noteq> ''CLOSURE_REVIEW''
    then Inl (''project '' @ ident @ '' is not pending closure review'')
    else let decision = ToUpper (TrimSpace decision); opinion = TrimSpace opinion; reviewer = TrimSpace reviewer in
    if reviewer = [] \<or> opinion = [] then Inl ''reviewer and review opinion must not be empty''
    else if decision \<noteq> ''APPROVE'' \<and> decision \<noteq> ''REVISION''
    then Inl ''review decision must be APPROVE or REVISION''
    else bindE (requireProjectManager ctx project reviewer ''PROJECT_REVIEWER'') (\<lambda>_.
    bindE (transactionTime ctx) (\<lambda>now.
    let project = project\<lparr>prj_Reviewer := reviewer, prj_ReviewOpinion := opinion, prj_UpdatedAt := now\<rparr>;
        project = (if decision = ''APPROVE''
                   then project\<lparr>prj_Status := ''FINANCIAL_SETTLEMENT'', prj_AvailableCents := prj_BudgetCents project\<rparr>
                   else project\<lparr>prj_Status := ''EXECUTING''\<rparr>)
    in thenW (putJSON ctx (projectKey ident) (enc_Project project))
        (if decision = ''APPROVE''
         then createProjectEvent ctx ident ''CLOSURE_APPROVE_AND_RELEASE_FUND'' reviewer opinion
         else createProjectEvent ctx ident ''CLOSURE_REVISION'' reviewer opinion))))"

text \<open>The loop of \<open>FinalizeProjectSettlement\<close> over all reimbursements.\<close>

fun awaiting_reimbursement :: "string \<Rightarrow> Reimbursement list \<Rightarrow> unit res" where
  "awaiting_reimbursement projectID [] = Inr ()"
| "awaiting_reimbursement projectID (reimbursement # rest) =
     (if rmb_ProjectID reimbursement = projectID \<and>
         (rmb_Status reimbursement = ''PENDING_REVIEW'' \<or> rmb_Status reimbursement = ''REVISION_REQUIRED'')
      then Inl (''project still has reimbursement '' @ rmb_ID reimbursement @ '' awaiting action'')
      else awaiting_reimbursement projectID rest)"

definition FinalizeProjectSettlement :: "stub \<Rightarrow> string \<Rightarrow> string \<Rightarrow> wr list res" where
  "FinalizeProjectSettlement ctx ident financeOperator =
    bindE (ReadProject ctx ident) (\<lambda>project.
    if prj_Status project \<noteq> ''FINANCIAL_SETTLEMENT'' \<and> prj_Status project \<noteq> ''CLOSURE_APPROVED''
    then Inl (''project '' @ ident @ '' is not in financial settlement'')
    else bindE (requireProjectManager ctx project (TrimSpace financeOperator) ''FINANCE_ADMIN'') (\<lambda>_.
    if prj_ReservedCents project \<noteq> 0
    then Inl (''project still has '' @ FormatInt (prj_ReservedCents project)
              @ '' cents frozen; complete payment or withdraw the reimbursement first'')
    else bindE (GetAllReimbursements ctx) (\<lambda>reimbursements.
    bindE (awaiting_reimbursement (prj_ID project) reimbursements) (\<lambda>_.
    bindE (transactionTime ctx) (\<lambda>now.
    let project = project\<lparr>prj_RecoveredCents := prj_RecoveredCents project + prj_AvailableCents project\<rparr>;
        project = project\<lparr>prj_AvailableCents := 0, prj_Status := ''ARCHIVED'', prj_UpdatedAt := now\<rparr>
    in thenW (putJSON ctx (projectKey (prj_ID project)) (enc_Project project))
        (createProjectEvent ctx (prj_ID project) ''FINALIZE_SETTLEMENT'' financeOperator note_finalize))))))"

definition AddProjectMember :: "stub \<Rightarrow> string \<Rightarrow> string \<Rightarrow> string \<Rightarrow> wr list res" where
  "AddProjectMember ctx projectID username leader =
    bindE (ReadProject ctx projectID) (\<lambda>project.
    if prj_Status project = ''ARCHIVED'' then Inl ''archived project cannot add members''
    else bindE (requireProjectApplicant ctx project leader) (\<lambda>_.
    let username = TrimSpace username in
    bindE (ReadBusinessUser ctx username) (\<lambda>member.
    if usr_Status member \<noteq> ''ACTIVE'' \<or> usr_Role member \<noteq> ''PROJECT_MEMBER'' \<and> usr_Role member \<noteq> ''ISSUER''
    then Inl (''user '' @ username @ '' cannot be a project member'')
    else if usr_MSPID member \<noteq> prj_ApplicantMSPID project
      \<or> prj_OrganizationID project \<noteq> [] \<and> usr_OrganizationID member \<noteq> prj_OrganizationID project
    then Inl ''project member must belong to the same project organization''
    else bindE (GetState ctx (projectMemberKey projectID username)) (\<lambda>existing.
    if existing \<noteq> None then Inl (''user '' @ username @ '' is already a project member'')
    else bindE (transactionTime ctx) (\<lambda>now.
    thenW (putJSON ctx (projectMemberKey projectID username)
        (enc_ProjectMember (zero_ProjectMember\<lparr>mem_ProjectID := projectID, mem_Username := username,
           mem_Role := ''MEMBER'', mem_AddedAt := now, mem_AddedBy := leader\<rparr>)))
      (createProjectEvent ctx projectID ''ADD_MEMBER'' leader username))))))"

section \<open>Effects\<close>

lemma parseBudget_Inr:
  "parseBudget t = Inr b \<Longrightarrow> 0 < sint b \<and> sint b \<le> 10000000000"
  using parseNonNegative_bounds [of t "''project budget''" b]
  by (auto simp: parseBudget_def res_inv sint64_eq_iff order_less_le)

text \<open>The two writes of a handler that updates a project and records an event.\<close>

definition project_writes :: "stub \<Rightarrow> string \<Rightarrow> Project \<Rightarrow> ProjectEvent \<Rightarrow> wr list" where
  "project_writes ctx ident p e =
    [Put (projectKey ident) (Doc (enc_Project p)),
     Put (projectEventKey ident (st_txid ctx)) (Doc (enc_ProjectEvent e))]"

lemma CreateProject_effect:
  assumes "CreateProject ctx i n c b d a oid = Inr ws"
  shows "\<exists>budget now m usr.
    parseBudget b = Inr budget \<and> transactionTime ctx = Inr now \<and> st_mspid ctx = Inr m
    \<and> TrimSpace i \<noteq> [] \<and> CHR ''#'' \<notin> set (TrimSpace i) \<and> TrimSpace oid \<noteq> []
    \<and> get_kv (st_ledger ctx) (projectKey (TrimSpace i)) = None
    \<and> ReadBusinessUser ctx (TrimSpace a) = Inr usr \<and> usr_OrganizationID usr = TrimSpace oid
    \<and> requireActiveBusinessUser ctx (TrimSpace a) m [''PROJECT_MEMBER'', ''ISSUER''] = Inr ()
    \<and> validISODate (TrimSpace d)
    \<and> ws = [Put (projectKey (TrimSpace i)) (Doc (enc_Project (zero_Project\<lparr>prj_ID := TrimSpace i,
          prj_Name := TrimSpace n, prj_Content := TrimSpace c, prj_BudgetCents := budget,
          prj_ExpectedEndDate := TrimSpace d, prj_Applicant := TrimSpace a, prj_ApplicantMSPID := m,
          prj_OrganizationID := TrimSpace oid, prj_Status := ''DRAFT'', prj_CreatedAt := now,
          prj_UpdatedAt := now\<rparr>))),
        Put (projectMemberKey (TrimSpace i) (TrimSpace a)) (Doc (enc_ProjectMember (zero_ProjectMember\<lparr>
          mem_ProjectID := TrimSpace i, mem_Username := TrimSpace a, mem_Role := ''LEADER'',
          mem_AddedAt := now, mem_AddedBy := TrimSpace a\<rparr>))),
        Put (projectEventKey (TrimSpace i) (st_txid ctx)) (Doc (enc_ProjectEvent
          (the_event ctx (TrimSpace i) ''CREATE_DRAFT'' (TrimSpace a) [] [] now)))]"
  using assms unfolding CreateProject_def Let_def by (auto simp: res_inv)

lemma UpdateProject_effect:
  assumes "UpdateProject ctx i n c b d a = Inr ws"
  shows "\<exists>p budget now. ReadProject ctx i = Inr p \<and> prj_Status p \<in> {''DRAFT'', ''REVISION_REQUIRED''}
    \<and> requireProjectApplicant ctx p a = Inr () \<and> parseBudget b = Inr budget \<and> transactionTime ctx = Inr now
    \<and> ws = project_writes ctx i (p\<lparr>prj_Name := TrimSpace n, prj_Content := TrimSpace c,
          prj_BudgetCents := budget, prj_ExpectedEndDate := TrimSpace d, prj_Status := ''DRAFT'',
          prj_UpdatedAt := now, prj_ReviewOpinion := [], prj_Reviewer := []\<rparr>)
        (the_event ctx i ''UPDATE_DRAFT'' a [] [] now)"
  using assms unfolding UpdateProject_def Let_def project_writes_def by (auto simp: res_inv)

lemma SubmitProject_effect:
  assumes "SubmitProject ctx i a = Inr ws"
  shows "\<exists>p now. ReadProject ctx i = Inr p \<and> prj_Status p \<in> {''DRAFT'', ''REVISION_REQUIRED''}
    \<and> requireProjectApplicant ctx p a = Inr () \<and> transactionTime ctx = Inr now
    \<and> ws = project_writes ctx i (p\<lparr>prj_Status := ''PENDING_REVIEW'', prj_UpdatedAt := now\<rparr>)
        (the_event ctx i ''SUBMIT_APPLICATION'' a [] [] now)"
  using assms unfolding SubmitProject_def Let_def project_writes_def by (auto simp: res_inv)

lemma ReviewProject_effect:
  assumes "ReviewProject ctx i dec opn r = Inr ws"
  shows "\<exists>p now d. ReadProject ctx i = Inr p \<and> prj_Status p = ''PENDING_REVIEW''
    \<and> requireProjectManager ctx p (TrimSpace r) ''PROJECT_REVIEWER'' = Inr () \<and> transactionTime ctx = Inr now
    \<and> d = ToUpper (TrimSpace dec) \<and> d \<in> {''APPROVE'', ''REVISION''} \<and> TrimSpace r \<noteq> [] \<and> TrimSpace opn \<noteq> []
    \<and> ws = project_writes ctx i (p\<lparr>prj_Reviewer := TrimSpace r, prj_ReviewOpinion := TrimSpace opn,
          prj_UpdatedAt := now,
          prj_Status := (if d = ''APPROVE'' then ''EXECUTING'' else ''REVISION_REQUIRED'')\<rparr>)
        (the_event ctx i (''PROJECT_'' @ d) (TrimSpace r) (TrimSpace opn) [] now)"
  using assms unfolding ReviewProject_def Let_def project_writes_def
  by (cases "ToUpper (TrimSpace dec) = ''APPROVE''") (auto simp: res_inv)

lemma RequestProjectClosure_effect:
  assumes "RequestProjectClosure ctx i m h a = Inr ws"
  shows "\<exists>p now. ReadProject ctx i = Inr p \<and> prj_Status p = ''EXECUTING''
    \<and> requireProjectApplicant ctx p a = Inr () \<and> transactionTime ctx = Inr now
    \<and> TrimSpace m \<noteq> [] \<and> length (TrimSpace m) \<le> 4000 \<and> length (ToLower (TrimSpace h)) = 64
    \<and> ws = project_writes ctx i (p\<lparr>prj_Status := ''CLOSURE_REVIEW'', prj_ClosureMaterials := TrimSpace m,
          prj_ClosureMaterialsHash := ToLower (TrimSpace h), prj_UpdatedAt := now\<rparr>)
        (the_event ctx i ''REQUEST_CLOSURE'' a (ToLower (TrimSpace h)) [] now)"
  using assms unfolding RequestProjectClosure_def Let_def project_writes_def by (auto simp: res_inv)

lemma ReviewProjectClosure_effect:
  assumes "ReviewProjectClosure ctx i dec opn r = Inr ws"
  shows "\<exists>p now d. ReadProject ctx i = Inr p \<and> prj_Status p = ''CLOSURE_REVIEW''
    \<and> requireProjectManager ctx p (TrimSpace r) ''PROJECT_REVIEWER'' = Inr () \<and> transactionTime ctx = Inr now
    \<and> d = ToUpper (TrimSpace dec) \<and> d \<in> {''APPROVE'', ''REVISION''}
    \<and> ws = project_writes ctx i
        (if d = ''APPROVE''
         then p\<lparr>prj_Reviewer := TrimSpace r, prj_ReviewOpinion := TrimSpace opn, prj_UpdatedAt := now,
           prj_Status := ''FINANCIAL_SETTLEMENT'', prj_AvailableCents := prj_BudgetCents p\<rparr>
         else p\<lparr>prj_Reviewer := TrimSpace r, prj_ReviewOpinion := TrimSpace opn, prj_UpdatedAt := now,
           prj_Status := ''EXECUTING''\<rparr>)
        (the_event ctx i (if d = ''APPROVE'' then ''CLOSURE_APPROVE_AND_RELEASE_FUND'' else ''CLOSURE_REVISION'')
          (TrimSpace r) (TrimSpace opn) [] now)"
  using assms unfolding ReviewProjectClosure_def Let_def project_writes_def
  by (cases "ToUpper (TrimSpace dec) = ''APPROVE''") (auto simp: res_inv)

lemma awaiting_reimbursement_Inr:
  "awaiting_reimbursement pid rs = Inr u \<longleftrightarrow>
    (\<forall>r \<in> set rs. rmb_ProjectID r = pid \<longrightarrow> rmb_Status r \<noteq> ''PENDING_REVIEW'' \<and> rmb_Status r \<noteq> ''REVISION_REQUIRED'')"
  by (induction rs) auto

lemma FinalizeProjectSettlement_effect:
  assumes "FinalizeProjectSettlement ctx i f = Inr ws"
  shows "\<exists>p now rs. ReadProject ctx i = Inr p \<and> prj_Status p \<in> {''FINANCIAL_SETTLEMENT'', ''CLOSURE_APPROVED''}
    \<and> requireProjectManager ctx p (TrimSpace f) ''FINANCE_ADMIN'' = Inr () \<and> transactionTime ctx = Inr now
    \<and> prj_ReservedCents p = 0 \<and> GetAllReimbursements ctx = Inr rs
    \<and> (\<forall>r \<in> set rs. rmb_ProjectID r = prj_ID p \<longrightarrow>
          rmb_Status r \<noteq> ''PENDING_REVIEW'' \<and> rmb_Status r \<noteq> ''REVISION_REQUIRED'')
    \<and> ws = project_writes ctx (prj_ID p)
        (p\<lparr>prj_RecoveredCents := prj_RecoveredCents p + prj_AvailableCents p, prj_AvailableCents := 0,
           prj_Status := ''ARCHIVED'', prj_UpdatedAt := now\<rparr>)
        (the_event ctx (prj_ID p) ''FINALIZE_SETTLEMENT'' f note_finalize [] now)"
  using assms unfolding FinalizeProjectSettlement_def Let_def project_writes_def
  by (auto simp: res_inv awaiting_reimbursement_Inr)

lemma AddProjectMember_effect:
  assumes "AddProjectMember ctx pid n l = Inr ws"
  shows "\<exists>p now usr. ReadProject ctx pid = Inr p \<and> prj_Status p \<noteq> ''ARCHIVED''
    \<and> requireProjectApplicant ctx p l = Inr () \<and> transactionTime ctx = Inr now
    \<and> ReadBusinessUser ctx (TrimSpace n) = Inr usr \<and> usr_Status usr = ''ACTIVE''
    \<and> usr_Role usr \<in> {''PROJECT_MEMBER'', ''ISSUER''} \<and> usr_MSPID usr = prj_ApplicantMSPID p
    \<and> (prj_OrganizationID p \<noteq> [] \<longrightarrow> usr_OrganizationID usr = prj_OrganizationID p)
    \<and> get_kv (st_ledger ctx) (projectMemberKey pid (TrimSpace n)) = None
    \<and> ws = [Put (projectMemberKey pid (TrimSpace n)) (Doc (enc_ProjectMember (zero_ProjectMember\<lparr>
          mem_ProjectID := pid, mem_Username := TrimSpace n, mem_Role := ''MEMBER'', mem_AddedAt := now,
          mem_AddedBy := l\<rparr>))),
        Put (projectEventKey pid (st_txid ctx)) (Doc (enc_ProjectEvent
          (the_event ctx pid ''ADD_MEMBER'' l (TrimSpace n) [] now)))]"
  using assms unfolding AddProjectMember_def Let_def by (auto simp: res_inv)

end
