(* ===== verification/Reimbursements.thy ===== *)
theory Reimbursements
  imports Projects
begin

text \<open>
  The life of a reimbursement and of the budget it is paid from: \<open>CreateReimbursement\<close>,
  \<open>ReviewReimbursement\<close>, \<open>ResubmitReimbursement\<close>, \<open>WithdrawReimbursement\<close> and
  \<open>PayReimbursement\<close> of \<open>chaincode/invoice_contract.go\<close>. Approval moves the amount from the
  project's available to its reserved balance, payment from reserved to paid, withdrawal back.
\<close>

text \<open>The notes of the events, in UTF-8.\<close>

definition note_submit :: string where
  "note_submit =
   [CHR 0xE6, CHR 0x8F, CHR 0x90, CHR 0xE4, CHR 0xBA, CHR 0xA4, CHR 0xE6, CHR 0x8A,
   CHR 0xA5, CHR 0xE9, CHR 0x94, CHR 0x80, CHR 0xE7, CHR 0x94, CHR 0xB3, CHR 0xE8,
   CHR 0xAF, CHR 0xB7]"

definition note_resubmit :: string where
  "note_resubmit =
   [CHR 0xE9, CHR 0x87, CHR 0x8D, CHR 0xE6, CHR 0x96, CHR 0xB0, CHR 0xE6, CHR 0x8F,
   CHR 0x90, CHR 0xE4, CHR 0xBA, CHR 0xA4, CHR 0xE6, CHR 0x8A, CHR 0xA5, CHR 0xE9,
   CHR 0x94, CHR 0x80, CHR 0xE7, CHR 0x94, CHR 0xB3, CHR 0xE8, CHR 0xAF, CHR 0xB7]"

definition note_withdraw :: string where
  "note_withdraw =
   [CHR 0xE6, CHR 0x92, CHR 0xA4, CHR 0xE5, CHR 0x9B, CHR 0x9E, CHR 0xE6, CHR 0x8A,
   CHR 0xA5, CHR 0xE9, CHR 0x94, CHR 0x80, CHR 0xE7, CHR 0x94, CHR 0xB3, CHR 0xE8,
   CHR 0xAF, CHR 0xB7]"

definition note_pay :: string where
  "note_pay =
   [CHR 0xE7, CHR 0xA1, CHR 0xAE, CHR 0xE8, CHR 0xAE, CHR 0xA4, CHR 0xE6, CHR 0x8A,
   CHR 0xA5, CHR 0xE9, CHR 0x94, CHR 0x80, CHR 0xE6, CHR 0x94, CHR 0xAF, CHR 0xE4,
   CHR 0xBB, CHR 0x98]"

definition CreateReimbursement ::
  "stub \<Rightarrow> string \<Rightarrow> string \<Rightarrow> string \<Rightarrow> string \<Rightarrow> string \<Rightarrow> string \<Rightarrow> wr list res" where
  "CreateReimbursement ctx ident projectID invoiceID applicant evidence evidenceHash =
    (let ident = TrimSpace ident; projectID = TrimSpace projectID; invoiceID = TrimSpace invoiceID;
         applicant = TrimSpace applicant in
    if ident = [] \<or> projectID = [] \<or> invoiceID = [] \<or> applicant = []
    then Inl ''reimbursement fields must not be empty''
    else if contains_any ident [CHR ''#'', CHR 0x00]
    then Inl ''reimbursement id contains an unsupported character''
    else bindE (ReimbursementExists ctx ident) (\<lambda>exists.
    if exists then Inl (''reimbursement '' @ ident @ '' already exists'')
    else bindE (ReadProject ctx projectID) (\<lambda>project.
    if prj_Status project \<noteq> ''FINANCIAL_SETTLEMENT'' \<and> prj_Status project \<noteq> ''CLOSURE_APPROVED''
    then Inl (''project '' @ projectID @ '' is not open for reimbursement'')
    else bindE (requireProjectMember ctx project applicant) (\<lambda>_.
    bindE (ReadInvoice ctx invoiceID) (\<lambda>invoice.
    if inv_Status invoice = ''VOIDED''
    then Inl (''voided invoice '' @ invoiceID @ '' cannot be reimbursed'')
    else if inv_Currency invoice \<noteq> [] \<and> inv_Currency invoice \<noteq> ''CNY''
    then Inl ''only CNY invoices can be reimbursed''
    else if inv_ProjectID invoice \<noteq> projectID
    then Inl (''invoice '' @ invoiceID @ '' is not linked to project '' @ projectID)
    else bindE (GetState ctx (reimbursementInvoiceKey invoiceID)) (\<lambda>linked.
    if linked \<noteq> None
    then Inl (''invoice '' @ invoiceID @ '' is already linked to reimbursement '' @ blob_string (the linked))
    else let evidence = TrimSpace evidence; evidenceHash = ToLower (TrimSpace evidenceHash) in
    if evidence = [] \<or> length evidence > 4000
    then Inl ''reimbursement evidence must be 1-4000 characters''
    else if length evidenceHash \<noteq> 64
    then Inl ''reimbursement evidence hash must be a 64-character SHA-256 hex string''
    else bindE (transactionTime ctx) (\<lambda>now.
    if sint (inv_TotalCents invoice) \<le> 0 \<or> sint (inv_TotalCents invoice) > sint maxMoneyCents
    then Inl ''invoice amount is invalid for reimbursement''
    else let reimbursement = zero_Reimbursement\<lparr>rmb_ID := ident, rmb_ProjectID := projectID,
           rmb_InvoiceID := invoiceID, rmb_Applicant := applicant,
           rmb_AmountCents := inv_TotalCents invoice, rmb_Evidence := evidence,
           rmb_EvidenceHash := evidenceHash, rmb_Status := ''PENDING_REVIEW'', rmb_CreatedAt := now,
           rmb_UpdatedAt := now\<rparr>
    in thenW (putJSON ctx (reimbursementKey ident) (enc_Reimbursement reimbursement))
      (thenW (PutState ctx (reimbursementInvoiceKey invoiceID) (Raw ident))
        (createProjectEventWithReference ctx projectID ''SUBMIT_REIMBURSEMENT'' applicant note_submit ident)))))))))"

definition ReviewReimbursement ::
  "stub \<Rightarrow> string \<Rightarrow> string \<Rightarrow> string \<Rightarrow> string \<Rightarrow> wr list res" where
  "ReviewReimbursement ctx ident decision opinion reviewer =
    bindE (ReadReimbursement ctx ident) (\<lambda>reimbursement.
    if rmb_Status reimbursement \<noteq> ''PENDING_REVIEW''
    then Inl (''reimbursement '' @ ident @ '' is not pending review'')
    else let decision = ToUpper (TrimSpace decision); opinion = TrimSpace opinion; reviewer = TrimSpace reviewer in
    if reviewer = [] \<or> opinion = [] then Inl ''reviewer and review opinion must not be empty''
    else if decision \<noteq> ''APPROVE'' \<and> decision \<noteq> ''REVISION''
    then Inl ''review decision must be APPROVE or REVISION''
    else bindE (ReadProject ctx (rmb_ProjectID reimbursement)) (\<lambda>project.
    bindE (requireProjectManager ctx project reviewer ''PROJECT_REVIEWER'') (\<lambda>_.
    bindE (ReadInvoice ctx (rmb_InvoiceID reimbursement)) (\<lambda>invoice.
    if inv_Status invoice = ''VOIDED''
    then Inl (''voided invoice '' @ inv_ID invoice @ '' cannot be approved for reimbursement'')
    else if sint (rmb_AmountCents reimbursement) \<le> 0
      \<or> sint (rmb_AmountCents reimbursement) > sint maxMoneyCents
    then Inl ''reimbursement amount is invalid''
    else bindE (transactionTime ctx) (\<lambda>now.
    let reimbursement = reimbursement\<lparr>rmb_Reviewer := reviewer, rmb_ReviewOpinion := opinion,
          rmb_UpdatedAt := now\<rparr> in
    thenW
      (if decision = ''APPROVE'' then
        (if sint (prj_AvailableCents project) < sint (rmb_AmountCents reimbursement)
         then Inl (''project available balance is insufficient: available ''
           @ FormatInt (prj_AvailableCents project) @ '' cents, requested ''
           @ FormatInt (rmb_AmountCents reimbursement) @ '' cents'')
         else let project = project\<lparr>
                prj_AvailableCents := prj_AvailableCents project - rmb_AmountCents reimbursement,
                prj_ReservedCents := prj_ReservedCents project + rmb_AmountCents reimbursement,
                prj_UpdatedAt := now\<rparr>;
              reimbursement = reimbursement\<lparr>rmb_Status := ''APPROVED_RESERVED''\<rparr>
           in thenW (putJSON ctx (projectKey (prj_ID project)) (enc_Project project))
               (putJSON ctx (reimbursementKey ident) (enc_Reimbursement reimbursement)))
       else
         let reimbursement = reimbursement\<lparr>rmb_Status := ''REVISION_REQUIRED''\<rparr>
         in putJSON ctx (reimbursementKey ident) (enc_Reimbursement reimbursement))
      (createProjectEventWithReference ctx (rmb_ProjectID reimbursement)
        (''REIMBURSEMENT_'' @ decision) reviewer opinion (rmb_ID reimbursement)))))))"

definition ResubmitReimbursement ::
  "stub \<Rightarrow> string \<Rightarrow> string \<Rightarrow> string \<Rightarrow> string \<Rightarrow> wr list res" where
  "ResubmitReimbursement ctx ident evidence evidenceHash applicant =
    bindE (ReadReimbursement ctx ident) (\<lambda>reimbursement.
    if rmb_Status reimbursement \<noteq> ''REVISION_REQUIRED''
    then Inl (''reimbursement '' @ ident @ '' cannot be resubmitted in status '' @ rmb_Status reimbursement)
    else bindE (ReadProject ctx (rmb_ProjectID reimbursement)) (\<lambda>project.
    bindE (requireProjectMember ctx project applicant) (\<lambda>_.
    let evidence = TrimSpace evidence; evidenceHash = ToLower (TrimSpace evidenceHash) in
    if evidence = [] \<or> length evidence > 4000
    then Inl ''reimbursement evidence must be 1-4000 characters''
    else if length evidenceHash \<noteq> 64
    then Inl ''reimbursement evidence hash must be a 64-character SHA-256 hex string''
    else bindE (transactionTime ctx) (\<lambda>now.
    let reimbursement = reimbursement\<lparr>rmb_Evidence := evidence, rmb_EvidenceHash := evidenceHash,
          rmb_Status := ''PENDING_REVIEW'', rmb_UpdatedAt := now, rmb_Reviewer := [],
          rmb_ReviewOpinion := []\<rparr>
    in thenW (putJSON ctx (reimbursementKey ident) (enc_Reimbursement reimbursement))
        (createProjectEventWithReference ctx (rmb_ProjectID reimbursement) ''RESUBMIT_REIMBURSEMENT''
          applicant note_resubmit ident)))))"

definition WithdrawReimbursement :: "stub \<Rightarrow> string \<Rightarrow> string \<Rightarrow> wr list res" where
  "WithdrawReimbursement ctx ident applicant =
    bindE (ReadReimbursement ctx ident) (\<lambda>reimbursement.
    if rmb_Status reimbursement \<noteq> ''PENDING_REVIEW'' \<and> rmb_Status reimbursement \<noteq> ''REVISION_REQUIRED''
      \<and> rmb_Status reimbursement \<noteq> ''APPROVED_RESERVED''
    then Inl (''reimbursement '' @ ident @ '' cannot be withdrawn in status '' @ rmb_Status reimbursement)
    else bindE (ReadProject ctx (rmb_ProjectID reimbursement)) (\<lambda>project.
    bindE (requireProjectMember ctx project applicant) (\<lambda>_.
    bindE (transactionTime ctx) (\<lambda>now.
    thenW
      (if rmb_Status reimbursement = ''APPROVED_RESERVED'' then
        (if sint (prj_ReservedCents project) < sint (rmb_AmountCents reimbursement)
         then Inl ''project reserved balance is inconsistent''
         else (case checkedAddMoney (prj_AvailableCents project) (rmb_AmountCents reimbursement) of
           Inl _ \<Rightarrow> Inl ''project balance is inconsistent and cannot release this reimbursement''
         | Inr available \<Rightarrow>
             if sint available > sint (prj_BudgetCents project - prj_PaidCents project)
             then Inl ''project balance is inconsistent and cannot release this reimbursement''
             else let project = project\<lparr>prj_AvailableCents := available,
                    prj_ReservedCents := prj_ReservedCents project - rmb_AmountCents reimbursement,
                    prj_UpdatedAt := now\<rparr>
                  in putJSON ctx (projectKey (prj_ID project)) (enc_Project project)))
       else Inr [])
      (let reimbursement = reimbursement\<lparr>rmb_Status := ''WITHDRAWN'', rmb_UpdatedAt := now\<rparr>
       in thenW (putJSON ctx (reimbursementKey ident) (enc_Reimbursement reimbursement))
         (thenW (DelState ctx (reimbursementInvoiceKey (rmb_InvoiceID reimbursement)))
           (createProjectEventWithReference ctx (prj_ID project) ''WITHDRAW_REIMBURSEMENT'' applicant
             note_withdraw ident)))))))"

definition PayReimbursement :: "stub \<Rightarrow> string \<Rightarrow> string \<Rightarrow> wr list res" where
  "PayReimbursement ctx ident financeOperator =
    bindE (ReadReimbursement ctx ident) (\<lambda>reimbursement.
    if rmb_Status reimbursement \<noteq> ''APPROVED_RESERVED''
    then Inl (''reimbursement '' @ ident @ '' is not approved for payment'')
    else let financeOperator = TrimSpace financeOperator in
    if financeOperator = [] then Inl ''finance operator must not be empty''
    else bindE (ReadProject ctx (rmb_ProjectID reimbursement)) (\<lambda>project.
    bindE (requireProjectManager ctx project financeOperator ''FINANCE_ADMIN'') (\<lambda>_.
    bindE (ReadInvoice ctx (rmb_InvoiceID reimbursement)) (\<lambda>invoice.
    if inv_Status invoice = ''VOIDED''
    then Inl (''voided invoice '' @ inv_ID invoice @ '' cannot be paid'')
    else if sint (prj_ReservedCents project) < sint (rmb_AmountCents reimbursement)
    then Inl ''project reserved balance is inconsistent''
    else bindE (transactionTime ctx) (\<lambda>now.
    let project = project\<lparr>
          prj_ReservedCents := prj_ReservedCents project - rmb_AmountCents reimbursement,
          prj_PaidCents := prj_PaidCents project + rmb_AmountCents reimbursement,
          prj_UpdatedAt := now\<rparr>;
        reimbursement = reimbursement\<lparr>rmb_Status := ''PAID'', rmb_UpdatedAt := now\<rparr>
    in thenW (putJSON ctx (projectKey (prj_ID project)) (enc_Project project))
      (thenW (putJSON ctx (reimbursementKey ident) (enc_Reimbursement reimbursement))
        (createProjectEventWithReference ctx (prj_ID project) ''PAY_REIMBURSEMENT'' financeOperator
          note_pay ident)))))))"

section \<open>Effects\<close>

abbreviation put_project :: "Project \<Rightarrow> wr" where
  "put_project p \<equiv> Put (projectKey (prj_ID p)) (Doc (enc_Project p))"

abbreviation put_reimbursement :: "string \<Rightarrow> Reimbursement \<Rightarrow> wr" where
  "put_reimbursement ident r \<equiv> Put (reimbursementKey ident) (Doc (enc_Reimbursement r))"

abbreviation put_event :: "stub \<Rightarrow> string \<Rightarrow> ProjectEvent \<Rightarrow> wr" where
  "put_event ctx pid e \<equiv> Put (projectEventKey pid (st_txid ctx)) (Doc (enc_ProjectEvent e))"

text \<open>The balance updates of the three money-moving steps.\<close>

definition reserve :: "int64 \<Rightarrow> string \<Rightarrow> Project \<Rightarrow> Project" where
  "reserve amount now p = p\<lparr>prj_AvailableCents := prj_AvailableCents p - amount,
     prj_ReservedCents := prj_ReservedCents p + amount, prj_UpdatedAt := now\<rparr>"

definition release :: "int64 \<Rightarrow> string \<Rightarrow> Project \<Rightarrow> Project" where
  "release amount now p = p\<lparr>prj_AvailableCents := prj_AvailableCents p + amount,
     prj_ReservedCents := prj_ReservedCents p - amount, prj_UpdatedAt := now\<rparr>"

definition pay_out :: "int64 \<Rightarrow> string \<Rightarrow> Project \<Rightarrow> Project" where
  "pay_out amount now p = p\<lparr>prj_ReservedCents := prj_ReservedCents p - amount,
     prj_PaidCents := prj_PaidCents p + amount, prj_UpdatedAt := now\<rparr>"

lemma CreateReimbursement_effect:
  assumes "CreateReimbursement ctx i pid iid a ev evh = Inr ws"
  shows "\<exists>p inv now. ReadProject ctx (TrimSpace pid) = Inr p \<and> prj_Status p \<in> {''FINANCIAL_SETTLEMENT'', ''CLOSURE_APPROVED''}
    \<and> requireProjectMember ctx p (TrimSpace a) = Inr () \<and> transactionTime ctx = Inr now
    \<and> ReadInvoice ctx (TrimSpace iid) = Inr inv
    \<and> inv_Status inv \<noteq> ''VOIDED'' \<and> inv_ProjectID inv = TrimSpace pid
    \<and> 0 < sint (inv_TotalCents inv) \<and> sint (inv_TotalCents inv) \<le> 10000000000
    \<and> get_kv (st_ledger ctx) (reimbursementKey (TrimSpace i)) = None
    \<and> get_kv (st_ledger ctx) (reimbursementInvoiceKey (TrimSpace iid)) = None
    \<and> TrimSpace i \<noteq> [] \<and> CHR ''#'' \<notin> set (TrimSpace i) \<and> length (ToLower (TrimSpace evh)) = 64
    \<and> ws = [put_reimbursement (TrimSpace i) (zero_Reimbursement\<lparr>rmb_ID := TrimSpace i,
          rmb_ProjectID := TrimSpace pid, rmb_InvoiceID := TrimSpace iid, rmb_Applicant := TrimSpace a,
          rmb_AmountCents := inv_TotalCents inv, rmb_Evidence := TrimSpace ev,
          rmb_EvidenceHash := ToLower (TrimSpace evh), rmb_Status := ''PENDING_REVIEW'',
          rmb_CreatedAt := now, rmb_UpdatedAt := now\<rparr>),
        Put (reimbursementInvoiceKey (TrimSpace iid)) (Raw (TrimSpace i)),
        put_event ctx (TrimSpace pid) (the_event ctx (TrimSpace pid) ''SUBMIT_REIMBURSEMENT'' (TrimSpace a)
          note_submit (TrimSpace i) now)]"
  using assms unfolding CreateReimbursement_def Let_def by (auto simp: res_inv not_le not_less)

lemma ReviewReimbursement_effect:
  assumes "ReviewReimbursement ctx i dec opn rv = Inr ws"
  shows "\<exists>r p inv now d r'. ReadReimbursement ctx i = Inr r \<and> rmb_Status r = ''PENDING_REVIEW''
    \<and> ReadProject ctx (rmb_ProjectID r) = Inr p \<and> requireProjectManager ctx p (TrimSpace rv) ''PROJECT_REVIEWER'' = Inr ()
    \<and> ReadInvoice ctx (rmb_InvoiceID r) = Inr inv \<and> inv_Status inv \<noteq> ''VOIDED''
    \<and> 0 < sint (rmb_AmountCents r) \<and> sint (rmb_AmountCents r) \<le> 10000000000
    \<and> transactionTime ctx = Inr now \<and> d = ToUpper (TrimSpace dec)
    \<and> r' = r\<lparr>rmb_Reviewer := TrimSpace rv, rmb_ReviewOpinion := TrimSpace opn, rmb_UpdatedAt := now\<rparr>
    \<and> (d = ''APPROVE'' \<and> sint (rmb_AmountCents r) \<le> sint (prj_AvailableCents p)
         \<and> ws = [put_project (reserve (rmb_AmountCents r) now p),
                 put_reimbursement i (r'\<lparr>rmb_Status := ''APPROVED_RESERVED''\<rparr>),
                 put_event ctx (rmb_ProjectID r) (the_event ctx (rmb_ProjectID r) (''REIMBURSEMENT_'' @ d)
                   (TrimSpace rv) (TrimSpace opn) (rmb_ID r) now)]
       \<or> d = ''REVISION''
         \<and> ws = [put_reimbursement i (r'\<lparr>rmb_Status := ''REVISION_REQUIRED''\<rparr>),
                 put_event ctx (rmb_ProjectID r) (the_event ctx (rmb_ProjectID r) (''REIMBURSEMENT_'' @ d)
                   (TrimSpace rv) (TrimSpace opn) (rmb_ID r) now)])"
  using assms unfolding ReviewReimbursement_def Let_def reserve_def
  by (cases "ToUpper (TrimSpace dec) = ''APPROVE''") (auto simp: res_inv not_le not_less)

lemma ResubmitReimbursement_effect:
  assumes "ResubmitReimbursement ctx i ev evh a = Inr ws"
  shows "\<exists>r p now. ReadReimbursement ctx i = Inr r \<and> rmb_Status r = ''REVISION_REQUIRED''
    \<and> ReadProject ctx (rmb_ProjectID r) = Inr p \<and> requireProjectMember ctx p a = Inr () \<and> transactionTime ctx = Inr now
    \<and> TrimSpace ev \<noteq> [] \<and> length (TrimSpace ev) \<le> 4000 \<and> length (ToLower (TrimSpace evh)) = 64
    \<and> ws = [put_reimbursement i (r\<lparr>rmb_Evidence := TrimSpace ev, rmb_EvidenceHash := ToLower (TrimSpace evh),
            rmb_Status := ''PENDING_REVIEW'', rmb_UpdatedAt := now, rmb_Reviewer := [], rmb_ReviewOpinion := []\<rparr>),
          put_event ctx (rmb_ProjectID r) (the_event ctx (rmb_ProjectID r) ''RESUBMIT_REIMBURSEMENT'' a
            note_resubmit i now)]"
  using assms unfolding ResubmitReimbursement_def Let_def by (auto simp: res_inv)

lemma case_checkedAddMoney:
  "(case checkedAddMoney x y of Inl _ \<Rightarrow> Inl e | Inr z \<Rightarrow> f z) = Inr ws \<longleftrightarrow>
    checkedAddMoney x y = Inr (x + y) \<and> f (x + y) = Inr ws"
proof (cases "checkedAddMoney x y")
  case (Inr z)
  then have "z = x + y" by (simp add: checkedAddMoney_Inr)
  with Inr show ?thesis by simp
qed simp

lemma WithdrawReimbursement_effect:
  assumes "WithdrawReimbursement ctx i a = Inr ws"
  shows "\<exists>r p now. ReadReimbursement ctx i = Inr r
    \<and> rmb_Status r \<in> {''PENDING_REVIEW'', ''REVISION_REQUIRED'', ''APPROVED_RESERVED''}
    \<and> ReadProject ctx (rmb_ProjectID r) = Inr p \<and> requireProjectMember ctx p a = Inr () \<and> transactionTime ctx = Inr now
    \<and> (rmb_Status r = ''APPROVED_RESERVED'' \<longrightarrow>
         sint (rmb_AmountCents r) \<le> sint (prj_ReservedCents p)
         \<and> checkedAddMoney (prj_AvailableCents p) (rmb_AmountCents r) = Inr (prj_AvailableCents p + rmb_AmountCents r)
         \<and> sint (prj_AvailableCents p + rmb_AmountCents r) \<le> sint (prj_BudgetCents p - prj_PaidCents p))
    \<and> ws = (if rmb_Status r = ''APPROVED_RESERVED'' then [put_project (release (rmb_AmountCents r) now p)] else [])
        @ [put_reimbursement i (r\<lparr>rmb_Status := ''WITHDRAWN'', rmb_UpdatedAt := now\<rparr>),
           Del (reimbursementInvoiceKey (rmb_InvoiceID r)),
           put_event ctx (prj_ID p) (the_event ctx (prj_ID p) ''WITHDRAW_REIMBURSEMENT'' a note_withdraw i now)]"
proof (cases "\<exists>r. ReadReimbursement ctx i = Inr r \<and> rmb_Status r = ''APPROVED_RESERVED''")
  case True
  with assms show ?thesis
    unfolding WithdrawReimbursement_def Let_def release_def
    by (auto simp: bindE_Inr thenW_Inr guard_Inr putJSON_Inr DelState_Inr not_less
        createProjectEventWithReference_Inr case_checkedAddMoney)
next
  case False
  with assms show ?thesis
    unfolding WithdrawReimbursement_def Let_def release_def by (auto simp: res_inv)
qed

lemma PayReimbursement_effect:
  assumes "PayReimbursement ctx i f = Inr ws"
  shows "\<exists>r p inv now. ReadReimbursement ctx i = Inr r \<and> rmb_Status r = ''APPROVED_RESERVED''
    \<and> ReadProject ctx (rmb_ProjectID r) = Inr p \<and> requireProjectManager ctx p (TrimSpace f) ''FINANCE_ADMIN'' = Inr ()
    \<and> ReadInvoice ctx (rmb_InvoiceID r) = Inr inv \<and> inv_Status inv \<noteq> ''VOIDED''
    \<and> sint (rmb_AmountCents r) \<le> sint (prj_ReservedCents p) \<and> transactionTime ctx = Inr now
    \<and> ws = [put_project (pay_out (rmb_AmountCents r) now p),
           put_reimbursement i (r\<lparr>rmb_Status := ''PAID'', rmb_UpdatedAt := now\<rparr>),
           put_event ctx (prj_ID p) (the_event ctx (prj_ID p) ''PAY_REIMBURSEMENT'' (TrimSpace f) note_pay i now)]"
  using assms unfolding PayReimbursement_def Let_def pay_out_def by (auto simp: res_inv not_less)

end
