(* ===== verification/Invoices.thy ===== *)
theory Invoices
  imports Access
begin

text \<open>
  The life of an invoice: creation and correction, the link to a project, direct transfer, the
  request/respond/cancel handoff, voiding by the issuer and by request and review. All are methods
  of \<open>InvoiceContract\<close> in \<open>chaincode/invoice_contract.go\<close>, guard by guard.
\<close>

section \<open>Creation\<close>

text \<open>The checks on the linked project of a new invoice.\<close>

definition check_linked_project ::
  "stub \<Rightarrow> string \<Rightarrow> string \<Rightarrow> string \<Rightarrow> string \<Rightarrow> unit res" where
  "check_linked_project ctx projectID issuerMSPID issuerOrganizationID initialHolder =
    (if projectID = [] then Inr ()
     else bindE (wrapE ''linked project: '' (ReadProject ctx projectID)) (\<lambda>project.
     if prj_Status project \<noteq> ''EXECUTING'' \<and> prj_Status project \<noteq> ''FINANCIAL_SETTLEMENT''
        \<and> prj_Status project \<noteq> ''CLOSURE_APPROVED''
     then Inl (''linked project '' @ projectID @ '' is not available for invoice association'')
     else if prj_ApplicantMSPID project \<noteq> issuerMSPID
     then Inl (''linked project belongs to '' @ prj_ApplicantMSPID project
               @ '', not issuer organization '' @ issuerMSPID)
     else if prj_OrganizationID project \<noteq> [] \<and> prj_OrganizationID project \<noteq> issuerOrganizationID
     then Inl (''linked project belongs to business organization '' @ prj_OrganizationID project)
     else wrapE ''linked project member: '' (requireProjectMember ctx project initialHolder)))"

text \<open>The checks on the original of a correction.\<close>

definition check_correction ::
  "stub \<Rightarrow> string \<Rightarrow> string \<Rightarrow> string \<Rightarrow> string \<Rightarrow> unit res" where
  "check_correction ctx correctionOf invoiceNo issuerMSPID issuerOrganizationID =
    (if correctionOf = [] then Inr ()
     else bindE (wrapE ''corrected original: '' (ReadInvoice ctx correctionOf)) (\<lambda>original.
     if inv_Status original \<noteq> ''VOIDED'' then Inl ''only a voided invoice record can be corrected''
     else if inv_IssuerMSPID original \<noteq> issuerMSPID
        \<or> inv_IssuerOrganizationID original \<noteq> [] \<and> inv_IssuerOrganizationID original \<noteq> issuerOrganizationID
     then Inl ''only the original issuer organization can create a correction''
     else if inv_InvoiceNo original \<noteq> invoiceNo
     then Inl ''corrected invoice must keep the original invoice number''
     else bindE (wrapE ''corrected original still has active reimbursement: ''
       (ensureInvoiceCanBeVoided ctx correctionOf)) (\<lambda>_.
     bindE (InvoiceNumberExistsExcept ctx invoiceNo correctionOf) (\<lambda>exists.
     if exists then Inl (''invoice number '' @ invoiceNo @ '' already has another correction version'')
     else Inr ()))))"

definition CreateInvoice where
  "CreateInvoice ctx ident invoiceNo issueDate issuer buyer buyerMSPID amountCentsText taxCentsText
      currency dataHash projectID initialHolder initialHolderMSPID issuerOrganizationID correctionOf =
    (let ident = TrimSpace ident; invoiceNo = TrimSpace invoiceNo; issuer = TrimSpace issuer;
         buyer = TrimSpace buyer; buyerMSPID = TrimSpace buyerMSPID;
         initialHolder = TrimSpace initialHolder; initialHolderMSPID = TrimSpace initialHolderMSPID;
         issuerOrganizationID = TrimSpace issuerOrganizationID; correctionOf = TrimSpace correctionOf in
    if ident = [] \<or> invoiceNo = [] \<or> issueDate = [] \<or> issuer = [] \<or> buyer = [] \<or> initialHolder = []
    then Inl ''invoice fields must not be empty''
    else if \<not> validISODate issueDate then Inl ''issue date must be a valid YYYY-MM-DD date''
    else if contains_any ident [CHR ''#'', CHR 0x00]
    then Inl ''invoice id contains an unsupported character''
    else bindE (callerMSPID ctx) (\<lambda>issuerMSPID.
    bindE (validateBusinessMSPID issuerMSPID) (\<lambda>_.
    bindE (wrapE ''buyer organization: '' (validateBusinessMSPID buyerMSPID)) (\<lambda>_.
    bindE (wrapE ''initial holder organization: '' (validateBusinessMSPID initialHolderMSPID)) (\<lambda>_.
    if issuerMSPID \<noteq> initialHolderMSPID
    then Inl (''initial holder must belong to the submitting organization '' @ issuerMSPID)
    else if ToUpper (TrimSpace currency) \<noteq> ''CNY'' \<and> TrimSpace currency \<noteq> []
    then Inl ''only CNY invoices are supported in the current project budget''
    else bindE (wrapE ''invoice creator: ''
      (requireActiveBusinessUser ctx initialHolder issuerMSPID [''ISSUER'', ''PROJECT_MEMBER''])) (\<lambda>_.
    bindE (businessUserOrganization ctx initialHolder) (\<lambda>creatorOrganizationID.
    let issuerOrganizationID =
          (if issuerOrganizationID = [] then creatorOrganizationID else issuerOrganizationID) in
    if creatorOrganizationID \<noteq> [] \<and> creatorOrganizationID \<noteq> issuerOrganizationID
    then Inl (''invoice creator does not belong to organization '' @ issuerOrganizationID)
    else let projectID = TrimSpace projectID in
    bindE (check_linked_project ctx projectID issuerMSPID issuerOrganizationID initialHolder) (\<lambda>_.
    if length dataHash \<noteq> 64 then Inl ''data hash must be a 64-character SHA-256 hex string''
    else if \<not> hex_decodable dataHash then Inl ''data hash must be a 64-character SHA-256 hex string''
    else bindE (parseNonNegative amountCentsText ''amount'') (\<lambda>amountCents.
    bindE (parseNonNegative taxCentsText ''tax'') (\<lambda>taxCents.
    bindE (checkedAddMoney amountCents taxCents) (\<lambda>totalCents.
    if sint totalCents \<le> 0 then Inl ''invoice total must be greater than zero''
    else bindE (InvoiceExists ctx ident) (\<lambda>exists.
    if exists then Inl (''invoice '' @ ident @ '' already exists'')
    else bindE (InvoiceNumberExists ctx invoiceNo) (\<lambda>numberExists.
    if numberExists \<and> correctionOf = [] then Inl (''invoice number '' @ invoiceNo @ '' already exists'')
    else bindE (check_correction ctx correctionOf invoiceNo issuerMSPID issuerOrganizationID) (\<lambda>_.
    bindE (transactionTime ctx) (\<lambda>now.
    let invoice = zero_Invoice\<lparr>inv_ID := ident, inv_InvoiceNo := invoiceNo, inv_IssueDate := issueDate,
          inv_Issuer := issuer, inv_Buyer := buyer, inv_BuyerMSPID := buyerMSPID,
          inv_AmountCents := amountCents, inv_TaxCents := taxCents, inv_TotalCents := totalCents,
          inv_Currency := ToUpper (TrimSpace currency), inv_DataHash := ToLower dataHash,
          inv_HashVersion := ''v2'', inv_ProjectID := projectID, inv_CorrectionOf := correctionOf,
          inv_CurrentHolder := initialHolder, inv_HolderMSPID := initialHolderMSPID,
          inv_IssuerMSPID := issuerMSPID, inv_IssuerOrganizationID := issuerOrganizationID,
          inv_HolderOrganizationID := issuerOrganizationID, inv_Status := ''ISSUED'',
          inv_CreatedAt := now, inv_UpdatedAt := now\<rparr>;
        invoice = (if inv_Currency invoice = [] then invoice\<lparr>inv_Currency := ''CNY''\<rparr> else invoice);
        flowType = (if correctionOf \<noteq> [] then ''CORRECTION'' else ''ISSUE'')
    in thenW (putJSON ctx (invoiceKey ident) (enc_Invoice invoice))
      (thenW (PutState ctx (invoiceNumberKey invoiceNo) (Raw ident))
        (createFlow ctx ident flowType issuer initialHolder issuerMSPID now)))))))))))))))))"

section \<open>Association with a project\<close>

definition LinkInvoiceToProject :: "stub \<Rightarrow> string \<Rightarrow> string \<Rightarrow> string \<Rightarrow> wr list res" where
  "LinkInvoiceToProject ctx invoiceID projectID operator =
    bindE (ReadInvoice ctx invoiceID) (\<lambda>invoice.
    if inv_Status invoice = ''VOIDED'' then Inl ''voided invoice cannot be linked to a project''
    else if inv_ProjectID invoice \<noteq> []
    then Inl (''invoice '' @ invoiceID @ '' is already linked to project '' @ inv_ProjectID invoice)
    else bindE (wrapE ''invoice already has reimbursement activity: ''
      (ensureInvoiceCanBeVoided ctx invoiceID)) (\<lambda>_.
    bindE (ReadProject ctx projectID) (\<lambda>project.
    if prj_Status project \<noteq> ''EXECUTING'' \<and> prj_Status project \<noteq> ''FINANCIAL_SETTLEMENT''
      \<and> prj_Status project \<noteq> ''CLOSURE_APPROVED''
    then Inl (''project '' @ projectID @ '' is not open for invoice association'')
    else bindE (requireProjectMember ctx project operator) (\<lambda>_.
    if inv_IssuerMSPID invoice \<noteq> prj_ApplicantMSPID project
      \<or> inv_IssuerOrganizationID invoice \<noteq> [] \<and> prj_OrganizationID project \<noteq> []
        \<and> inv_IssuerOrganizationID invoice \<noteq> prj_OrganizationID project
    then Inl ''invoice and project must belong to the same business organization''
    else bindE (transactionTime ctx) (\<lambda>now.
    let invoice = invoice\<lparr>inv_ProjectID := prj_ID project, inv_UpdatedAt := now\<rparr>
    in thenW (putJSON ctx (invoiceKey (inv_ID invoice)) (enc_Invoice invoice))
        (createProjectEvent ctx (prj_ID project) ''LINK_INVOICE'' operator (inv_ID invoice)))))))"

definition UnlinkInvoiceFromProject :: "stub \<Rightarrow> string \<Rightarrow> string \<Rightarrow> wr list res" where
  "UnlinkInvoiceFromProject ctx invoiceID operator =
    bindE (ReadInvoice ctx invoiceID) (\<lambda>invoice.
    if inv_Status invoice = ''VOIDED''
    then Inl ''voided invoice cannot have its project association changed''
    else if inv_ProjectID invoice = [] then Inl (''invoice '' @ invoiceID @ '' is not linked to a project'')
    else bindE (wrapE ''invoice already has reimbursement activity: ''
      (ensureInvoiceCanBeVoided ctx invoiceID)) (\<lambda>_.
    bindE (ReadProject ctx (inv_ProjectID invoice)) (\<lambda>project.
    if prj_Status project = ''ARCHIVED'' then Inl ''archived project cannot change invoice associations''
    else bindE (requireProjectMember ctx project (TrimSpace operator)) (\<lambda>_.
    if inv_IssuerMSPID invoice \<noteq> prj_ApplicantMSPID project
      \<or> inv_IssuerOrganizationID invoice \<noteq> [] \<and> prj_OrganizationID project \<noteq> []
        \<and> inv_IssuerOrganizationID invoice \<noteq> prj_OrganizationID project
    then Inl ''invoice and project must belong to the same business organization''
    else bindE (transactionTime ctx) (\<lambda>now.
    let projectID = inv_ProjectID invoice;
        invoice = invoice\<lparr>inv_ProjectID := [], inv_UpdatedAt := now\<rparr>
    in thenW (putJSON ctx (invoiceKey (inv_ID invoice)) (enc_Invoice invoice))
        (createProjectEvent ctx projectID ''UNLINK_INVOICE'' operator (inv_ID invoice)))))))"

section \<open>Transfer\<close>

definition TransferInvoice :: "stub \<Rightarrow> string \<Rightarrow> string \<Rightarrow> string \<Rightarrow> string \<Rightarrow> wr list res" where
  "TransferInvoice ctx ident to' toMSPID operator =
    bindE (ReadInvoice ctx ident) (\<lambda>invoice.
    let to' = TrimSpace to'; operator = TrimSpace operator; toMSPID = TrimSpace toMSPID in
    if to' = [] \<or> to' = inv_CurrentHolder invoice then Inl ''transfer participants are invalid''
    else if inv_Status invoice = ''VOIDED'' then Inl ''a voided invoice cannot be transferred''
    else bindE (wrapE ''target organization: '' (validateBusinessMSPID toMSPID)) (\<lambda>_.
    bindE (wrapE ''target holder: '' (requireActiveHolder ctx to' toMSPID)) (\<lambda>_.
    bindE (callerMSPID ctx) (\<lambda>callerMSP.
    if inv_HolderMSPID invoice = []
    then Inl ''legacy invoice has no holder organization; create a new invoice after upgrading''
    else if callerMSP \<noteq> inv_HolderMSPID invoice
    then Inl (''only '' @ inv_HolderMSPID invoice @ '' can transfer this invoice'')
    else if inv_CurrentHolder invoice \<noteq> operator
    then Inl (''only current holder '' @ inv_CurrentHolder invoice @ '' can transfer this invoice'')
    else bindE (wrapE ''transfer operator: ''
      (requireActiveBusinessUser ctx operator callerMSP [''ISSUER'', ''HOLDER'', ''PROJECT_MEMBER''])) (\<lambda>_.
    bindE (businessUserOrganization ctx operator) (\<lambda>operatorOrganizationID.
    if inv_HolderOrganizationID invoice \<noteq> [] \<and> operatorOrganizationID \<noteq> []
      \<and> operatorOrganizationID \<noteq> inv_HolderOrganizationID invoice
    then Inl ''current holder does not belong to invoice holder organization''
    else bindE (businessUserOrganization ctx to') (\<lambda>targetOrganizationID.
    bindE (transactionTime ctx) (\<lambda>now.
    let from' = inv_CurrentHolder invoice;
        invoice = invoice\<lparr>inv_CurrentHolder := to', inv_HolderMSPID := toMSPID,
          inv_HolderOrganizationID := targetOrganizationID, inv_Status := ''IN_CIRCULATION'',
          inv_UpdatedAt := now\<rparr>
    in thenW (putJSON ctx (invoiceKey ident) (enc_Invoice invoice))
        (createFlow ctx ident ''TRANSFER'' from' to' callerMSP now)))))))))"

definition RequestInvoiceTransfer ::
  "stub \<Rightarrow> string \<Rightarrow> string \<Rightarrow> string \<Rightarrow> string \<Rightarrow> string \<Rightarrow> wr list res" where
  "RequestInvoiceTransfer ctx ident to' toMSPID note operator =
    bindE (ReadInvoice ctx ident) (\<lambda>invoice.
    let to' = TrimSpace to'; note = TrimSpace note; operator = TrimSpace operator in
    if to' = [] \<or> to' = inv_CurrentHolder invoice then Inl ''transfer participants are invalid''
    else if inv_Status invoice = ''VOIDED'' then Inl ''a voided invoice cannot be transferred''
    else bindE (callerMSPID ctx) (\<lambda>caller.
    if caller \<noteq> inv_HolderMSPID invoice \<or> operator \<noteq> inv_CurrentHolder invoice
    then Inl (''only current holder '' @ inv_CurrentHolder invoice @ '' can request this transfer'')
    else bindE (requireActiveBusinessUser ctx operator caller [''ISSUER'', ''HOLDER'', ''PROJECT_MEMBER'']) (\<lambda>_.
    bindE (wrapE ''transfer recipient: '' (requireRegisteredRole ctx to' (TrimSpace toMSPID)
      [''ISSUER'', ''HOLDER'', ''PROJECT_MEMBER''])) (\<lambda>_.
    bindE (case ReadInvoiceTransfer ctx ident of
             Inl err \<Rightarrow> if \<not> isMissingTransfer err then Inl err else Inr None
           | Inr existing \<Rightarrow> Inr (Some existing)) (\<lambda>existing.
    if existing \<noteq> None \<and> trf_Status (the existing) = ''PENDING''
    then Inl ''invoice already has a pending transfer''
    else bindE (transactionTime ctx) (\<lambda>now.
    let transfer = zero_InvoiceTransfer\<lparr>trf_InvoiceID := ident, trf_From := operator, trf_To := to',
          trf_ToMSPID := TrimSpace toMSPID, trf_Note := note, trf_Status := ''PENDING'',
          trf_CreatedAt := now, trf_UpdatedAt := now\<rparr>
    in thenW (putJSON ctx (transferRequestKey ident) (enc_InvoiceTransfer transfer))
        (createFlow ctx ident ''TRANSFER_REQUEST'' operator to' caller now)))))))"

definition RespondInvoiceTransfer ::
  "stub \<Rightarrow> string \<Rightarrow> string \<Rightarrow> string \<Rightarrow> string \<Rightarrow> wr list res" where
  "RespondInvoiceTransfer ctx ident decision response recipient =
    bindE (ReadInvoiceTransfer ctx ident) (\<lambda>transfer.
    if trf_Status transfer \<noteq> ''PENDING'' then Inl ''transfer is not pending''
    else let decision = ToUpper (TrimSpace decision); response = TrimSpace response;
             recipient = TrimSpace recipient in
    if decision \<noteq> ''ACCEPT'' \<and> decision \<noteq> ''REJECT''
    then Inl ''transfer decision must be ACCEPT or REJECT''
    else if recipient \<noteq> trf_To transfer
    then Inl (''only selected recipient '' @ trf_To transfer @ '' can respond'')
    else bindE (requireActiveBusinessUser ctx recipient (trf_ToMSPID transfer)
      [''ISSUER'', ''HOLDER'', ''PROJECT_MEMBER'']) (\<lambda>_.
    bindE (transactionTime ctx) (\<lambda>now.
    let transfer = transfer\<lparr>trf_UpdatedAt := now, trf_Response := response\<rparr> in
    if decision = ''REJECT'' then
      (let transfer = transfer\<lparr>trf_Status := ''REJECTED''\<rparr>
       in thenW (putJSON ctx (transferRequestKey ident) (enc_InvoiceTransfer transfer))
           (createFlow ctx ident ''TRANSFER_REJECTED'' (trf_From transfer) (trf_To transfer)
             (trf_ToMSPID transfer) now))
    else bindE (ReadInvoice ctx ident) (\<lambda>invoice.
    if inv_CurrentHolder invoice \<noteq> trf_From transfer \<or> inv_Status invoice = ''VOIDED''
    then Inl ''invoice is no longer available for this transfer''
    else bindE (businessUserOrganization ctx recipient) (\<lambda>targetOrganizationID.
    let invoice = invoice\<lparr>inv_CurrentHolder := recipient, inv_HolderMSPID := trf_ToMSPID transfer,
          inv_HolderOrganizationID := targetOrganizationID, inv_Status := ''IN_CIRCULATION'',
          inv_UpdatedAt := now\<rparr>;
        transfer = transfer\<lparr>trf_Status := ''ACCEPTED''\<rparr>
    in thenW (putJSON ctx (invoiceKey ident) (enc_Invoice invoice))
        (thenW (putJSON ctx (transferRequestKey ident) (enc_InvoiceTransfer transfer))
          (createFlow ctx ident ''TRANSFER_ACCEPTED'' (trf_From transfer) recipient
            (trf_ToMSPID transfer) now)))))))"

definition CancelInvoiceTransfer :: "stub \<Rightarrow> string \<Rightarrow> string \<Rightarrow> wr list res" where
  "CancelInvoiceTransfer ctx ident operator =
    bindE (ReadInvoiceTransfer ctx ident) (\<lambda>transfer.
    if trf_Status transfer \<noteq> ''PENDING'' then Inl ''only a pending transfer can be cancelled''
    else if TrimSpace operator \<noteq> trf_From transfer then Inl ''only transfer requester can cancel''
    else bindE (ReadInvoice ctx ident) (\<lambda>invoice.
    if inv_CurrentHolder invoice \<noteq> operator then Inl ''only current holder can cancel this transfer''
    else bindE (transactionTime ctx) (\<lambda>now.
    let transfer = transfer\<lparr>trf_Status := ''CANCELLED'', trf_UpdatedAt := now\<rparr>
    in thenW (putJSON ctx (transferRequestKey ident) (enc_InvoiceTransfer transfer))
        (createFlow ctx ident ''TRANSFER_CANCELLED'' (trf_From transfer) (trf_To transfer)
          (inv_HolderMSPID invoice) now))))"

section \<open>Voiding\<close>

definition VoidInvoice :: "stub \<Rightarrow> string \<Rightarrow> string \<Rightarrow> string \<Rightarrow> wr list res" where
  "VoidInvoice ctx ident reason operator =
    bindE (ReadInvoice ctx ident) (\<lambda>invoice.
    let reason = TrimSpace reason; operator = TrimSpace operator in
    if reason = [] then Inl ''void reason must not be empty''
    else if inv_Status invoice = ''VOIDED'' then Inl (''invoice '' @ ident @ '' is already voided'')
    else bindE (callerMSPID ctx) (\<lambda>callerMSP.
    if inv_IssuerMSPID invoice = []
    then Inl ''legacy invoice has no issuer organization; create a new invoice after upgrading''
    else if callerMSP \<noteq> inv_IssuerMSPID invoice
    then Inl (''only issuer organization '' @ inv_IssuerMSPID invoice @ '' can void this invoice'')
    else bindE (wrapE ''void operator: '' (requireActiveBusinessUser ctx operator callerMSP [''ISSUER''])) (\<lambda>_.
    bindE (businessUserOrganization ctx operator) (\<lambda>operatorOrganizationID.
    if inv_IssuerOrganizationID invoice \<noteq> [] \<and> operatorOrganizationID \<noteq> []
      \<and> operatorOrganizationID \<noteq> inv_IssuerOrganizationID invoice
    then Inl ''only the invoice issuer business organization can void this invoice''
    else bindE (ensureInvoiceCanBeVoided ctx ident) (\<lambda>_.
    bindE (transactionTime ctx) (\<lambda>now.
    let from' = inv_CurrentHolder invoice;
        invoice = invoice\<lparr>inv_Status := ''VOIDED'', inv_VoidReason := reason, inv_UpdatedAt := now\<rparr>
    in thenW (putJSON ctx (invoiceKey ident) (enc_Invoice invoice))
        (createFlow ctx ident ''VOID'' from' ''VOIDED'' callerMSP now)))))))"

definition RequestInvoiceVoid :: "stub \<Rightarrow> string \<Rightarrow> string \<Rightarrow> string \<Rightarrow> wr list res" where
  "RequestInvoiceVoid ctx ident reason applicant =
    bindE (ReadInvoice ctx ident) (\<lambda>invoice.
    let reason = TrimSpace reason; applicant = TrimSpace applicant in
    if reason = [] \<or> applicant = [] then Inl ''void request reason and applicant must not be empty''
    else if inv_Status invoice = ''VOIDED'' then Inl (''invoice '' @ ident @ '' is already voided'')
    else bindE (ensureInvoiceCanBeVoided ctx ident) (\<lambda>_.
    if inv_ProjectID invoice = []
    then Inl ''only an invoice linked to a project can use the void-request process''
    else bindE (wrapE ''read linked project: '' (ReadProject ctx (inv_ProjectID invoice))) (\<lambda>project.
    bindE (wrapE ''void request applicant: '' (requireProjectMember ctx project applicant)) (\<lambda>_.
    bindE (callerMSPID ctx) (\<lambda>callerMSP.
    bindE (case ReadInvoiceVoidRequest ctx ident of
             Inl err \<Rightarrow> if \<not> isMissingVoidRequest err then Inl err else Inr None
           | Inr request \<Rightarrow> Inr (Some request)) (\<lambda>request.
    if request \<noteq> None \<and> vrq_Status (the request) = ''PENDING_REVIEW''
    then Inl ''this invoice already has a pending void request''
    else bindE (transactionTime ctx) (\<lambda>now.
    let request = (case request of Some r \<Rightarrow> r
          | None \<Rightarrow> zero_InvoiceVoidRequest\<lparr>vrq_InvoiceID := ident, vrq_CreatedAt := now\<rparr>);
        request = request\<lparr>vrq_Applicant := applicant, vrq_Reason := reason,
          vrq_Status := ''PENDING_REVIEW'', vrq_UpdatedAt := now, vrq_Reviewer := [],
          vrq_ReviewOpinion := []\<rparr>
    in thenW (putJSON ctx (voidRequestKey ident) (enc_InvoiceVoidRequest request))
        (createFlow ctx ident ''VOID_REQUEST'' applicant ''ISSUER_REVIEW'' callerMSP now))))))))"

definition ReviewInvoiceVoid ::
  "stub \<Rightarrow> string \<Rightarrow> string \<Rightarrow> string \<Rightarrow> string \<Rightarrow> wr list res" where
  "ReviewInvoiceVoid ctx ident decision opinion reviewer =
    bindE (ReadInvoice ctx ident) (\<lambda>invoice.
    bindE (ReadInvoiceVoidRequest ctx ident) (\<lambda>request.
    let decision = ToUpper (TrimSpace decision); opinion = TrimSpace opinion; reviewer = TrimSpace reviewer in
    if vrq_Status request \<noteq> ''PENDING_REVIEW''
    then Inl (''void request for invoice '' @ ident @ '' is not pending review'')
    else if (decision \<noteq> ''APPROVE'' \<and> decision \<noteq> ''REJECT'') \<or> opinion = [] \<or> reviewer = []
    then Inl ''void review requires APPROVE or REJECT, an opinion, and a reviewer''
    else bindE (callerMSPID ctx) (\<lambda>callerMSP.
    if callerMSP \<noteq> inv_IssuerMSPID invoice
    then Inl (''only issuer organization '' @ inv_IssuerMSPID invoice @ '' can review this void request'')
    else bindE (wrapE ''void reviewer: '' (requireActiveBusinessUser ctx reviewer callerMSP [''ISSUER''])) (\<lambda>_.
    bindE (businessUserOrganization ctx reviewer) (\<lambda>reviewerOrganizationID.
    if inv_IssuerOrganizationID invoice \<noteq> [] \<and> reviewerOrganizationID \<noteq> []
      \<and> reviewerOrganizationID \<noteq> inv_IssuerOrganizationID invoice
    then Inl ''void reviewer must belong to issuer business organization''
    else bindE (transactionTime ctx) (\<lambda>now.
    let request = request\<lparr>vrq_Reviewer := reviewer, vrq_ReviewOpinion := opinion, vrq_UpdatedAt := now\<rparr> in
    if decision = ''REJECT'' then
      (let request = request\<lparr>vrq_Status := ''REJECTED''\<rparr>
       in thenW (putJSON ctx (voidRequestKey ident) (enc_InvoiceVoidRequest request))
           (createFlow ctx ident ''VOID_REJECTED'' reviewer (vrq_Applicant request) callerMSP now))
    else if inv_Status invoice = ''VOIDED'' then Inl (''invoice '' @ ident @ '' is already voided'')
    else bindE (ensureInvoiceCanBeVoided ctx ident) (\<lambda>_.
    let request = request\<lparr>vrq_Status := ''APPROVED''\<rparr>;
        invoice = invoice\<lparr>inv_Status := ''VOIDED'', inv_VoidReason := vrq_Reason request, inv_UpdatedAt := now\<rparr>
    in thenW (putJSON ctx (invoiceKey ident) (enc_Invoice invoice))
        (thenW (putJSON ctx (voidRequestKey ident) (enc_InvoiceVoidRequest request))
          (createFlow ctx ident ''VOID'' (inv_CurrentHolder invoice) ''VOIDED'' callerMSP now)))))))))"

section \<open>Effects\<close>

abbreviation put_invoice :: "string \<Rightarrow> Invoice \<Rightarrow> wr" where
  "put_invoice ident v \<equiv> Put (invoiceKey ident) (Doc (enc_Invoice v))"

abbreviation put_transfer :: "string \<Rightarrow> InvoiceTransfer \<Rightarrow> wr" where
  "put_transfer ident t \<equiv> Put (transferRequestKey ident) (Doc (enc_InvoiceTransfer t))"

abbreviation put_void_request :: "string \<Rightarrow> InvoiceVoidRequest \<Rightarrow> wr" where
  "put_void_request ident r \<equiv> Put (voidRequestKey ident) (Doc (enc_InvoiceVoidRequest r))"

abbreviation put_flow :: "stub \<Rightarrow> string \<Rightarrow> InvoiceFlow \<Rightarrow> wr" where
  "put_flow ctx ident f \<equiv> Put (flowKey ident (st_txid ctx)) (Doc (enc_InvoiceFlow f))"

abbreviation put_project_event :: "stub \<Rightarrow> string \<Rightarrow> ProjectEvent \<Rightarrow> wr" where
  "put_project_event ctx pid e \<equiv> Put (projectEventKey pid (st_txid ctx)) (Doc (enc_ProjectEvent e))"

text \<open>The record \<open>CreateInvoice\<close> stores.\<close>

definition new_invoice ::
  "string \<Rightarrow> string \<Rightarrow> string \<Rightarrow> string \<Rightarrow> string \<Rightarrow> string \<Rightarrow> int64 \<Rightarrow> int64 \<Rightarrow> int64 \<Rightarrow> string
    \<Rightarrow> string \<Rightarrow> string \<Rightarrow> string \<Rightarrow> string \<Rightarrow> string \<Rightarrow> string \<Rightarrow> Invoice" where
  "new_invoice i no d iss b bm amount tax tot hash pid corr h msp iorg now =
    zero_Invoice\<lparr>inv_ID := i, inv_InvoiceNo := no, inv_IssueDate := d, inv_Issuer := iss, inv_Buyer := b,
      inv_BuyerMSPID := bm, inv_AmountCents := amount, inv_TaxCents := tax, inv_TotalCents := tot,
      inv_Currency := ''CNY'', inv_DataHash := hash, inv_HashVersion := ''v2'', inv_ProjectID := pid,
      inv_CorrectionOf := corr, inv_CurrentHolder := h, inv_HolderMSPID := msp, inv_IssuerMSPID := msp,
      inv_IssuerOrganizationID := iorg, inv_HolderOrganizationID := iorg, inv_Status := ''ISSUED'',
      inv_CreatedAt := now, inv_UpdatedAt := now\<rparr>"

lemma new_invoice_simps [simp]:
  "inv_ID (new_invoice i no d iss b bm amount tax tot hash pid corr h msp iorg now) = i"
  "inv_InvoiceNo (new_invoice i no d iss b bm amount tax tot hash pid corr h msp iorg now) = no"
  "inv_AmountCents (new_invoice i no d iss b bm amount tax tot hash pid corr h msp iorg now) = amount"
  "inv_TaxCents (new_invoice i no d iss b bm amount tax tot hash pid corr h msp iorg now) = tax"
  "inv_TotalCents (new_invoice i no d iss b bm amount tax tot hash pid corr h msp iorg now) = tot"
  "inv_Currency (new_invoice i no d iss b bm amount tax tot hash pid corr h msp iorg now) = ''CNY''"
  "inv_DataHash (new_invoice i no d iss b bm amount tax tot hash pid corr h msp iorg now) = hash"
  "inv_HashVersion (new_invoice i no d iss b bm amount tax tot hash pid corr h msp iorg now) = ''v2''"
  "inv_ProjectID (new_invoice i no d iss b bm amount tax tot hash pid corr h msp iorg now) = pid"
  "inv_CorrectionOf (new_invoice i no d iss b bm amount tax tot hash pid corr h msp iorg now) = corr"
  "inv_CurrentHolder (new_invoice i no d iss b bm amount tax tot hash pid corr h msp iorg now) = h"
  "inv_HolderMSPID (new_invoice i no d iss b bm amount tax tot hash pid corr h msp iorg now) = msp"
  "inv_IssuerMSPID (new_invoice i no d iss b bm amount tax tot hash pid corr h msp iorg now) = msp"
  "inv_IssuerOrganizationID (new_invoice i no d iss b bm amount tax tot hash pid corr h msp iorg now) = iorg"
  "inv_Status (new_invoice i no d iss b bm amount tax tot hash pid corr h msp iorg now) = ''ISSUED''"
  by (simp_all add: new_invoice_def)

lemma new_invoice_fold:
  "zero_Invoice\<lparr>inv_ID := i, inv_InvoiceNo := no, inv_IssueDate := d, inv_Issuer := iss, inv_Buyer := b,
     inv_BuyerMSPID := bm, inv_AmountCents := amount, inv_TaxCents := tax, inv_TotalCents := tot,
     inv_Currency := ''CNY'', inv_DataHash := hash, inv_HashVersion := ''v2'', inv_ProjectID := pid,
     inv_CorrectionOf := corr, inv_CurrentHolder := h, inv_HolderMSPID := msp, inv_IssuerMSPID := msp,
     inv_IssuerOrganizationID := iorg, inv_HolderOrganizationID := iorg, inv_Status := ''ISSUED'',
     inv_CreatedAt := now, inv_UpdatedAt := now\<rparr>
   = new_invoice i no d iss b bm amount tax tot hash pid corr h msp iorg now"
  "zero_Invoice\<lparr>inv_ID := i, inv_InvoiceNo := no, inv_IssueDate := d, inv_Issuer := iss, inv_Buyer := b,
     inv_BuyerMSPID := bm, inv_AmountCents := amount, inv_TaxCents := tax, inv_TotalCents := tot,
     inv_DataHash := hash, inv_HashVersion := ''v2'', inv_ProjectID := pid,
     inv_CorrectionOf := corr, inv_CurrentHolder := h, inv_HolderMSPID := msp, inv_IssuerMSPID := msp,
     inv_IssuerOrganizationID := iorg, inv_HolderOrganizationID := iorg, inv_Status := ''ISSUED'',
     inv_CreatedAt := now, inv_UpdatedAt := now, inv_Currency := ''CNY''\<rparr>
   = new_invoice i no d iss b bm amount tax tot hash pid corr h msp iorg now"
  by (simp_all add: new_invoice_def)

lemma CreateInvoice_effect:
  assumes "CreateInvoice ctx i no d iss b bm am tx cur hash pid h hm iorg corr = Inr ws"
  shows "\<exists>m amount tax now creatorOrg org' numberExists.
    st_mspid ctx = Inr m \<and> m \<in> {''Org1MSP'', ''Org2MSP''} \<and> TrimSpace hm = m
    \<and> TrimSpace i \<noteq> [] \<and> TrimSpace no \<noteq> [] \<and> CHR ''#'' \<notin> set (TrimSpace i)
    \<and> validISODate d
    \<and> requireActiveBusinessUser ctx (TrimSpace h) m [''ISSUER'', ''PROJECT_MEMBER''] = Inr ()
    \<and> businessUserOrganization ctx (TrimSpace h) = Inr creatorOrg
    \<and> org' = (if TrimSpace iorg = [] then creatorOrg else TrimSpace iorg)
    \<and> (creatorOrg \<noteq> [] \<longrightarrow> creatorOrg = org')
    \<and> check_linked_project ctx (TrimSpace pid) m org' (TrimSpace h) = Inr ()
    \<and> length hash = 64 \<and> hex_decodable hash
    \<and> parseNonNegative am ''amount'' = Inr amount \<and> parseNonNegative tx ''tax'' = Inr tax
    \<and> sint amount + sint tax \<le> 10000000000 \<and> 0 < sint (amount + tax)
    \<and> get_kv (st_ledger ctx) (invoiceKey (TrimSpace i)) = None
    \<and> InvoiceNumberExists ctx (TrimSpace no) = Inr numberExists
    \<and> (numberExists \<longrightarrow> TrimSpace corr \<noteq> [])
    \<and> check_correction ctx (TrimSpace corr) (TrimSpace no) m org' = Inr ()
    \<and> transactionTime ctx = Inr now
    \<and> ws = [put_invoice (TrimSpace i) (new_invoice (TrimSpace i) (TrimSpace no) d (TrimSpace iss) (TrimSpace b)
             (TrimSpace bm) amount tax (amount + tax) (ToLower hash) (TrimSpace pid) (TrimSpace corr)
             (TrimSpace h) m org' now),
           Put (invoiceNumberKey (TrimSpace no)) (Raw (TrimSpace i)),
           put_flow ctx (TrimSpace i) (the_flow ctx (TrimSpace i)
             (if TrimSpace corr \<noteq> [] then ''CORRECTION'' else ''ISSUE'') (TrimSpace iss) (TrimSpace h) m now)]"
proof -
  have cur: "ToUpper (TrimSpace cur) = ''CNY'' \<or> TrimSpace cur = []"
    using assms unfolding CreateInvoice_def Let_def by (auto simp: bindE_Inr guard_Inr)
  have up: "ToUpper [] = []"
    by simp
  consider "TrimSpace cur = []" | "TrimSpace cur \<noteq> []" "ToUpper (TrimSpace cur) = ''CNY''"
    using cur by blast
  then show ?thesis
  proof cases
    case 1
    show ?thesis
      using assms unfolding CreateInvoice_def Let_def
      by (cases "TrimSpace iorg = []"; cases "TrimSpace corr = []";
          clarsimp simp: res_inv checkedAddMoney_Inr not_le new_invoice_fold 1 up; auto)
  next
    case 2
    show ?thesis
      using assms unfolding CreateInvoice_def Let_def
      by (cases "TrimSpace iorg = []"; cases "TrimSpace corr = []";
          clarsimp simp: res_inv checkedAddMoney_Inr not_le new_invoice_fold 2; auto)
  qed
qed

lemma LinkInvoiceToProject_effect:
  assumes "LinkInvoiceToProject ctx iid pid op = Inr ws"
  shows "\<exists>inv p now. ReadInvoice ctx iid = Inr inv \<and> inv_Status inv \<noteq> ''VOIDED'' \<and> inv_ProjectID inv = []
    \<and> get_kv (st_ledger ctx) (reimbursementInvoiceKey iid) = None
    \<and> ReadProject ctx pid = Inr p \<and> prj_Status p \<in> {''EXECUTING'', ''FINANCIAL_SETTLEMENT'', ''CLOSURE_APPROVED''}
    \<and> requireProjectMember ctx p op = Inr () \<and> inv_IssuerMSPID inv = prj_ApplicantMSPID p
    \<and> transactionTime ctx = Inr now
    \<and> ws = [put_invoice (inv_ID inv) (inv\<lparr>inv_ProjectID := prj_ID p, inv_UpdatedAt := now\<rparr>),
           put_project_event ctx (prj_ID p) (the_event ctx (prj_ID p) ''LINK_INVOICE'' op (inv_ID inv) [] now)]"
  using assms unfolding LinkInvoiceToProject_def Let_def by (auto simp: res_inv)

lemma UnlinkInvoiceFromProject_effect:
  assumes "UnlinkInvoiceFromProject ctx iid op = Inr ws"
  shows "\<exists>inv p now. ReadInvoice ctx iid = Inr inv \<and> inv_Status inv \<noteq> ''VOIDED'' \<and> inv_ProjectID inv \<noteq> []
    \<and> get_kv (st_ledger ctx) (reimbursementInvoiceKey iid) = None
    \<and> ReadProject ctx (inv_ProjectID inv) = Inr p \<and> prj_Status p \<noteq> ''ARCHIVED''
    \<and> requireProjectMember ctx p (TrimSpace op) = Inr () \<and> transactionTime ctx = Inr now
    \<and> ws = [put_invoice (inv_ID inv) (inv\<lparr>inv_ProjectID := [], inv_UpdatedAt := now\<rparr>),
           put_project_event ctx (inv_ProjectID inv)
             (the_event ctx (inv_ProjectID inv) ''UNLINK_INVOICE'' op (inv_ID inv) [] now)]"
  using assms unfolding UnlinkInvoiceFromProject_def Let_def by (auto simp: res_inv)

lemma TransferInvoice_effect:
  assumes "TransferInvoice ctx i t tm op = Inr ws"
  shows "\<exists>inv m org' now. ReadInvoice ctx i = Inr inv \<and> inv_Status inv \<noteq> ''VOIDED''
    \<and> TrimSpace t \<noteq> [] \<and> TrimSpace t \<noteq> inv_CurrentHolder inv
    \<and> requireActiveHolder ctx (TrimSpace t) (TrimSpace tm) = Inr ()
    \<and> st_mspid ctx = Inr m \<and> inv_HolderMSPID inv = m \<and> inv_CurrentHolder inv = TrimSpace op
    \<and> requireActiveBusinessUser ctx (TrimSpace op) m [''ISSUER'', ''HOLDER'', ''PROJECT_MEMBER''] = Inr ()
    \<and> TrimSpace tm \<in> {''Org1MSP'', ''Org2MSP''} \<and> transactionTime ctx = Inr now
    \<and> ws = [put_invoice i (inv\<lparr>inv_CurrentHolder := TrimSpace t, inv_HolderMSPID := TrimSpace tm,
             inv_HolderOrganizationID := org', inv_Status := ''IN_CIRCULATION'', inv_UpdatedAt := now\<rparr>),
           put_flow ctx i (the_flow ctx i ''TRANSFER'' (inv_CurrentHolder inv) (TrimSpace t) m now)]"
  using assms unfolding TransferInvoice_def Let_def by (auto simp: res_inv)

lemma RequestInvoiceTransfer_effect:
  assumes "RequestInvoiceTransfer ctx i t tm n op = Inr ws"
  shows "\<exists>inv m now. ReadInvoice ctx i = Inr inv \<and> inv_Status inv \<noteq> ''VOIDED''
    \<and> TrimSpace t \<noteq> [] \<and> TrimSpace t \<noteq> inv_CurrentHolder inv
    \<and> st_mspid ctx = Inr m \<and> inv_HolderMSPID inv = m \<and> inv_CurrentHolder inv = TrimSpace op
    \<and> requireActiveBusinessUser ctx (TrimSpace op) m [''ISSUER'', ''HOLDER'', ''PROJECT_MEMBER''] = Inr ()
    \<and> requireRegisteredRole ctx (TrimSpace t) (TrimSpace tm) [''ISSUER'', ''HOLDER'', ''PROJECT_MEMBER''] = Inr ()
    \<and> (\<forall>x. ReadInvoiceTransfer ctx i = Inr x \<longrightarrow> trf_Status x \<noteq> ''PENDING'')
    \<and> transactionTime ctx = Inr now
    \<and> ws = [put_transfer i (zero_InvoiceTransfer\<lparr>trf_InvoiceID := i, trf_From := TrimSpace op,
             trf_To := TrimSpace t, trf_ToMSPID := TrimSpace tm, trf_Note := TrimSpace n,
             trf_Status := ''PENDING'', trf_CreatedAt := now, trf_UpdatedAt := now\<rparr>),
           put_flow ctx i (the_flow ctx i ''TRANSFER_REQUEST'' (TrimSpace op) (TrimSpace t) m now)]"
  using assms unfolding RequestInvoiceTransfer_def Let_def
  by (cases "ReadInvoiceTransfer ctx i") (auto simp: res_inv)

lemma RespondInvoiceTransfer_effect:
  assumes "RespondInvoiceTransfer ctx i dec rsp rcp = Inr ws"
  shows "\<exists>t now d. ReadInvoiceTransfer ctx i = Inr t \<and> trf_Status t = ''PENDING''
    \<and> d = ToUpper (TrimSpace dec) \<and> TrimSpace rcp = trf_To t
    \<and> requireActiveBusinessUser ctx (TrimSpace rcp) (trf_ToMSPID t) [''ISSUER'', ''HOLDER'', ''PROJECT_MEMBER''] = Inr ()
    \<and> transactionTime ctx = Inr now
    \<and> (d = ''REJECT''
         \<and> ws = [put_transfer i (t\<lparr>trf_UpdatedAt := now, trf_Response := TrimSpace rsp, trf_Status := ''REJECTED''\<rparr>),
                put_flow ctx i (the_flow ctx i ''TRANSFER_REJECTED'' (trf_From t) (trf_To t) (trf_ToMSPID t) now)]
       \<or> d = ''ACCEPT'' \<and> (\<exists>inv org'. ReadInvoice ctx i = Inr inv
         \<and> businessUserOrganization ctx (TrimSpace rcp) = Inr org'
         \<and> inv_CurrentHolder inv = trf_From t \<and> inv_Status inv \<noteq> ''VOIDED''
         \<and> ws = [put_invoice i (inv\<lparr>inv_CurrentHolder := trf_To t, inv_HolderMSPID := trf_ToMSPID t,
                  inv_HolderOrganizationID := org', inv_Status := ''IN_CIRCULATION'', inv_UpdatedAt := now\<rparr>),
                put_transfer i (t\<lparr>trf_UpdatedAt := now, trf_Response := TrimSpace rsp, trf_Status := ''ACCEPTED''\<rparr>),
                put_flow ctx i (the_flow ctx i ''TRANSFER_ACCEPTED'' (trf_From t) (trf_To t) (trf_ToMSPID t) now)]))"
proof (cases "ToUpper (TrimSpace dec) = ''REJECT''")
  case True
  then show ?thesis
    using assms unfolding RespondInvoiceTransfer_def Let_def by (clarsimp simp: res_inv)
next
  case False
  then show ?thesis
    using assms unfolding RespondInvoiceTransfer_def Let_def by (clarsimp simp: res_inv)
qed

lemma CancelInvoiceTransfer_effect:
  assumes "CancelInvoiceTransfer ctx i op = Inr ws"
  shows "\<exists>t inv now. ReadInvoiceTransfer ctx i = Inr t \<and> trf_Status t = ''PENDING'' \<and> TrimSpace op = trf_From t
    \<and> ReadInvoice ctx i = Inr inv \<and> inv_CurrentHolder inv = op \<and> transactionTime ctx = Inr now
    \<and> ws = [put_transfer i (t\<lparr>trf_Status := ''CANCELLED'', trf_UpdatedAt := now\<rparr>),
           put_flow ctx i (the_flow ctx i ''TRANSFER_CANCELLED'' (trf_From t) (trf_To t) (inv_HolderMSPID inv) now)]"
  using assms unfolding CancelInvoiceTransfer_def Let_def by (auto simp: res_inv)

lemma VoidInvoice_effect:
  assumes "VoidInvoice ctx i rs op = Inr ws"
  shows "\<exists>inv m now. ReadInvoice ctx i = Inr inv \<and> inv_Status inv \<noteq> ''VOIDED'' \<and> TrimSpace rs \<noteq> []
    \<and> st_mspid ctx = Inr m \<and> inv_IssuerMSPID inv = m
    \<and> requireActiveBusinessUser ctx (TrimSpace op) m [''ISSUER''] = Inr ()
    \<and> get_kv (st_ledger ctx) (reimbursementInvoiceKey i) = None \<and> transactionTime ctx = Inr now
    \<and> ws = [put_invoice i (inv\<lparr>inv_Status := ''VOIDED'', inv_VoidReason := TrimSpace rs, inv_UpdatedAt := now\<rparr>),
           put_flow ctx i (the_flow ctx i ''VOID'' (inv_CurrentHolder inv) ''VOIDED'' m now)]"
  using assms unfolding VoidInvoice_def Let_def by (auto simp: res_inv)

lemma RequestInvoiceVoid_effect:
  assumes "RequestInvoiceVoid ctx i rs a = Inr ws"
  shows "\<exists>inv p m now rq. ReadInvoice ctx i = Inr inv \<and> inv_Status inv \<noteq> ''VOIDED''
    \<and> get_kv (st_ledger ctx) (reimbursementInvoiceKey i) = None
    \<and> ReadProject ctx (inv_ProjectID inv) = Inr p \<and> requireProjectMember ctx p (TrimSpace a) = Inr ()
    \<and> (\<forall>x. ReadInvoiceVoidRequest ctx i = Inr x \<longrightarrow> vrq_Status x \<noteq> ''PENDING_REVIEW'')
    \<and> st_mspid ctx = Inr m \<and> transactionTime ctx = Inr now
    \<and> vrq_InvoiceID rq = (case ReadInvoiceVoidRequest ctx i of Inl _ \<Rightarrow> i | Inr x \<Rightarrow> vrq_InvoiceID x)
    \<and> vrq_Applicant rq = TrimSpace a \<and> vrq_Reason rq = TrimSpace rs \<and> vrq_Status rq = ''PENDING_REVIEW''
    \<and> ws = [put_void_request i rq,
           put_flow ctx i (the_flow ctx i ''VOID_REQUEST'' (TrimSpace a) ''ISSUER_REVIEW'' m now)]"
  using assms unfolding RequestInvoiceVoid_def Let_def
  by (cases "ReadInvoiceVoidRequest ctx i") (clarsimp simp: res_inv)+

lemma ReviewInvoiceVoid_effect:
  assumes "ReviewInvoiceVoid ctx i dec opn rv = Inr ws"
  shows "\<exists>inv rq m now d rq'. ReadInvoice ctx i = Inr inv \<and> ReadInvoiceVoidRequest ctx i = Inr rq
    \<and> vrq_Status rq = ''PENDING_REVIEW'' \<and> d = ToUpper (TrimSpace dec)
    \<and> st_mspid ctx = Inr m \<and> inv_IssuerMSPID inv = m
    \<and> requireActiveBusinessUser ctx (TrimSpace rv) m [''ISSUER''] = Inr () \<and> transactionTime ctx = Inr now
    \<and> rq' = rq\<lparr>vrq_Reviewer := TrimSpace rv, vrq_ReviewOpinion := TrimSpace opn, vrq_UpdatedAt := now\<rparr>
    \<and> (d = ''REJECT''
         \<and> ws = [put_void_request i (rq'\<lparr>vrq_Status := ''REJECTED''\<rparr>),
                put_flow ctx i (the_flow ctx i ''VOID_REJECTED'' (TrimSpace rv) (vrq_Applicant rq) m now)]
       \<or> d = ''APPROVE'' \<and> inv_Status inv \<noteq> ''VOIDED''
         \<and> get_kv (st_ledger ctx) (reimbursementInvoiceKey i) = None
         \<and> ws = [put_invoice i (inv\<lparr>inv_Status := ''VOIDED'', inv_VoidReason := vrq_Reason rq, inv_UpdatedAt := now\<rparr>),
                put_void_request i (rq'\<lparr>vrq_Status := ''APPROVED''\<rparr>),
                put_flow ctx i (the_flow ctx i ''VOID'' (inv_CurrentHolder inv) ''VOIDED'' m now)])"
  using assms unfolding ReviewInvoiceVoid_def Let_def
  by (cases "ToUpper (TrimSpace dec) = ''REJECT''") (auto simp: res_inv)

end
