(* ===== verification/Contract.thy ===== *)
theory Contract
  imports Directory Reimbursements Invoices
begin

text \<open>
  The contract as one state machine: the calls a client can submit (the exported methods of
  \<open>InvoiceContract\<close> that write), what a submitted call does to the world state, and the ledgers
  that sequences of calls lead to. \<open>chaincode/main.go\<close> hands the whole contract to the Fabric
  shim, which dispatches on the method name; \<open>invoke\<close> is that dispatch. A call runs against an
  arbitrary stub over the current ledger, so any caller certificate, clock and shim error can
  occur, and Fabric's ordering makes the committed calls a sequence.
\<close>

section \<open>Calls and their dispatch\<close>

datatype call =
    TxRegisterBusinessUser string string string string string
  | TxCreateBusinessOrganization string string string string string string
  | TxCreateProject string string string string string string string
  | TxUpdateProject string string string string string string
  | TxSubmitProject string string
  | TxReviewProject string string string string
  | TxRequestProjectClosure string string string string
  | TxReviewProjectClosure string string string string
  | TxFinalizeProjectSettlement string string
  | TxAddProjectMember string string string
  | TxCreateReimbursement string string string string string string
  | TxReviewReimbursement string string string string
  | TxResubmitReimbursement string string string string
  | TxWithdrawReimbursement string string
  | TxPayReimbursement string string
  | TxCreateInvoice string string string string string string string string string string string string string string string
  | TxLinkInvoiceToProject string string string
  | TxUnlinkInvoiceFromProject string string
  | TxTransferInvoice string string string string
  | TxRequestInvoiceTransfer string string string string string
  | TxRespondInvoiceTransfer string string string string
  | TxCancelInvoiceTransfer string string
  | TxVoidInvoice string string string
  | TxRequestInvoiceVoid string string string
  | TxReviewInvoiceVoid string string string string

fun invoke :: "stub \<Rightarrow> call \<Rightarrow> wr list res" where
  "invoke ctx (TxRegisterBusinessUser a b c d e) =
    RegisterBusinessUser ctx a b c d e"
| "invoke ctx (TxCreateBusinessOrganization a b c d e f) =
    CreateBusinessOrganization ctx a b c d e f"
| "invoke ctx (TxCreateProject a b c d e f g) =
    CreateProject ctx a b c d e f g"
| "invoke ctx (TxUpdateProject a b c d e f) =
    UpdateProject ctx a b c d e f"
| "invoke ctx (TxSubmitProject a b) =
    SubmitProject ctx a b"
| "invoke ctx (TxReviewProject a b c d) =
    ReviewProject ctx a b c d"
| "invoke ctx (TxRequestProjectClosure a b c d) =
    RequestProjectClosure ctx a b c d"
| "invoke ctx (TxReviewProjectClosure a b c d) =
    ReviewProjectClosure ctx a b c d"
| "invoke ctx (TxFinalizeProjectSettlement a b) =
    FinalizeProjectSettlement ctx a b"
| "invoke ctx (TxAddProjectMember a b c) =
    AddProjectMember ctx a b c"
| "invoke ctx (TxCreateReimbursement a b c d e f) =
    CreateReimbursement ctx a b c d e f"
| "invoke ctx (TxReviewReimbursement a b c d) =
    ReviewReimbursement ctx a b c d"
| "invoke ctx (TxResubmitReimbursement a b c d) =
    ResubmitReimbursement ctx a b c d"
| "invoke ctx (TxWithdrawReimbursement a b) =
    WithdrawReimbursement ctx a b"
| "invoke ctx (TxPayReimbursement a b) =
    PayReimbursement ctx a b"
| "invoke ctx (TxCreateInvoice a b c d e f g h i j k m n p q) =
    CreateInvoice ctx a b c d e f g h i j k m n p q"
| "invoke ctx (TxLinkInvoiceToProject a b c) =
    LinkInvoiceToProject ctx a b c"
| "invoke ctx (TxUnlinkInvoiceFromProject a b) =
    UnlinkInvoiceFromProject ctx a b"
| "invoke ctx (TxTransferInvoice a b c d) =
    TransferInvoice ctx a b c d"
| "invoke ctx (TxRequestInvoiceTransfer a b c d e) =
    RequestInvoiceTransfer ctx a b c d e"
| "invoke ctx (TxRespondInvoiceTransfer a b c d) =
    RespondInvoiceTransfer ctx a b c d"
| "invoke ctx (TxCancelInvoiceTransfer a b) =
    CancelInvoiceTransfer ctx a b"
| "invoke ctx (TxVoidInvoice a b c) =
    VoidInvoice ctx a b c"
| "invoke ctx (TxRequestInvoiceVoid a b c) =
    RequestInvoiceVoid ctx a b c"
| "invoke ctx (TxReviewInvoiceVoid a b c d) =
    ReviewInvoiceVoid ctx a b c d"

definition submit :: "stub \<Rightarrow> call \<Rightarrow> ledger" where
  "submit ctx c = finish (invoke ctx c) (st_ledger ctx)"

lemma submit_Inl: "invoke ctx c = Inl e \<Longrightarrow> submit ctx c = st_ledger ctx"
  by (simp add: submit_def finish_def)

lemma submit_Inr: "invoke ctx c = Inr ws \<Longrightarrow> submit ctx c = commit ws (st_ledger ctx)"
  by (simp add: submit_def finish_def)

section \<open>Runs\<close>

text \<open>
  \<open>run A l l'\<close>: a sequence of calls admitted by \<open>A\<close> leads from \<open>l\<close> to \<open>l'\<close>. The ledgers of the
  deployed contract are those reached from the empty one with every call admitted.
\<close>

inductive run :: "(stub \<Rightarrow> call \<Rightarrow> bool) \<Rightarrow> ledger \<Rightarrow> ledger \<Rightarrow> bool" for A where
  run_refl: "run A l l"
| run_step: "run A l (st_ledger ctx) \<Longrightarrow> A ctx c \<Longrightarrow> run A l (submit ctx c)"

definition any_call :: "stub \<Rightarrow> call \<Rightarrow> bool" where
  "any_call ctx c \<longleftrightarrow> True"

definition reachable :: "ledger \<Rightarrow> bool" where
  "reachable l \<longleftrightarrow> run any_call [] l"

lemma run_trans: "run A l m \<Longrightarrow> run A k l \<Longrightarrow> run A k m"
  by (induction rule: run.induct) (auto intro: run.intros)

lemma run_mono: "run A l m \<Longrightarrow> (\<And>ctx c. A ctx c \<Longrightarrow> B ctx c) \<Longrightarrow> run B l m"
  by (induction rule: run.induct) (auto intro: run.intros)

lemma run_any: "run A l m \<Longrightarrow> run any_call l m"
  by (erule run_mono) (simp add: any_call_def)

lemma run_wf: "run A l m \<Longrightarrow> wf_ledger l \<Longrightarrow> wf_ledger m"
  by (induction rule: run.induct) (auto simp: submit_def wf_finish)

lemma wf_empty: "wf_ledger []"
  by (rule kv.inv_empty)

text \<open>
  What makes a predicate an invariant: it holds of the empty ledger and every successful admitted
  call keeps it, given facts \<open>base\<close> already known of every ledger.
\<close>

locale ledger_invariant =
  fixes A :: "stub \<Rightarrow> call \<Rightarrow> bool"
    and base :: "ledger \<Rightarrow> bool"
    and I :: "ledger \<Rightarrow> bool"
  assumes base: "run A [] l \<Longrightarrow> base l"
    and init: "I []"
    and keep: "wf_ledger (st_ledger ctx) \<Longrightarrow> base (st_ledger ctx) \<Longrightarrow> I (st_ledger ctx) \<Longrightarrow> A ctx c \<Longrightarrow>
      invoke ctx c = Inr ws \<Longrightarrow> I (commit ws (st_ledger ctx))"
begin

lemma keep_submit:
  assumes "run A [] (st_ledger ctx)" "I (st_ledger ctx)" "A ctx c"
  shows "I (submit ctx c)"
proof (cases "invoke ctx c")
  case (Inl e)
  with assms show ?thesis by (simp add: submit_Inl)
next
  case (Inr ws)
  with assms show ?thesis
    by (simp add: submit_Inr) (blast intro: keep run_wf wf_empty base)
qed

lemma holds: "run A [] l \<Longrightarrow> I l"
proof (induction "[] :: ledger" l rule: run.induct)
  case (run_step ctx c)
  then show ?case by (blast intro: keep_submit)
qed (rule init)

text \<open>The invariant and the base facts together can serve as the base of the next invariant.\<close>

lemma holds_both: "run A [] l \<Longrightarrow> base l \<and> I l"
  by (blast intro: base holds)

end

text \<open>
  A relation between an earlier and a later ledger: reflexive, transitive, and respected by every
  successful call on a ledger that satisfies the invariant.
\<close>

locale ledger_evolution =
  fixes A :: "stub \<Rightarrow> call \<Rightarrow> bool"
    and base :: "ledger \<Rightarrow> bool"
    and R :: "ledger \<Rightarrow> ledger \<Rightarrow> bool"
  assumes base: "run A [] l \<Longrightarrow> base l"
    and refl: "R l l"
    and trans: "R l m \<Longrightarrow> R m n \<Longrightarrow> R l n"
    and keep: "wf_ledger (st_ledger ctx) \<Longrightarrow> base (st_ledger ctx) \<Longrightarrow> A ctx c \<Longrightarrow>
      invoke ctx c = Inr ws \<Longrightarrow> R (st_ledger ctx) (commit ws (st_ledger ctx))"
begin

lemma evolves: "run A l m \<Longrightarrow> run A [] l \<Longrightarrow> R l m"
proof (induction l m rule: run.induct)
  case (run_refl l)
  show ?case by (rule refl)
next
  case (run_step l ctx c)
  then have r: "run A [] (st_ledger ctx)" by (blast intro: run_trans)
  show ?case
  proof (cases "invoke ctx c")
    case (Inl e)
    with run_step show ?thesis by (simp add: submit_Inl)
  next
    case (Inr ws)
    with run_step r have "R (st_ledger ctx) (submit ctx c)"
      by (simp add: submit_Inr) (blast intro: keep run_wf wf_empty base)
    with run_step show ?thesis by (blast intro: trans)
  qed
qed

end

end
