(* ===== verification/Integrity.thy ===== *)
theory Integrity
  imports Contract
begin

text \<open>
  The typing of the world state: what is stored under a key of each family, and that every
  transaction of the contract keeps it, whatever the caller sends. The record invariants
  (\<open>invoice_ok\<close>, \<open>project_ok\<close>, \<open>reimbursement_ok\<close>, \<open>user_ok\<close>) carry the money laws: an invoice
  total is the sum of amount and tax, and the balances of a project always add up to its budget.
\<close>

section \<open>Well-formed records\<close>

definition invoice_ok :: "Invoice \<Rightarrow> bool" where
  "invoice_ok x \<longleftrightarrow>
    inv_ID x \<noteq> [] \<and> TrimSpace (inv_ID x) = inv_ID x \<and> TrimSpace (inv_InvoiceNo x) = inv_InvoiceNo x
    \<and> 0 \<le> sint (inv_AmountCents x) \<and> 0 \<le> sint (inv_TaxCents x)
    \<and> sint (inv_TotalCents x) = sint (inv_AmountCents x) + sint (inv_TaxCents x)
    \<and> 0 < sint (inv_TotalCents x) \<and> sint (inv_TotalCents x) \<le> 10000000000
    \<and> inv_Currency x = ''CNY'' \<and> inv_HashVersion x = ''v2'' \<and> length (inv_DataHash x) = 64
    \<and> inv_IssuerMSPID x \<in> {''Org1MSP'', ''Org2MSP''} \<and> inv_HolderMSPID x \<in> {''Org1MSP'', ''Org2MSP''}
    \<and> inv_Status x \<in> {''ISSUED'', ''IN_CIRCULATION'', ''VOIDED''}"

text \<open>Money appears in a project when its closure is approved and is all accounted for when it is archived.\<close>

definition balanced :: "Project \<Rightarrow> bool" where
  "balanced x \<longleftrightarrow>
    0 \<le> sint (prj_AvailableCents x) \<and> 0 \<le> sint (prj_ReservedCents x)
    \<and> 0 \<le> sint (prj_PaidCents x) \<and> 0 \<le> sint (prj_RecoveredCents x)
    \<and> (if prj_Status x = ''FINANCIAL_SETTLEMENT'' then
         prj_RecoveredCents x = 0 \<and>
         sint (prj_AvailableCents x) + sint (prj_ReservedCents x) + sint (prj_PaidCents x) = sint (prj_BudgetCents x)
       else if prj_Status x = ''ARCHIVED'' then
         prj_AvailableCents x = 0 \<and> prj_ReservedCents x = 0 \<and>
         sint (prj_PaidCents x) + sint (prj_RecoveredCents x) = sint (prj_BudgetCents x)
       else prj_AvailableCents x = 0 \<and> prj_ReservedCents x = 0 \<and> prj_PaidCents x = 0 \<and> prj_RecoveredCents x = 0)"

definition project_ok :: "Project \<Rightarrow> bool" where
  "project_ok x \<longleftrightarrow>
    prj_ID x \<noteq> [] \<and> TrimSpace (prj_ID x) = prj_ID x \<and> prj_OrganizationID x \<noteq> []
    \<and> prj_ApplicantMSPID x \<in> {''Org1MSP'', ''Org2MSP''}
    \<and> 0 < sint (prj_BudgetCents x) \<and> sint (prj_BudgetCents x) \<le> 10000000000
    \<and> prj_Status x \<in> {''DRAFT'', ''PENDING_REVIEW'', ''REVISION_REQUIRED'', ''EXECUTING'', ''CLOSURE_REVIEW'',
        ''FINANCIAL_SETTLEMENT'', ''ARCHIVED''}
    \<and> balanced x"

definition reimbursement_ok :: "Reimbursement \<Rightarrow> bool" where
  "reimbursement_ok x \<longleftrightarrow>
    rmb_ID x \<noteq> [] \<and> TrimSpace (rmb_ID x) = rmb_ID x
    \<and> TrimSpace (rmb_ProjectID x) = rmb_ProjectID x \<and> TrimSpace (rmb_InvoiceID x) = rmb_InvoiceID x
    \<and> 0 < sint (rmb_AmountCents x) \<and> sint (rmb_AmountCents x) \<le> 10000000000
    \<and> length (rmb_EvidenceHash x) = 64
    \<and> rmb_Status x \<in> {''PENDING_REVIEW'', ''REVISION_REQUIRED'', ''APPROVED_RESERVED'', ''PAID'', ''WITHDRAWN''}"

definition user_ok :: "BusinessUser \<Rightarrow> bool" where
  "user_ok x \<longleftrightarrow> usr_Username x \<noteq> [] \<and> TrimSpace (usr_Username x) = usr_Username x
    \<and> usr_MSPID x \<in> {''Org1MSP'', ''Org2MSP''} \<and> usr_Role x = ''PROJECT_MEMBER'' \<and> usr_Status x = ''ACTIVE''"

definition organization_ok :: "BusinessOrganization \<Rightarrow> bool" where
  "organization_ok x \<longleftrightarrow> TrimSpace (org_ID x) = org_ID x \<and> org_MSPID x \<in> {''Org1MSP'', ''Org2MSP''}
    \<and> validBusinessOrganizationType (org_Type x) \<and> org_Status x = ''ACTIVE''"

definition transfer_ok :: "InvoiceTransfer \<Rightarrow> bool" where
  "transfer_ok x \<longleftrightarrow> trf_Status x \<in> {''PENDING'', ''REJECTED'', ''ACCEPTED'', ''CANCELLED''}
    \<and> trf_To x \<noteq> [] \<and> trf_To x \<noteq> trf_From x
    \<and> TrimSpace (trf_InvoiceID x) = trf_InvoiceID x \<and> trf_ToMSPID x \<in> {''Org1MSP'', ''Org2MSP''}"

definition void_request_ok :: "InvoiceVoidRequest \<Rightarrow> bool" where
  "void_request_ok x \<longleftrightarrow> vrq_Status x \<in> {''PENDING_REVIEW'', ''REJECTED'', ''APPROVED''}
    \<and> TrimSpace (vrq_InvoiceID x) = vrq_InvoiceID x"

section \<open>The typing of the entries\<close>

definition entry_ok :: "string \<Rightarrow> blob \<Rightarrow> bool" where
  "entry_ok k b \<longleftrightarrow>
    (\<forall>i. k = invoiceKey i \<longrightarrow> (\<exists>x. b = Doc (enc_Invoice x) \<and> inv_ID x = i \<and> invoice_ok x))
    \<and> (\<forall>i. k = projectKey i \<longrightarrow> (\<exists>x. b = Doc (enc_Project x) \<and> prj_ID x = TrimSpace i \<and> project_ok x))
    \<and> (\<forall>i. k = reimbursementKey i \<longrightarrow>
         (\<exists>x. b = Doc (enc_Reimbursement x) \<and> rmb_ID x = TrimSpace i \<and> reimbursement_ok x))
    \<and> (\<forall>i. k = userKey i \<longrightarrow> (\<exists>x. b = Doc (enc_BusinessUser x) \<and> usr_Username x = i \<and> user_ok x))
    \<and> (\<forall>i. k = organizationKey i \<longrightarrow>
         (\<exists>x. b = Doc (enc_BusinessOrganization x) \<and> org_ID x = i \<and> organization_ok x))
    \<and> (\<forall>i. k = transferRequestKey i \<longrightarrow>
         (\<exists>x. b = Doc (enc_InvoiceTransfer x) \<and> trf_InvoiceID x = TrimSpace i \<and> transfer_ok x))
    \<and> (\<forall>i. k = voidRequestKey i \<longrightarrow>
         (\<exists>x. b = Doc (enc_InvoiceVoidRequest x) \<and> vrq_InvoiceID x = TrimSpace i \<and> void_request_ok x))
    \<and> (\<forall>i. k = invoiceNumberKey i \<longrightarrow> (\<exists>r. b = Raw r \<and> TrimSpace r = r))
    \<and> (\<forall>i. k = reimbursementInvoiceKey i \<longrightarrow> (\<exists>r. b = Raw r \<and> TrimSpace r = r))
    \<and> (\<forall>i u. k = projectMemberKey i u \<longrightarrow> (\<exists>x. b = Doc (enc_ProjectMember x) \<and> k = projectMemberKey (mem_ProjectID x) (mem_Username x)))
    \<and> (\<forall>i t. k = flowKey i t \<longrightarrow> (\<exists>x. b = Doc (enc_InvoiceFlow x) \<and> flw_ID x = k))
    \<and> (\<forall>i t. k = projectEventKey i t \<longrightarrow> (\<exists>x. b = Doc (enc_ProjectEvent x) \<and> evt_ID x = k))"

lemma entry_ok_keys [simp]:
  "entry_ok (invoiceKey i) b \<longleftrightarrow> (\<exists>x. b = Doc (enc_Invoice x) \<and> inv_ID x = i \<and> invoice_ok x)"
  "entry_ok (projectKey i) b \<longleftrightarrow> (\<exists>x. b = Doc (enc_Project x) \<and> prj_ID x = TrimSpace i \<and> project_ok x)"
  "entry_ok (reimbursementKey i) b \<longleftrightarrow>
     (\<exists>x. b = Doc (enc_Reimbursement x) \<and> rmb_ID x = TrimSpace i \<and> reimbursement_ok x)"
  "entry_ok (userKey i) b \<longleftrightarrow> (\<exists>x. b = Doc (enc_BusinessUser x) \<and> usr_Username x = i \<and> user_ok x)"
  "entry_ok (organizationKey i) b \<longleftrightarrow>
     (\<exists>x. b = Doc (enc_BusinessOrganization x) \<and> org_ID x = i \<and> organization_ok x)"
  "entry_ok (transferRequestKey i) b \<longleftrightarrow>
     (\<exists>x. b = Doc (enc_InvoiceTransfer x) \<and> trf_InvoiceID x = TrimSpace i \<and> transfer_ok x)"
  "entry_ok (voidRequestKey i) b \<longleftrightarrow>
     (\<exists>x. b = Doc (enc_InvoiceVoidRequest x) \<and> vrq_InvoiceID x = TrimSpace i \<and> void_request_ok x)"
  "entry_ok (invoiceNumberKey i) b \<longleftrightarrow> (\<exists>r. b = Raw r \<and> TrimSpace r = r)"
  "entry_ok (reimbursementInvoiceKey i) b \<longleftrightarrow> (\<exists>r. b = Raw r \<and> TrimSpace r = r)"
  "entry_ok (projectMemberKey i u) b \<longleftrightarrow>
     (\<exists>x. b = Doc (enc_ProjectMember x) \<and> projectMemberKey i u = projectMemberKey (mem_ProjectID x) (mem_Username x))"
  "entry_ok (flowKey i t) b \<longleftrightarrow> (\<exists>x. b = Doc (enc_InvoiceFlow x) \<and> flw_ID x = flowKey i t)"
  "entry_ok (projectEventKey i t) b \<longleftrightarrow> (\<exists>x. b = Doc (enc_ProjectEvent x) \<and> evt_ID x = projectEventKey i t)"
  unfolding entry_ok_def by (auto simp only: key_inject key_neq)

definition typed :: "ledger \<Rightarrow> bool" where
  "typed l \<longleftrightarrow> wf_ledger l \<and> kv.all_entries entry_ok l"

lemma typed_wf: "typed l \<Longrightarrow> wf_ledger l"
  by (simp add: typed_def)

lemma typed_entry: "get_kv l k = Some b \<Longrightarrow> typed l \<Longrightarrow> entry_ok k b"
  by (simp add: typed_def kv.all_entries_def)

text \<open>What a successful read returns from a typed ledger.\<close>

named_theorems typed_read \<open>facts about records read from a typed ledger\<close>

lemma typed_ReadInvoice [typed_read]:
  "ReadInvoice ctx i = Inr x \<Longrightarrow> typed (st_ledger ctx) \<Longrightarrow>
    inv_ID x = i \<and> invoice_ok x \<and> get_kv (st_ledger ctx) (invoiceKey i) = Some (Doc (enc_Invoice x))"
  by (fastforce simp: read_inv stored_def dest: typed_entry)

lemma typed_ReadProject [typed_read]:
  "ReadProject ctx i = Inr x \<Longrightarrow> typed (st_ledger ctx) \<Longrightarrow>
    prj_ID x = TrimSpace i \<and> project_ok x
    \<and> get_kv (st_ledger ctx) (projectKey (TrimSpace i)) = Some (Doc (enc_Project x))"
  by (fastforce simp: read_inv stored_def dest: typed_entry)

lemma typed_ReadReimbursement [typed_read]:
  "ReadReimbursement ctx i = Inr x \<Longrightarrow> typed (st_ledger ctx) \<Longrightarrow>
    rmb_ID x = TrimSpace i \<and> reimbursement_ok x
    \<and> get_kv (st_ledger ctx) (reimbursementKey (TrimSpace i)) = Some (Doc (enc_Reimbursement x))"
  by (fastforce simp: read_inv stored_def dest: typed_entry)

lemma typed_ReadBusinessUser [typed_read]:
  "ReadBusinessUser ctx i = Inr x \<Longrightarrow> typed (st_ledger ctx) \<Longrightarrow>
    usr_Username x = TrimSpace i \<and> user_ok x"
  by (fastforce simp: read_inv stored_def dest: typed_entry)

lemma typed_ReadBusinessOrganization [typed_read]:
  "ReadBusinessOrganization ctx i = Inr x \<Longrightarrow> typed (st_ledger ctx) \<Longrightarrow>
    org_ID x = TrimSpace i \<and> organization_ok x"
  by (fastforce simp: read_inv stored_def dest: typed_entry)

lemma typed_ReadInvoiceTransfer [typed_read]:
  "ReadInvoiceTransfer ctx i = Inr x \<Longrightarrow> typed (st_ledger ctx) \<Longrightarrow>
    trf_InvoiceID x = TrimSpace i \<and> transfer_ok x
    \<and> get_kv (st_ledger ctx) (transferRequestKey (TrimSpace i)) = Some (Doc (enc_InvoiceTransfer x))"
  by (fastforce simp: read_inv stored_def dest: typed_entry)

lemma typed_ReadInvoiceVoidRequest [typed_read]:
  "ReadInvoiceVoidRequest ctx i = Inr x \<Longrightarrow> typed (st_ledger ctx) \<Longrightarrow>
    vrq_InvoiceID x = TrimSpace i \<and> void_request_ok x
    \<and> get_kv (st_ledger ctx) (voidRequestKey (TrimSpace i)) = Some (Doc (enc_InvoiceVoidRequest x))"
  by (fastforce simp: read_inv stored_def dest: typed_entry)

text \<open>
  On a typed ledger the only registered role is \<open>PROJECT_MEMBER\<close>: every other role is held by a
  built-in account under its own MSP.
\<close>

lemma typed_holds_role:
  assumes "holds_role ctx n m r" "typed (st_ledger ctx)"
  shows "r = ''PROJECT_MEMBER'' \<and> m \<in> {''Org1MSP'', ''Org2MSP''} \<or> (n, m, r) \<in> set demo_accounts"
  using assms by (auto simp: holds_role_def user_ok_def dest!: typed_ReadBusinessUser dest: demoUserRole_Some [OF refl])

lemma demo_accounts_msp: "(n, m, r) \<in> set demo_accounts \<Longrightarrow> m \<in> {''Org1MSP'', ''Org2MSP''}"
  by (auto simp: demo_accounts_def)

lemma typed_role_msp: "holds_role ctx n m r \<Longrightarrow> typed (st_ledger ctx) \<Longrightarrow> m \<in> {''Org1MSP'', ''Org2MSP''}"
  by (blast dest: typed_holds_role demo_accounts_msp)

lemma typed_active_msp:
  "requireActiveBusinessUser ctx n m rs = Inr u \<Longrightarrow> typed (st_ledger ctx) \<Longrightarrow> m \<in> {''Org1MSP'', ''Org2MSP''}"
  by (auto simp: requireActiveBusinessUser_Inr dest: typed_role_msp)

lemma typed_registered_msp:
  "requireRegisteredRole ctx n m rs = Inr u \<Longrightarrow> typed (st_ledger ctx) \<Longrightarrow> m \<in> {''Org1MSP'', ''Org2MSP''}"
  by (auto simp: requireRegisteredRole_Inr dest: typed_role_msp)

section \<open>Every operation writes well-typed entries\<close>

abbreviation writes_ok :: "wr list \<Rightarrow> bool" where
  "writes_ok ws \<equiv> list_all (put_ok entry_ok) ws"

lemma evidence_ids [simp]:
  "flw_ID (the_flow ctx i ty f t op ts) = flowKey i (st_txid ctx)"
  "evt_ID (the_event ctx p ty a n r ts) = projectEventKey p (st_txid ctx)"
  by (simp_all add: the_flow_def the_event_def)

lemma ok_RegisterBusinessUser:
  "RegisterBusinessUser ctx n d m r oid = Inr ws \<Longrightarrow> writes_ok ws"
  by (auto dest!: RegisterBusinessUser_effect simp: user_ok_def zero_BusinessUser_def)

lemma ok_CreateBusinessOrganization:
  assumes "CreateBusinessOrganization ctx i n t p d c = Inr ws" "typed (st_ledger ctx)"
  shows "writes_ok ws"
  using assms by (auto dest!: CreateBusinessOrganization_effect typed_active_msp
      simp: organization_ok_def zero_BusinessOrganization_def)

section \<open>Projects\<close>

lemma project_ok_balanced: "project_ok p \<Longrightarrow> balanced p"
  by (simp add: project_ok_def)

lemma writes_ok_project_writes:
  "prj_ID p = TrimSpace i \<Longrightarrow> project_ok p \<Longrightarrow> evt_ID e = projectEventKey i (st_txid ctx) \<Longrightarrow>
    writes_ok (project_writes ctx i p e)"
  by (simp add: project_writes_def)

lemma ok_CreateProject:
  assumes "CreateProject ctx i n c b d a oid = Inr ws" "typed (st_ledger ctx)"
  shows "writes_ok ws"
  using assms by (auto dest!: CreateProject_effect typed_active_msp parseBudget_Inr
      simp: project_ok_def balanced_def zero_Project_def zero_ProjectMember_def)

lemma ok_UpdateProject:
  assumes "UpdateProject ctx i n c b d a = Inr ws" "typed (st_ledger ctx)"
  shows "writes_ok ws"
  using UpdateProject_effect [OF assms(1)] assms(2)
  by (elim exE conjE) (auto intro!: writes_ok_project_writes dest!: typed_ReadProject parseBudget_Inr
      simp: project_ok_def balanced_def)

lemma ok_SubmitProject:
  assumes "SubmitProject ctx i a = Inr ws" "typed (st_ledger ctx)"
  shows "writes_ok ws"
  using SubmitProject_effect [OF assms(1)] assms(2)
  by (elim exE conjE) (auto intro!: writes_ok_project_writes dest!: typed_ReadProject
      simp: project_ok_def balanced_def)

lemma ok_ReviewProject:
  assumes "ReviewProject ctx i dec opn r = Inr ws" "typed (st_ledger ctx)"
  shows "writes_ok ws"
  using ReviewProject_effect [OF assms(1)] assms(2)
  by (elim exE conjE) (auto intro!: writes_ok_project_writes dest!: typed_ReadProject
      simp: project_ok_def balanced_def)

lemma ok_RequestProjectClosure:
  assumes "RequestProjectClosure ctx i m h a = Inr ws" "typed (st_ledger ctx)"
  shows "writes_ok ws"
  using RequestProjectClosure_effect [OF assms(1)] assms(2)
  by (elim exE conjE) (auto intro!: writes_ok_project_writes dest!: typed_ReadProject
      simp: project_ok_def balanced_def)

lemma ok_ReviewProjectClosure:
  assumes "ReviewProjectClosure ctx i dec opn r = Inr ws" "typed (st_ledger ctx)"
  shows "writes_ok ws"
  using ReviewProjectClosure_effect [OF assms(1)] assms(2)
  by (elim exE conjE) (auto intro!: writes_ok_project_writes dest!: typed_ReadProject
      simp: project_ok_def balanced_def)

lemma archive_ok:
  assumes "project_ok p" "prj_Status p \<in> {''FINANCIAL_SETTLEMENT'', ''CLOSURE_APPROVED''}" "prj_ReservedCents p = 0"
  shows "project_ok (p\<lparr>prj_RecoveredCents := prj_RecoveredCents p + prj_AvailableCents p, prj_AvailableCents := 0,
    prj_Status := ''ARCHIVED'', prj_UpdatedAt := now\<rparr>)"
  using assms by (auto simp: project_ok_def balanced_def)

lemma ok_FinalizeProjectSettlement:
  assumes "FinalizeProjectSettlement ctx i f = Inr ws" "typed (st_ledger ctx)"
  shows "writes_ok ws"
  using FinalizeProjectSettlement_effect [OF assms(1)] assms(2)
  by (elim exE conjE, hypsubst) (rule writes_ok_project_writes;
      auto intro!: archive_ok dest!: typed_ReadProject)

lemma ok_AddProjectMember:
  assumes "AddProjectMember ctx pid n l = Inr ws"
  shows "writes_ok ws"
  using AddProjectMember_effect [OF assms] by (auto simp: zero_ProjectMember_def)

section \<open>Reimbursements\<close>

text \<open>The three balance updates keep a project balanced under the guards the handlers check.\<close>

lemma reserve_ok:
  assumes "project_ok p" "0 < sint a" "sint a \<le> sint (prj_AvailableCents p)"
  shows "project_ok (reserve a now p)"
proof -
  have f: "prj_Status p = ''FINANCIAL_SETTLEMENT''" and r: "0 \<le> sint (prj_ReservedCents p)" "0 \<le> sint (prj_PaidCents p)"
    and b: "sint (prj_AvailableCents p) + sint (prj_ReservedCents p) + sint (prj_PaidCents p) \<le> 10000000000"
    using assms by (auto simp: project_ok_def balanced_def split: if_splits)
  have "sint (prj_AvailableCents p - a) = sint (prj_AvailableCents p) - sint a"
    "sint (prj_ReservedCents p + a) = sint (prj_ReservedCents p) + sint a"
    using assms r b by (auto intro!: sint64_sub sint64_add)
  with assms f r show ?thesis by (auto simp: project_ok_def balanced_def reserve_def)
qed

lemma release_ok:
  assumes "project_ok p" "0 < sint a" "sint a \<le> sint (prj_ReservedCents p)"
  shows "project_ok (release a now p)"
proof -
  have f: "prj_Status p = ''FINANCIAL_SETTLEMENT''" and r: "0 \<le> sint (prj_AvailableCents p)" "0 \<le> sint (prj_PaidCents p)"
    and b: "sint (prj_AvailableCents p) + sint (prj_ReservedCents p) + sint (prj_PaidCents p) \<le> 10000000000"
    using assms by (auto simp: project_ok_def balanced_def split: if_splits)
  have "sint (prj_AvailableCents p + a) = sint (prj_AvailableCents p) + sint a"
    "sint (prj_ReservedCents p - a) = sint (prj_ReservedCents p) - sint a"
    using assms r b by (auto intro!: sint64_sub sint64_add)
  with assms f r show ?thesis by (auto simp: project_ok_def balanced_def release_def)
qed

lemma pay_out_ok:
  assumes "project_ok p" "0 < sint a" "sint a \<le> sint (prj_ReservedCents p)"
  shows "project_ok (pay_out a now p)"
proof -
  have f: "prj_Status p = ''FINANCIAL_SETTLEMENT''" and r: "0 \<le> sint (prj_AvailableCents p)" "0 \<le> sint (prj_PaidCents p)"
    and b: "sint (prj_AvailableCents p) + sint (prj_ReservedCents p) + sint (prj_PaidCents p) \<le> 10000000000"
    using assms by (auto simp: project_ok_def balanced_def split: if_splits)
  have "sint (prj_PaidCents p + a) = sint (prj_PaidCents p) + sint a"
    "sint (prj_ReservedCents p - a) = sint (prj_ReservedCents p) - sint a"
    using assms r b by (auto intro!: sint64_sub sint64_add)
  with assms f r show ?thesis by (auto simp: project_ok_def balanced_def pay_out_def)
qed

text \<open>Under the same guards the machine arithmetic is exact.\<close>

lemma balance_sint:
  assumes "project_ok p" "0 < sint a"
  shows "sint a \<le> sint (prj_AvailableCents p) \<Longrightarrow>
      sint (prj_ReservedCents (reserve a now p)) = sint (prj_ReservedCents p) + sint a"
    and "sint a \<le> sint (prj_ReservedCents p) \<Longrightarrow>
      sint (prj_ReservedCents (release a now p)) = sint (prj_ReservedCents p) - sint a"
    and "sint a \<le> sint (prj_ReservedCents p) \<Longrightarrow>
      sint (prj_ReservedCents (pay_out a now p)) = sint (prj_ReservedCents p) - sint a \<and>
      sint (prj_PaidCents (pay_out a now p)) = sint (prj_PaidCents p) + sint a"
  using assms unfolding project_ok_def balanced_def
  by (auto simp: reserve_def release_def pay_out_def intro!: sint64_add sint64_sub split: if_splits)

lemma balance_ids [simp]:
  "prj_ID (reserve a now p) = prj_ID p" "prj_ID (release a now p) = prj_ID p"
  "prj_ID (pay_out a now p) = prj_ID p"
  by (simp_all add: reserve_def release_def pay_out_def)

lemma project_ok_ID: "project_ok p \<Longrightarrow> TrimSpace (prj_ID p) = prj_ID p"
  by (simp add: project_ok_def)

lemma reimbursement_ok_amount: "reimbursement_ok r \<Longrightarrow> 0 < sint (rmb_AmountCents r)"
  by (simp add: reimbursement_ok_def)

lemma ok_CreateReimbursement:
  assumes "CreateReimbursement ctx i pid iid a ev evh = Inr ws"
  shows "writes_ok ws"
  using CreateReimbursement_effect [OF assms]
  by (elim exE conjE) (auto simp: reimbursement_ok_def zero_Reimbursement_def)

lemma ok_ReviewReimbursement:
  assumes "ReviewReimbursement ctx i dec opn rv = Inr ws" "typed (st_ledger ctx)"
  shows "writes_ok ws"
  using ReviewReimbursement_effect [OF assms(1)] assms(2)
  by (elim exE conjE disjE; hypsubst)
    (auto dest!: typed_ReadReimbursement typed_ReadProject simp: project_ok_ID reserve_ok,
     auto simp: reimbursement_ok_def)

lemma ok_ResubmitReimbursement:
  assumes "ResubmitReimbursement ctx i ev evh a = Inr ws" "typed (st_ledger ctx)"
  shows "writes_ok ws"
  using ResubmitReimbursement_effect [OF assms(1)] assms(2)
  by (elim exE conjE) (auto dest!: typed_ReadReimbursement simp: reimbursement_ok_def)

lemma ok_WithdrawReimbursement:
  assumes "WithdrawReimbursement ctx i a = Inr ws" "typed (st_ledger ctx)"
  shows "writes_ok ws"
  using WithdrawReimbursement_effect [OF assms(1)] assms(2)
  by (elim exE conjE)
    (auto dest!: typed_ReadReimbursement typed_ReadProject
       simp: project_ok_ID release_ok reimbursement_ok_amount, auto simp: reimbursement_ok_def)

lemma ok_PayReimbursement:
  assumes "PayReimbursement ctx i f = Inr ws" "typed (st_ledger ctx)"
  shows "writes_ok ws"
  using PayReimbursement_effect [OF assms(1)] assms(2)
  by (elim exE conjE)
    (auto dest!: typed_ReadReimbursement typed_ReadProject
       simp: project_ok_ID pay_out_ok reimbursement_ok_amount, auto simp: reimbursement_ok_def)

section \<open>Invoices\<close>

lemma ok_CreateInvoice:
  assumes "CreateInvoice ctx i no d iss b bm am tx cur hash pid h hm iorg corr = Inr ws"
  shows "writes_ok ws"
proof -
  have hm: "inv_HolderMSPID (new_invoice i no d iss b bm amount tax tot hash pid corr h msp iorg now) = msp"
    for i no d iss b bm amount tax tot hash pid corr h msp iorg now
    by (simp add: new_invoice_def)
  have ok: "invoice_ok (new_invoice (TrimSpace i) (TrimSpace no) d (TrimSpace iss) b' bm' amount tax (amount + tax)
      (ToLower hash) pid' corr' h' m org' now)"
    if "parseNonNegative am ''amount'' = Inr amount" "parseNonNegative tx ''tax'' = Inr tax"
      "sint amount + sint tax \<le> 10000000000" "0 < sint (amount + tax)" "m \<in> {''Org1MSP'', ''Org2MSP''}"
      "TrimSpace i \<noteq> []" "length hash = 64" "hex_decodable hash"
    for amount tax m b' bm' pid' corr' h' org' now
  proof -
    have b: "0 \<le> sint amount" "0 \<le> sint tax"
      using that(1,2) by (auto dest: parseNonNegative_bounds)
    then have "sint (amount + tax) = sint amount + sint tax"
      using that(3) by (intro sint64_add) auto
    with that b show ?thesis by (auto simp: invoice_ok_def hm length_ToLower_hex)
  qed
  show ?thesis
    using CreateInvoice_effect [OF assms] by (elim exE conjE) (auto simp: ok)
qed

lemma invoice_ok_ID: "invoice_ok x \<Longrightarrow> TrimSpace (inv_ID x) = inv_ID x"
  by (simp add: invoice_ok_def)

lemma ok_LinkInvoiceToProject:
  assumes "LinkInvoiceToProject ctx iid pid op = Inr ws" "typed (st_ledger ctx)"
  shows "writes_ok ws"
  using LinkInvoiceToProject_effect [OF assms(1)] assms(2)
  by (elim exE conjE) (auto dest!: typed_ReadInvoice simp: invoice_ok_def)

lemma ok_UnlinkInvoiceFromProject:
  assumes "UnlinkInvoiceFromProject ctx iid op = Inr ws" "typed (st_ledger ctx)"
  shows "writes_ok ws"
  using UnlinkInvoiceFromProject_effect [OF assms(1)] assms(2)
  by (elim exE conjE) (auto dest!: typed_ReadInvoice simp: invoice_ok_def)

lemma ok_TransferInvoice:
  assumes "TransferInvoice ctx i t tm op = Inr ws" "typed (st_ledger ctx)"
  shows "writes_ok ws"
  using TransferInvoice_effect [OF assms(1)] assms(2)
  by (elim exE conjE) (auto dest!: typed_ReadInvoice simp: invoice_ok_def)

lemma ok_RequestInvoiceTransfer:
  assumes "RequestInvoiceTransfer ctx i t tm n op = Inr ws" "typed (st_ledger ctx)"
  shows "writes_ok ws"
  using RequestInvoiceTransfer_effect [OF assms(1)] assms(2)
  by (elim exE conjE) (auto dest!: typed_ReadInvoice typed_registered_msp
      simp: invoice_ok_ID transfer_ok_def zero_InvoiceTransfer_def)

lemma ok_RespondInvoiceTransfer:
  assumes "RespondInvoiceTransfer ctx i dec rsp rcp = Inr ws" "typed (st_ledger ctx)"
  shows "writes_ok ws"
  using RespondInvoiceTransfer_effect [OF assms(1)] assms(2)
  by (elim exE conjE disjE) (auto dest!: typed_ReadInvoice typed_ReadInvoiceTransfer
      simp: invoice_ok_def transfer_ok_def)

lemma ok_CancelInvoiceTransfer:
  assumes "CancelInvoiceTransfer ctx i op = Inr ws" "typed (st_ledger ctx)"
  shows "writes_ok ws"
  using CancelInvoiceTransfer_effect [OF assms(1)] assms(2)
  by (elim exE conjE) (auto dest!: typed_ReadInvoiceTransfer simp: transfer_ok_def)

lemma ok_VoidInvoice:
  assumes "VoidInvoice ctx i rs op = Inr ws" "typed (st_ledger ctx)"
  shows "writes_ok ws"
  using VoidInvoice_effect [OF assms(1)] assms(2)
  by (elim exE conjE) (auto dest!: typed_ReadInvoice simp: invoice_ok_def)

lemma ok_RequestInvoiceVoid:
  assumes "RequestInvoiceVoid ctx i rs a = Inr ws" "typed (st_ledger ctx)"
  shows "writes_ok ws"
  using RequestInvoiceVoid_effect [OF assms(1)] assms(2)
  by (elim exE conjE; cases "ReadInvoiceVoidRequest ctx i")
    (auto dest!: typed_ReadInvoice typed_ReadInvoiceVoidRequest dest: invoice_ok_ID simp: void_request_ok_def)

lemma ok_ReviewInvoiceVoid:
  assumes "ReviewInvoiceVoid ctx i dec opn rv = Inr ws" "typed (st_ledger ctx)"
  shows "writes_ok ws"
  using ReviewInvoiceVoid_effect [OF assms(1)] assms(2)
  by (elim exE conjE disjE) (auto dest!: typed_ReadInvoice typed_ReadInvoiceVoidRequest
      simp: invoice_ok_def void_request_ok_def)

section \<open>The invariant of the whole contract\<close>

lemma invoke_writes_ok:
  assumes "invoke ctx c = Inr ws" "typed (st_ledger ctx)"
  shows "writes_ok ws"
  using assms by (cases c)
    (auto intro: ok_RegisterBusinessUser ok_CreateBusinessOrganization ok_CreateProject ok_UpdateProject
      ok_SubmitProject ok_ReviewProject ok_RequestProjectClosure ok_ReviewProjectClosure
      ok_FinalizeProjectSettlement ok_AddProjectMember ok_CreateReimbursement ok_ReviewReimbursement
      ok_ResubmitReimbursement ok_WithdrawReimbursement ok_PayReimbursement ok_CreateInvoice
      ok_LinkInvoiceToProject ok_UnlinkInvoiceFromProject ok_TransferInvoice ok_RequestInvoiceTransfer
      ok_RespondInvoiceTransfer ok_CancelInvoiceTransfer ok_VoidInvoice ok_RequestInvoiceVoid
      ok_ReviewInvoiceVoid)

interpretation typing: ledger_invariant any_call wf_ledger typed
proof unfold_locales
  show "typed []" by (simp add: typed_def wf_empty kv.all_entries_empty)
  show "typed (commit ws (st_ledger ctx))"
    if "typed (st_ledger ctx)" "invoke ctx c = Inr ws" for ctx c ws
    using that invoke_writes_ok [OF that(2,1)] by (simp add: typed_def wf_commit all_entries_commit)
qed (auto intro: run_wf wf_empty)

lemma run_typed: "run A [] l \<Longrightarrow> typed l"
  by (rule typing.holds) (rule run_any)

lemma reachable_typed: "reachable l \<Longrightarrow> typed l"
  by (simp add: reachable_def typing.holds)

end
