(* ===== verification/Lifecycles.thy ===== *)
theory Lifecycles
  imports Integrity
begin

text \<open>
  The state machines that the handlers implement together, as step relations on one record:
  \<open>invoice_step\<close>, \<open>project_step\<close>, \<open>reimbursement_step\<close>. The refinement lemmas show that every
  write of every call to a record of the family is one step of its machine, or the creation of
  a fresh record; the evolution facts follow for whole runs: what is terminal, what never changes,
  that records are never deleted.
\<close>

section \<open>The last write to a key\<close>

lemma commit_cases:
  assumes "wf_ledger l"
  shows "get_kv (commit ws l) k = get_kv l k \<and> k \<notin> write_key ` set ws
    \<or> (\<exists>b. Put k b \<in> set ws \<and> get_kv (commit ws l) k = Some b)
    \<or> Del k \<in> set ws \<and> get_kv (commit ws l) k = None"
  using assms
proof (induction ws arbitrary: l)
  case (Cons w ws)
  note IH = Cons.IH [OF wf_apply_write [OF Cons.prems], of w]
  show ?case
  proof (cases w)
    case (Put k' b)
    with IH Cons.prems show ?thesis by (cases "k' = k") (auto simp: kv.get_put)
  next
    case (Del k')
    with IH Cons.prems show ?thesis by (cases "k' = k") (auto simp: kv.get_del)
  qed
qed simp

section \<open>The machines\<close>

inductive invoice_step :: "Invoice \<Rightarrow> Invoice \<Rightarrow> bool" where
  link: "inv_Status x \<noteq> ''VOIDED'' \<Longrightarrow> inv_ProjectID x = [] \<Longrightarrow>
    invoice_step x (x\<lparr>inv_ProjectID := pid, inv_UpdatedAt := now\<rparr>)"
| unlink: "inv_Status x \<noteq> ''VOIDED'' \<Longrightarrow> inv_ProjectID x \<noteq> [] \<Longrightarrow>
    invoice_step x (x\<lparr>inv_ProjectID := [], inv_UpdatedAt := now\<rparr>)"
| hand_over: "inv_Status x \<noteq> ''VOIDED'' \<Longrightarrow> h \<noteq> [] \<Longrightarrow>
    invoice_step x (x\<lparr>inv_CurrentHolder := h, inv_HolderMSPID := msp, inv_HolderOrganizationID := org',
      inv_Status := ''IN_CIRCULATION'', inv_UpdatedAt := now\<rparr>)"
| void: "inv_Status x \<noteq> ''VOIDED'' \<Longrightarrow>
    invoice_step x (x\<lparr>inv_Status := ''VOIDED'', inv_VoidReason := reason, inv_UpdatedAt := now\<rparr>)"

inductive project_step :: "Project \<Rightarrow> Project \<Rightarrow> bool" where
  edit: "prj_Status x \<in> {''DRAFT'', ''REVISION_REQUIRED''} \<Longrightarrow>
    project_step x (x\<lparr>prj_Name := n, prj_Content := c, prj_BudgetCents := budget, prj_ExpectedEndDate := d,
      prj_Status := ''DRAFT'', prj_UpdatedAt := now, prj_ReviewOpinion := [], prj_Reviewer := []\<rparr>)"
| submit: "prj_Status x \<in> {''DRAFT'', ''REVISION_REQUIRED''} \<Longrightarrow>
    project_step x (x\<lparr>prj_Status := ''PENDING_REVIEW'', prj_UpdatedAt := now\<rparr>)"
| review: "prj_Status x = ''PENDING_REVIEW'' \<Longrightarrow> s \<in> {''EXECUTING'', ''REVISION_REQUIRED''} \<Longrightarrow>
    project_step x (x\<lparr>prj_Reviewer := r, prj_ReviewOpinion := opn, prj_UpdatedAt := now, prj_Status := s\<rparr>)"
| request_closure: "prj_Status x = ''EXECUTING'' \<Longrightarrow>
    project_step x (x\<lparr>prj_Status := ''CLOSURE_REVIEW'', prj_ClosureMaterials := m,
      prj_ClosureMaterialsHash := h, prj_UpdatedAt := now\<rparr>)"
| approve_closure: "prj_Status x = ''CLOSURE_REVIEW'' \<Longrightarrow>
    project_step x (x\<lparr>prj_Reviewer := r, prj_ReviewOpinion := opn, prj_UpdatedAt := now,
      prj_Status := ''FINANCIAL_SETTLEMENT'', prj_AvailableCents := prj_BudgetCents x\<rparr>)"
| revise_closure: "prj_Status x = ''CLOSURE_REVIEW'' \<Longrightarrow>
    project_step x (x\<lparr>prj_Reviewer := r, prj_ReviewOpinion := opn, prj_UpdatedAt := now,
      prj_Status := ''EXECUTING''\<rparr>)"
| reserve: "prj_Status x = ''FINANCIAL_SETTLEMENT'' \<Longrightarrow> 0 < sint a \<Longrightarrow> sint a \<le> sint (prj_AvailableCents x) \<Longrightarrow>
    project_step x (reserve a now x)"
| release: "prj_Status x = ''FINANCIAL_SETTLEMENT'' \<Longrightarrow> 0 < sint a \<Longrightarrow> sint a \<le> sint (prj_ReservedCents x) \<Longrightarrow>
    project_step x (release a now x)"
| pay_out: "prj_Status x = ''FINANCIAL_SETTLEMENT'' \<Longrightarrow> 0 < sint a \<Longrightarrow> sint a \<le> sint (prj_ReservedCents x) \<Longrightarrow>
    project_step x (pay_out a now x)"
| archive: "prj_Status x = ''FINANCIAL_SETTLEMENT'' \<Longrightarrow> prj_ReservedCents x = 0 \<Longrightarrow>
    project_step x (x\<lparr>prj_RecoveredCents := prj_RecoveredCents x + prj_AvailableCents x, prj_AvailableCents := 0,
      prj_Status := ''ARCHIVED'', prj_UpdatedAt := now\<rparr>)"

inductive reimbursement_step :: "Reimbursement \<Rightarrow> Reimbursement \<Rightarrow> bool" where
  review: "rmb_Status x = ''PENDING_REVIEW'' \<Longrightarrow> s \<in> {''APPROVED_RESERVED'', ''REVISION_REQUIRED''} \<Longrightarrow>
    reimbursement_step x (x\<lparr>rmb_Reviewer := r, rmb_ReviewOpinion := opn, rmb_UpdatedAt := now, rmb_Status := s\<rparr>)"
| resubmit: "rmb_Status x = ''REVISION_REQUIRED'' \<Longrightarrow>
    reimbursement_step x (x\<lparr>rmb_Evidence := e, rmb_EvidenceHash := h, rmb_Status := ''PENDING_REVIEW'',
      rmb_UpdatedAt := now, rmb_Reviewer := [], rmb_ReviewOpinion := []\<rparr>)"
| withdraw: "rmb_Status x \<in> {''PENDING_REVIEW'', ''REVISION_REQUIRED'', ''APPROVED_RESERVED''} \<Longrightarrow>
    reimbursement_step x (x\<lparr>rmb_Status := ''WITHDRAWN'', rmb_UpdatedAt := now\<rparr>)"
| pay: "rmb_Status x = ''APPROVED_RESERVED'' \<Longrightarrow>
    reimbursement_step x (x\<lparr>rmb_Status := ''PAID'', rmb_UpdatedAt := now\<rparr>)"

section \<open>Every write is a step\<close>

text \<open>
  A write may create a record where there was none, or replace the record that was read. Records
  of projects and reimbursements are read under the trimmed identifier.
\<close>

definition step_or_new ::
  "ledger \<Rightarrow> string \<Rightarrow> (json \<Rightarrow> 'a res) \<Rightarrow> ('a \<Rightarrow> bool) \<Rightarrow> ('a \<Rightarrow> 'a \<Rightarrow> bool) \<Rightarrow> ('a \<Rightarrow> json) \<Rightarrow> blob \<Rightarrow> bool" where
  "step_or_new l k dec new step enc b \<longleftrightarrow>
    get_kv l k = None \<and> (\<exists>y. b = Doc (enc y) \<and> new y)
    \<or> (\<exists>x y. stored l dec k x \<and> b = Doc (enc y) \<and> step x y)"

definition invoice_write_ok :: "ledger \<Rightarrow> wr \<Rightarrow> bool" where
  "invoice_write_ok l w \<longleftrightarrow>
    (\<forall>i. w \<noteq> Del (invoiceKey i) \<and> (\<forall>b. w = Put (invoiceKey i) b \<longrightarrow>
      step_or_new l (invoiceKey i) dec_Invoice (\<lambda>y. inv_Status y = ''ISSUED'') invoice_step enc_Invoice b))"

definition project_write_ok :: "ledger \<Rightarrow> wr \<Rightarrow> bool" where
  "project_write_ok l w \<longleftrightarrow>
    (\<forall>i. w \<noteq> Del (projectKey i) \<and> (\<forall>b. w = Put (projectKey i) b \<longrightarrow>
      step_or_new l (projectKey (TrimSpace i)) dec_Project (\<lambda>y. prj_Status y = ''DRAFT'') project_step enc_Project b))"

definition reimbursement_write_ok :: "ledger \<Rightarrow> wr \<Rightarrow> bool" where
  "reimbursement_write_ok l w \<longleftrightarrow>
    (\<forall>i. w \<noteq> Del (reimbursementKey i) \<and> (\<forall>b. w = Put (reimbursementKey i) b \<longrightarrow>
      step_or_new l (reimbursementKey (TrimSpace i)) dec_Reimbursement
        (\<lambda>y. rmb_Status y = ''PENDING_REVIEW'') reimbursement_step enc_Reimbursement b))"

lemma write_ok_keys [simp]:
  "invoice_write_ok l (Put (invoiceKey i) b) \<longleftrightarrow>
    step_or_new l (invoiceKey i) dec_Invoice (\<lambda>y. inv_Status y = ''ISSUED'') invoice_step enc_Invoice b"
  "project_write_ok l (Put (projectKey i) b) \<longleftrightarrow>
    step_or_new l (projectKey (TrimSpace i)) dec_Project (\<lambda>y. prj_Status y = ''DRAFT'') project_step enc_Project b"
  "reimbursement_write_ok l (Put (reimbursementKey i) b) \<longleftrightarrow>
    step_or_new l (reimbursementKey (TrimSpace i)) dec_Reimbursement
      (\<lambda>y. rmb_Status y = ''PENDING_REVIEW'') reimbursement_step enc_Reimbursement b"
  by (simp_all add: invoice_write_ok_def project_write_ok_def reimbursement_write_ok_def)

lemma write_ok_families [simp]:
  "family (write_key w) \<noteq> ''INVOICE'' \<Longrightarrow> invoice_write_ok l w"
  "family (write_key w) \<noteq> ''PROJECT'' \<Longrightarrow> project_write_ok l w"
  "family (write_key w) \<noteq> ''REIMBURSEMENT'' \<Longrightarrow> reimbursement_write_ok l w"
  by (auto simp: invoice_write_ok_def project_write_ok_def reimbursement_write_ok_def)

section \<open>The handlers refine the machines\<close>

definition writes_step :: "ledger \<Rightarrow> wr list \<Rightarrow> bool" where
  "writes_step l ws \<longleftrightarrow>
    list_all (\<lambda>w. invoice_write_ok l w \<and> project_write_ok l w \<and> reimbursement_write_ok l w) ws"

lemma writes_step_simps [simp]:
  "writes_step l []"
  "writes_step l (w # ws) \<longleftrightarrow>
    (invoice_write_ok l w \<and> project_write_ok l w \<and> reimbursement_write_ok l w) \<and> writes_step l ws"
  "writes_step l (ws @ ws') \<longleftrightarrow> writes_step l ws \<and> writes_step l ws'"
  by (auto simp: writes_step_def)

lemma step_new: "get_kv l k = None \<Longrightarrow> new y \<Longrightarrow> step_or_new l k dec new step enc (Doc (enc y))"
  by (auto simp: step_or_new_def)

lemma step_old: "stored l dec k x \<Longrightarrow> step x y \<Longrightarrow> step_or_new l k dec new step enc (Doc (enc y))"
  by (auto simp: step_or_new_def)

lemma stored_read:
  "ReadInvoice ctx i = Inr x \<Longrightarrow> stored (st_ledger ctx) dec_Invoice (invoiceKey i) x"
  "ReadProject ctx j = Inr p \<Longrightarrow> stored (st_ledger ctx) dec_Project (projectKey (TrimSpace j)) p"
  "ReadReimbursement ctx k = Inr r \<Longrightarrow> stored (st_ledger ctx) dec_Reimbursement (reimbursementKey (TrimSpace k)) r"
  by (simp_all add: read_inv)

text \<open>A project that is read and written back under its own identifier.\<close>

lemma own_project:
  assumes "ReadProject ctx j = Inr p" "typed (st_ledger ctx)"
  shows "TrimSpace (prj_ID p) = prj_ID p" "project_ok p"
    "stored (st_ledger ctx) dec_Project (projectKey (prj_ID p)) p"
  using assms by (auto dest!: typed_ReadProject simp: stored_def)

lemma own_invoice:
  assumes "ReadInvoice ctx i = Inr x" "typed (st_ledger ctx)"
  shows "inv_ID x = i" "invoice_ok x"
  using assms by (auto dest!: typed_ReadInvoice)

lemma money_status:
  assumes "project_ok p" "0 < sint a"
  shows "sint a \<le> sint (prj_AvailableCents p) \<Longrightarrow> prj_Status p = ''FINANCIAL_SETTLEMENT''"
    and "sint a \<le> sint (prj_ReservedCents p) \<Longrightarrow> prj_Status p = ''FINANCIAL_SETTLEMENT''"
  using assms by (auto simp: project_ok_def balanced_def split: if_splits)

lemma step_UpdateProject:
  assumes "UpdateProject ctx i n c b d a = Inr ws"
  shows "writes_step (st_ledger ctx) ws"
  using UpdateProject_effect [OF assms]
  by (elim exE conjE) (auto simp: project_writes_def intro!: step_old stored_read project_step.edit)

lemma step_SubmitProject:
  assumes "SubmitProject ctx i a = Inr ws"
  shows "writes_step (st_ledger ctx) ws"
  using SubmitProject_effect [OF assms]
  by (elim exE conjE) (auto simp: project_writes_def intro!: step_old stored_read project_step.submit)

lemma step_ReviewProject:
  assumes "ReviewProject ctx i dec opn r = Inr ws"
  shows "writes_step (st_ledger ctx) ws"
  using ReviewProject_effect [OF assms]
  by (elim exE conjE) (auto simp: project_writes_def intro!: step_old stored_read project_step.review)

lemma step_RequestProjectClosure:
  assumes "RequestProjectClosure ctx i m h a = Inr ws"
  shows "writes_step (st_ledger ctx) ws"
  using RequestProjectClosure_effect [OF assms]
  by (elim exE conjE) (auto simp: project_writes_def intro!: step_old stored_read project_step.request_closure)

lemma step_ReviewProjectClosure:
  assumes "ReviewProjectClosure ctx i dec opn r = Inr ws"
  shows "writes_step (st_ledger ctx) ws"
  using ReviewProjectClosure_effect [OF assms]
  by (elim exE conjE)
    (auto simp: project_writes_def intro!: step_old stored_read project_step.approve_closure project_step.revise_closure)

lemma step_FinalizeProjectSettlement:
  assumes "FinalizeProjectSettlement ctx i f = Inr ws" "typed (st_ledger ctx)"
  shows "writes_step (st_ledger ctx) ws"
proof -
  obtain p now e where p: "ReadProject ctx i = Inr p" "prj_Status p \<in> {''FINANCIAL_SETTLEMENT'', ''CLOSURE_APPROVED''}"
    "prj_ReservedCents p = 0"
    and ws: "ws = project_writes ctx (prj_ID p)
        (p\<lparr>prj_RecoveredCents := prj_RecoveredCents p + prj_AvailableCents p, prj_AvailableCents := 0,
           prj_Status := ''ARCHIVED'', prj_UpdatedAt := now\<rparr>) e"
    using FinalizeProjectSettlement_effect [OF assms(1)] by blast
  note o' = own_project [OF p(1) assms(2)]
  have "prj_Status p = ''FINANCIAL_SETTLEMENT''"
    using p(2) o'(2) by (auto simp: project_ok_def)
  with p o' ws show ?thesis
    by (auto simp: project_writes_def intro!: step_old project_step.archive)
qed

lemma step_CreateProject:
  assumes "CreateProject ctx i n c b d a oid = Inr ws"
  shows "writes_step (st_ledger ctx) ws"
  using CreateProject_effect [OF assms] by (elim exE conjE) (auto intro!: step_new)

lemma step_CreateReimbursement:
  assumes "CreateReimbursement ctx i pid iid a ev evh = Inr ws"
  shows "writes_step (st_ledger ctx) ws"
  using CreateReimbursement_effect [OF assms] by (elim exE conjE) (auto intro!: step_new)

text \<open>The three balance updates as writes.\<close>

lemma balance_writes:
  assumes "ReadProject ctx j = Inr p" "typed (st_ledger ctx)" "0 < sint a"
  shows "sint a \<le> sint (prj_AvailableCents p) \<Longrightarrow> project_write_ok (st_ledger ctx) (put_project (reserve a now p))"
    and "sint a \<le> sint (prj_ReservedCents p) \<Longrightarrow> project_write_ok (st_ledger ctx) (put_project (release a now p))"
    and "sint a \<le> sint (prj_ReservedCents p) \<Longrightarrow> project_write_ok (st_ledger ctx) (put_project (pay_out a now p))"
  using own_project [OF assms(1,2)] money_status [OF _ assms(3), of p] assms(3)
  by (auto intro!: step_old project_step.reserve project_step.release project_step.pay_out)

lemma step_ReviewReimbursement:
  assumes "ReviewReimbursement ctx i dec opn rv = Inr ws" "typed (st_ledger ctx)"
  shows "writes_step (st_ledger ctx) ws"
proof -
  obtain r p now e r' where r: "ReadReimbursement ctx i = Inr r" "rmb_Status r = ''PENDING_REVIEW''"
      "r' = r\<lparr>rmb_Reviewer := TrimSpace rv, rmb_ReviewOpinion := TrimSpace opn, rmb_UpdatedAt := now\<rparr>"
    and p: "ReadProject ctx (rmb_ProjectID r) = Inr p" "0 < sint (rmb_AmountCents r)"
    and ws: "sint (rmb_AmountCents r) \<le> sint (prj_AvailableCents p)
         \<and> ws = [put_project (reserve (rmb_AmountCents r) now p),
                 put_reimbursement i (r'\<lparr>rmb_Status := ''APPROVED_RESERVED''\<rparr>), put_event ctx (rmb_ProjectID r) e]
       \<or> ws = [put_reimbursement i (r'\<lparr>rmb_Status := ''REVISION_REQUIRED''\<rparr>), put_event ctx (rmb_ProjectID r) e]"
    using ReviewReimbursement_effect [OF assms(1)] by blast
  from balance_writes(1) [OF p(1) assms(2) p(2), of now] r ws show ?thesis
    by (auto intro!: step_old [OF stored_read(3)] reimbursement_step.review)
qed

lemma step_ResubmitReimbursement:
  assumes "ResubmitReimbursement ctx i ev evh a = Inr ws"
  shows "writes_step (st_ledger ctx) ws"
  using ResubmitReimbursement_effect [OF assms]
  by (elim exE conjE) (auto intro!: step_old stored_read reimbursement_step.resubmit)

lemma step_WithdrawReimbursement:
  assumes "WithdrawReimbursement ctx i a = Inr ws" "typed (st_ledger ctx)"
  shows "writes_step (st_ledger ctx) ws"
proof -
  obtain r p now e where r: "ReadReimbursement ctx i = Inr r"
      "rmb_Status r \<in> {''PENDING_REVIEW'', ''REVISION_REQUIRED'', ''APPROVED_RESERVED''}"
    and p: "ReadProject ctx (rmb_ProjectID r) = Inr p"
      "rmb_Status r = ''APPROVED_RESERVED'' \<longrightarrow> sint (rmb_AmountCents r) \<le> sint (prj_ReservedCents p)"
    and ws: "ws = (if rmb_Status r = ''APPROVED_RESERVED'' then [put_project (release (rmb_AmountCents r) now p)] else [])
        @ [put_reimbursement i (r\<lparr>rmb_Status := ''WITHDRAWN'', rmb_UpdatedAt := now\<rparr>),
           Del (reimbursementInvoiceKey (rmb_InvoiceID r)), put_event ctx (prj_ID p) e]"
    using WithdrawReimbursement_effect [OF assms(1)] by blast
  have "0 < sint (rmb_AmountCents r)"
    using r(1) assms(2) by (auto dest!: typed_ReadReimbursement simp: reimbursement_ok_amount)
  from balance_writes(2) [OF p(1) assms(2) this, of now] r p(2) ws show ?thesis
    by (auto intro: step_old stored_read reimbursement_step.withdraw)
qed

lemma step_PayReimbursement:
  assumes "PayReimbursement ctx i f = Inr ws" "typed (st_ledger ctx)"
  shows "writes_step (st_ledger ctx) ws"
proof -
  obtain r p now e where r: "ReadReimbursement ctx i = Inr r" "rmb_Status r = ''APPROVED_RESERVED''"
    and p: "ReadProject ctx (rmb_ProjectID r) = Inr p" "sint (rmb_AmountCents r) \<le> sint (prj_ReservedCents p)"
    and ws: "ws = [put_project (pay_out (rmb_AmountCents r) now p),
      put_reimbursement i (r\<lparr>rmb_Status := ''PAID'', rmb_UpdatedAt := now\<rparr>), put_event ctx (prj_ID p) e]"
    using PayReimbursement_effect [OF assms(1)] by blast
  have "0 < sint (rmb_AmountCents r)"
    using r(1) assms(2) by (auto dest!: typed_ReadReimbursement simp: reimbursement_ok_amount)
  from balance_writes(3) [OF p(1) assms(2) this, of now] r p(2) ws show ?thesis
    by (auto intro: step_old stored_read reimbursement_step.pay)
qed

lemma step_CreateInvoice:
  assumes "CreateInvoice ctx i no d iss b bm am tx cur hash pid h hm iorg corr = Inr ws"
  shows "writes_step (st_ledger ctx) ws"
  using CreateInvoice_effect [OF assms] by (elim exE conjE) (auto intro!: step_new)

lemma step_LinkInvoiceToProject:
  assumes "LinkInvoiceToProject ctx iid pid op = Inr ws" "typed (st_ledger ctx)"
  shows "writes_step (st_ledger ctx) ws"
  using LinkInvoiceToProject_effect [OF assms(1)] assms(2)
  by (elim exE conjE) (auto simp: own_invoice intro!: step_old stored_read invoice_step.link)

lemma step_UnlinkInvoiceFromProject:
  assumes "UnlinkInvoiceFromProject ctx iid op = Inr ws" "typed (st_ledger ctx)"
  shows "writes_step (st_ledger ctx) ws"
  using UnlinkInvoiceFromProject_effect [OF assms(1)] assms(2)
  by (elim exE conjE) (auto simp: own_invoice intro!: step_old stored_read invoice_step.unlink)

lemma step_TransferInvoice:
  assumes "TransferInvoice ctx i t tm op = Inr ws"
  shows "writes_step (st_ledger ctx) ws"
  using TransferInvoice_effect [OF assms]
  by (elim exE conjE) (auto intro!: step_old stored_read invoice_step.hand_over)

lemma step_RequestInvoiceTransfer:
  assumes "RequestInvoiceTransfer ctx i t tm n op = Inr ws"
  shows "writes_step (st_ledger ctx) ws"
  using RequestInvoiceTransfer_effect [OF assms] by (elim exE conjE) auto

lemma step_RespondInvoiceTransfer:
  assumes "RespondInvoiceTransfer ctx i dec rsp rcp = Inr ws" "typed (st_ledger ctx)"
  shows "writes_step (st_ledger ctx) ws"
  using RespondInvoiceTransfer_effect [OF assms(1)] assms(2)
  by (elim exE conjE disjE) (auto intro!: step_old stored_read invoice_step.hand_over
      dest!: typed_ReadInvoiceTransfer simp: transfer_ok_def)

lemma step_CancelInvoiceTransfer:
  assumes "CancelInvoiceTransfer ctx i op = Inr ws"
  shows "writes_step (st_ledger ctx) ws"
  using CancelInvoiceTransfer_effect [OF assms] by (elim exE conjE) auto

lemma step_VoidInvoice:
  assumes "VoidInvoice ctx i rs op = Inr ws"
  shows "writes_step (st_ledger ctx) ws"
  using VoidInvoice_effect [OF assms]
  by (elim exE conjE) (auto intro!: step_old stored_read invoice_step.void)

lemma step_RequestInvoiceVoid:
  assumes "RequestInvoiceVoid ctx i rs a = Inr ws"
  shows "writes_step (st_ledger ctx) ws"
  using RequestInvoiceVoid_effect [OF assms] by (elim exE conjE) auto

lemma step_ReviewInvoiceVoid:
  assumes "ReviewInvoiceVoid ctx i dec opn rv = Inr ws"
  shows "writes_step (st_ledger ctx) ws"
  using ReviewInvoiceVoid_effect [OF assms]
  by (elim exE conjE disjE) (auto intro!: step_old stored_read invoice_step.void)

lemma step_Directory:
  "RegisterBusinessUser ctx n d m r oid = Inr ws \<Longrightarrow> writes_step (st_ledger ctx) ws"
  "CreateBusinessOrganization ctx i n t p d c = Inr ws \<Longrightarrow> writes_step (st_ledger ctx) ws"
  "AddProjectMember ctx pid n l = Inr ws \<Longrightarrow> writes_step (st_ledger ctx) ws"
  by (auto dest!: RegisterBusinessUser_effect CreateBusinessOrganization_effect AddProjectMember_effect)

lemma invoke_writes_step:
  assumes "invoke ctx c = Inr ws" "typed (st_ledger ctx)"
  shows "writes_step (st_ledger ctx) ws"
  using assms by (cases c)
    (auto intro: step_Directory step_CreateProject step_UpdateProject
      step_SubmitProject step_ReviewProject step_RequestProjectClosure step_ReviewProjectClosure
      step_FinalizeProjectSettlement step_CreateReimbursement step_ReviewReimbursement
      step_ResubmitReimbursement step_WithdrawReimbursement step_PayReimbursement step_CreateInvoice
      step_LinkInvoiceToProject step_UnlinkInvoiceFromProject step_TransferInvoice step_RequestInvoiceTransfer
      step_RespondInvoiceTransfer step_CancelInvoiceTransfer step_VoidInvoice step_RequestInvoiceVoid
      step_ReviewInvoiceVoid)

section \<open>Evolution of the records of a run\<close>

text \<open>Every record of a family is still there later, and has gone through steps of its machine.\<close>

definition records_evolve ::
  "(string \<Rightarrow> bool) \<Rightarrow> (string \<Rightarrow> string) \<Rightarrow> (json \<Rightarrow> 'a res) \<Rightarrow> ('a \<Rightarrow> 'a \<Rightarrow> bool) \<Rightarrow> ledger \<Rightarrow> ledger \<Rightarrow> bool" where
  "records_evolve C key dec step l m \<longleftrightarrow>
    (\<forall>i x. C i \<longrightarrow> stored l dec (key i) x \<longrightarrow> (\<exists>y. stored m dec (key i) y \<and> rtranclp step x y))"

lemma records_evolve_refl: "records_evolve C key dec step l l"
  by (auto simp: records_evolve_def)

lemma records_evolve_trans:
  "records_evolve C key dec step l m \<Longrightarrow> records_evolve C key dec step m n \<Longrightarrow> records_evolve C key dec step l n"
  unfolding records_evolve_def by (meson rtranclp_trans)

lemma records_evolve_commit:
  assumes "wf_ledger l"
    and "\<And>i. C i \<Longrightarrow> Del (key i) \<notin> set ws"
    and "\<And>i b. C i \<Longrightarrow> Put (key i) b \<in> set ws \<Longrightarrow> step_or_new l (key i) dec new step enc b"
    and "\<And>y. dec (enc y) = Inr y"
  shows "records_evolve C key dec step l (commit ws l)"
  unfolding records_evolve_def
proof (intro allI impI)
  fix i x
  assume i: "C i" and x: "stored l dec (key i) x"
  from commit_cases [OF assms(1), of ws "key i"] assms(2) [OF i]
  consider "get_kv (commit ws l) (key i) = get_kv l (key i)"
    | b where "Put (key i) b \<in> set ws" "get_kv (commit ws l) (key i) = Some b"
    by blast
  then show "\<exists>y. stored (commit ws l) dec (key i) y \<and> rtranclp step x y"
  proof cases
    case 1
    with x show ?thesis by (auto simp: stored_def)
  next
    case 2
    with assms(3) [OF i 2(1)] x assms(4) show ?thesis
      by (auto simp: step_or_new_def stored_def)
  qed
qed

abbreviation invoices_evolve :: "ledger \<Rightarrow> ledger \<Rightarrow> bool" where
  "invoices_evolve \<equiv> records_evolve (\<lambda>_. True) invoiceKey dec_Invoice invoice_step"

abbreviation projects_evolve :: "ledger \<Rightarrow> ledger \<Rightarrow> bool" where
  "projects_evolve \<equiv> records_evolve (\<lambda>i. TrimSpace i = i) projectKey dec_Project project_step"

abbreviation reimbursements_evolve :: "ledger \<Rightarrow> ledger \<Rightarrow> bool" where
  "reimbursements_evolve \<equiv>
    records_evolve (\<lambda>i. TrimSpace i = i) reimbursementKey dec_Reimbursement reimbursement_step"

lemma writes_step_evolve:
  assumes "writes_step l ws" "wf_ledger l"
  shows "invoices_evolve l (commit ws l)" "projects_evolve l (commit ws l)" "reimbursements_evolve l (commit ws l)"
proof -
  have w: "invoice_write_ok l w" "project_write_ok l w" "reimbursement_write_ok l w" if "w \<in> set ws" for w
    using assms(1) that by (auto simp: writes_step_def list_all_iff)
  show "invoices_evolve l (commit ws l)"
    using w(1) by (intro records_evolve_commit [OF assms(2)]) (fastforce simp: invoice_write_ok_def)+
  show "projects_evolve l (commit ws l)"
    using w(2) by (intro records_evolve_commit [OF assms(2)]) (fastforce simp: project_write_ok_def)+
  show "reimbursements_evolve l (commit ws l)"
    using w(3) by (intro records_evolve_commit [OF assms(2)]) (fastforce simp: reimbursement_write_ok_def)+
qed

interpretation invoices: ledger_evolution any_call typed invoices_evolve
  by unfold_locales
    (auto intro: records_evolve_refl records_evolve_trans writes_step_evolve(1) invoke_writes_step
      simp: reachable_typed [unfolded reachable_def])

interpretation projects: ledger_evolution any_call typed projects_evolve
  by unfold_locales
    (auto intro: records_evolve_refl records_evolve_trans writes_step_evolve(2) invoke_writes_step
      simp: reachable_typed [unfolded reachable_def])

interpretation reimbursements: ledger_evolution any_call typed reimbursements_evolve
  by unfold_locales
    (auto intro: records_evolve_refl records_evolve_trans writes_step_evolve(3) invoke_writes_step
      simp: reachable_typed [unfolded reachable_def])

end
