(* ===== verification/Scenario.thy ===== *)
theory Scenario
  imports Lifecycles
begin

text \<open>
  Runs of the contract on concrete data, computed in the kernel: the stub of a healthy peer,
  the effect of each of its methods as rewrite rules, and a project from its organization to its
  archive, invoice and reimbursement included. The properties take their witnesses from here.
\<close>

section \<open>A healthy stub\<close>

definition demo_ctx :: "string \<Rightarrow> string \<Rightarrow> ledger \<Rightarrow> stub" where
  "demo_ctx msp tx l = \<lparr>st_ledger = l, st_mspid = Inr msp, st_time = Inr (0, 0), st_txid = tx,
     st_get_err = (\<lambda>_. None), st_put_err = (\<lambda>_. None), st_del_err = (\<lambda>_. None),
     st_range_err = (\<lambda>_. None), st_next_err = (\<lambda>_. None), st_history = (\<lambda>_. Inr [])\<rparr>"

definition epoch :: string where "epoch = ''1970-01-01T00:00:00Z''"

named_theorems play \<open>rules that compute a call on a healthy stub\<close>

lemma demo_ctx_simps [play]:
  "st_ledger (demo_ctx m t l) = l" "st_mspid (demo_ctx m t l) = Inr m" "st_txid (demo_ctx m t l) = t"
  "GetState (demo_ctx m t l) k = Inr (get_kv l k)"
  "PutState (demo_ctx m t l) k b = Inr [Put k b]"
  "DelState (demo_ctx m t l) k = Inr [Del k]"
  "GetStateByRange (demo_ctx m t l) a b' = Inr (range_kv l a b')"
  "NextItem (demo_ctx m t l) item = Inr (snd item)"
  by (simp_all add: demo_ctx_def GetState_def PutState_def DelState_def GetStateByRange_def NextItem_def)

lemma timestampText_0: "timestampText 0 0 = epoch"
  by code_simp

lemma demo_time [play]: "transactionTime (demo_ctx m t l) = Inr epoch"
  by (simp add: transactionTime_def demo_ctx_def timestampText_0)

lemma demo_caller [play]: "callerMSPID (demo_ctx m t l) = Inr m"
  by (simp add: callerMSPID_def play)

lemma demo_putJSON [play]: "putJSON (demo_ctx m t l) k j = Inr [Put k (Doc j)]"
  by (simp add: putJSON_def play)

definition demo_flw :: "string \<Rightarrow> string \<Rightarrow> string \<Rightarrow> string \<Rightarrow> string \<Rightarrow> string \<Rightarrow> blob" where
  "demo_flw t i ty f t' op = Doc (enc_InvoiceFlow (zero_InvoiceFlow\<lparr>flw_ID := flowKey i t, flw_InvoiceID := i,
     flw_Type := ty, flw_From := f, flw_To := t', flw_Operator := op, flw_TxID := t, flw_Timestamp := epoch\<rparr>))"

definition demo_evt :: "string \<Rightarrow> string \<Rightarrow> string \<Rightarrow> string \<Rightarrow> string \<Rightarrow> string \<Rightarrow> blob" where
  "demo_evt t p ty a n r = Doc (enc_ProjectEvent (zero_ProjectEvent\<lparr>evt_ID := projectEventKey p t,
     evt_ProjectID := p, evt_Type := ty, evt_Actor := a, evt_Note := n, evt_ReferenceID := r, evt_TxID := t,
     evt_Timestamp := epoch\<rparr>))"

lemma demo_flow [play]:
  "createFlow (demo_ctx m t l) i ty f t' op epoch = Inr [Put (flowKey i t) (demo_flw t i ty f t' op)]"
  by (simp add: createFlow_def demo_flw_def Let_def play)

lemma demo_event [play]:
  "createProjectEventWithReference (demo_ctx m t l) p ty a n r = Inr [Put (projectEventKey p t) (demo_evt t p ty a n r)]"
  "createProjectEvent (demo_ctx m t l) p ty a n = Inr [Put (projectEventKey p t) (demo_evt t p ty a n [])]"
  by (simp_all add: createProjectEvent_def createProjectEventWithReference_def demo_evt_def Let_def play)

lemma get_kv_simps [play]:
  "get_kv [] k = None" "get_kv (put_kv k' b l) k = (if k = k' then Some b else get_kv l k)"
  by (simp_all add: get_kv_def [of "[]"] kv.get_put get_put_kv)

text \<open>Scans over a ledger given as a nest of puts.\<close>

abbreviation scan :: "string \<Rightarrow> ledger \<Rightarrow> ledger" where
  "scan p l \<equiv> filter (\<lambda>(k, _). prefix p k) l"

lemma scan_put_other: "\<not> prefix p k \<Longrightarrow> scan p (put_kv k v l) = scan p l"
  by (induction k v l rule: put_kv.induct) auto

lemma scan_put_first: "prefix p k \<Longrightarrow> scan p l = [] \<Longrightarrow> scan p (put_kv k v l) = [(k, v)]"
  by (induction k v l rule: put_kv.induct) (auto split: if_splits)

lemma scan_put_same:
  "wf_ledger l \<Longrightarrow> prefix p k \<Longrightarrow> scan p l = [(k, w)] \<Longrightarrow> scan p (put_kv k v l) = [(k, v)]"
proof (induction l)
  case (Cons e l)
  obtain k' v' where e: "e = (k', v')" by (cases e)
  show ?case
  proof (cases "prefix p k'")
    case True
    with Cons.prems e show ?thesis by auto
  next
    case False
    then have "(k, w) \<in> set l"
      using Cons.prems e by (auto intro: filter_eq_ConsD [of _ l "(k, w)" "[]", THEN exE] dest: arg_cong [where f = set])
    with Cons.prems e False have "k' < k" by (auto simp: wf_ledger_def)
    with Cons e False show ?thesis by (auto simp: wf_ledger_def)
  qed
qed simp

lemma prefix_families [simp]:
  "prefix invoicePrefix (invoiceKey i)" "prefix reimbursementPrefix (reimbursementKey i)"
  "\<not> prefix invoicePrefix (userKey i)" "\<not> prefix reimbursementPrefix (userKey i)"
  "\<not> prefix invoicePrefix (organizationKey i)" "\<not> prefix reimbursementPrefix (organizationKey i)"
  "\<not> prefix invoicePrefix (projectKey i)" "\<not> prefix reimbursementPrefix (projectKey i)"
  "\<not> prefix invoicePrefix (projectMemberKey i u)" "\<not> prefix reimbursementPrefix (projectMemberKey i u)"
  "\<not> prefix invoicePrefix (projectEventKey i u)" "\<not> prefix reimbursementPrefix (projectEventKey i u)"
  "\<not> prefix invoicePrefix (flowKey i u)" "\<not> prefix reimbursementPrefix (flowKey i u)"
  "\<not> prefix invoicePrefix (invoiceNumberKey i)" "\<not> prefix reimbursementPrefix (invoiceNumberKey i)"
  "\<not> prefix invoicePrefix (reimbursementInvoiceKey i)" "\<not> prefix reimbursementPrefix (reimbursementInvoiceKey i)"
  "\<not> prefix reimbursementPrefix (invoiceKey i)" "\<not> prefix invoicePrefix (reimbursementKey i)"
  by (simp_all add: key_defs prefix_defs)

lemmas play_scan = scan_range scan_put_other scan_put_first scan_put_same wf_put_kv wf_empty

lemmas play_defs = submit_def finish_def Let_def thenW_def contains_any_def



lemma bindE_weak: "m = m' \<Longrightarrow> bindE m f = bindE m' f"
  by simp

lemmas play_reads = ReadInvoice_def ReadBusinessUser_def ReadBusinessOrganization_def ReadProject_def
  ReadReimbursement_def InvoiceExists_def BusinessUserExists_def BusinessOrganizationExists_def
  ProjectExists_def ReimbursementExists_def

lemmas play_checks = requireActiveBusinessUser_def requireRegisteredRole_def businessUserOrganization_def
  requireProjectApplicant_def requireProjectMember_def requireProjectManager_def demoUserRole_def demo_accounts_def
  validateBusinessMSPID_def validBusinessRole_def validBusinessOrganizationType_def

lemmas play_all = play_defs play_reads play_checks play_scan upper_byte_def parseBudget_def parseNonNegative_def
  decode_item_def

lemmas play_cong = bindE_weak sum.case_cong_weak option.case_cong_weak

definition demo_hash :: string where "demo_hash = replicate 64 (CHR ''0'')"

lemma demo_trim [play]:
  "TrimSpace demo_hash = demo_hash"
  "TrimSpace ''o'' = ''o''"
  "TrimSpace ''O'' = ''O''"
  "TrimSpace ''org-admin'' = ''org-admin''"
  "TrimSpace ''PRIMARY'' = ''PRIMARY''"
  "TrimSpace ''u'' = ''u''"
  "TrimSpace ''U'' = ''U''"
  "TrimSpace ''Org1MSP'' = ''Org1MSP''"
  "TrimSpace ''Org2MSP'' = ''Org2MSP''"
  "TrimSpace ''PROJECT_MEMBER'' = ''PROJECT_MEMBER''"
  "TrimSpace ''p'' = ''p''"
  "TrimSpace ''P'' = ''P''"
  "TrimSpace ''c'' = ''c''"
  "TrimSpace ''1000'' = ''1000''"
  "TrimSpace ''2026-01-31'' = ''2026-01-31''"
  "TrimSpace ''project-reviewer'' = ''project-reviewer''"
  "TrimSpace ''APPROVE'' = ''APPROVE''"
  "TrimSpace ''ok'' = ''ok''"
  "TrimSpace ''m'' = ''m''"
  "TrimSpace ''i'' = ''i''"
  "TrimSpace ''n'' = ''n''"
  "TrimSpace ''2024-01-02'' = ''2024-01-02''"
  "TrimSpace ''a'' = ''a''"
  "TrimSpace ''b'' = ''b''"
  "TrimSpace ''CNY'' = ''CNY''"
  "TrimSpace ''r'' = ''r''"
  "TrimSpace ''e'' = ''e''"
  "TrimSpace ''finance-admin'' = ''finance-admin''"
  "TrimSpace ''issuer-org1'' = ''issuer-org1''"
  "TrimSpace ''x'' = ''x''"
  "TrimSpace '' r'' = ''r''"
  by code_simp+

lemma demo_case [play]:
  "ToLower demo_hash = demo_hash"
  "ToUpper ''PRIMARY'' = ''PRIMARY''"
  "ToUpper ''PROJECT_MEMBER'' = ''PROJECT_MEMBER''"
  "ToUpper ''APPROVE'' = ''APPROVE''"
  "ToUpper ''CNY'' = ''CNY''"
  by code_simp+

lemma demo_texts [play]:
  "validISODate ''2026-01-31''" "validISODate ''2024-01-02''" "length demo_hash = 64" "hex_decodable demo_hash"
  "ParseInt ''1000'' = Some 1000" "ParseInt ''100'' = Some 100" "ParseInt ''5'' = Some 5"
  by code_simp+

section \<open>A project from its organization to its archive\<close>

definition demo_org :: BusinessOrganization where
  "demo_org = zero_BusinessOrganization\<lparr>org_ID := ''o'', org_Name := ''O'', org_Type := ''PRIMARY'',
     org_MSPID := ''Org1MSP'', org_Status := ''ACTIVE'', org_CreatedBy := ''org-admin'', org_CreatedAt := epoch\<rparr>"

definition demo_user :: BusinessUser where
  "demo_user = zero_BusinessUser\<lparr>usr_Username := ''u'', usr_DisplayName := ''U'', usr_MSPID := ''Org1MSP'',
     usr_OrganizationID := ''o'', usr_Role := ''PROJECT_MEMBER'', usr_Status := ''ACTIVE'', usr_CreatedAt := epoch\<rparr>"

definition demo_project :: Project where
  "demo_project = zero_Project\<lparr>prj_ID := ''p'', prj_Name := ''P'', prj_Content := ''c'', prj_BudgetCents := 1000,
     prj_ExpectedEndDate := ''2026-01-31'', prj_Applicant := ''u'', prj_ApplicantMSPID := ''Org1MSP'',
     prj_OrganizationID := ''o'', prj_Status := ''DRAFT'', prj_CreatedAt := epoch, prj_UpdatedAt := epoch\<rparr>"

definition demo_leader :: ProjectMember where
  "demo_leader = zero_ProjectMember\<lparr>mem_ProjectID := ''p'', mem_Username := ''u'', mem_Role := ''LEADER'',
     mem_AddedAt := epoch, mem_AddedBy := ''u''\<rparr>"

definition demo_settling :: Project where
  "demo_settling = demo_project\<lparr>prj_Status := ''FINANCIAL_SETTLEMENT'', prj_UpdatedAt := epoch,
     prj_Reviewer := ''project-reviewer'', prj_ReviewOpinion := ''ok'', prj_ClosureMaterials := ''m'',
     prj_ClosureMaterialsHash := demo_hash, prj_AvailableCents := 1000\<rparr>"

definition demo_invoice :: Invoice where
  "demo_invoice = new_invoice ''i'' ''n'' ''2024-01-02'' ''a'' ''b'' ''Org2MSP'' 100 5 105 demo_hash ''p'' [] ''u''
     ''Org1MSP'' ''o'' epoch"

definition demo_reimbursement :: Reimbursement where
  "demo_reimbursement = zero_Reimbursement\<lparr>rmb_ID := ''r'', rmb_ProjectID := ''p'', rmb_InvoiceID := ''i'',
     rmb_Applicant := ''u'', rmb_AmountCents := 105, rmb_Evidence := ''e'', rmb_EvidenceHash := demo_hash,
     rmb_Status := ''PENDING_REVIEW'', rmb_CreatedAt := epoch, rmb_UpdatedAt := epoch\<rparr>"

definition demo_approved :: Reimbursement where
  "demo_approved = demo_reimbursement\<lparr>rmb_Reviewer := ''project-reviewer'', rmb_ReviewOpinion := ''ok'',
     rmb_Status := ''APPROVED_RESERVED''\<rparr>"

lemma demo_fields [play]:
  "org_Status demo_org = ''ACTIVE''" "org_MSPID demo_org = ''Org1MSP''"
  "usr_Status demo_user = ''ACTIVE''" "usr_MSPID demo_user = ''Org1MSP''" "usr_Role demo_user = ''PROJECT_MEMBER''"
  "usr_OrganizationID demo_user = ''o''"
  "inv_Status demo_invoice = ''ISSUED''" "inv_ID demo_invoice = ''i''" "inv_ProjectID demo_invoice = ''p''"
  "inv_TotalCents demo_invoice = 105" "inv_Currency demo_invoice = ''CNY''" "inv_IssuerMSPID demo_invoice = ''Org1MSP''"
  "inv_IssuerOrganizationID demo_invoice = ''o''" "inv_CurrentHolder demo_invoice = ''u''"
  "inv_InvoiceNo demo_invoice = ''n''" "inv_DataHash demo_invoice = demo_hash"
  by (simp_all add: demo_org_def demo_user_def demo_invoice_def new_invoice_def)

lemma demo_project_fields [play]:
  "prj_Status demo_project = ''DRAFT''" "prj_Applicant demo_project = ''u''" "prj_ApplicantMSPID demo_project = ''Org1MSP''"
  "prj_OrganizationID demo_project = ''o''" "prj_ID demo_project = ''p''" "prj_BudgetCents demo_project = 1000"
  "prj_PaidCents demo_project = 0" "prj_ReservedCents demo_project = 0" "prj_RecoveredCents demo_project = 0"
  "prj_Status demo_settling = ''FINANCIAL_SETTLEMENT''" "prj_Applicant demo_settling = ''u''"
  "prj_ApplicantMSPID demo_settling = ''Org1MSP''" "prj_OrganizationID demo_settling = ''o''"
  "prj_ID demo_settling = ''p''" "prj_BudgetCents demo_settling = 1000" "prj_AvailableCents demo_settling = 1000"
  "prj_PaidCents demo_settling = 0" "prj_ReservedCents demo_settling = 0" "prj_RecoveredCents demo_settling = 0"
  by (simp_all add: demo_project_def demo_settling_def zero_Project_def)

lemma demo_reimbursement_fields [play]:
  "rmb_Status demo_reimbursement = ''PENDING_REVIEW''" "rmb_ProjectID demo_reimbursement = ''p''"
  "rmb_InvoiceID demo_reimbursement = ''i''" "rmb_AmountCents demo_reimbursement = 105" "rmb_ID demo_reimbursement = ''r''"
  "rmb_Status demo_approved = ''APPROVED_RESERVED''" "rmb_ProjectID demo_approved = ''p''"
  "rmb_InvoiceID demo_approved = ''i''" "rmb_AmountCents demo_approved = 105" "rmb_ID demo_approved = ''r''"
  by (simp_all add: demo_reimbursement_def demo_approved_def)

named_theorems demo_states \<open>what the ledgers of the demonstration run hold\<close>

definition l1 :: ledger where
  "l1 = submit (demo_ctx ''Org1MSP'' ''t1'' []) (TxCreateBusinessOrganization ''o'' ''O'' ''PRIMARY'' [] [] ''org-admin'')"

lemma l1: "l1 = put_kv (organizationKey ''o'') (Doc (enc_BusinessOrganization demo_org))
     ([])"
  by (simp add: l1_def  play play_all CreateBusinessOrganization_def demo_org_def zero_BusinessOrganization_def
    cong: play_cong del: put_kv.simps)

lemma at_l1 [demo_states]:
  "get_kv l1 k = (if k = organizationKey ''o'' then Some (Doc (enc_BusinessOrganization demo_org)) else get_kv [] k)"
  "wf_ledger l1" "scan invoicePrefix l1 = []" "scan reimbursementPrefix l1 = []"
  by (simp_all add: l1 get_kv_simps play_scan  del: put_kv.simps)

definition l2 :: ledger where
  "l2 = submit (demo_ctx ''Org1MSP'' ''t2'' l1) (TxRegisterBusinessUser ''u'' ''U'' ''Org1MSP'' ''PROJECT_MEMBER'' ''o'')"

lemma l2: "l2 = put_kv (userKey ''u'') (Doc (enc_BusinessUser demo_user))
     (l1)"
  by (simp add: l2_def demo_states play play_all RegisterBusinessUser_def demo_user_def
    cong: play_cong del: put_kv.simps)

lemma at_l2 [demo_states]:
  "get_kv l2 k = (if k = userKey ''u'' then Some (Doc (enc_BusinessUser demo_user)) else get_kv l1 k)"
  "wf_ledger l2" "scan invoicePrefix l2 = []" "scan reimbursementPrefix l2 = []"
  by (simp_all add: l2 get_kv_simps play_scan demo_states del: put_kv.simps)

definition l3 :: ledger where
  "l3 = submit (demo_ctx ''Org1MSP'' ''t3'' l2) (TxCreateProject ''p'' ''P'' ''c'' ''1000'' ''2026-01-31'' ''u'' ''o'')"

lemma l3: "l3 = put_kv (projectEventKey ''p'' ''t3'') (demo_evt ''t3'' ''p'' ''CREATE_DRAFT'' ''u'' [] [])
     (put_kv (projectMemberKey ''p'' ''u'') (Doc (enc_ProjectMember demo_leader))
     (put_kv (projectKey ''p'') (Doc (enc_Project (demo_project)))
     (l2)))"
  by (simp add: l3_def demo_states play play_all CreateProject_def demo_project_def demo_leader_def
    cong: play_cong del: put_kv.simps)

lemma at_l3 [demo_states]:
  "get_kv l3 k = (if k = projectEventKey ''p'' ''t3'' then Some (demo_evt ''t3'' ''p'' ''CREATE_DRAFT'' ''u'' [] []) else if k = projectMemberKey ''p'' ''u'' then Some (Doc (enc_ProjectMember demo_leader)) else if k = projectKey ''p'' then Some (Doc (enc_Project (demo_project))) else get_kv l2 k)"
  "wf_ledger l3" "scan invoicePrefix l3 = []" "scan reimbursementPrefix l3 = []"
  by (simp_all add: l3 get_kv_simps play_scan demo_states del: put_kv.simps)

definition l4 :: ledger where
  "l4 = submit (demo_ctx ''Org1MSP'' ''t4'' l3) (TxSubmitProject ''p'' ''u'')"

lemma l4: "l4 = put_kv (projectEventKey ''p'' ''t4'') (demo_evt ''t4'' ''p'' ''SUBMIT_APPLICATION'' ''u'' [] [])
     (put_kv (projectKey ''p'') (Doc (enc_Project (demo_project\<lparr>prj_Status := ''PENDING_REVIEW'', prj_UpdatedAt := epoch\<rparr>)))
     (l3))"
  by (simp add: l4_def demo_states play play_all SubmitProject_def demo_project_def demo_settling_def zero_Project_def
    cong: play_cong del: put_kv.simps)

lemma at_l4 [demo_states]:
  "get_kv l4 k = (if k = projectEventKey ''p'' ''t4'' then Some (demo_evt ''t4'' ''p'' ''SUBMIT_APPLICATION'' ''u'' [] []) else if k = projectKey ''p'' then Some (Doc (enc_Project (demo_project\<lparr>prj_Status := ''PENDING_REVIEW'', prj_UpdatedAt := epoch\<rparr>))) else get_kv l3 k)"
  "wf_ledger l4" "scan invoicePrefix l4 = []" "scan reimbursementPrefix l4 = []"
  by (simp_all add: l4 get_kv_simps play_scan demo_states del: put_kv.simps)

definition l5 :: ledger where
  "l5 = submit (demo_ctx ''Org1MSP'' ''t5'' l4) (TxReviewProject ''p'' ''APPROVE'' ''ok'' ''project-reviewer'')"

lemma l5: "l5 = put_kv (projectEventKey ''p'' ''t5'') (demo_evt ''t5'' ''p'' ''PROJECT_APPROVE'' ''project-reviewer'' ''ok'' [])
     (put_kv (projectKey ''p'') (Doc (enc_Project (demo_project\<lparr>prj_Status := ''EXECUTING'', prj_UpdatedAt := epoch, prj_Reviewer := ''project-reviewer'', prj_ReviewOpinion := ''ok''\<rparr>)))
     (l4))"
  by (simp add: l5_def demo_states play play_all ReviewProject_def demo_project_def demo_settling_def zero_Project_def
    cong: play_cong del: put_kv.simps)

lemma at_l5 [demo_states]:
  "get_kv l5 k = (if k = projectEventKey ''p'' ''t5'' then Some (demo_evt ''t5'' ''p'' ''PROJECT_APPROVE'' ''project-reviewer'' ''ok'' []) else if k = projectKey ''p'' then Some (Doc (enc_Project (demo_project\<lparr>prj_Status := ''EXECUTING'', prj_UpdatedAt := epoch, prj_Reviewer := ''project-reviewer'', prj_ReviewOpinion := ''ok''\<rparr>))) else get_kv l4 k)"
  "wf_ledger l5" "scan invoicePrefix l5 = []" "scan reimbursementPrefix l5 = []"
  by (simp_all add: l5 get_kv_simps play_scan demo_states del: put_kv.simps)

definition l6 :: ledger where
  "l6 = submit (demo_ctx ''Org1MSP'' ''t6'' l5) (TxRequestProjectClosure ''p'' ''m'' demo_hash ''u'')"

lemma l6: "l6 = put_kv (projectEventKey ''p'' ''t6'') (demo_evt ''t6'' ''p'' ''REQUEST_CLOSURE'' ''u'' demo_hash [])
     (put_kv (projectKey ''p'') (Doc (enc_Project (demo_project\<lparr>prj_Status := ''CLOSURE_REVIEW'', prj_UpdatedAt := epoch, prj_Reviewer := ''project-reviewer'', prj_ReviewOpinion := ''ok'', prj_ClosureMaterials := ''m'', prj_ClosureMaterialsHash := demo_hash\<rparr>)))
     (l5))"
  by (simp add: l6_def demo_states play play_all RequestProjectClosure_def demo_project_def demo_settling_def zero_Project_def
    cong: play_cong del: put_kv.simps)

lemma at_l6 [demo_states]:
  "get_kv l6 k = (if k = projectEventKey ''p'' ''t6'' then Some (demo_evt ''t6'' ''p'' ''REQUEST_CLOSURE'' ''u'' demo_hash []) else if k = projectKey ''p'' then Some (Doc (enc_Project (demo_project\<lparr>prj_Status := ''CLOSURE_REVIEW'', prj_UpdatedAt := epoch, prj_Reviewer := ''project-reviewer'', prj_ReviewOpinion := ''ok'', prj_ClosureMaterials := ''m'', prj_ClosureMaterialsHash := demo_hash\<rparr>))) else get_kv l5 k)"
  "wf_ledger l6" "scan invoicePrefix l6 = []" "scan reimbursementPrefix l6 = []"
  by (simp_all add: l6 get_kv_simps play_scan demo_states del: put_kv.simps)

definition l7 :: ledger where
  "l7 = submit (demo_ctx ''Org1MSP'' ''t7'' l6) (TxReviewProjectClosure ''p'' ''APPROVE'' ''ok'' ''project-reviewer'')"

lemma l7: "l7 = put_kv (projectEventKey ''p'' ''t7'') (demo_evt ''t7'' ''p'' ''CLOSURE_APPROVE_AND_RELEASE_FUND'' ''project-reviewer'' ''ok'' [])
     (put_kv (projectKey ''p'') (Doc (enc_Project (demo_settling)))
     (l6))"
  by (simp add: l7_def demo_states play play_all ReviewProjectClosure_def demo_project_def demo_settling_def zero_Project_def
    cong: play_cong del: put_kv.simps)

lemma at_l7 [demo_states]:
  "get_kv l7 k = (if k = projectEventKey ''p'' ''t7'' then Some (demo_evt ''t7'' ''p'' ''CLOSURE_APPROVE_AND_RELEASE_FUND'' ''project-reviewer'' ''ok'' []) else if k = projectKey ''p'' then Some (Doc (enc_Project (demo_settling))) else get_kv l6 k)"
  "wf_ledger l7" "scan invoicePrefix l7 = []" "scan reimbursementPrefix l7 = []"
  by (simp_all add: l7 get_kv_simps play_scan demo_states del: put_kv.simps)

definition l8 :: ledger where
  "l8 = submit (demo_ctx ''Org1MSP'' ''t8'' l7) (TxCreateInvoice ''i'' ''n'' ''2024-01-02'' ''a'' ''b'' ''Org2MSP'' ''100'' ''5'' ''CNY'' demo_hash ''p'' ''u'' ''Org1MSP'' [] [])"

lemma l8: "l8 = put_kv (flowKey ''i'' ''t8'') (demo_flw ''t8'' ''i'' ''ISSUE'' ''a'' ''u'' ''Org1MSP'')
     (put_kv (invoiceNumberKey ''n'') (Raw ''i'')
     (put_kv (invoiceKey ''i'') (Doc (enc_Invoice demo_invoice))
     (l7)))"
  by (simp add: l8_def demo_states play play_all CreateInvoice_def check_linked_project_def check_correction_def checkedAddMoney_def InvoiceNumberExists_def demo_invoice_def new_invoice_fold
    cong: play_cong del: put_kv.simps)

lemma at_l8 [demo_states]:
  "get_kv l8 k = (if k = flowKey ''i'' ''t8'' then Some (demo_flw ''t8'' ''i'' ''ISSUE'' ''a'' ''u'' ''Org1MSP'') else if k = invoiceNumberKey ''n'' then Some (Raw ''i'') else if k = invoiceKey ''i'' then Some (Doc (enc_Invoice demo_invoice)) else get_kv l7 k)"
  "wf_ledger l8" "scan invoicePrefix l8 = [(invoiceKey ''i'', Doc (enc_Invoice demo_invoice))]" "scan reimbursementPrefix l8 = []"
  by (simp_all add: l8 get_kv_simps play_scan demo_states del: put_kv.simps)

definition l9 :: ledger where
  "l9 = submit (demo_ctx ''Org1MSP'' ''t9'' l8) (TxCreateReimbursement ''r'' ''p'' ''i'' ''u'' ''e'' demo_hash)"

lemma l9: "l9 = put_kv (projectEventKey ''p'' ''t9'') (demo_evt ''t9'' ''p'' ''SUBMIT_REIMBURSEMENT'' ''u'' note_submit ''r'')
     (put_kv (reimbursementInvoiceKey ''i'') (Raw ''r'')
     (put_kv (reimbursementKey ''r'') (Doc (enc_Reimbursement demo_reimbursement))
     (l8)))"
  by (simp add: l9_def demo_states play play_all CreateReimbursement_def demo_reimbursement_def
    cong: play_cong del: put_kv.simps)

lemma at_l9 [demo_states]:
  "get_kv l9 k = (if k = projectEventKey ''p'' ''t9'' then Some (demo_evt ''t9'' ''p'' ''SUBMIT_REIMBURSEMENT'' ''u'' note_submit ''r'') else if k = reimbursementInvoiceKey ''i'' then Some (Raw ''r'') else if k = reimbursementKey ''r'' then Some (Doc (enc_Reimbursement demo_reimbursement)) else get_kv l8 k)"
  "wf_ledger l9" "scan invoicePrefix l9 = [(invoiceKey ''i'', Doc (enc_Invoice demo_invoice))]" "scan reimbursementPrefix l9 = [(reimbursementKey ''r'', Doc (enc_Reimbursement demo_reimbursement))]"
  by (simp_all add: l9 get_kv_simps play_scan demo_states del: put_kv.simps)

definition l10 :: ledger where
  "l10 = submit (demo_ctx ''Org1MSP'' ''t10'' l9) (TxReviewReimbursement ''r'' ''APPROVE'' ''ok'' ''project-reviewer'')"

lemma l10: "l10 = put_kv (projectEventKey ''p'' ''t10'') (demo_evt ''t10'' ''p'' ''REIMBURSEMENT_APPROVE'' ''project-reviewer'' ''ok'' ''r'')
     (put_kv (reimbursementKey ''r'') (Doc (enc_Reimbursement demo_approved))
     (put_kv (projectKey ''p'') (Doc (enc_Project (demo_settling\<lparr>prj_AvailableCents := 895, prj_ReservedCents := 105\<rparr>)))
     (l9)))"
  by (simp add: l10_def demo_states play play_all ReviewReimbursement_def demo_approved_def demo_reimbursement_def zero_Reimbursement_def demo_project_def demo_settling_def zero_Project_def
    cong: play_cong del: put_kv.simps)

lemma at_l10 [demo_states]:
  "get_kv l10 k = (if k = projectEventKey ''p'' ''t10'' then Some (demo_evt ''t10'' ''p'' ''REIMBURSEMENT_APPROVE'' ''project-reviewer'' ''ok'' ''r'') else if k = reimbursementKey ''r'' then Some (Doc (enc_Reimbursement demo_approved)) else if k = projectKey ''p'' then Some (Doc (enc_Project (demo_settling\<lparr>prj_AvailableCents := 895, prj_ReservedCents := 105\<rparr>))) else get_kv l9 k)"
  "wf_ledger l10" "scan invoicePrefix l10 = [(invoiceKey ''i'', Doc (enc_Invoice demo_invoice))]" "scan reimbursementPrefix l10 = [(reimbursementKey ''r'', Doc (enc_Reimbursement demo_approved))]"
  by (simp_all add: l10 get_kv_simps play_scan demo_states del: put_kv.simps)

definition l11 :: ledger where
  "l11 = submit (demo_ctx ''Org2MSP'' ''t11'' l10) (TxPayReimbursement ''r'' ''finance-admin'')"

lemma l11: "l11 = put_kv (projectEventKey ''p'' ''t11'') (demo_evt ''t11'' ''p'' ''PAY_REIMBURSEMENT'' ''finance-admin'' note_pay ''r'')
     (put_kv (reimbursementKey ''r'') (Doc (enc_Reimbursement (demo_approved\<lparr>rmb_Status := ''PAID''\<rparr>)))
     (put_kv (projectKey ''p'') (Doc (enc_Project (demo_settling\<lparr>prj_AvailableCents := 895, prj_ReservedCents := 0, prj_PaidCents := 105\<rparr>)))
     (l10)))"
  by (simp add: l11_def demo_states play play_all PayReimbursement_def demo_approved_def demo_reimbursement_def zero_Reimbursement_def demo_project_def demo_settling_def zero_Project_def
    cong: play_cong del: put_kv.simps)

lemma at_l11 [demo_states]:
  "get_kv l11 k = (if k = projectEventKey ''p'' ''t11'' then Some (demo_evt ''t11'' ''p'' ''PAY_REIMBURSEMENT'' ''finance-admin'' note_pay ''r'') else if k = reimbursementKey ''r'' then Some (Doc (enc_Reimbursement (demo_approved\<lparr>rmb_Status := ''PAID''\<rparr>))) else if k = projectKey ''p'' then Some (Doc (enc_Project (demo_settling\<lparr>prj_AvailableCents := 895, prj_ReservedCents := 0, prj_PaidCents := 105\<rparr>))) else get_kv l10 k)"
  "wf_ledger l11" "scan invoicePrefix l11 = [(invoiceKey ''i'', Doc (enc_Invoice demo_invoice))]" "scan reimbursementPrefix l11 = [(reimbursementKey ''r'', Doc (enc_Reimbursement (demo_approved\<lparr>rmb_Status := ''PAID''\<rparr>)))]"
  by (simp_all add: l11 get_kv_simps play_scan demo_states del: put_kv.simps)

definition l12 :: ledger where
  "l12 = submit (demo_ctx ''Org2MSP'' ''t12'' l11) (TxFinalizeProjectSettlement ''p'' ''finance-admin'')"

lemma l12: "l12 = put_kv (projectEventKey ''p'' ''t12'') (demo_evt ''t12'' ''p'' ''FINALIZE_SETTLEMENT'' ''finance-admin'' note_finalize [])
     (put_kv (projectKey ''p'') (Doc (enc_Project (demo_settling\<lparr>prj_AvailableCents := 0, prj_ReservedCents := 0, prj_PaidCents := 105, prj_RecoveredCents := 895, prj_Status := ''ARCHIVED''\<rparr>)))
     (l11))"
  by (simp add: l12_def demo_states play play_all FinalizeProjectSettlement_def GetAllReimbursements_def demo_project_def demo_settling_def zero_Project_def
    cong: play_cong del: put_kv.simps)

lemma at_l12 [demo_states]:
  "get_kv l12 k = (if k = projectEventKey ''p'' ''t12'' then Some (demo_evt ''t12'' ''p'' ''FINALIZE_SETTLEMENT'' ''finance-admin'' note_finalize []) else if k = projectKey ''p'' then Some (Doc (enc_Project (demo_settling\<lparr>prj_AvailableCents := 0, prj_ReservedCents := 0, prj_PaidCents := 105, prj_RecoveredCents := 895, prj_Status := ''ARCHIVED''\<rparr>))) else get_kv l11 k)"
  "wf_ledger l12" "scan invoicePrefix l12 = [(invoiceKey ''i'', Doc (enc_Invoice demo_invoice))]" "scan reimbursementPrefix l12 = [(reimbursementKey ''r'', Doc (enc_Reimbursement (demo_approved\<lparr>rmb_Status := ''PAID''\<rparr>)))]"
  by (simp_all add: l12 get_kv_simps play_scan demo_states del: put_kv.simps)

text \<open>Side branches: voiding the invoice before it is claimed, and paying under a padded identifier.\<close>

definition v9 :: ledger where
  "v9 = submit (demo_ctx ''Org1MSP'' ''v9'' l8) (TxVoidInvoice ''i'' ''x'' ''issuer-org1'')"

definition demo_voided :: Invoice where
  "demo_voided = demo_invoice\<lparr>inv_Status := ''VOIDED'', inv_VoidReason := ''x'', inv_UpdatedAt := epoch\<rparr>"

lemma v9: "v9 = put_kv (flowKey ''i'' ''v9'') (demo_flw ''v9'' ''i'' ''VOID'' ''u'' ''VOIDED'' ''Org1MSP'')
     (put_kv (invoiceKey ''i'') (Doc (enc_Invoice demo_voided)) l8)"
  by (simp add: v9_def demo_states play play_all VoidInvoice_def ensureInvoiceCanBeVoided_def demo_voided_def
    cong: play_cong del: put_kv.simps)

lemma at_v9 [demo_states]:
  "get_kv v9 k = (if k = flowKey ''i'' ''v9'' then Some (demo_flw ''v9'' ''i'' ''VOID'' ''u'' ''VOIDED'' ''Org1MSP'')
     else if k = invoiceKey ''i'' then Some (Doc (enc_Invoice demo_voided)) else get_kv l8 k)"
  "wf_ledger v9"
  by (simp_all add: v9 get_kv_simps play_scan demo_states del: put_kv.simps)

definition d11 :: ledger where
  "d11 = submit (demo_ctx ''Org2MSP'' ''d11'' l10) (TxPayReimbursement '' r'' ''finance-admin'')"

lemma d11: "d11 = put_kv (projectEventKey ''p'' ''d11'') (demo_evt ''d11'' ''p'' ''PAY_REIMBURSEMENT'' ''finance-admin'' note_pay '' r'')
     (put_kv (reimbursementKey '' r'') (Doc (enc_Reimbursement (demo_approved\<lparr>rmb_Status := ''PAID''\<rparr>)))
     (put_kv (projectKey ''p'') (Doc (enc_Project (demo_settling\<lparr>prj_AvailableCents := 895, prj_ReservedCents := 0,
       prj_PaidCents := 105\<rparr>))) l10))"
  by (simp add: d11_def demo_states play play_all PayReimbursement_def demo_approved_def demo_reimbursement_def
    zero_Reimbursement_def demo_project_def demo_settling_def zero_Project_def cong: play_cong del: put_kv.simps)

lemma at_d11 [demo_states]:
  "get_kv d11 k =
     (if k = projectEventKey ''p'' ''d11'' then Some (demo_evt ''d11'' ''p'' ''PAY_REIMBURSEMENT'' ''finance-admin'' note_pay '' r'')
      else if k = reimbursementKey '' r'' then Some (Doc (enc_Reimbursement (demo_approved\<lparr>rmb_Status := ''PAID''\<rparr>)))
      else if k = projectKey ''p'' then Some (Doc (enc_Project (demo_settling\<lparr>prj_AvailableCents := 895,
        prj_ReservedCents := 0, prj_PaidCents := 105\<rparr>))) else get_kv l10 k)"
  "wf_ledger d11"
  by (simp_all add: d11 get_kv_simps play_scan demo_states del: put_kv.simps)

text \<open>Another branch: a user registers under the name of a built-in account.\<close>

definition x1 :: ledger where
  "x1 = submit (demo_ctx ''Org2MSP'' ''x1'' []) (TxCreateBusinessOrganization ''o'' ''O'' ''PRIMARY'' [] [] ''org-admin-org2'')"

definition x_org :: BusinessOrganization where
  "x_org = zero_BusinessOrganization\<lparr>org_ID := ''o'', org_Name := ''O'', org_Type := ''PRIMARY'',
     org_MSPID := ''Org2MSP'', org_Status := ''ACTIVE'', org_CreatedBy := ''org-admin-org2'', org_CreatedAt := epoch\<rparr>"

lemma x_trim [play]: "TrimSpace ''org-admin-org2'' = ''org-admin-org2''"
  by code_simp

lemma x1: "x1 = put_kv (organizationKey ''o'') (Doc (enc_BusinessOrganization x_org)) []"
  by (simp add: x1_def play play_all CreateBusinessOrganization_def x_org_def zero_BusinessOrganization_def
    cong: play_cong del: put_kv.simps)

definition x2 :: ledger where
  "x2 = submit (demo_ctx ''Org2MSP'' ''x2'' x1) (TxRegisterBusinessUser ''finance-admin'' ''U'' ''Org2MSP'' ''PROJECT_MEMBER'' ''o'')"

definition x_user :: BusinessUser where
  "x_user = zero_BusinessUser\<lparr>usr_Username := ''finance-admin'', usr_DisplayName := ''U'', usr_MSPID := ''Org2MSP'',
     usr_OrganizationID := ''o'', usr_Role := ''PROJECT_MEMBER'', usr_Status := ''ACTIVE'', usr_CreatedAt := epoch\<rparr>"

lemma x_fields [play]: "org_Status x_org = ''ACTIVE''" "org_MSPID x_org = ''Org2MSP''"
  by (simp_all add: x_org_def)

lemma x2: "x2 = put_kv (userKey ''finance-admin'') (Doc (enc_BusinessUser x_user)) x1"
  by (simp add: x2_def x1 play play_all RegisterBusinessUser_def x_user_def cong: play_cong del: put_kv.simps)

lemma at_x2: "get_kv x2 (userKey ''finance-admin'') = Some (Doc (enc_BusinessUser x_user))"
  by (simp add: x2 get_kv_simps del: put_kv.simps)

section \<open>The ledgers are reachable\<close>

lemma run_submit: "run any_call l m \<Longrightarrow> run any_call l (submit (demo_ctx a t m) c)"
  using run_step [of any_call l "demo_ctx a t m" c] by (simp add: demo_ctx_simps any_call_def)

lemma reachable_submit: "reachable l \<Longrightarrow> reachable (submit (demo_ctx a t l) c)"
  by (simp add: reachable_def run_submit)

lemma reachable_empty: "reachable []"
  by (simp add: reachable_def run_refl)

lemma demo_reachable [demo_states]:
  "reachable l1"
  "reachable l2"
  "reachable l3"
  "reachable l4"
  "reachable l5"
  "reachable l6"
  "reachable l7"
  "reachable l8"
  "reachable l9"
  "reachable l10"
  "reachable l11"
  "reachable l12"
  "reachable v9" "reachable d11" "reachable x2"
proof -
  show r1: "reachable l1"
    unfolding l1_def by (rule reachable_submit) (rule reachable_empty)
  show r2: "reachable l2"
    unfolding l2_def by (rule reachable_submit) (rule r1)
  show r3: "reachable l3"
    unfolding l3_def by (rule reachable_submit) (rule r2)
  show r4: "reachable l4"
    unfolding l4_def by (rule reachable_submit) (rule r3)
  show r5: "reachable l5"
    unfolding l5_def by (rule reachable_submit) (rule r4)
  show r6: "reachable l6"
    unfolding l6_def by (rule reachable_submit) (rule r5)
  show r7: "reachable l7"
    unfolding l7_def by (rule reachable_submit) (rule r6)
  show r8: "reachable l8"
    unfolding l8_def by (rule reachable_submit) (rule r7)
  show r9: "reachable l9"
    unfolding l9_def by (rule reachable_submit) (rule r8)
  show r10: "reachable l10"
    unfolding l10_def by (rule reachable_submit) (rule r9)
  show r11: "reachable l11"
    unfolding l11_def by (rule reachable_submit) (rule r10)
  show r12: "reachable l12"
    unfolding l12_def by (rule reachable_submit) (rule r11)
  show "reachable v9" unfolding v9_def by (rule reachable_submit) (rule r8)
  show "reachable d11" unfolding d11_def by (rule reachable_submit) (rule r10)
  show "reachable x2" unfolding x2_def x1_def by (intro reachable_submit reachable_empty)
qed

lemma demo_runs [demo_states]:
  "run any_call l8 v9" "run any_call l8 l12" "run any_call l11 l12" "run any_call l10 l12"
proof -
  show "run any_call l8 v9" unfolding v9_def by (intro run_submit run_refl)
  show "run any_call l8 l12" unfolding l12_def l11_def l10_def l9_def by (intro run_submit run_refl)
  show "run any_call l11 l12" unfolding l12_def by (intro run_submit run_refl)
  show "run any_call l10 l12" unfolding l12_def l11_def by (intro run_submit run_refl)
qed

end
