(* ===== verification/Settlement.thy ===== *)
theory Settlement
  imports Scenario
begin

text \<open>
  How reimbursements, invoices and project balances fit together. \<open>claims s pid l\<close> adds up the
  amounts of the reimbursements of a project in one status; the reserved and the paid balance of
  the project are these sums for \<open>APPROVED_RESERVED\<close> and \<open>PAID\<close>, and an invoice carries at most
  one reimbursement that is not withdrawn. Both hold of runs whose calls name records by their
  stored identifier (\<open>canonical_call\<close>): the handlers read under the trimmed identifier and write
  under the one they were given.
\<close>

section \<open>Canonical calls\<close>

fun canonical_call :: "call \<Rightarrow> bool" where
  "canonical_call (TxUpdateProject i _ _ _ _ _) = (TrimSpace i = i)"
| "canonical_call (TxSubmitProject i _) = (TrimSpace i = i)"
| "canonical_call (TxReviewProject i _ _ _) = (TrimSpace i = i)"
| "canonical_call (TxRequestProjectClosure i _ _ _) = (TrimSpace i = i)"
| "canonical_call (TxReviewProjectClosure i _ _ _) = (TrimSpace i = i)"
| "canonical_call (TxAddProjectMember i _ _) = (TrimSpace i = i)"
| "canonical_call (TxReviewReimbursement i _ _ _) = (TrimSpace i = i)"
| "canonical_call (TxResubmitReimbursement i _ _ _) = (TrimSpace i = i)"
| "canonical_call (TxWithdrawReimbursement i _) = (TrimSpace i = i)"
| "canonical_call (TxPayReimbursement i _) = (TrimSpace i = i)"
| "canonical_call (TxRespondInvoiceTransfer i _ _ _) = (TrimSpace i = i)"
| "canonical_call (TxCancelInvoiceTransfer i _) = (TrimSpace i = i)"
| "canonical_call _ = True"

definition canonical :: "stub \<Rightarrow> call \<Rightarrow> bool" where
  "canonical ctx c \<longleftrightarrow> canonical_call c"

section \<open>Sums over the ledger\<close>

definition ledger_sum :: "(string \<times> blob \<Rightarrow> int) \<Rightarrow> ledger \<Rightarrow> int" where
  "ledger_sum f l = sum_list (map f l)"

definition at_key :: "(string \<times> blob \<Rightarrow> int) \<Rightarrow> ledger \<Rightarrow> string \<Rightarrow> int" where
  "at_key f l k = (case get_kv l k of None \<Rightarrow> 0 | Some b \<Rightarrow> f (k, b))"

lemma ledger_sum_put: "wf_ledger l \<Longrightarrow> ledger_sum f (put_kv k b l) = ledger_sum f l - at_key f l k + f (k, b)"
proof (induction k b l rule: put_kv.induct)
  case (2 k v k' v' l)
  have "get_kv l k = None" if "k < k'"
    using 2(2) that by (auto simp: wf_ledger_def get_kv_def map_of_eq_None_iff)
  with 2 show ?case by (auto simp: ledger_sum_def at_key_def get_kv_def wf_ledger_def)
qed (simp add: ledger_sum_def at_key_def get_kv_def)

lemma ledger_sum_del: "wf_ledger l \<Longrightarrow> ledger_sum f (del_kv k l) = ledger_sum f l - at_key f l k"
  by (induction k l rule: del_kv.induct)
    (auto simp: ledger_sum_def at_key_def get_kv_def wf_ledger_def)

definition claim :: "string \<Rightarrow> string \<Rightarrow> string \<times> blob \<Rightarrow> int" where
  "claim s pid e = (case e of
     (k, Doc j) \<Rightarrow> (case dec_Reimbursement j of
         Inr r \<Rightarrow> if prefix reimbursementPrefix k \<and> rmb_Status r = s \<and> rmb_ProjectID r = pid
                 then sint (rmb_AmountCents r) else 0
       | Inl _ \<Rightarrow> 0)
   | _ \<Rightarrow> 0)"

definition claims :: "string \<Rightarrow> string \<Rightarrow> ledger \<Rightarrow> int" where
  "claims s pid l = ledger_sum (claim s pid) l"

lemma prefix_reimbursement: "prefix reimbursementPrefix k \<longleftrightarrow> (\<exists>i. k = reimbursementKey i)"
  by (auto simp: prefix_def reimbursementKey_def)

lemma claim_family [simp]: "family k \<noteq> ''REIMBURSEMENT'' \<Longrightarrow> claim s pid (k, b) = 0"
  by (auto simp: claim_def prefix_reimbursement split: blob.splits sum.splits)

lemma claim_reimbursement [simp]:
  "claim s pid (reimbursementKey i, Doc (enc_Reimbursement r)) =
    (if rmb_Status r = s \<and> rmb_ProjectID r = pid then sint (rmb_AmountCents r) else 0)"
  by (simp add: claim_def prefix_reimbursement)

lemma at_key_family [simp]: "family k \<noteq> ''REIMBURSEMENT'' \<Longrightarrow> at_key (claim s pid) l k = 0"
  by (simp add: at_key_def split: option.splits)

lemma at_key_None [simp]: "get_kv l k = None \<Longrightarrow> at_key f l k = 0"
  by (simp add: at_key_def)

lemma at_key_put [simp]: "at_key f (put_kv k' b l) k = (if k = k' then f (k, b) else at_key f l k)"
  by (simp add: at_key_def get_put_kv)

lemma claims_put: "wf_ledger l \<Longrightarrow> claims s pid (put_kv k b l) = claims s pid l - at_key (claim s pid) l k + claim s pid (k, b)"
  by (simp add: claims_def ledger_sum_put)

lemma claims_del: "wf_ledger l \<Longrightarrow> claims s pid (del_kv k l) = claims s pid l - at_key (claim s pid) l k"
  by (simp add: claims_def ledger_sum_del)

text \<open>The reserved and the paid balance of a project as the ledger shows them.\<close>

definition books :: "ledger \<Rightarrow> string \<Rightarrow> int \<times> int" where
  "books l i = (case get_kv l (projectKey i) of
     Some (Doc j) \<Rightarrow> (case dec_Project j of
        Inr p \<Rightarrow> (sint (prj_ReservedCents p), sint (prj_PaidCents p)) | Inl _ \<Rightarrow> (0, 0))
   | _ \<Rightarrow> (0, 0))"

definition settled :: "ledger \<Rightarrow> bool" where
  "settled l \<longleftrightarrow> (\<forall>i. TrimSpace i = i \<longrightarrow> books l i = (claims ''APPROVED_RESERVED'' i l, claims ''PAID'' i l))"

lemma books_put [simp]:
  "family k \<noteq> ''PROJECT'' \<Longrightarrow> books (put_kv k b l) i = books l i"
  "books (put_kv (projectKey j) (Doc (enc_Project p)) l) i =
    (if i = j then (sint (prj_ReservedCents p), sint (prj_PaidCents p)) else books l i)"
  by (auto simp: books_def get_put_kv)

lemma books_del [simp]: "wf_ledger l \<Longrightarrow> family k \<noteq> ''PROJECT'' \<Longrightarrow> books (del_kv k l) i = books l i"
  by (auto simp: books_def get_del_kv)

lemma books_read:
  assumes "ReadProject ctx j = Inr p"
  shows "books (st_ledger ctx) (TrimSpace j) = (sint (prj_ReservedCents p), sint (prj_PaidCents p))"
  using assms by (auto simp: read_inv stored_def books_def)

text \<open>Writes outside the two families that carry money change nothing.\<close>

lemma settled_frame:
  assumes "settled l" "wf_ledger l" "\<forall>w \<in> set ws. family (write_key w) \<notin> {''PROJECT'', ''REIMBURSEMENT''}"
  shows "settled (commit ws l)"
  using assms
proof (induction ws arbitrary: l)
  case (Cons w ws)
  have "settled (apply_write w l)"
    using Cons.prems by (cases w) (auto simp: settled_def claims_put claims_del)
  with Cons show ?case by (simp add: wf_apply_write)
qed simp

section \<open>The balances are the sums of the claims\<close>

lemma settled_project_writes:
  assumes "settled (st_ledger ctx)" "wf_ledger (st_ledger ctx)" "TrimSpace i = i"
    and "books (st_ledger ctx) i = (sint (prj_ReservedCents p), sint (prj_PaidCents p))"
  shows "settled (commit (project_writes ctx i p e) (st_ledger ctx))"
  using assms by (auto simp: settled_def project_writes_def claims_put wf_put_kv)

lemma settled_read_project:
  assumes "settled (st_ledger ctx)" "ReadProject ctx j = Inr p" "TrimSpace j = j"
  shows "books (st_ledger ctx) j = (sint (prj_ReservedCents p), sint (prj_PaidCents p))"
  using books_read [OF assms(2)] assms(3) by simp

lemma settled_UpdateProject:
  assumes "UpdateProject ctx i n c b d a = Inr ws" "wf_ledger (st_ledger ctx)" "settled (st_ledger ctx)" "TrimSpace i = i"
  shows "settled (commit ws (st_ledger ctx))"
  using UpdateProject_effect [OF assms(1)] assms(2-)
  by (elim exE conjE, hypsubst) (auto intro!: settled_project_writes dest: settled_read_project)

lemma settled_SubmitProject:
  assumes "SubmitProject ctx i a = Inr ws" "wf_ledger (st_ledger ctx)" "settled (st_ledger ctx)" "TrimSpace i = i"
  shows "settled (commit ws (st_ledger ctx))"
  using SubmitProject_effect [OF assms(1)] assms(2-)
  by (elim exE conjE, hypsubst) (auto intro!: settled_project_writes dest: settled_read_project)

lemma settled_ReviewProject:
  assumes "ReviewProject ctx i dec opn r = Inr ws" "wf_ledger (st_ledger ctx)" "settled (st_ledger ctx)" "TrimSpace i = i"
  shows "settled (commit ws (st_ledger ctx))"
  using ReviewProject_effect [OF assms(1)] assms(2-)
  by (elim exE conjE, hypsubst) (auto intro!: settled_project_writes dest: settled_read_project)

lemma settled_RequestProjectClosure:
  assumes "RequestProjectClosure ctx i m h a = Inr ws" "wf_ledger (st_ledger ctx)" "settled (st_ledger ctx)" "TrimSpace i = i"
  shows "settled (commit ws (st_ledger ctx))"
  using RequestProjectClosure_effect [OF assms(1)] assms(2-)
  by (elim exE conjE, hypsubst) (auto intro!: settled_project_writes dest: settled_read_project)

lemma settled_ReviewProjectClosure:
  assumes "ReviewProjectClosure ctx i dec opn r = Inr ws" "wf_ledger (st_ledger ctx)" "settled (st_ledger ctx)" "TrimSpace i = i"
  shows "settled (commit ws (st_ledger ctx))"
  using ReviewProjectClosure_effect [OF assms(1)] assms(2-)
  by (elim exE conjE, hypsubst) (auto intro!: settled_project_writes dest: settled_read_project)

lemma settled_own_project:
  assumes "ReadProject ctx j = Inr p" "typed (st_ledger ctx)"
  shows "books (st_ledger ctx) (prj_ID p) = (sint (prj_ReservedCents p), sint (prj_PaidCents p))"
    "TrimSpace (prj_ID p) = prj_ID p" "prj_ID p = TrimSpace j"
  using books_read [OF assms(1)] assms by (auto dest!: typed_ReadProject simp: project_ok_ID)

lemma settled_FinalizeProjectSettlement:
  assumes "FinalizeProjectSettlement ctx i f = Inr ws" "typed (st_ledger ctx)" "settled (st_ledger ctx)"
  shows "settled (commit ws (st_ledger ctx))"
  using FinalizeProjectSettlement_effect [OF assms(1)] assms(2-)
  by (elim exE conjE, hypsubst) (auto intro!: settled_project_writes simp: typed_wf settled_own_project books_read)

lemma settled_CreateProject:
  assumes "CreateProject ctx i n c b d a oid = Inr ws" "wf_ledger (st_ledger ctx)" "settled (st_ledger ctx)"
  shows "settled (commit ws (st_ledger ctx))"
proof -
  have "books (st_ledger ctx) (TrimSpace i) = (0, 0)"
    using CreateProject_effect [OF assms(1)] by (auto simp: books_def)
  then have "claims ''APPROVED_RESERVED'' (TrimSpace i) (st_ledger ctx) = 0" "claims ''PAID'' (TrimSpace i) (st_ledger ctx) = 0"
    using assms(3) by (auto simp: settled_def)
  then show ?thesis
    using CreateProject_effect [OF assms(1)] assms(2,3)
    by (elim exE conjE) (auto simp: settled_def claims_put wf_put_kv zero_Project_def)
qed

text \<open>Reading a reimbursement under its stored identifier fixes what its key holds.\<close>

lemma at_read:
  assumes "ReadReimbursement ctx i = Inr r" "typed (st_ledger ctx)" "TrimSpace i = i"
  shows "at_key (claim s pid) (st_ledger ctx) (reimbursementKey i) =
    (if rmb_Status r = s \<and> rmb_ProjectID r = pid then sint (rmb_AmountCents r) else 0)"
    and "rmb_ID r = i" "reimbursement_ok r"
  using assms by (auto dest!: typed_ReadReimbursement simp: at_key_def)

lemma settled_CreateReimbursement:
  assumes "CreateReimbursement ctx i pid iid a ev evh = Inr ws" "wf_ledger (st_ledger ctx)" "settled (st_ledger ctx)"
  shows "settled (commit ws (st_ledger ctx))"
  using CreateReimbursement_effect [OF assms(1)] assms(2,3)
  by (elim exE conjE) (auto simp: settled_def claims_put wf_put_kv)

lemma settled_ResubmitReimbursement:
  assumes "ResubmitReimbursement ctx i ev evh a = Inr ws" "typed (st_ledger ctx)" "settled (st_ledger ctx)"
    "TrimSpace i = i"
  shows "settled (commit ws (st_ledger ctx))"
  using ResubmitReimbursement_effect [OF assms(1)] assms(2-)
  by (elim exE conjE) (auto simp: settled_def claims_put wf_put_kv typed_wf at_read(1))

lemma settled_ReviewReimbursement:
  assumes "ReviewReimbursement ctx i dec opn rv = Inr ws" "typed (st_ledger ctx)" "settled (st_ledger ctx)"
    "TrimSpace i = i"
  shows "settled (commit ws (st_ledger ctx))"
proof -
  obtain r p now e r' where r: "ReadReimbursement ctx i = Inr r" "rmb_Status r = ''PENDING_REVIEW''"
      "r' = r\<lparr>rmb_Reviewer := TrimSpace rv, rmb_ReviewOpinion := TrimSpace opn, rmb_UpdatedAt := now\<rparr>"
    and p: "ReadProject ctx (rmb_ProjectID r) = Inr p" "0 < sint (rmb_AmountCents r)"
    and ws: "sint (rmb_AmountCents r) \<le> sint (prj_AvailableCents p)
         \<and> ws = [put_project (reserve (rmb_AmountCents r) now p),
                 put_reimbursement i (r'\<lparr>rmb_Status := ''APPROVED_RESERVED''\<rparr>), put_event ctx (rmb_ProjectID r) e]
       \<or> ws = [put_reimbursement i (r'\<lparr>rmb_Status := ''REVISION_REQUIRED''\<rparr>), put_event ctx (rmb_ProjectID r) e]"
    using ReviewReimbursement_effect [OF assms(1)] by blast
  note own = settled_own_project [OF p(1) assms(2)]
  have pok: "project_ok p" and pid: "TrimSpace (rmb_ProjectID r) = rmb_ProjectID r"
    using p(1) r(1) assms(2) by (auto dest!: typed_ReadProject typed_ReadReimbursement simp: reimbursement_ok_def)
  have paid: "prj_PaidCents (reserve a now p) = prj_PaidCents p" for a
    by (simp add: reserve_def)
  from ws r own pid at_read(1) [OF r(1) assms(2,4)] balance_sint(1) [OF pok p(2)] assms(2,3)
  show ?thesis
    by (auto simp: settled_def claims_put wf_put_kv typed_wf paid)
qed

lemma settled_WithdrawReimbursement:
  assumes "WithdrawReimbursement ctx i a = Inr ws" "typed (st_ledger ctx)" "settled (st_ledger ctx)" "TrimSpace i = i"
  shows "settled (commit ws (st_ledger ctx))"
proof -
  obtain r p now e where r: "ReadReimbursement ctx i = Inr r"
      "rmb_Status r \<in> {''PENDING_REVIEW'', ''REVISION_REQUIRED'', ''APPROVED_RESERVED''}"
    and p: "ReadProject ctx (rmb_ProjectID r) = Inr p"
      "rmb_Status r = ''APPROVED_RESERVED'' \<longrightarrow> sint (rmb_AmountCents r) \<le> sint (prj_ReservedCents p)"
    and ws: "ws = (if rmb_Status r = ''APPROVED_RESERVED'' then [put_project (release (rmb_AmountCents r) now p)] else [])
        @ [put_reimbursement i (r\<lparr>rmb_Status := ''WITHDRAWN'', rmb_UpdatedAt := now\<rparr>),
           Del (reimbursementInvoiceKey (rmb_InvoiceID r)), put_event ctx (prj_ID p) e]"
    using WithdrawReimbursement_effect [OF assms(1)] by blast
  note own = settled_own_project [OF p(1) assms(2)]
  have pok: "project_ok p" and pid: "TrimSpace (rmb_ProjectID r) = rmb_ProjectID r" and pos: "0 < sint (rmb_AmountCents r)"
    using p(1) r(1) assms(2) by (auto dest!: typed_ReadProject typed_ReadReimbursement simp: reimbursement_ok_def)
  have paid: "prj_PaidCents (release a now p) = prj_PaidCents p" for a
    by (simp add: release_def)
  from ws p(2) r own pid at_read(1) [OF r(1) assms(2,4)] balance_sint(2) [OF pok pos] assms(2,3)
  show ?thesis
    by (auto simp: settled_def claims_put claims_del wf_put_kv wf_del_kv typed_wf paid)
qed

lemma settled_PayReimbursement:
  assumes "PayReimbursement ctx i f = Inr ws" "typed (st_ledger ctx)" "settled (st_ledger ctx)" "TrimSpace i = i"
  shows "settled (commit ws (st_ledger ctx))"
proof -
  obtain r p now e where r: "ReadReimbursement ctx i = Inr r" "rmb_Status r = ''APPROVED_RESERVED''"
    and p: "ReadProject ctx (rmb_ProjectID r) = Inr p" "sint (rmb_AmountCents r) \<le> sint (prj_ReservedCents p)"
    and ws: "ws = [put_project (pay_out (rmb_AmountCents r) now p),
      put_reimbursement i (r\<lparr>rmb_Status := ''PAID'', rmb_UpdatedAt := now\<rparr>), put_event ctx (prj_ID p) e]"
    using PayReimbursement_effect [OF assms(1)] by blast
  note own = settled_own_project [OF p(1) assms(2)]
  have pok: "project_ok p" and pid: "TrimSpace (rmb_ProjectID r) = rmb_ProjectID r" and pos: "0 < sint (rmb_AmountCents r)"
    using p(1) r(1) assms(2) by (auto dest!: typed_ReadProject typed_ReadReimbursement simp: reimbursement_ok_def)
  from ws p(2) r own pid at_read(1) [OF r(1) assms(2,4)] balance_sint(3) [OF pok pos] assms(2,3)
  show ?thesis
    by (auto simp: settled_def claims_put wf_put_kv typed_wf)
qed

text \<open>The operations on users, organizations and invoices write in their own families only.\<close>

abbreviation writes_in :: "string set \<Rightarrow> wr list \<Rightarrow> bool" where
  "writes_in F ws \<equiv> list_all (\<lambda>w. family (write_key w) \<in> F) ws"

lemma writes_in_mono: "writes_in F ws \<Longrightarrow> F \<subseteq> G \<Longrightarrow> writes_in G ws"
  by (auto simp: list_all_iff)

lemma writes_in_disjoint: "writes_in F ws \<Longrightarrow> F \<inter> G = {} \<Longrightarrow> \<forall>w \<in> set ws. family (write_key w) \<notin> G"
  by (auto simp: list_all_iff)

lemma families_directory:
  "RegisterBusinessUser ctx n d m r oid = Inr ws \<Longrightarrow> writes_in ({''USER''}) ws"
  "CreateBusinessOrganization ctx i n t p d c = Inr ws \<Longrightarrow> writes_in ({''ORGANIZATION''}) ws"
  "AddProjectMember ctx pid n l = Inr ws \<Longrightarrow> writes_in ({''PROJECT_MEMBER'', ''PROJECT_EVENT''}) ws"
  by (auto dest!: RegisterBusinessUser_effect CreateBusinessOrganization_effect AddProjectMember_effect)

definition invoice_families :: "string set" where
  "invoice_families = {''INVOICE'', ''INVOICE_NUMBER'', ''FLOW'', ''PROJECT_EVENT'', ''TRANSFER_REQUEST'', ''VOID_REQUEST''}"

lemma families_invoice:
  "CreateInvoice ctx i no d iss b bm am tx cur hash pid h hm iorg corr = Inr ws \<Longrightarrow>
     writes_in (invoice_families) ws"
  "LinkInvoiceToProject ctx iid pid op = Inr ws \<Longrightarrow> writes_in (invoice_families) ws"
  "UnlinkInvoiceFromProject ctx iid op = Inr ws \<Longrightarrow> writes_in (invoice_families) ws"
  "TransferInvoice ctx i t tm op = Inr ws \<Longrightarrow> writes_in (invoice_families) ws"
  "RequestInvoiceTransfer ctx i t tm n op = Inr ws \<Longrightarrow> writes_in (invoice_families) ws"
  "RespondInvoiceTransfer ctx i dec rsp rcp = Inr ws \<Longrightarrow> writes_in (invoice_families) ws"
  "CancelInvoiceTransfer ctx i op = Inr ws \<Longrightarrow> writes_in (invoice_families) ws"
  "VoidInvoice ctx i rs op = Inr ws \<Longrightarrow> writes_in (invoice_families) ws"
  "RequestInvoiceVoid ctx i rs a = Inr ws \<Longrightarrow> writes_in (invoice_families) ws"
  "ReviewInvoiceVoid ctx i dec opn rv = Inr ws \<Longrightarrow> writes_in (invoice_families) ws"
  by (auto simp: invoice_families_def dest!: CreateInvoice_effect LinkInvoiceToProject_effect UnlinkInvoiceFromProject_effect
      TransferInvoice_effect RequestInvoiceTransfer_effect RespondInvoiceTransfer_effect
      CancelInvoiceTransfer_effect VoidInvoice_effect RequestInvoiceVoid_effect ReviewInvoiceVoid_effect)

fun money_call :: "call \<Rightarrow> bool" where
  "money_call (TxCreateProject _ _ _ _ _ _ _) = True"
| "money_call (TxUpdateProject _ _ _ _ _ _) = True"
| "money_call (TxSubmitProject _ _) = True"
| "money_call (TxReviewProject _ _ _ _) = True"
| "money_call (TxRequestProjectClosure _ _ _ _) = True"
| "money_call (TxReviewProjectClosure _ _ _ _) = True"
| "money_call (TxFinalizeProjectSettlement _ _) = True"
| "money_call (TxCreateReimbursement _ _ _ _ _ _) = True"
| "money_call (TxReviewReimbursement _ _ _ _) = True"
| "money_call (TxResubmitReimbursement _ _ _ _) = True"
| "money_call (TxWithdrawReimbursement _ _) = True"
| "money_call (TxPayReimbursement _ _) = True"
| "money_call _ = False"

lemma other_families:
  assumes "invoke ctx c = Inr ws" "\<not> money_call c"
  shows "writes_in (invoice_families \<union> {''USER'', ''ORGANIZATION'', ''PROJECT_MEMBER'', ''PROJECT_EVENT''}) ws"
  using assms
  by (cases c) (auto dest!: families_directory families_invoice elim: list.pred_mono_strong)

lemma settled_invoke:
  assumes "invoke ctx c = Inr ws" "typed (st_ledger ctx)" "settled (st_ledger ctx)" "canonical_call c"
  shows "settled (commit ws (st_ledger ctx))"
proof (cases "money_call c")
  case True
  with assms show ?thesis
    by (cases c) (simp_all add: typed_wf settled_CreateProject settled_UpdateProject
        settled_SubmitProject settled_ReviewProject settled_RequestProjectClosure settled_ReviewProjectClosure
        settled_FinalizeProjectSettlement settled_CreateReimbursement settled_ReviewReimbursement
        settled_ResubmitReimbursement settled_WithdrawReimbursement settled_PayReimbursement)
next
  case False
  have "\<forall>w \<in> set ws. family (write_key w) \<notin> {''PROJECT'', ''REIMBURSEMENT''}"
    by (rule writes_in_disjoint [OF other_families [OF assms(1) False]]) (auto simp: invoice_families_def)
  with assms(2,3) show ?thesis
    by (intro settled_frame) (simp_all add: typed_wf)
qed

interpretation settlement: ledger_invariant canonical typed settled
proof unfold_locales
  show "settled []" by (simp add: settled_def books_def claims_def ledger_sum_def get_kv_def)
qed (auto intro: run_typed settled_invoke simp: canonical_def)

section \<open>One open reimbursement per invoice\<close>

text \<open>
  Every reimbursement that is not withdrawn owns the link of its invoice, and that invoice exists
  and is not voided.
\<close>

definition live :: "ledger \<Rightarrow> string \<Rightarrow> bool" where
  "live l i \<longleftrightarrow> (\<exists>x. stored l dec_Invoice (invoiceKey i) x \<and> inv_Status x \<noteq> ''VOIDED'')"

definition linked :: "ledger \<Rightarrow> bool" where
  "linked l \<longleftrightarrow> (\<forall>i r. TrimSpace i = i \<longrightarrow> stored l dec_Reimbursement (reimbursementKey i) r \<longrightarrow>
     rmb_Status r \<noteq> ''WITHDRAWN'' \<longrightarrow>
     get_kv l (reimbursementInvoiceKey (rmb_InvoiceID r)) = Some (Raw i) \<and> live l (rmb_InvoiceID r))"

lemma stored_put [simp]:
  "k \<noteq> k' \<Longrightarrow> stored (put_kv k' b l) dec k x \<longleftrightarrow> stored l dec k x"
  "stored (put_kv k (Doc j) l) dec k x \<longleftrightarrow> dec j = Inr x"
  by (auto simp: stored_def get_put_kv)

lemma stored_del [simp]: "wf_ledger l \<Longrightarrow> k \<noteq> k' \<Longrightarrow> stored (del_kv k' l) dec k x \<longleftrightarrow> stored l dec k x"
  by (auto simp: stored_def get_del_kv)

lemma live_other:
  "wf_ledger l \<Longrightarrow> invoiceKey i \<notin> write_key ` set ws \<Longrightarrow> live (commit ws l) i \<longleftrightarrow> live l i"
  by (simp add: live_def stored_def get_commit_other)

lemma key_not_written: "\<forall>w \<in> set ws. family (write_key w) \<notin> F \<Longrightarrow> family k \<in> F \<Longrightarrow> k \<notin> write_key ` set ws"
  by auto

lemma linked_frame:
  assumes "linked l" "wf_ledger l"
    and "\<forall>w \<in> set ws. family (write_key w) \<notin> {''REIMBURSEMENT'', ''REIMBURSEMENT_INVOICE''}"
    and live: "\<And>i. live l i \<Longrightarrow> get_kv l (reimbursementInvoiceKey i) \<noteq> None \<Longrightarrow> live (commit ws l) i"
  shows "linked (commit ws l)"
proof -
  note k = key_not_written [OF assms(3)]
  have "get_kv (commit ws l) (reimbursementKey i) = get_kv l (reimbursementKey i)"
    and "get_kv (commit ws l) (reimbursementInvoiceKey i) = get_kv l (reimbursementInvoiceKey i)" for i
    using k by (simp_all add: get_commit_other [OF assms(2)])
  with assms(1) live show ?thesis by (auto simp: linked_def stored_def)
qed

text \<open>A step of an invoice keeps it alive unless it voids it; voiding requires a free link.\<close>

lemma linked_invoice_step:
  assumes "writes_step l ws" "wf_ledger l" "live l i"
    and "\<And>x. Put (invoiceKey i) (Doc (enc_Invoice x)) \<in> set ws \<Longrightarrow> inv_Status x \<noteq> ''VOIDED''"
  shows "live (commit ws l) i"
proof -
  have w: "invoice_write_ok l w" if "w \<in> set ws" for w
    using assms(1) that by (auto simp: writes_step_def list_all_iff)
  from commit_cases [OF assms(2), of ws "invoiceKey i"]
  consider "get_kv (commit ws l) (invoiceKey i) = get_kv l (invoiceKey i)"
    | b where "Put (invoiceKey i) b \<in> set ws" "get_kv (commit ws l) (invoiceKey i) = Some b"
    using w by (auto simp: invoice_write_ok_def)
  then show ?thesis
  proof cases
    case 1
    with assms(3) show ?thesis by (simp add: live_def stored_def)
  next
    case 2
    with w [OF 2(1)] assms(4) show ?thesis by (auto simp: step_or_new_def live_def stored_def)
  qed
qed

lemma linked_read:
  assumes "ReadReimbursement ctx i = Inr r" "TrimSpace i = i" "linked (st_ledger ctx)" "rmb_Status r \<noteq> ''WITHDRAWN''"
  shows "get_kv (st_ledger ctx) (reimbursementInvoiceKey (rmb_InvoiceID r)) = Some (Raw i)"
    "live (st_ledger ctx) (rmb_InvoiceID r)" "stored (st_ledger ctx) dec_Reimbursement (reimbursementKey i) r"
  using assms by (auto simp: linked_def read_inv)

lemma live_put [simp]:
  "family k \<noteq> ''INVOICE'' \<Longrightarrow> live (put_kv k b l) i = live l i"
  by (auto simp: live_def stored_def get_put_kv)

lemma live_del [simp]: "wf_ledger l \<Longrightarrow> family k \<noteq> ''INVOICE'' \<Longrightarrow> live (del_kv k l) i = live l i"
  by (auto simp: live_def stored_def get_del_kv)

text \<open>Replacing a reimbursement by one for the same invoice that is not newly opened.\<close>

lemma linked_replace:
  assumes "linked l" "TrimSpace i = i" "stored l dec_Reimbursement (reimbursementKey i) r"
    and "rmb_InvoiceID r' = rmb_InvoiceID r" "rmb_Status r \<noteq> ''WITHDRAWN''"
  shows "linked (put_kv (reimbursementKey i) (Doc (enc_Reimbursement r')) l)"
  unfolding linked_def
proof (intro allI impI)
  fix j x
  assume j: "TrimSpace j = j" and s: "stored (put_kv (reimbursementKey i) (Doc (enc_Reimbursement r')) l)
      dec_Reimbursement (reimbursementKey j) x" and a: "rmb_Status x \<noteq> ''WITHDRAWN''"
  show "get_kv (put_kv (reimbursementKey i) (Doc (enc_Reimbursement r')) l) (reimbursementInvoiceKey (rmb_InvoiceID x)) = Some (Raw j)
    \<and> live (put_kv (reimbursementKey i) (Doc (enc_Reimbursement r')) l) (rmb_InvoiceID x)"
    using assms j s a by (cases "j = i") (auto simp: linked_def get_put_kv)
qed

lemma linked_put_other [simp]:
  assumes "family k \<notin> {''REIMBURSEMENT'', ''REIMBURSEMENT_INVOICE'', ''INVOICE''}"
  shows "linked (put_kv k b l) = linked l"
proof -
  have "reimbursementKey i \<noteq> k" "reimbursementInvoiceKey i \<noteq> k" for i
    using assms by auto
  with assms show ?thesis by (simp add: linked_def get_put_kv)
qed

lemma linked_withdraw:
  assumes "linked l" "TrimSpace i = i" "stored l dec_Reimbursement (reimbursementKey i) r" "wf_ledger l"
    and "rmb_Status r' = ''WITHDRAWN''" "rmb_Status r \<noteq> ''WITHDRAWN''"
  shows "linked (del_kv (reimbursementInvoiceKey (rmb_InvoiceID r)) (put_kv (reimbursementKey i) (Doc (enc_Reimbursement r')) l))"
    (is "linked ?m")
  unfolding linked_def
proof (intro allI impI)
  fix j x
  assume j: "TrimSpace j = j" and s: "stored ?m dec_Reimbursement (reimbursementKey j) x" and a: "rmb_Status x \<noteq> ''WITHDRAWN''"
  have "j \<noteq> i" using s a assms by (auto simp: wf_put_kv)
  then have "stored l dec_Reimbursement (reimbursementKey j) x" using s assms by (simp add: wf_put_kv)
  moreover have "get_kv l (reimbursementInvoiceKey (rmb_InvoiceID r)) = Some (Raw i)"
    using assms by (simp add: linked_def)
  moreover from calculation have "get_kv l (reimbursementInvoiceKey (rmb_InvoiceID x)) = Some (Raw j)"
    using assms j a by (simp add: linked_def)
  ultimately have "stored l dec_Reimbursement (reimbursementKey j) x" "rmb_InvoiceID x \<noteq> rmb_InvoiceID r"
    using \<open>j \<noteq> i\<close> by auto
  then show "get_kv ?m (reimbursementInvoiceKey (rmb_InvoiceID x)) = Some (Raw j) \<and> live ?m (rmb_InvoiceID x)"
    using assms j a by (auto simp: linked_def get_put_kv get_del_kv wf_put_kv)
qed

lemma linked_create:
  assumes "linked l" "get_kv l (reimbursementKey i) = None" "get_kv l (reimbursementInvoiceKey n) = None"
    and "rmb_InvoiceID r = n" "live l n"
  shows "linked (put_kv (reimbursementInvoiceKey n) (Raw i) (put_kv (reimbursementKey i) (Doc (enc_Reimbursement r)) l))"
    (is "linked ?m")
  unfolding linked_def
proof (intro allI impI)
  fix j x
  assume j: "TrimSpace j = j" and s: "stored ?m dec_Reimbursement (reimbursementKey j) x" and a: "rmb_Status x \<noteq> ''WITHDRAWN''"
  show "get_kv ?m (reimbursementInvoiceKey (rmb_InvoiceID x)) = Some (Raw j) \<and> live ?m (rmb_InvoiceID x)"
  proof (cases "j = i")
    case True
    with s assms show ?thesis by (simp add: get_put_kv)
  next
    case False
    with s have "stored l dec_Reimbursement (reimbursementKey j) x" by simp
    with assms(1) j a have "get_kv l (reimbursementInvoiceKey (rmb_InvoiceID x)) = Some (Raw j)" "live l (rmb_InvoiceID x)"
      by (simp_all add: linked_def)
    with assms(3) show ?thesis by (auto simp: get_put_kv)
  qed
qed

section \<open>The invariant of the links\<close>

lemma linked_CreateReimbursement:
  assumes "CreateReimbursement ctx i pid iid a ev evh = Inr ws" "linked (st_ledger ctx)"
  shows "linked (commit ws (st_ledger ctx))"
  using CreateReimbursement_effect [OF assms(1)] assms(2)
  by (elim exE conjE) (auto intro!: linked_create simp: live_def read_inv)

lemma linked_ReviewReimbursement:
  assumes "ReviewReimbursement ctx i dec opn rv = Inr ws" "linked (st_ledger ctx)" "TrimSpace i = i"
  shows "linked (commit ws (st_ledger ctx))"
proof -
  obtain r p e r' where r: "ReadReimbursement ctx i = Inr r" "rmb_Status r = ''PENDING_REVIEW''"
      "rmb_InvoiceID r' = rmb_InvoiceID r"
    and ws: "ws = [put_project p, put_reimbursement i r', put_event ctx (rmb_ProjectID r) e]
       \<or> ws = [put_reimbursement i r', put_event ctx (rmb_ProjectID r) e]"
    using ReviewReimbursement_effect [OF assms(1)] by fastforce
  have "stored (st_ledger ctx) dec_Reimbursement (reimbursementKey i) r" using r assms(3) by (simp add: read_inv)
  with ws r assms show ?thesis
    by (auto intro!: linked_replace)
qed

lemma linked_ResubmitReimbursement:
  assumes "ResubmitReimbursement ctx i ev evh a = Inr ws" "linked (st_ledger ctx)" "TrimSpace i = i"
  shows "linked (commit ws (st_ledger ctx))"
  using ResubmitReimbursement_effect [OF assms(1)] assms(2,3)
  by (elim exE conjE) (auto intro!: linked_replace simp: read_inv)

lemma linked_PayReimbursement:
  assumes "PayReimbursement ctx i f = Inr ws" "linked (st_ledger ctx)" "TrimSpace i = i"
  shows "linked (commit ws (st_ledger ctx))"
  using PayReimbursement_effect [OF assms(1)] assms(2,3)
  by (elim exE conjE) (auto intro!: linked_replace simp: read_inv)

lemma linked_WithdrawReimbursement:
  assumes "WithdrawReimbursement ctx i a = Inr ws" "linked (st_ledger ctx)" "TrimSpace i = i" "wf_ledger (st_ledger ctx)"
  shows "linked (commit ws (st_ledger ctx))"
proof -
  obtain r p now where r: "ReadReimbursement ctx i = Inr r"
      "rmb_Status r \<in> {''PENDING_REVIEW'', ''REVISION_REQUIRED'', ''APPROVED_RESERVED''}"
    and ws: "ws = (if rmb_Status r = ''APPROVED_RESERVED'' then [put_project (release (rmb_AmountCents r) now p)] else [])
        @ [put_reimbursement i (r\<lparr>rmb_Status := ''WITHDRAWN'', rmb_UpdatedAt := now\<rparr>),
           Del (reimbursementInvoiceKey (rmb_InvoiceID r)),
           put_event ctx (prj_ID p) (the_event ctx (prj_ID p) ''WITHDRAW_REIMBURSEMENT'' a note_withdraw i now)]"
    using WithdrawReimbursement_effect [OF assms(1)] by blast
  have s: "stored (st_ledger ctx) dec_Reimbursement (reimbursementKey i) r" using r assms(3) by (simp add: read_inv)
  have a: "rmb_Status r \<noteq> ''WITHDRAWN''" using r(2) by auto
  show ?thesis
    using ws a s assms(2-) by (auto intro!: linked_withdraw [where i = i and r = r] simp: wf_put_kv)
qed

text \<open>The projects' own calls touch neither reimbursements nor links nor invoices.\<close>

lemma families_project:
  "CreateProject ctx i n c b d a oid = Inr ws \<Longrightarrow> writes_in ({''PROJECT'', ''PROJECT_MEMBER'', ''PROJECT_EVENT''}) ws"
  "UpdateProject ctx i n c b d a = Inr ws \<Longrightarrow> writes_in ({''PROJECT'', ''PROJECT_EVENT''}) ws"
  "SubmitProject ctx i a = Inr ws \<Longrightarrow> writes_in ({''PROJECT'', ''PROJECT_EVENT''}) ws"
  "ReviewProject ctx i dec opn r = Inr ws \<Longrightarrow> writes_in ({''PROJECT'', ''PROJECT_EVENT''}) ws"
  "RequestProjectClosure ctx i m h a = Inr ws \<Longrightarrow> writes_in ({''PROJECT'', ''PROJECT_EVENT''}) ws"
  "ReviewProjectClosure ctx i dec opn r = Inr ws \<Longrightarrow> writes_in ({''PROJECT'', ''PROJECT_EVENT''}) ws"
  "FinalizeProjectSettlement ctx i f = Inr ws \<Longrightarrow> writes_in ({''PROJECT'', ''PROJECT_EVENT''}) ws"
  by (auto simp: project_writes_def dest!: CreateProject_effect UpdateProject_effect SubmitProject_effect
      ReviewProject_effect RequestProjectClosure_effect ReviewProjectClosure_effect FinalizeProjectSettlement_effect)

lemma families_live:
  assumes "writes_in F ws" "''INVOICE'' \<notin> F" "wf_ledger l" "live l i"
  shows "live (commit ws l) i"
proof -
  have "invoiceKey i \<notin> write_key ` set ws"
  proof
    assume "invoiceKey i \<in> write_key ` set ws"
    then obtain w where w: "w \<in> set ws" "invoiceKey i = write_key w" by auto
    then have "family (write_key w) \<in> F" using assms(1) by (simp add: list_all_iff)
    then have "''INVOICE'' \<in> F" by (simp flip: w(2))
    with assms(2) show False by contradiction
  qed
  with assms(3,4) show ?thesis by (simp add: live_other)
qed

lemma linked_families:
  assumes "linked l" "wf_ledger l" "writes_in F ws"
    "F \<inter> {''REIMBURSEMENT'', ''REIMBURSEMENT_INVOICE'', ''INVOICE''} = {}"
  shows "linked (commit ws l)"
  using assms
  by (intro linked_frame families_live [where F = F]) (auto simp: list_all_iff)

text \<open>An invoice write voids only an invoice whose link is free.\<close>

definition voids_free :: "ledger \<Rightarrow> wr list \<Rightarrow> bool" where
  "voids_free l ws \<longleftrightarrow> (\<forall>i x. Put (invoiceKey i) (Doc (enc_Invoice x)) \<in> set ws \<longrightarrow> inv_Status x = ''VOIDED'' \<longrightarrow>
     get_kv l (reimbursementInvoiceKey i) = None)"

lemma linked_invoice_call:
  assumes "linked l" "wf_ledger l" "writes_in invoice_families ws" "writes_step l ws" "voids_free l ws"
  shows "linked (commit ws l)"
proof (rule linked_frame [OF assms(1,2)])
  show "\<forall>w \<in> set ws. family (write_key w) \<notin> {''REIMBURSEMENT'', ''REIMBURSEMENT_INVOICE''}"
    by (rule writes_in_disjoint [OF assms(3)]) (auto simp: invoice_families_def)
  show "live (commit ws l) i" if "live l i" "get_kv l (reimbursementInvoiceKey i) \<noteq> None" for i
    using that assms(5) by (intro linked_invoice_step [OF assms(4,2)]) (auto simp: voids_free_def)
qed

lemma voids_free_calls:
  "CreateInvoice ctx i no d iss b bm am tx cur hash pid h hm iorg corr = Inr ws \<Longrightarrow> voids_free (st_ledger ctx) ws"
  "LinkInvoiceToProject ctx iid pid op = Inr ws \<Longrightarrow> voids_free (st_ledger ctx) ws"
  "UnlinkInvoiceFromProject ctx iid op = Inr ws \<Longrightarrow> voids_free (st_ledger ctx) ws"
  "TransferInvoice ctx i t tm op = Inr ws \<Longrightarrow> voids_free (st_ledger ctx) ws"
  "RequestInvoiceTransfer ctx i t tm n op = Inr ws \<Longrightarrow> voids_free (st_ledger ctx) ws"
  "RespondInvoiceTransfer ctx i dec rsp rcp = Inr ws \<Longrightarrow> voids_free (st_ledger ctx) ws"
  "CancelInvoiceTransfer ctx i op = Inr ws \<Longrightarrow> voids_free (st_ledger ctx) ws"
  "VoidInvoice ctx i rs op = Inr ws \<Longrightarrow> voids_free (st_ledger ctx) ws"
  "RequestInvoiceVoid ctx i rs a = Inr ws \<Longrightarrow> voids_free (st_ledger ctx) ws"
  "ReviewInvoiceVoid ctx i dec opn rv = Inr ws \<Longrightarrow> voids_free (st_ledger ctx) ws"
  by (auto simp: voids_free_def dest!: CreateInvoice_effect LinkInvoiceToProject_effect UnlinkInvoiceFromProject_effect
      TransferInvoice_effect RequestInvoiceTransfer_effect RespondInvoiceTransfer_effect
      CancelInvoiceTransfer_effect VoidInvoice_effect RequestInvoiceVoid_effect ReviewInvoiceVoid_effect)

lemma linked_invoke:
  assumes "invoke ctx c = Inr ws" "typed (st_ledger ctx)" "linked (st_ledger ctx)" "canonical_call c"
  shows "linked (commit ws (st_ledger ctx))"
proof -
  note wf = typed_wf [OF assms(2)]
  note inv = linked_invoice_call [OF assms(3) wf _ invoke_writes_step [OF assms(1,2)]]
  note quiet = linked_families [OF assms(3) wf]
  show ?thesis
    using assms(1,3,4) wf
    by (cases c; clarsimp)
      (auto intro: linked_CreateReimbursement linked_ReviewReimbursement linked_ResubmitReimbursement
        linked_WithdrawReimbursement linked_PayReimbursement
       | (rule inv; (erule families_invoice | erule voids_free_calls))
       | (rule quiet; (erule families_directory | erule families_project | simp)))+
qed

interpretation links: ledger_invariant canonical typed linked
proof unfold_locales
  show "linked []" by (simp add: linked_def stored_def get_kv_def)
qed (auto intro: run_typed linked_invoke simp: canonical_def)

end
