(* ===== verification/Closure.thy ===== *)
theory Closure
  imports Settlement
begin

text \<open>
  The end of a project: \<open>FinalizeProjectSettlement\<close> archives it only when no reimbursement awaits
  action and nothing is reserved, so in canonical runs every reimbursement of an archived project
  is paid or withdrawn, and stays so.
\<close>

definition closed :: "ledger \<Rightarrow> bool" where
  "closed l \<longleftrightarrow> (\<forall>i p j r. stored l dec_Project (projectKey i) p \<longrightarrow> prj_Status p = ''ARCHIVED'' \<longrightarrow>
     TrimSpace i = i \<longrightarrow> TrimSpace j = j \<longrightarrow> stored l dec_Reimbursement (reimbursementKey j) r \<longrightarrow> rmb_ProjectID r = i \<longrightarrow>
     rmb_Status r = ''PAID'' \<or> rmb_Status r = ''WITHDRAWN'')"

lemma closed_put_other [simp]:
  assumes "family k \<noteq> ''PROJECT''" "family k \<noteq> ''REIMBURSEMENT''"
  shows "closed (put_kv k b l) = closed l"
proof -
  have "projectKey i \<noteq> k" "reimbursementKey i \<noteq> k" for i using assms by auto
  then show ?thesis by (simp add: closed_def)
qed

lemma closed_del_other [simp]:
  assumes "wf_ledger l" "family k \<noteq> ''PROJECT''" "family k \<noteq> ''REIMBURSEMENT''"
  shows "closed (del_kv k l) = closed l"
proof -
  have "projectKey i \<noteq> k" "reimbursementKey i \<noteq> k" for i using assms by auto
  with assms(1) show ?thesis by (simp add: closed_def)
qed

lemma closed_put_project:
  assumes "closed l" "prj_Status p \<noteq> ''ARCHIVED''"
  shows "closed (put_kv (projectKey i) (Doc (enc_Project p)) l)"
  unfolding closed_def
proof (intro allI impI)
  fix j q k r
  assume "stored (put_kv (projectKey i) (Doc (enc_Project p)) l) dec_Project (projectKey j) q" "prj_Status q = ''ARCHIVED''"
    "TrimSpace j = j" "TrimSpace k = k"
    "stored (put_kv (projectKey i) (Doc (enc_Project p)) l) dec_Reimbursement (reimbursementKey k) r" "rmb_ProjectID r = j"
  then show "rmb_Status r = ''PAID'' \<or> rmb_Status r = ''WITHDRAWN''"
    using assms by (cases "j = i") (auto simp: closed_def)
qed

lemma closed_archive:
  assumes "closed l"
    and "\<And>k r. TrimSpace k = k \<Longrightarrow> stored l dec_Reimbursement (reimbursementKey k) r \<Longrightarrow> rmb_ProjectID r = i \<Longrightarrow>
      rmb_Status r = ''PAID'' \<or> rmb_Status r = ''WITHDRAWN''"
  shows "closed (put_kv (projectKey i) b l)"
  unfolding closed_def
proof (intro allI impI)
  fix j q k r
  assume "stored (put_kv (projectKey i) b l) dec_Project (projectKey j) q" "prj_Status q = ''ARCHIVED''"
    "TrimSpace j = j" "TrimSpace k = k"
    "stored (put_kv (projectKey i) b l) dec_Reimbursement (reimbursementKey k) r" "rmb_ProjectID r = j"
  then show "rmb_Status r = ''PAID'' \<or> rmb_Status r = ''WITHDRAWN''"
    using assms by (cases "j = i") (auto simp: closed_def)
qed

text \<open>A reimbursement may be written while its project is not archived.\<close>

lemma closed_put_reimbursement:
  assumes "closed l" "stored l dec_Project (projectKey (rmb_ProjectID r)) p" "prj_Status p \<noteq> ''ARCHIVED''"
  shows "closed (put_kv (reimbursementKey i) (Doc (enc_Reimbursement r)) l)"
  unfolding closed_def
proof (intro allI impI)
  fix j q k x
  assume h: "stored (put_kv (reimbursementKey i) (Doc (enc_Reimbursement r)) l) dec_Project (projectKey j) q"
    "prj_Status q = ''ARCHIVED''" "TrimSpace j = j" "TrimSpace k = k"
    "stored (put_kv (reimbursementKey i) (Doc (enc_Reimbursement r)) l) dec_Reimbursement (reimbursementKey k) x"
    "rmb_ProjectID x = j"
  show "rmb_Status x = ''PAID'' \<or> rmb_Status x = ''WITHDRAWN''"
  proof (cases "k = i")
    case True
    with h assms show ?thesis by (auto dest: stored_unique)
  next
    case False
    with h assms(1) show ?thesis by (simp add: closed_def)
  qed
qed

lemma closed_frame:
  assumes "closed l" "wf_ledger l" "\<forall>w \<in> set ws. family (write_key w) \<notin> {''PROJECT'', ''REIMBURSEMENT''}"
  shows "closed (commit ws l)"
  using assms
proof (induction ws arbitrary: l)
  case (Cons w ws)
  have "closed (apply_write w l)"
    using Cons.prems by (cases w) auto
  with Cons show ?case by (simp add: wf_apply_write)
qed simp

section \<open>No open claim behind an archive\<close>

text \<open>A sum of positive claims is zero only if there is none.\<close>

lemma claim_nonneg: "typed l \<Longrightarrow> e \<in> set l \<Longrightarrow> 0 \<le> claim s pid e"
proof -
  assume t: "typed l" and e: "e \<in> set l"
  obtain k b where kb: "e = (k, b)" by (cases e)
  then have "get_kv l k = Some b"
    using e wf_ledger_distinct [OF typed_wf [OF t]] by (simp add: get_kv_def)
  then have ok: "entry_ok k b" by (rule typed_entry [OF _ t])
  show ?thesis
  proof (cases "\<exists>i. k = reimbursementKey i")
    case True
    with ok kb show ?thesis by (auto simp: reimbursement_ok_def)
  next
    case False
    with kb show ?thesis by (auto simp: claim_def prefix_reimbursement split: blob.splits sum.splits)
  qed
qed

lemma claims_zero:
  assumes "typed l" "claims s pid l = 0" "stored l dec_Reimbursement (reimbursementKey j) r"
    and "rmb_Status r = s" "rmb_ProjectID r = pid"
  shows False
proof -
  obtain b where b: "get_kv l (reimbursementKey j) = Some b" "b = Doc (enc_Reimbursement r)" "0 < sint (rmb_AmountCents r)"
    using assms(3) typed_entry [OF _ assms(1)] by (fastforce simp: stored_def reimbursement_ok_def)
  then have m: "(reimbursementKey j, b) \<in> set l" by (simp add: get_kv_def map_of_SomeD)
  have n: "0 \<le> x" if "x \<in> set (map (claim s pid) l)" for x
    using that claim_nonneg [OF assms(1)] by auto
  have "\<forall>x \<in> set (map (claim s pid) l). x = 0"
    using sum_list_nonneg_eq_0_iff [of "map (claim s pid) l", OF n] assms(2) by (simp add: claims_def ledger_sum_def)
  then have "claim s pid (reimbursementKey j, b) = 0" using m by auto
  with b assms(4,5) show False by simp
qed

lemma read_project_stored:
  "ReadProject ctx i = Inr p \<Longrightarrow> TrimSpace i = i \<Longrightarrow> stored (st_ledger ctx) dec_Project (projectKey i) p"
  by (simp add: read_inv)

text \<open>The calls on projects write no \<open>ARCHIVED\<close> except the settlement.\<close>

lemma closed_project_writes:
  assumes "closed (st_ledger ctx)" "prj_Status p \<noteq> ''ARCHIVED''"
  shows "closed (commit (project_writes ctx i p e) (st_ledger ctx))"
  using closed_put_project [OF assms, of i] by (simp add: project_writes_def)

lemma closed_CreateProject:
  assumes "CreateProject ctx i n c b d a oid = Inr ws" "closed (st_ledger ctx)"
  shows "closed (commit ws (st_ledger ctx))"
  using CreateProject_effect [OF assms(1)] assms(2)
  by (elim exE conjE) (simp add: closed_put_project)

lemma closed_project_calls:
  assumes "closed (st_ledger ctx)"
  shows "UpdateProject ctx i n c b d a = Inr ws \<Longrightarrow> closed (commit ws (st_ledger ctx))"
    and "SubmitProject ctx i a = Inr ws \<Longrightarrow> closed (commit ws (st_ledger ctx))"
    and "ReviewProject ctx i dec opn r = Inr ws \<Longrightarrow> closed (commit ws (st_ledger ctx))"
    and "RequestProjectClosure ctx i m h a = Inr ws \<Longrightarrow> closed (commit ws (st_ledger ctx))"
    and "ReviewProjectClosure ctx i dec opn r = Inr ws \<Longrightarrow> closed (commit ws (st_ledger ctx))"
  using assms by (auto dest!: UpdateProject_effect SubmitProject_effect ReviewProject_effect
      RequestProjectClosure_effect ReviewProjectClosure_effect intro!: closed_project_writes)

text \<open>The scan of the settlement sees every reimbursement.\<close>

lemma all_reimbursements_scanned:
  assumes "GetAllReimbursements ctx = Inr rs" "stored (st_ledger ctx) dec_Reimbursement (reimbursementKey j) r"
  shows "r \<in> set rs"
proof -
  obtain v where v: "get_kv (st_ledger ctx) (reimbursementKey j) = Some (Doc v)" "dec_Reimbursement v = Inr r"
    using assms(2) by (auto simp: stored_def)
  then have m: "(reimbursementKey j, Doc v) \<in> set (range_kv (st_ledger ctx) reimbursementPrefix ''REIMBURSEMENT$'')"
    by (auto simp: scan_range prefix_reimbursement get_kv_def dest: map_of_SomeD)
  have "mapE (decode_item dec_Reimbursement ctx) (range_kv (st_ledger ctx) reimbursementPrefix ''REIMBURSEMENT$'') = Inr rs"
    using assms(1) by (simp add: GetAllReimbursements_def res_inv)
  then obtain i where "i < length rs" "decode_item dec_Reimbursement ctx (reimbursementKey j, Doc v) = Inr (rs ! i)"
    using m by (auto simp: mapE_Inr_iff list_all2_conv_all_nth in_set_conv_nth)
  with v(2) show ?thesis by (auto simp: decode_item_Inr)
qed

lemma closed_FinalizeProjectSettlement:
  assumes "FinalizeProjectSettlement ctx i f = Inr ws" "typed (st_ledger ctx)" "settled (st_ledger ctx)"
    "closed (st_ledger ctx)"
  shows "closed (commit ws (st_ledger ctx))"
proof -
  obtain p q e rs where p: "ReadProject ctx i = Inr p" "prj_ReservedCents p = 0"
    and rs: "GetAllReimbursements ctx = Inr rs" "\<forall>r \<in> set rs. rmb_ProjectID r = prj_ID p \<longrightarrow>
          rmb_Status r \<noteq> ''PENDING_REVIEW'' \<and> rmb_Status r \<noteq> ''REVISION_REQUIRED''"
    and ws: "ws = project_writes ctx (prj_ID p) q e"
    using FinalizeProjectSettlement_effect [OF assms(1)] by blast
  have z: "claims ''APPROVED_RESERVED'' (prj_ID p) (st_ledger ctx) = 0"
    using settled_own_project [OF p(1) assms(2)] p(2) assms(3) by (auto simp: settled_def)
  have "closed (put_kv (projectKey (prj_ID p)) (Doc (enc_Project q)) (st_ledger ctx))"
  proof (rule closed_archive [OF assms(4)])
    fix k r
    assume k: "stored (st_ledger ctx) dec_Reimbursement (reimbursementKey k) r" "rmb_ProjectID r = prj_ID p"
    then have "rmb_Status r \<noteq> ''APPROVED_RESERVED''" using claims_zero [OF assms(2) z] by blast
    moreover have "r \<in> set rs" using all_reimbursements_scanned [OF rs(1) k(1)] .
    moreover have "reimbursement_ok r"
      using k(1) typed_entry [OF _ assms(2)] by (fastforce simp: stored_def)
    ultimately show "rmb_Status r = ''PAID'' \<or> rmb_Status r = ''WITHDRAWN''"
      using rs(2) k(2) by (auto simp: reimbursement_ok_def)
  qed
  with ws show ?thesis by (simp add: project_writes_def)
qed

lemma open_project:
  assumes "closed l" "stored l dec_Reimbursement (reimbursementKey i) r" "TrimSpace i = i"
    "stored l dec_Project (projectKey (rmb_ProjectID r)) p" "TrimSpace (rmb_ProjectID r) = rmb_ProjectID r"
    "rmb_Status r \<noteq> ''PAID''" "rmb_Status r \<noteq> ''WITHDRAWN''"
  shows "prj_Status p \<noteq> ''ARCHIVED''"
  using assms unfolding closed_def by blast

text \<open>A call on an open reimbursement finds its project not archived.\<close>

lemma open_read:
  assumes "ReadReimbursement ctx i = Inr r" "ReadProject ctx (rmb_ProjectID r) = Inr p" "TrimSpace i = i"
    and "typed (st_ledger ctx)" "closed (st_ledger ctx)" "rmb_Status r \<noteq> ''PAID''" "rmb_Status r \<noteq> ''WITHDRAWN''"
  shows "prj_Status p \<noteq> ''ARCHIVED''" "stored (st_ledger ctx) dec_Project (projectKey (rmb_ProjectID r)) p"
    "prj_ID p = rmb_ProjectID r"
proof -
  have t: "TrimSpace (rmb_ProjectID r) = rmb_ProjectID r"
    using assms(1,4) by (auto dest!: typed_ReadReimbursement simp: reimbursement_ok_def)
  show s: "stored (st_ledger ctx) dec_Project (projectKey (rmb_ProjectID r)) p"
    using read_project_stored [OF assms(2) t] .
  show "prj_Status p \<noteq> ''ARCHIVED''"
    using assms(1,3) by (intro open_project [OF assms(5) _ assms(3) s t assms(6,7)]) (simp add: read_inv)
  show "prj_ID p = rmb_ProjectID r"
    using assms(2,4) t by (auto dest!: typed_ReadProject)
qed

section \<open>The calls on reimbursements\<close>

lemma closed_CreateReimbursement:
  assumes "CreateReimbursement ctx i pid iid a ev evh = Inr ws" "closed (st_ledger ctx)"
  shows "closed (commit ws (st_ledger ctx))"
proof -
  obtain r p b e where p: "ReadProject ctx (TrimSpace pid) = Inr p"
      "prj_Status p \<in> {''FINANCIAL_SETTLEMENT'', ''CLOSURE_APPROVED''}" "rmb_ProjectID r = TrimSpace pid"
    and ws: "ws = [put_reimbursement (TrimSpace i) r, Put (reimbursementInvoiceKey (TrimSpace iid)) b,
      put_event ctx (TrimSpace pid) e]"
    using CreateReimbursement_effect [OF assms(1)] by (elim exE conjE) (rule that, auto)
  have "stored (st_ledger ctx) dec_Project (projectKey (rmb_ProjectID r)) p"
    using read_project_stored [OF p(1)] p(3) by simp
  moreover have "prj_Status p \<noteq> ''ARCHIVED''" using p(2) by auto
  ultimately have "closed (put_kv (reimbursementKey (TrimSpace i)) (Doc (enc_Reimbursement r)) (st_ledger ctx))"
    by (rule closed_put_reimbursement [OF assms(2)])
  with ws show ?thesis by simp
qed

text \<open>Writing a project and a reimbursement of it together, the project not archived.\<close>

lemma closed_pair:
  assumes "closed l" "prj_Status q \<noteq> ''ARCHIVED''" "prj_ID q = rmb_ProjectID r"
  shows "closed (put_kv (reimbursementKey i) (Doc (enc_Reimbursement r)) (put_kv (projectKey (prj_ID q)) (Doc (enc_Project q)) l))"
  by (rule closed_put_reimbursement [where p = q]) (use assms in \<open>auto intro: closed_put_project\<close>)

lemma balance_status [simp]:
  "prj_Status (reserve a now p) = prj_Status p" "prj_Status (release a now p) = prj_Status p"
  "prj_Status (pay_out a now p) = prj_Status p"
  by (simp_all add: reserve_def release_def pay_out_def)

lemma closed_ReviewReimbursement:
  assumes "ReviewReimbursement ctx i dec opn rv = Inr ws" "typed (st_ledger ctx)" "closed (st_ledger ctx)" "TrimSpace i = i"
  shows "closed (commit ws (st_ledger ctx))"
proof -
  obtain r p now e r' where r: "ReadReimbursement ctx i = Inr r" "rmb_Status r = ''PENDING_REVIEW''"
      "r' = r\<lparr>rmb_Reviewer := TrimSpace rv, rmb_ReviewOpinion := TrimSpace opn, rmb_UpdatedAt := now\<rparr>"
    and p: "ReadProject ctx (rmb_ProjectID r) = Inr p"
    and ws: "ws = [put_project (reserve (rmb_AmountCents r) now p),
                 put_reimbursement i (r'\<lparr>rmb_Status := ''APPROVED_RESERVED''\<rparr>), put_event ctx (rmb_ProjectID r) e]
       \<or> ws = [put_reimbursement i (r'\<lparr>rmb_Status := ''REVISION_REQUIRED''\<rparr>), put_event ctx (rmb_ProjectID r) e]"
    using ReviewReimbursement_effect [OF assms(1)] by blast
  have o': "prj_Status p \<noteq> ''ARCHIVED''" "stored (st_ledger ctx) dec_Project (projectKey (rmb_ProjectID r)) p"
    "prj_ID p = rmb_ProjectID r"
    using open_read [OF r(1) p assms(4,2,3)] r(2) by auto
  from ws show ?thesis
  proof
    assume "ws = [put_project (reserve (rmb_AmountCents r) now p),
      put_reimbursement i (r'\<lparr>rmb_Status := ''APPROVED_RESERVED''\<rparr>), put_event ctx (rmb_ProjectID r) e]"
    then show ?thesis
      using closed_pair [OF assms(3), of "reserve (rmb_AmountCents r) now p" "r'\<lparr>rmb_Status := ''APPROVED_RESERVED''\<rparr>" i]
        o' r(3) by simp
  next
    assume "ws = [put_reimbursement i (r'\<lparr>rmb_Status := ''REVISION_REQUIRED''\<rparr>), put_event ctx (rmb_ProjectID r) e]"
    then show ?thesis
      using closed_put_reimbursement [OF assms(3), of "r'\<lparr>rmb_Status := ''REVISION_REQUIRED''\<rparr>" p i] o' r(3) by simp
  qed
qed

lemma closed_ResubmitReimbursement:
  assumes "ResubmitReimbursement ctx i ev evh a = Inr ws" "typed (st_ledger ctx)" "closed (st_ledger ctx)" "TrimSpace i = i"
  shows "closed (commit ws (st_ledger ctx))"
proof -
  obtain r p r' e where r: "ReadReimbursement ctx i = Inr r" "rmb_Status r = ''REVISION_REQUIRED''"
      "rmb_ProjectID r' = rmb_ProjectID r"
    and p: "ReadProject ctx (rmb_ProjectID r) = Inr p"
    and ws: "ws = [put_reimbursement i r', put_event ctx (rmb_ProjectID r) e]"
    using ResubmitReimbursement_effect [OF assms(1)] by (elim exE conjE) (rule that, auto)
  have "prj_Status p \<noteq> ''ARCHIVED''" "stored (st_ledger ctx) dec_Project (projectKey (rmb_ProjectID r)) p"
    using open_read [OF r(1) p assms(4,2,3)] r(2) by auto
  with ws r(3) show ?thesis using closed_put_reimbursement [OF assms(3), of r' p i] by simp
qed

lemma closed_WithdrawReimbursement:
  assumes "WithdrawReimbursement ctx i a = Inr ws" "typed (st_ledger ctx)" "closed (st_ledger ctx)" "TrimSpace i = i"
  shows "closed (commit ws (st_ledger ctx))"
proof -
  obtain r p now e where r: "ReadReimbursement ctx i = Inr r"
      "rmb_Status r \<in> {''PENDING_REVIEW'', ''REVISION_REQUIRED'', ''APPROVED_RESERVED''}"
    and p: "ReadProject ctx (rmb_ProjectID r) = Inr p"
    and ws: "ws = (if rmb_Status r = ''APPROVED_RESERVED'' then [put_project (release (rmb_AmountCents r) now p)] else [])
        @ [put_reimbursement i (r\<lparr>rmb_Status := ''WITHDRAWN'', rmb_UpdatedAt := now\<rparr>),
           Del (reimbursementInvoiceKey (rmb_InvoiceID r)), put_event ctx (prj_ID p) e]"
    using WithdrawReimbursement_effect [OF assms(1)] by blast
  have o': "prj_Status p \<noteq> ''ARCHIVED''" "stored (st_ledger ctx) dec_Project (projectKey (rmb_ProjectID r)) p"
    "prj_ID p = rmb_ProjectID r"
    using open_read [OF r(1) p assms(4,2,3)] r(2) by auto
  have pair: "closed (put_kv (reimbursementKey i) (Doc (enc_Reimbursement (r\<lparr>rmb_Status := ''WITHDRAWN'', rmb_UpdatedAt := now\<rparr>)))
      (put_kv (projectKey (rmb_ProjectID r)) (Doc (enc_Project (release (rmb_AmountCents r) now p))) (st_ledger ctx)))"
    using closed_pair [OF assms(3), of "release (rmb_AmountCents r) now p" "r\<lparr>rmb_Status := ''WITHDRAWN'', rmb_UpdatedAt := now\<rparr>" i]
      o' by simp
  have single: "closed (put_kv (reimbursementKey i) (Doc (enc_Reimbursement (r\<lparr>rmb_Status := ''WITHDRAWN'', rmb_UpdatedAt := now\<rparr>)))
      (st_ledger ctx))"
    using closed_put_reimbursement [OF assms(3), of "r\<lparr>rmb_Status := ''WITHDRAWN'', rmb_UpdatedAt := now\<rparr>" p] o' by simp
  show ?thesis
    using ws pair single o'(3) assms(2) by (simp add: typed_wf wf_put_kv)
qed

lemma closed_PayReimbursement:
  assumes "PayReimbursement ctx i f = Inr ws" "typed (st_ledger ctx)" "closed (st_ledger ctx)" "TrimSpace i = i"
  shows "closed (commit ws (st_ledger ctx))"
proof -
  obtain r p now e where r: "ReadReimbursement ctx i = Inr r" "rmb_Status r = ''APPROVED_RESERVED''"
    and p: "ReadProject ctx (rmb_ProjectID r) = Inr p"
    and ws: "ws = [put_project (pay_out (rmb_AmountCents r) now p),
      put_reimbursement i (r\<lparr>rmb_Status := ''PAID'', rmb_UpdatedAt := now\<rparr>), put_event ctx (prj_ID p) e]"
    using PayReimbursement_effect [OF assms(1)] by blast
  have o': "prj_Status p \<noteq> ''ARCHIVED''" "prj_ID p = rmb_ProjectID r"
    using open_read [OF r(1) p assms(4,2,3)] r(2) by auto
  then show ?thesis
    using ws closed_pair [OF assms(3), of "pay_out (rmb_AmountCents r) now p" "r\<lparr>rmb_Status := ''PAID'', rmb_UpdatedAt := now\<rparr>" i]
    by simp
qed

lemma closed_invoke:
  assumes "invoke ctx c = Inr ws" "typed (st_ledger ctx)" "settled (st_ledger ctx)" "closed (st_ledger ctx)" "canonical_call c"
  shows "closed (commit ws (st_ledger ctx))"
proof (cases "money_call c")
  case True
  with assms show ?thesis
    by (cases c) (simp_all add: closed_CreateProject closed_project_calls closed_FinalizeProjectSettlement
        closed_CreateReimbursement closed_ReviewReimbursement closed_ResubmitReimbursement
        closed_WithdrawReimbursement closed_PayReimbursement)
next
  case False
  have "\<forall>w \<in> set ws. family (write_key w) \<notin> {''PROJECT'', ''REIMBURSEMENT''}"
    by (rule writes_in_disjoint [OF other_families [OF assms(1) False]]) (auto simp: invoice_families_def)
  with assms(2,4) show ?thesis
    by (intro closed_frame) (simp_all add: typed_wf)
qed

interpretation closure: ledger_invariant canonical "\<lambda>l. typed l \<and> settled l" closed
proof unfold_locales
  show "closed []" by (simp add: closed_def stored_def get_kv_def)
qed (auto intro: settlement.holds_both [THEN conjunct1] settlement.holds closed_invoke simp: canonical_def)

end
