(* ===== verification/Authority.thy ===== *)
theory Authority
  imports Settlement
begin

text \<open>
  Who can reach a decision on a typed ledger, and what a transaction leaves behind. Since
  registration only creates project members, every other role is exercised by the built-in account
  of that role; and every transaction that touches an invoice or a project leaves a flow or an
  event under its own transaction id, without touching those of others.
\<close>

section \<open>Roles\<close>

lemma requireActive_is_demo:
  assumes "requireActiveBusinessUser ctx u m [role] = Inr x" "typed (st_ledger ctx)" "role \<noteq> ''PROJECT_MEMBER''"
  shows "st_mspid ctx = Inr m \<and> (u, m, role) \<in> set demo_accounts"
  using assms by (auto simp: requireActiveBusinessUser_Inr dest: typed_holds_role)

lemma requireManager_is_demo:
  assumes "requireProjectManager ctx p u role = Inr x" "typed (st_ledger ctx)" "role \<noteq> ''PROJECT_MEMBER''"
  shows "\<exists>m. st_mspid ctx = Inr m \<and> (u, m, role) \<in> set demo_accounts"
  using requireProjectManager_ok [OF assms(1)] assms(2,3)
  by (auto simp: project_manager_ok_def dest: typed_holds_role)

text \<open>The built-in accounts, one role at a time.\<close>

lemma demo_role_cases:
  "(u, m, ''FINANCE_ADMIN'') \<in> set demo_accounts \<longleftrightarrow> u = ''finance-admin'' \<and> m = ''Org2MSP''"
  "(u, m, ''PROJECT_REVIEWER'') \<in> set demo_accounts \<longleftrightarrow> u = ''project-reviewer'' \<and> m = ''Org1MSP''"
  "(u, m, ''ISSUER'') \<in> set demo_accounts \<longleftrightarrow> u = ''issuer-org1'' \<and> m = ''Org1MSP''"
  "(u, m, ''ORG_ADMIN'') \<in> set demo_accounts \<longleftrightarrow>
    u = ''org-admin'' \<and> m = ''Org1MSP'' \<or> u = ''org-admin-org2'' \<and> m = ''Org2MSP''"
  by (auto simp: demo_accounts_def)

lemma finance_manager:
  assumes "requireProjectManager ctx p u ''FINANCE_ADMIN'' = Inr x" "typed (st_ledger ctx)"
  shows "u = ''finance-admin'' \<and> st_mspid ctx = Inr ''Org2MSP''"
  using requireManager_is_demo [OF assms] by (auto simp: demo_role_cases)

lemma review_manager:
  assumes "requireProjectManager ctx p u ''PROJECT_REVIEWER'' = Inr x" "typed (st_ledger ctx)"
  shows "u = ''project-reviewer'' \<and> st_mspid ctx = Inr ''Org1MSP''"
  using requireManager_is_demo [OF assms] by (auto simp: demo_role_cases)

lemma void_issuer:
  assumes "requireActiveBusinessUser ctx u m [''ISSUER''] = Inr x" "typed (st_ledger ctx)"
  shows "u = ''issuer-org1'' \<and> m = ''Org1MSP''"
  using requireActive_is_demo [OF assms] by (auto simp: demo_role_cases)

text \<open>A registered user of that name shadows the built-in account and has none of its powers.\<close>

lemma shadowed_manager:
  assumes "requireProjectManager ctx p u role = Inr x" "typed (st_ledger ctx)" "role \<noteq> ''PROJECT_MEMBER''"
  shows "ReadBusinessUser ctx u \<noteq> Inr r"
proof
  assume r: "ReadBusinessUser ctx u = Inr r"
  with requireProjectManager_ok [OF assms(1)] have "usr_Role r = role"
    by (auto simp: project_manager_ok_def holds_role_def)
  with r assms(2,3) show False by (auto dest!: typed_ReadBusinessUser simp: user_ok_def)
qed

section \<open>Evidence\<close>

text \<open>Every flow and event that a transaction writes carries its own transaction id.\<close>

definition evidence_ok :: "string \<Rightarrow> wr \<Rightarrow> bool" where
  "evidence_ok tx w \<longleftrightarrow>
    (family (write_key w) = ''FLOW'' \<longrightarrow> (\<exists>i. write_key w = flowKey i tx)) \<and>
    (family (write_key w) = ''PROJECT_EVENT'' \<longrightarrow> (\<exists>p. write_key w = projectEventKey p tx))"

lemma evidence_ok_simps [simp]:
  "evidence_ok tx (Put (flowKey i tx) b)" "evidence_ok tx (Put (projectEventKey i tx) b)"
  "family k \<noteq> ''FLOW'' \<Longrightarrow> family k \<noteq> ''PROJECT_EVENT'' \<Longrightarrow> evidence_ok tx (Put k b)"
  "family k \<noteq> ''FLOW'' \<Longrightarrow> family k \<noteq> ''PROJECT_EVENT'' \<Longrightarrow> evidence_ok tx (Del k)"
  by (auto simp: evidence_ok_def)

definition leaves_evidence :: "stub \<Rightarrow> wr list \<Rightarrow> bool" where
  "leaves_evidence ctx ws \<longleftrightarrow> list_all (evidence_ok (st_txid ctx)) ws \<and> ws \<noteq> [] \<and>
    ((\<exists>i b. last ws = Put (flowKey i (st_txid ctx)) b) \<or> (\<exists>p b. last ws = Put (projectEventKey p (st_txid ctx)) b))"

lemma evidence_directory:
  "RegisterBusinessUser ctx n d m r oid = Inr ws \<Longrightarrow> list_all (evidence_ok (st_txid ctx)) ws"
  "CreateBusinessOrganization ctx i n t p d c = Inr ws \<Longrightarrow> list_all (evidence_ok (st_txid ctx)) ws"
  by (auto dest!: RegisterBusinessUser_effect CreateBusinessOrganization_effect)

fun directory_call :: "call \<Rightarrow> bool" where
  "directory_call (TxRegisterBusinessUser _ _ _ _ _) = True"
| "directory_call (TxCreateBusinessOrganization _ _ _ _ _ _) = True"
| "directory_call _ = False"

lemma evidence_projects:
  "CreateProject ctx i n c b d a oid = Inr ws \<Longrightarrow> leaves_evidence ctx ws"
  "UpdateProject ctx i n c b d a = Inr ws \<Longrightarrow> leaves_evidence ctx ws"
  "SubmitProject ctx i a = Inr ws \<Longrightarrow> leaves_evidence ctx ws"
  "ReviewProject ctx i dec opn r = Inr ws \<Longrightarrow> leaves_evidence ctx ws"
  "RequestProjectClosure ctx i m h a = Inr ws \<Longrightarrow> leaves_evidence ctx ws"
  "ReviewProjectClosure ctx i dec opn r = Inr ws \<Longrightarrow> leaves_evidence ctx ws"
  "FinalizeProjectSettlement ctx i f = Inr ws \<Longrightarrow> leaves_evidence ctx ws"
  "AddProjectMember ctx pid n l = Inr ws \<Longrightarrow> leaves_evidence ctx ws"
  by (auto simp: leaves_evidence_def project_writes_def dest!: CreateProject_effect UpdateProject_effect SubmitProject_effect
      ReviewProject_effect RequestProjectClosure_effect ReviewProjectClosure_effect FinalizeProjectSettlement_effect
      AddProjectMember_effect)

lemma evidence_reimbursements:
  "CreateReimbursement ctx i pid iid a ev evh = Inr ws \<Longrightarrow> leaves_evidence ctx ws"
  "ReviewReimbursement ctx i dec opn rv = Inr ws \<Longrightarrow> leaves_evidence ctx ws"
  "ResubmitReimbursement ctx i ev evh a = Inr ws \<Longrightarrow> leaves_evidence ctx ws"
  "WithdrawReimbursement ctx i a = Inr ws \<Longrightarrow> leaves_evidence ctx ws"
  "PayReimbursement ctx i f = Inr ws \<Longrightarrow> leaves_evidence ctx ws"
  by (auto simp: leaves_evidence_def dest!: CreateReimbursement_effect ReviewReimbursement_effect
      ResubmitReimbursement_effect WithdrawReimbursement_effect PayReimbursement_effect)

lemma evidence_invoices:
  "CreateInvoice ctx i no d iss b bm am tx cur hash pid h hm iorg corr = Inr ws \<Longrightarrow> leaves_evidence ctx ws"
  "LinkInvoiceToProject ctx iid pid op = Inr ws \<Longrightarrow> leaves_evidence ctx ws"
  "UnlinkInvoiceFromProject ctx iid op = Inr ws \<Longrightarrow> leaves_evidence ctx ws"
  "TransferInvoice ctx i t tm op = Inr ws \<Longrightarrow> leaves_evidence ctx ws"
  "RequestInvoiceTransfer ctx i t tm n op = Inr ws \<Longrightarrow> leaves_evidence ctx ws"
  "RespondInvoiceTransfer ctx i dec rsp rcp = Inr ws \<Longrightarrow> leaves_evidence ctx ws"
  "CancelInvoiceTransfer ctx i op = Inr ws \<Longrightarrow> leaves_evidence ctx ws"
  "VoidInvoice ctx i rs op = Inr ws \<Longrightarrow> leaves_evidence ctx ws"
  "RequestInvoiceVoid ctx i rs a = Inr ws \<Longrightarrow> leaves_evidence ctx ws"
  "ReviewInvoiceVoid ctx i dec opn rv = Inr ws \<Longrightarrow> leaves_evidence ctx ws"
  by (auto simp: leaves_evidence_def dest!: CreateInvoice_effect LinkInvoiceToProject_effect UnlinkInvoiceFromProject_effect
      TransferInvoice_effect RequestInvoiceTransfer_effect RespondInvoiceTransfer_effect
      CancelInvoiceTransfer_effect VoidInvoice_effect RequestInvoiceVoid_effect ReviewInvoiceVoid_effect)

lemma invoke_leaves_evidence:
  assumes "invoke ctx c = Inr ws" "\<not> directory_call c"
  shows "leaves_evidence ctx ws"
  using assms by (cases c) (simp_all add: evidence_projects evidence_reimbursements evidence_invoices)

lemma invoke_evidence_ok:
  assumes "invoke ctx c = Inr ws"
  shows "list_all (evidence_ok (st_txid ctx)) ws"
proof (cases "directory_call c")
  case True
  with assms show ?thesis by (cases c) (simp_all add: evidence_directory)
next
  case False
  with invoke_leaves_evidence [OF assms] show ?thesis by (simp add: leaves_evidence_def)
qed

text \<open>The transaction id is the part of the key after the last \<open>#\<close>.\<close>

lemma last_part: "CHR ''#'' \<notin> set t \<Longrightarrow> CHR ''#'' \<notin> set u \<Longrightarrow> a @ CHR ''#'' # t = b @ CHR ''#'' # u \<Longrightarrow> t = u"
proof -
  assume h: "CHR ''#'' \<notin> set t" "CHR ''#'' \<notin> set u" "a @ CHR ''#'' # t = b @ CHR ''#'' # u"
  have "takeWhile (\<lambda>c. c \<noteq> CHR ''#'') (rev (a @ CHR ''#'' # t)) = rev t"
    using h(1) by (simp add: takeWhile_append)
  moreover have "takeWhile (\<lambda>c. c \<noteq> CHR ''#'') (rev (b @ CHR ''#'' # u)) = rev u"
    using h(2) by (simp add: takeWhile_append)
  ultimately show "t = u" using h(3) by simp
qed

lemma evidence_key_tx:
  assumes "CHR ''#'' \<notin> set t" "CHR ''#'' \<notin> set u"
  shows "flowKey i t = flowKey j u \<Longrightarrow> t = u" "projectEventKey i t = projectEventKey j u \<Longrightarrow> t = u"
  using last_part [OF assms, of "flowPrefix @ i" "flowPrefix @ j"]
    last_part [OF assms, of "projectEventPrefix @ i" "projectEventPrefix @ j"]
  by (simp_all add: flowKey_def projectEventKey_def)

lemma evidence_untouched:
  assumes "invoke ctx c = Inr ws" "CHR ''#'' \<notin> set t" "CHR ''#'' \<notin> set (st_txid ctx)" "t \<noteq> st_txid ctx"
  shows "flowKey i t \<notin> write_key ` set ws" "projectEventKey i t \<notin> write_key ` set ws"
proof -
  have ok: "evidence_ok (st_txid ctx) w" if "w \<in> set ws" for w
    using invoke_evidence_ok [OF assms(1)] that by (simp add: list_all_iff)
  show "flowKey i t \<notin> write_key ` set ws"
  proof
    assume "flowKey i t \<in> write_key ` set ws"
    then obtain w where w: "w \<in> set ws" "write_key w = flowKey i t" by auto
    with ok [OF w(1)] obtain j where "flowKey i t = flowKey j (st_txid ctx)" by (auto simp: evidence_ok_def)
    with assms show False by (auto dest: evidence_key_tx)
  qed
  show "projectEventKey i t \<notin> write_key ` set ws"
  proof
    assume "projectEventKey i t \<in> write_key ` set ws"
    then obtain w where w: "w \<in> set ws" "write_key w = projectEventKey i t" by auto
    with ok [OF w(1)] obtain j where "projectEventKey i t = projectEventKey j (st_txid ctx)" by (auto simp: evidence_ok_def)
    with assms show False by (auto dest: evidence_key_tx)
  qed
qed

end
