(* ===== verification/Numbers.thy ===== *)
theory Numbers
  imports Scenario
begin

text \<open>
  Invoice numbers. \<open>InvoiceNumberExists\<close> and \<open>InvoiceNumberExistsExcept\<close> combine an index entry
  with a scan over all invoices; together with the checks of a correction they keep a number unique
  among the invoices that are not voided.
\<close>

section \<open>What the lookups guarantee\<close>

lemma scan_invoices_False:
  "scan_invoices P ctx items = Inr False \<Longrightarrow> item \<in> set items \<Longrightarrow>
    \<exists>v. decode_item dec_Invoice ctx item = Inr v \<and> \<not> P v"
  by (induction P ctx items rule: scan_invoices.induct) (auto simp: bindE_Inr split: if_splits)

lemma in_invoice_scan:
  assumes "stored l dec_Invoice (invoiceKey i) x" "wf_ledger l"
  shows "\<exists>j. (invoiceKey i, Doc j) \<in> set (range_kv l invoicePrefix ''INVOICE$'') \<and> dec_Invoice j = Inr x"
proof -
  obtain j where j: "get_kv l (invoiceKey i) = Some (Doc j)" "dec_Invoice j = Inr x"
    using assms(1) by (auto simp: stored_def)
  then have "(invoiceKey i, Doc j) \<in> set l" by (auto simp: get_kv_def dest: map_of_SomeD)
  with j show ?thesis by (auto simp: scan_range)
qed

lemma scan_False_all:
  assumes "scan_invoices P ctx (range_kv (st_ledger ctx) invoicePrefix ''INVOICE$'') = Inr False"
    and "stored (st_ledger ctx) dec_Invoice (invoiceKey i) x" "wf_ledger (st_ledger ctx)"
  shows "\<not> P x"
proof -
  obtain j where j: "(invoiceKey i, Doc j) \<in> set (range_kv (st_ledger ctx) invoicePrefix ''INVOICE$'')"
      "dec_Invoice j = Inr x"
    using in_invoice_scan [OF assms(2,3)] by blast
  from scan_invoices_False [OF assms(1) j(1)] j(2) show ?thesis by (auto simp: decode_item_Inr)
qed

text \<open>A negative answer means that no stored invoice has the number.\<close>

lemma InvoiceNumberExists_False:
  assumes "InvoiceNumberExists ctx n = Inr False" "wf_ledger (st_ledger ctx)"
    "stored (st_ledger ctx) dec_Invoice (invoiceKey i) x"
  shows "inv_InvoiceNo x \<noteq> n"
  using assms scan_False_all [OF _ assms(3,2)]
  by (auto simp: InvoiceNumberExists_def res_inv split: if_splits)

lemma InvoiceNumberExistsExcept_False:
  assumes "InvoiceNumberExistsExcept ctx n e = Inr False" "wf_ledger (st_ledger ctx)"
    "stored (st_ledger ctx) dec_Invoice (invoiceKey i) x" "inv_ID x \<noteq> e"
  shows "inv_InvoiceNo x \<noteq> n"
  using assms scan_False_all [OF _ assms(3,2)]
  by (fastforce simp: InvoiceNumberExistsExcept_def res_inv split: if_splits)

lemma check_correction_Inr:
  assumes "check_correction ctx c n m org' = Inr u" "c \<noteq> []"
  shows "\<exists>x. ReadInvoice ctx c = Inr x \<and> inv_Status x = ''VOIDED'' \<and> inv_InvoiceNo x = n
    \<and> inv_IssuerMSPID x = m \<and> get_kv (st_ledger ctx) (reimbursementInvoiceKey c) = None
    \<and> InvoiceNumberExistsExcept ctx n c = Inr False"
  using assms by (auto simp: check_correction_def res_inv)

section \<open>The invariant\<close>

definition corrects :: "Invoice \<Rightarrow> Invoice \<Rightarrow> bool" where
  "corrects x y \<longleftrightarrow> inv_CorrectionOf x = inv_ID y \<and> inv_Status y = ''VOIDED''"

definition numbered :: "ledger \<Rightarrow> bool" where
  "numbered l \<longleftrightarrow> (\<forall>i j x y. stored l dec_Invoice (invoiceKey i) x \<longrightarrow> stored l dec_Invoice (invoiceKey j) y \<longrightarrow>
     i \<noteq> j \<longrightarrow> inv_InvoiceNo x = inv_InvoiceNo y \<longrightarrow> corrects x y \<or> corrects y x)"

text \<open>An invoice step keeps the number, the identifier, the correction and a void.\<close>

lemma invoice_step_numbers:
  "invoice_step x y \<Longrightarrow> inv_InvoiceNo y = inv_InvoiceNo x \<and> inv_ID y = inv_ID x
    \<and> inv_CorrectionOf y = inv_CorrectionOf x \<and> inv_Status x \<noteq> ''VOIDED''"
  by (induction rule: invoice_step.induct) auto

fun creates_invoice :: "call \<Rightarrow> bool" where
  "creates_invoice (TxCreateInvoice _ _ _ _ _ _ _ _ _ _ _ _ _ _ _) = True"
| "creates_invoice _ = False"

lemma only_create_is_new:
  assumes "invoke ctx c = Inr ws" "Put (invoiceKey i) b \<in> set ws"
    and "\<not> creates_invoice c"
    and "typed (st_ledger ctx)"
  shows "get_kv (st_ledger ctx) (invoiceKey i) \<noteq> None"
  using assms
  by (cases c)
    (auto simp: project_writes_def dest!: RegisterBusinessUser_effect CreateBusinessOrganization_effect
      CreateProject_effect UpdateProject_effect SubmitProject_effect ReviewProject_effect
      RequestProjectClosure_effect ReviewProjectClosure_effect FinalizeProjectSettlement_effect
      AddProjectMember_effect CreateReimbursement_effect ReviewReimbursement_effect
      ResubmitReimbursement_effect WithdrawReimbursement_effect PayReimbursement_effect
      LinkInvoiceToProject_effect UnlinkInvoiceFromProject_effect TransferInvoice_effect
      RequestInvoiceTransfer_effect RespondInvoiceTransfer_effect CancelInvoiceTransfer_effect
      VoidInvoice_effect RequestInvoiceVoid_effect ReviewInvoiceVoid_effect typed_ReadInvoice
      split: if_splits)

text \<open>What a call does to the invoices: steps of old ones, and at most the creation of one.\<close>

lemma invoice_after:
  assumes "invoke ctx c = Inr ws" "typed (st_ledger ctx)" "\<not> creates_invoice c"
    and "stored (commit ws (st_ledger ctx)) dec_Invoice (invoiceKey i) y"
  shows "\<exists>x. stored (st_ledger ctx) dec_Invoice (invoiceKey i) x \<and> (y = x \<or> invoice_step x y)"
proof -
  have ok: "invoice_write_ok (st_ledger ctx) w" if "w \<in> set ws" for w
    using invoke_writes_step [OF assms(1,2)] that by (auto simp: writes_step_def list_all_iff)
  from commit_cases [OF typed_wf [OF assms(2)], of ws "invoiceKey i"]
  consider "get_kv (commit ws (st_ledger ctx)) (invoiceKey i) = get_kv (st_ledger ctx) (invoiceKey i)"
    | b where "Put (invoiceKey i) b \<in> set ws" "get_kv (commit ws (st_ledger ctx)) (invoiceKey i) = Some b"
    using ok by (auto simp: invoice_write_ok_def)
  then show ?thesis
  proof cases
    case 1
    with assms(4) show ?thesis by (auto simp: stored_def)
  next
    case 2
    with only_create_is_new [OF assms(1) 2(1) assms(3,2)] ok [OF 2(1)] assms(4)
    show ?thesis by (auto simp: step_or_new_def stored_def)
  qed
qed

lemma numbered_other_calls:
  assumes "invoke ctx c = Inr ws" "typed (st_ledger ctx)" "numbered (st_ledger ctx)" "\<not> creates_invoice c"
  shows "numbered (commit ws (st_ledger ctx))"
  unfolding numbered_def
proof (intro allI impI)
  fix i j x y
  assume x: "stored (commit ws (st_ledger ctx)) dec_Invoice (invoiceKey i) x"
    and y: "stored (commit ws (st_ledger ctx)) dec_Invoice (invoiceKey j) y"
    and ij: "i \<noteq> j" "inv_InvoiceNo x = inv_InvoiceNo y"
  obtain x0 y0 where 0: "stored (st_ledger ctx) dec_Invoice (invoiceKey i) x0" "x = x0 \<or> invoice_step x0 x"
      "stored (st_ledger ctx) dec_Invoice (invoiceKey j) y0" "y = y0 \<or> invoice_step y0 y"
    using invoice_after [OF assms(1,2,4) x] invoice_after [OF assms(1,2,4) y] by blast
  moreover have "inv_InvoiceNo x0 = inv_InvoiceNo y0"
    using 0 ij(2) by (auto dest!: invoice_step_numbers)
  ultimately have "corrects x0 y0 \<or> corrects y0 x0"
    using assms(3) ij(1) by (simp add: numbered_def)
  with 0 show "corrects x y \<or> corrects y x"
    by (auto simp: corrects_def dest: invoice_step_numbers)
qed

lemma numbered_CreateInvoice:
  assumes "CreateInvoice ctx i no d iss b bm am tx cur hash pid h hm iorg corr = Inr ws"
    and "typed (st_ledger ctx)" "numbered (st_ledger ctx)"
  shows "numbered (commit ws (st_ledger ctx))"
proof -
  obtain m org' e amount tax now where free: "get_kv (st_ledger ctx) (invoiceKey (TrimSpace i)) = None"
    and ex: "InvoiceNumberExists ctx (TrimSpace no) = Inr e" "e \<longrightarrow> TrimSpace corr \<noteq> []"
    and cc: "check_correction ctx (TrimSpace corr) (TrimSpace no) m org' = Inr ()"
    and ws: "ws = [put_invoice (TrimSpace i) (new_invoice (TrimSpace i) (TrimSpace no) d (TrimSpace iss) (TrimSpace b)
             (TrimSpace bm) amount tax (amount + tax) (ToLower hash) (TrimSpace pid) (TrimSpace corr)
             (TrimSpace h) m org' now),
           Put (invoiceNumberKey (TrimSpace no)) (Raw (TrimSpace i)),
           put_flow ctx (TrimSpace i) (the_flow ctx (TrimSpace i)
             (if TrimSpace corr \<noteq> [] then ''CORRECTION'' else ''ISSUE'') (TrimSpace iss) (TrimSpace h) m now)]"
    using CreateInvoice_effect [OF assms(1)] by (elim exE conjE) (rule that)
  define z where "z = new_invoice (TrimSpace i) (TrimSpace no) d (TrimSpace iss) (TrimSpace b)
             (TrimSpace bm) amount tax (amount + tax) (ToLower hash) (TrimSpace pid) (TrimSpace corr)
             (TrimSpace h) m org' now"
  have z: "inv_ID z = TrimSpace i" "inv_InvoiceNo z = TrimSpace no" "inv_CorrectionOf z = TrimSpace corr"
    by (simp_all add: z_def)
  note wf = typed_wf [OF assms(2)]
  have st: "stored (commit ws (st_ledger ctx)) dec_Invoice (invoiceKey j) x \<longleftrightarrow>
      (if j = TrimSpace i then x = z else stored (st_ledger ctx) dec_Invoice (invoiceKey j) x)" for j x
    by (auto simp: ws z_def stored_def get_put_kv)
  have new: "corrects z y" if y: "stored (st_ledger ctx) dec_Invoice (invoiceKey j) y" "inv_InvoiceNo y = TrimSpace no" for j y
  proof -
    have e: "e" using InvoiceNumberExists_False [OF _ wf y(1), of "TrimSpace no"] ex(1) y(2) by (cases e) auto
    with ex(2) check_correction_Inr [OF cc] obtain v where v: "ReadInvoice ctx (TrimSpace corr) = Inr v"
        "inv_Status v = ''VOIDED''" "InvoiceNumberExistsExcept ctx (TrimSpace no) (TrimSpace corr) = Inr False"
      by blast
    have "inv_ID y = TrimSpace corr"
      using InvoiceNumberExistsExcept_False [OF v(3) wf y(1)] y(2) by blast
    moreover have "inv_ID y = j"
      using y(1) typed_entry [OF _ assms(2)] by (fastforce simp: stored_def)
    ultimately have "y = v" using y(1) v(1) by (auto simp: read_inv dest: stored_unique)
    with v(2) z \<open>inv_ID y = TrimSpace corr\<close> show ?thesis by (simp add: corrects_def)
  qed
  show ?thesis
    unfolding numbered_def st
    using assms(3) new z(2) by (auto simp: numbered_def split: if_splits)
qed

interpretation numbers: ledger_invariant any_call typed numbered
proof unfold_locales
  show "numbered []" by (simp add: numbered_def stored_def get_kv_def)
  show "numbered (commit ws (st_ledger ctx))"
    if "typed (st_ledger ctx)" "numbered (st_ledger ctx)" "invoke ctx c = Inr ws" for ctx c ws
  proof (cases "creates_invoice c")
    case True
    with that show ?thesis by (cases c) (auto intro: numbered_CreateInvoice)
  next
    case False
    with that show ?thesis by (blast intro: numbered_other_calls)
  qed
qed (auto intro: run_typed)

end
