(* ===== verification/History.thy ===== *)
theory History
  imports Lifecycles
begin

text \<open>
  What the step relations preserve and where they stop: the facts of an invoice, the identity and
  the approved budget of a project, the claim a reimbursement makes, and the final states.
\<close>

section \<open>Final states\<close>

inductive_cases invoice_stepE: "invoice_step x y"
inductive_cases project_stepE: "project_step x y"
inductive_cases reimbursement_stepE: "reimbursement_step x y"

lemma voided_final: "inv_Status x = ''VOIDED'' \<Longrightarrow> \<not> invoice_step x y"
  by (auto elim: invoice_stepE)

lemma archived_final: "prj_Status x = ''ARCHIVED'' \<Longrightarrow> \<not> project_step x y"
  by (auto elim: project_stepE)

lemma closed_reimbursement_final: "rmb_Status x \<in> {''PAID'', ''WITHDRAWN''} \<Longrightarrow> \<not> reimbursement_step x y"
  by (auto elim: reimbursement_stepE)

lemma final_rtranclp: "rtranclp step x y \<Longrightarrow> (\<And>z. \<not> step x z) \<Longrightarrow> y = x"
  by (erule converse_rtranclpE) auto

section \<open>What every step keeps\<close>

text \<open>The facts of an invoice: everything but holder, project, status and void reason.\<close>

definition invoice_facts :: "Invoice \<Rightarrow> Invoice" where
  "invoice_facts x = x\<lparr>inv_CurrentHolder := [], inv_HolderMSPID := [], inv_HolderOrganizationID := [],
     inv_ProjectID := [], inv_Status := [], inv_UpdatedAt := [], inv_VoidReason := []\<rparr>"

lemma invoice_step_facts: "invoice_step x y \<Longrightarrow> invoice_facts y = invoice_facts x"
  by (erule invoice_stepE) (simp_all add: invoice_facts_def)

definition project_identity :: "Project \<Rightarrow> string \<times> string \<times> string \<times> string \<times> string" where
  "project_identity x = (prj_ID x, prj_Applicant x, prj_ApplicantMSPID x, prj_OrganizationID x, prj_CreatedAt x)"

lemma project_step_identity: "project_step x y \<Longrightarrow> project_identity y = project_identity x"
  by (erule project_stepE) (simp_all add: project_identity_def reserve_def release_def pay_out_def)

definition approved :: "Project \<Rightarrow> bool" where
  "approved x \<longleftrightarrow> prj_Status x \<in> {''EXECUTING'', ''CLOSURE_REVIEW'', ''FINANCIAL_SETTLEMENT'', ''ARCHIVED''}"

lemma project_step_approved:
  "project_step x y \<Longrightarrow> approved x \<Longrightarrow> approved y \<and> prj_BudgetCents y = prj_BudgetCents x
    \<and> prj_Name y = prj_Name x \<and> prj_Content y = prj_Content x"
  by (erule project_stepE) (auto simp: approved_def reserve_def release_def pay_out_def)

definition claim_of :: "Reimbursement \<Rightarrow> string \<times> string \<times> string \<times> string \<times> int64 \<times> string" where
  "claim_of x = (rmb_ID x, rmb_ProjectID x, rmb_InvoiceID x, rmb_Applicant x, rmb_AmountCents x, rmb_CreatedAt x)"

lemma reimbursement_step_claim: "reimbursement_step x y \<Longrightarrow> claim_of y = claim_of x"
  by (erule reimbursement_stepE) (simp_all add: claim_of_def)

lemma rtranclp_keeps: "rtranclp step x y \<Longrightarrow> (\<And>u v. step u v \<Longrightarrow> f v = f u) \<Longrightarrow> f y = f x"
  by (induction rule: rtranclp_induct) auto

lemma rtranclp_project_approved:
  "rtranclp project_step x y \<Longrightarrow> approved x \<Longrightarrow> approved y \<and> prj_BudgetCents y = prj_BudgetCents x
    \<and> prj_Name y = prj_Name x \<and> prj_Content y = prj_Content x"
  by (induction rule: rtranclp_induct) (auto dest: project_step_approved)

section \<open>Along a run\<close>

lemma invoice_run:
  assumes "reachable l" "run any_call l m" "stored l dec_Invoice (invoiceKey i) x"
  shows "\<exists>y. stored m dec_Invoice (invoiceKey i) y \<and> rtranclp invoice_step x y"
  using invoices.evolves [OF assms(2)] assms(1,3) by (simp add: reachable_def records_evolve_def)

lemma invoice_facts_run:
  assumes "reachable l" "run any_call l m" "stored l dec_Invoice (invoiceKey i) x"
  shows "\<exists>y. stored m dec_Invoice (invoiceKey i) y \<and> invoice_facts y = invoice_facts x"
  using invoice_run [OF assms] rtranclp_keeps [of invoice_step x _ invoice_facts] invoice_step_facts by blast

lemma project_run:
  assumes "reachable l" "run any_call l m" "stored l dec_Project (projectKey i) x" "TrimSpace i = i"
  shows "\<exists>y. stored m dec_Project (projectKey i) y \<and> rtranclp project_step x y"
  using projects.evolves [OF assms(2)] assms(1,3,4) by (simp add: reachable_def records_evolve_def)

lemma reimbursement_run:
  assumes "reachable l" "run any_call l m" "stored l dec_Reimbursement (reimbursementKey i) x" "TrimSpace i = i"
  shows "\<exists>y. stored m dec_Reimbursement (reimbursementKey i) y \<and> rtranclp reimbursement_step x y"
  using reimbursements.evolves [OF assms(2)] assms(1,3,4) by (simp add: reachable_def records_evolve_def)

text \<open>One call is at most one step of a stored record.\<close>

lemma one_step:
  assumes "wf_ledger l" "\<And>b. Put k b \<in> set ws \<Longrightarrow> step_or_new l k dec new step enc b" "Del k \<notin> set ws"
    "stored l dec k x" "\<And>y. dec (enc y) = Inr y"
  shows "\<exists>y. stored (commit ws l) dec k y \<and> (y = x \<or> step x y)"
proof -
  from commit_cases [OF assms(1), of ws k] assms(3)
  consider "get_kv (commit ws l) k = get_kv l k"
    | b where "Put k b \<in> set ws" "get_kv (commit ws l) k = Some b" by blast
  then show ?thesis
  proof cases
    case 1
    with assms(4) show ?thesis by (auto simp: stored_def)
  next
    case 2
    with assms(2) [OF 2(1)] assms(4,5) show ?thesis by (auto simp: step_or_new_def stored_def)
  qed
qed

lemma project_one_step:
  assumes "invoke ctx c = Inr ws" "typed (st_ledger ctx)" "TrimSpace i = i"
    "stored (st_ledger ctx) dec_Project (projectKey i) x"
  shows "\<exists>y. stored (commit ws (st_ledger ctx)) dec_Project (projectKey i) y \<and> (y = x \<or> project_step x y)"
proof -
  have w: "project_write_ok (st_ledger ctx) w" if "w \<in> set ws" for w
    using invoke_writes_step [OF assms(1,2)] that by (auto simp: writes_step_def list_all_iff)
  show ?thesis
    by (rule one_step [where new = "\<lambda>y. prj_Status y = ''DRAFT''" and enc = enc_Project])
      (use w assms(3) in \<open>fastforce simp: project_write_ok_def typed_wf [OF assms(2)] assms(4)\<close>)+
qed

lemma reimbursement_one_step:
  assumes "invoke ctx c = Inr ws" "typed (st_ledger ctx)" "TrimSpace i = i"
    "stored (st_ledger ctx) dec_Reimbursement (reimbursementKey i) x"
  shows "\<exists>y. stored (commit ws (st_ledger ctx)) dec_Reimbursement (reimbursementKey i) y \<and> (y = x \<or> reimbursement_step x y)"
proof -
  have w: "reimbursement_write_ok (st_ledger ctx) w" if "w \<in> set ws" for w
    using invoke_writes_step [OF assms(1,2)] that by (auto simp: writes_step_def list_all_iff)
  show ?thesis
    by (rule one_step [where new = "\<lambda>y. rmb_Status y = ''PENDING_REVIEW''" and enc = enc_Reimbursement])
      (use w assms(3) in \<open>fastforce simp: reimbursement_write_ok_def typed_wf [OF assms(2)] assms(4)\<close>)+
qed

lemma invoice_one_step:
  assumes "invoke ctx c = Inr ws" "typed (st_ledger ctx)"
    "stored (st_ledger ctx) dec_Invoice (invoiceKey i) x"
  shows "\<exists>y. stored (commit ws (st_ledger ctx)) dec_Invoice (invoiceKey i) y \<and> (y = x \<or> invoice_step x y)"
proof -
  have w: "invoice_write_ok (st_ledger ctx) w" if "w \<in> set ws" for w
    using invoke_writes_step [OF assms(1,2)] that by (auto simp: writes_step_def list_all_iff)
  show ?thesis
    by (rule one_step [where new = "\<lambda>y. inv_Status y = ''ISSUED''" and enc = enc_Invoice])
      (use w in \<open>fastforce simp: invoice_write_ok_def typed_wf [OF assms(2)] assms(3)\<close>)+
qed

end
