(* ===== verification/Queries.thy ===== *)
theory Queries
  imports Settlement
begin

text \<open>
  What the list queries return on a typed ledger of a healthy peer: the scans over a whole family
  are complete and cannot fail, the scan over the members of a project ends at \<open>U+FFFF\<close>. The last
  section shows that a settlement can be finalized once nothing is open.
\<close>

section \<open>A healthy peer\<close>

definition healthy :: "stub \<Rightarrow> bool" where
  "healthy ctx \<longleftrightarrow> (\<forall>k. st_get_err ctx k = None \<and> st_put_err ctx k = None \<and> st_del_err ctx k = None
     \<and> st_range_err ctx k = None \<and> st_next_err ctx k = None) \<and> (\<exists>t. transactionTime ctx = Inr t)"

lemma healthy_demo [simp]: "healthy (demo_ctx m t l)"
  by (simp add: healthy_def demo_time) (simp add: demo_ctx_def)

lemma decode_scan:
  assumes "healthy ctx" "\<And>k b. (k, b) \<in> set items \<Longrightarrow> \<exists>x. b = Doc (enc x)" "\<And>x. dec (enc x) = Inr x"
  shows "\<exists>xs. mapE (decode_item dec ctx) items = Inr xs \<and> set xs = {x. \<exists>k. (k, Doc (enc x)) \<in> set items}"
  using assms(2)
proof (induction items)
  case (Cons e items)
  obtain k b where e: "e = (k, b)" by (cases e)
  with Cons.prems obtain x where b: "b = Doc (enc x)" by auto
  have d: "decode_item dec ctx e = Inr x"
    using assms(1,3) e b by (simp add: decode_item_Inr healthy_def)
  obtain xs where xs: "mapE (decode_item dec ctx) items = Inr xs" "set xs = {x. \<exists>k. (k, Doc (enc x)) \<in> set items}"
    using Cons.IH Cons.prems by (meson list.set_intros(2))
  have "enc u = enc v \<longleftrightarrow> u = v" for u v using assms(3) by (metis sum.inject(2))
  with d xs e b show ?case by auto
qed simp

lemma mapE_elem: "mapE f xs = Inr ys \<Longrightarrow> x \<in> set xs \<Longrightarrow> \<exists>y. f x = Inr y \<and> y \<in> set ys"
  by (induction xs arbitrary: ys) (auto simp: res_inv)

lemma scan_entries:
  assumes "typed l"
  shows "(k, b) \<in> set (filter (\<lambda>(k, _). prefix p k) l) \<longleftrightarrow> get_kv l k = Some b \<and> prefix p k"
  using wf_ledger_distinct [OF typed_wf [OF assms]] by (auto simp: get_kv_def)

lemma prefix_invoice: "prefix invoicePrefix k \<longleftrightarrow> (\<exists>i. k = invoiceKey i)"
  by (auto simp: prefix_def invoiceKey_def)

lemma prefix_project: "prefix projectPrefix k \<longleftrightarrow> (\<exists>i. k = projectKey i)"
  by (auto simp: prefix_def projectKey_def)

text \<open>The scan over one family of keys finds every stored record and nothing else.\<close>

lemma family_scan:
  assumes "healthy ctx" "typed (st_ledger ctx)"
    and "range_kv (st_ledger ctx) p q = filter (\<lambda>(k, _). prefix p k) (st_ledger ctx)"
    and "\<And>k. prefix p k \<longleftrightarrow> (\<exists>i. k = key i)"
    and "\<And>i b. entry_ok (key i) b \<Longrightarrow> \<exists>x. b = Doc (enc x)"
    and "\<And>x. dec (enc x) = Inr x"
  shows "\<exists>xs. bindE (GetStateByRange ctx p q) (mapE (decode_item dec ctx)) = Inr xs
    \<and> set xs = {x. \<exists>i. stored (st_ledger ctx) dec (key i) x}"
proof -
  let ?items = "range_kv (st_ledger ctx) p q"
  have it: "(k, b) \<in> set ?items \<longleftrightarrow> get_kv (st_ledger ctx) k = Some b \<and> (\<exists>i. k = key i)" for k b
    using scan_entries [OF assms(2), where p = p] by (simp add: assms(3,4))
  have doc: "\<exists>x. b = Doc (enc x)" if "(k, b) \<in> set ?items" for k b
    using that typed_entry [OF _ assms(2)] assms(5) unfolding it by blast
  obtain xs where xs: "mapE (decode_item dec ctx) ?items = Inr xs" "set xs = {x. \<exists>k. (k, Doc (enc x)) \<in> set ?items}"
    using decode_scan [of ctx ?items enc dec] assms(1,6) doc by blast
  have "stored (st_ledger ctx) dec (key i) x \<longleftrightarrow> get_kv (st_ledger ctx) (key i) = Some (Doc (enc x))" for i x
    using typed_entry [OF _ assms(2)] assms(5,6) by (fastforce simp: stored_def)
  with xs(2) it have "set xs = {x. \<exists>i. stored (st_ledger ctx) dec (key i) x}" by auto
  moreover have "bindE (GetStateByRange ctx p q) (mapE (decode_item dec ctx)) = Inr xs"
    using assms(1) xs(1) by (auto simp: res_inv healthy_def)
  ultimately show ?thesis by blast
qed

lemma prefix_organization: "prefix organizationPrefix k \<longleftrightarrow> (\<exists>i. k = organizationKey i)"
  by (auto simp: prefix_def organizationKey_def)

lemma GetAllInvoices_complete:
  "healthy ctx \<Longrightarrow> typed (st_ledger ctx) \<Longrightarrow> \<exists>xs. GetAllInvoices ctx = Inr xs
    \<and> set xs = {x. \<exists>i. stored (st_ledger ctx) dec_Invoice (invoiceKey i) x}"
  unfolding GetAllInvoices_def by (rule family_scan) (auto simp: scan_range prefix_invoice)

lemma GetAllReimbursements_complete:
  "healthy ctx \<Longrightarrow> typed (st_ledger ctx) \<Longrightarrow> \<exists>xs. GetAllReimbursements ctx = Inr xs
    \<and> set xs = {x. \<exists>i. stored (st_ledger ctx) dec_Reimbursement (reimbursementKey i) x}"
  unfolding GetAllReimbursements_def by (rule family_scan) (auto simp: scan_range prefix_reimbursement)

lemma GetAllProjects_complete:
  "healthy ctx \<Longrightarrow> typed (st_ledger ctx) \<Longrightarrow> \<exists>xs. GetAllProjects ctx = Inr xs
    \<and> set xs = {x. \<exists>i. stored (st_ledger ctx) dec_Project (projectKey i) x}"
  unfolding GetAllProjects_def by (rule family_scan) (auto simp: scan_range prefix_project)

lemma GetAllBusinessOrganizations_complete:
  "healthy ctx \<Longrightarrow> typed (st_ledger ctx) \<Longrightarrow> \<exists>xs. GetAllBusinessOrganizations ctx = Inr xs
    \<and> set xs = {x. \<exists>i. stored (st_ledger ctx) dec_BusinessOrganization (organizationKey i) x}"
  unfolding GetAllBusinessOrganizations_def by (rule family_scan) (auto simp: scan_range prefix_organization)

section \<open>The scan over a project's members\<close>

lemma append_le_cancel: "(p @ u :: string) \<le> p @ v \<longleftrightarrow> u \<le> v" "(p @ u :: string) < p @ v \<longleftrightarrow> u < v"
  by (induction p) auto

lemma between_prefix: "(p :: string) \<le> k \<Longrightarrow> k < p @ v \<Longrightarrow> prefix p k"
proof (induction p arbitrary: k)
  case (Cons a p)
  then obtain y ys where "k = y # ys" by (cases k) auto
  with Cons show ?case by auto
qed simp

lemma member_key_range:
  "projectMemberPrefix @ pid @ ''#'' \<le> projectMemberKey pid u \<and>
    projectMemberKey pid u < (projectMemberPrefix @ pid @ ''#'') @ uffff \<longleftrightarrow> u < uffff"
proof -
  have "projectMemberKey pid u = (projectMemberPrefix @ pid @ ''#'') @ u"
    by (simp add: projectMemberKey_def)
  then show ?thesis
    using append_le_cancel [of "projectMemberPrefix @ pid @ ''#''" "[]" u]
      append_le_cancel [of "projectMemberPrefix @ pid @ ''#''" u uffff] by simp
qed

lemma project_members_seen:
  assumes "GetProjectMembers ctx pid = Inr ms" "typed (st_ledger ctx)"
    and "stored (st_ledger ctx) dec_ProjectMember (projectMemberKey (TrimSpace pid) u) m"
  shows "m \<in> set ms \<longleftrightarrow> u < uffff"
proof -
  let ?p = "projectMemberPrefix @ TrimSpace pid @ ''#''"
  let ?items = "range_kv (st_ledger ctx) ?p (?p @ uffff)"
  have ms: "mapE (decode_item dec_ProjectMember ctx) ?items = Inr ms"
    using assms(1) by (simp add: GetProjectMembers_def Let_def res_inv)
  obtain j where j: "get_kv (st_ledger ctx) (projectMemberKey (TrimSpace pid) u) = Some (Doc j)" "dec_ProjectMember j = Inr m"
    using assms(3) by (auto simp: stored_def)
  have key: "k = projectMemberKey (TrimSpace pid) u"
    if "get_kv (st_ledger ctx) k = Some (Doc i)" "dec_ProjectMember i = Inr m" "?p \<le> k" "k < ?p @ uffff" for k i
  proof -
    have "prefix ?p k" using between_prefix [OF that(3,4)] .
    then obtain v where "k = projectMemberKey (TrimSpace pid) v"
      by (auto simp: prefix_def projectMemberKey_def)
    with typed_entry [OF that(1) assms(2)] typed_entry [OF j(1) assms(2)] that(2) j(2) show ?thesis by auto
  qed
  have "m \<in> set ms \<longleftrightarrow> (\<exists>k i. get_kv (st_ledger ctx) k = Some (Doc i) \<and> dec_ProjectMember i = Inr m \<and> ?p \<le> k \<and> k < ?p @ uffff)"
  proof
    assume "m \<in> set ms"
    then obtain k b where "(k, b) \<in> set ?items" "decode_item dec_ProjectMember ctx (k, b) = Inr m"
      using mapE_set [OF ms, of m] by auto
    then show "\<exists>k i. get_kv (st_ledger ctx) k = Some (Doc i) \<and> dec_ProjectMember i = Inr m \<and> ?p \<le> k \<and> k < ?p @ uffff"
      using range_kv_mem [OF typed_wf [OF assms(2)]] by (auto simp: decode_item_Inr)
  next
    assume "\<exists>k i. get_kv (st_ledger ctx) k = Some (Doc i) \<and> dec_ProjectMember i = Inr m \<and> ?p \<le> k \<and> k < ?p @ uffff"
    then obtain k i where k: "(k, Doc i) \<in> set ?items" "dec_ProjectMember i = Inr m"
      using range_kv_mem [OF typed_wf [OF assms(2)]] by auto
    then obtain y where "decode_item dec_ProjectMember ctx (k, Doc i) = Inr y" "y \<in> set ms"
      using mapE_elem [OF ms k(1)] by blast
    with k(2) show "m \<in> set ms" by (auto simp: decode_item_Inr)
  qed
  also have "\<dots> \<longleftrightarrow> u < uffff"
    using key j member_key_range [of "TrimSpace pid" u] by metis
  finally show ?thesis .
qed

lemma GetProjectMembers_total:
  assumes "healthy ctx" "typed (st_ledger ctx)"
  shows "\<exists>ms. GetProjectMembers ctx pid = Inr ms"
proof -
  let ?p = "projectMemberPrefix @ TrimSpace pid @ ''#''"
  let ?items = "range_kv (st_ledger ctx) ?p (?p @ uffff)"
  have "\<exists>x. b = Doc (enc_ProjectMember x)" if "(k, b) \<in> set ?items" for k b
  proof -
    have k: "get_kv (st_ledger ctx) k = Some b" "?p \<le> k" "k < ?p @ uffff"
      using that range_kv_mem [OF typed_wf [OF assms(2)]] by auto
    then obtain v where "k = projectMemberKey (TrimSpace pid) v"
      using between_prefix [OF k(2,3)] by (auto simp: prefix_def projectMemberKey_def)
    then show ?thesis using typed_entry [OF k(1) assms(2)] by auto
  qed
  then obtain xs where "mapE (decode_item dec_ProjectMember ctx) ?items = Inr xs"
    using decode_scan [OF assms(1), of ?items enc_ProjectMember dec_ProjectMember] dec_enc_ProjectMember by blast
  then show ?thesis using assms(1) by (auto simp: GetProjectMembers_def res_inv healthy_def Let_def)
qed

section \<open>A settlement can be finalized\<close>

lemma demo_manager_passes:
  assumes "st_mspid ctx = Inr m" "demoUserRole u m = role" "role \<noteq> []" "project_ok p"
    and "get_kv (st_ledger ctx) (userKey (TrimSpace u)) = None" "healthy ctx"
  shows "requireProjectManager ctx p u role = Inr ()"
proof -
  have r: "ReadBusinessUser ctx u = Inl (''business user '' @ TrimSpace u @ '' does not exist; please register first'')"
    using assms(5,6) by (simp add: ReadBusinessUser_def Let_def GetState_def healthy_def)
  have "prj_OrganizationID p \<noteq> []" using assms(4) by (simp add: project_ok_def)
  with assms(1-3) r show ?thesis
    by (simp add: requireProjectManager_def requireActiveBusinessUser_def callerMSPID_def)
qed

lemma finalize_succeeds:
  assumes "healthy ctx" "typed (st_ledger ctx)" "st_mspid ctx = Inr ''Org2MSP''"
    and "stored (st_ledger ctx) dec_Project (projectKey i) p" "TrimSpace i = i"
    and "prj_Status p = ''FINANCIAL_SETTLEMENT''" "prj_ReservedCents p = 0"
    and "get_kv (st_ledger ctx) (userKey ''finance-admin'') = None"
    and "\<And>j r. stored (st_ledger ctx) dec_Reimbursement (reimbursementKey j) r \<Longrightarrow> rmb_ProjectID r = i \<Longrightarrow>
      rmb_Status r \<noteq> ''PENDING_REVIEW'' \<and> rmb_Status r \<noteq> ''REVISION_REQUIRED''"
  shows "\<exists>ws. FinalizeProjectSettlement ctx i ''finance-admin'' = Inr ws"
proof -
  have rp: "ReadProject ctx i = Inr p"
    using assms(1,4,5) by (simp add: read_inv healthy_def)
  have p: "project_ok p" "prj_ID p = i"
    using typed_ReadProject [OF rp assms(2)] assms(5) by auto
  have fa: "TrimSpace ''finance-admin'' = ''finance-admin''" by code_simp
  have m: "requireProjectManager ctx p ''finance-admin'' ''FINANCE_ADMIN'' = Inr ()"
    by (rule demo_manager_passes [where m = "''Org2MSP''"])
      (use assms(1,3,8) p(1) in \<open>simp_all add: fa demoUserRole_def demo_accounts_def\<close>)
  obtain rs where rs: "GetAllReimbursements ctx = Inr rs"
      "set rs = {x. \<exists>i. stored (st_ledger ctx) dec_Reimbursement (reimbursementKey i) x}"
    using GetAllReimbursements_complete [OF assms(1,2)] by blast
  have aw: "awaiting_reimbursement i rs = Inr ()"
    using rs(2) assms(9) by (auto simp: awaiting_reimbursement_Inr)
  obtain t where t: "transactionTime ctx = Inr t" using assms(1) by (auto simp: healthy_def)
  have put: "PutState ctx k b = Inr [Put k b]" for k b
    using assms(1) by (simp add: PutState_def healthy_def)
  show ?thesis
    using rp m rs(1) aw t put assms(6,7) p(2)
    by (simp add: FinalizeProjectSettlement_def fa Let_def putJSON_def createProjectEvent_def
      createProjectEventWithReference_def thenW_def)
qed

end
