(* ===== verification/Branches.thy ===== *)
theory Branches
  imports Scenario
begin

text \<open>
  Two more branches of the demonstration run: the correction of the voided invoice, and an invoice
  handed over to the built-in holder of the other organization.
\<close>

lemma branch_trim [play]:
  "TrimSpace ''i2'' = ''i2''" "TrimSpace ''holder-org2'' = ''holder-org2''" "TrimSpace ''ACCEPT'' = ''ACCEPT''"
  "ToUpper ''ACCEPT'' = ''ACCEPT''"
  by code_simp+

section \<open>Correcting the voided invoice\<close>

definition v10 :: ledger where
  "v10 = submit (demo_ctx ''Org1MSP'' ''v10'' v9) (TxCreateInvoice ''i2'' ''n'' ''2024-01-02'' ''a'' ''b'' ''Org2MSP''
     ''100'' ''5'' ''CNY'' demo_hash ''p'' ''u'' ''Org1MSP'' [] ''i'')"

definition demo_correction :: Invoice where
  "demo_correction = new_invoice ''i2'' ''n'' ''2024-01-02'' ''a'' ''b'' ''Org2MSP'' 100 5 105 demo_hash ''p'' ''i'' ''u''
     ''Org1MSP'' ''o'' epoch"

lemma demo_voided_fields [play]:
  "inv_Status demo_voided = ''VOIDED''" "inv_ID demo_voided = ''i''" "inv_InvoiceNo demo_voided = ''n''"
  "inv_IssuerMSPID demo_voided = ''Org1MSP''" "inv_IssuerOrganizationID demo_voided = ''o''"
  by (simp_all add: demo_voided_def play)

lemma demo_correction_fields [play]:
  "inv_Status demo_correction = ''ISSUED''" "inv_ID demo_correction = ''i2''" "inv_InvoiceNo demo_correction = ''n''"
  "inv_CorrectionOf demo_correction = ''i''" "inv_CorrectionOf demo_voided = []"
  by (simp_all add: demo_correction_def demo_voided_def demo_invoice_def new_invoice_def)

lemma scan_v9 [demo_states]: "scan invoicePrefix v9 = [(invoiceKey ''i'', Doc (enc_Invoice demo_voided))]"
  by (simp add: v9 play_scan demo_states del: put_kv.simps)

lemma v10: "v10 = put_kv (flowKey ''i2'' ''v10'') (demo_flw ''v10'' ''i2'' ''CORRECTION'' ''a'' ''u'' ''Org1MSP'')
     (put_kv (invoiceNumberKey ''n'') (Raw ''i2'')
     (put_kv (invoiceKey ''i2'') (Doc (enc_Invoice demo_correction)) v9))"
  by (simp add: v10_def demo_states play play_all CreateInvoice_def check_linked_project_def check_correction_def
    checkedAddMoney_def InvoiceNumberExists_def InvoiceNumberExistsExcept_def ensureInvoiceCanBeVoided_def
    demo_correction_def new_invoice_fold cong: play_cong del: put_kv.simps)

lemma at_v10 [demo_states]:
  "get_kv v10 k = (if k = flowKey ''i2'' ''v10'' then Some (demo_flw ''v10'' ''i2'' ''CORRECTION'' ''a'' ''u'' ''Org1MSP'')
     else if k = invoiceNumberKey ''n'' then Some (Raw ''i2'')
     else if k = invoiceKey ''i2'' then Some (Doc (enc_Invoice demo_correction)) else get_kv v9 k)"
  by (simp add: v10 get_kv_simps del: put_kv.simps)

section \<open>Handing the invoice over\<close>

definition a9 :: ledger where
  "a9 = submit (demo_ctx ''Org1MSP'' ''a9'' l8) (TxRequestInvoiceTransfer ''i'' ''holder-org2'' ''Org2MSP'' ''m'' ''u'')"

definition demo_transfer :: InvoiceTransfer where
  "demo_transfer = zero_InvoiceTransfer\<lparr>trf_InvoiceID := ''i'', trf_From := ''u'', trf_To := ''holder-org2'',
     trf_ToMSPID := ''Org2MSP'', trf_Note := ''m'', trf_Status := ''PENDING'', trf_CreatedAt := epoch,
     trf_UpdatedAt := epoch\<rparr>"

lemma demo_transfer_fields [play]:
  "trf_Status demo_transfer = ''PENDING''" "trf_From demo_transfer = ''u''" "trf_To demo_transfer = ''holder-org2''"
  "trf_ToMSPID demo_transfer = ''Org2MSP''" "inv_HolderMSPID demo_invoice = ''Org1MSP''"
  by (simp_all add: demo_transfer_def demo_invoice_def new_invoice_def)

lemma a9: "a9 = put_kv (flowKey ''i'' ''a9'') (demo_flw ''a9'' ''i'' ''TRANSFER_REQUEST'' ''u'' ''holder-org2'' ''Org1MSP'')
     (put_kv (transferRequestKey ''i'') (Doc (enc_InvoiceTransfer demo_transfer)) l8)"
  by (simp add: a9_def demo_states play play_all RequestInvoiceTransfer_def ReadInvoiceTransfer_def isMissingTransfer_def
    demo_transfer_def cong: play_cong del: put_kv.simps)

lemma at_a9 [demo_states]:
  "get_kv a9 k = (if k = flowKey ''i'' ''a9'' then Some (demo_flw ''a9'' ''i'' ''TRANSFER_REQUEST'' ''u'' ''holder-org2'' ''Org1MSP'')
     else if k = transferRequestKey ''i'' then Some (Doc (enc_InvoiceTransfer demo_transfer)) else get_kv l8 k)"
  by (simp add: a9 get_kv_simps del: put_kv.simps)

lemma a9_accepted:
  "\<exists>ws. RespondInvoiceTransfer (demo_ctx ''Org2MSP'' ''a10'' a9) ''i'' ''ACCEPT'' ''ok'' ''holder-org2'' = Inr ws"
  by (simp add: demo_states play play_all RespondInvoiceTransfer_def ReadInvoiceTransfer_def
    cong: play_cong del: put_kv.simps)

lemma branches_reachable [demo_states]: "reachable v10" "reachable a9"
  unfolding v10_def a9_def by (intro reachable_submit demo_reachable)+

end
