(* ===== verification/Decode.thy ===== *)
theory Decode
  imports Ledger
begin

text \<open>
  \<open>json.Unmarshal\<close> into the structs of the backend. Unlike the contract, the backend decodes documents
  it did not write (request bodies, the account file), so the rules that do not show on the ledger
  matter here: a member fits a field whatever its case, a later member overrides an earlier one, and
  \<open>null\<close> leaves the field as it was. A body that is no JSON document is a \<open>Raw\<close> blob.
\<close>

fun read_str :: "(string \<times> json) list \<Rightarrow> string \<Rightarrow> string \<Rightarrow> string res" where
  "read_str [] name v = Inr v"
| "read_str ((k, j) # ms) name v =
     (if EqualFold k name then
        (case j of JStr s \<Rightarrow> read_str ms name s | JNull \<Rightarrow> read_str ms name v
         | _ \<Rightarrow> Inl (type_error j name ''string''))
      else read_str ms name v)"

fun read_int64 :: "(string \<times> json) list \<Rightarrow> string \<Rightarrow> int64 \<Rightarrow> int64 res" where
  "read_int64 [] name v = Inr v"
| "read_int64 ((k, j) # ms) name v =
     (if EqualFold k name then
        (case j of
           JInt i \<Rightarrow> if min_int64 \<le> i \<and> i \<le> max_int64 then read_int64 ms name (word_of_int i)
                     else Inl (type_error j name ''int64'')
         | JNull \<Rightarrow> read_int64 ms name v
         | _ \<Rightarrow> Inl (type_error j name ''int64''))
      else read_int64 ms name v)"

text \<open>The members a struct is decoded from; \<open>null\<close> has none.\<close>

definition object :: "string \<Rightarrow> json \<Rightarrow> (string \<times> json) list res" where
  "object ty j = (case j of JObj ms \<Rightarrow> Inr ms | JNull \<Rightarrow> Inr []
     | _ \<Rightarrow> Inl (''json: cannot unmarshal '' @ kind_name j @ '' into Go value of type '' @ ty))"

lemma object_JObj [simp]: "object ty (JObj ms) = Inr ms"
  by (simp add: object_def)

text \<open>Members whose names differ beyond case do not interfere.\<close>

definition plain_names :: "string list" where
  "plain_names = [''displayName'', ''mspId'', ''organizationId'', ''role'', ''username'', ''passwordHash'', ''salt'',
     ''password'', ''amountCents'', ''buyer'', ''buyerMspId'', ''currency'', ''id'', ''invoiceNo'', ''issueDate'',
     ''issuer'', ''projectId'', ''taxCents'', ''invoiceId'', ''evidence'']"

lemma fold_case_plain: "CHR 0xC5 \<notin> set s \<Longrightarrow> CHR 0xE2 \<notin> set s \<Longrightarrow> fold_case s = map lower_byte s"
  by (induction s rule: fold_case.induct) auto

lemma ToLower_plain: "CHR 0xC4 \<notin> set s \<Longrightarrow> CHR 0xE2 \<notin> set s \<Longrightarrow> ToLower s = map lower_byte s"
  by (induction s rule: ToLower.induct) auto

lemma plain_names_bytes:
  "list_all (\<lambda>s. CHR 0xC5 \<notin> set s \<and> CHR 0xE2 \<notin> set s) plain_names"
  "distinct (map (map lower_byte) plain_names)"
  by code_simp+

lemma plain_names_fold:
  assumes "a \<in> set plain_names" "b \<in> set plain_names"
  shows "EqualFold a b \<longleftrightarrow> a = b"
proof -
  have "EqualFold a b \<longleftrightarrow> map lower_byte a = map lower_byte b"
    using plain_names_bytes(1) assms by (simp add: EqualFold_def fold_case_plain list_all_iff)
  also have "\<dots> \<longleftrightarrow> a = b"
    using plain_names_bytes(2) assms by (auto simp: distinct_map inj_on_def)
  finally show ?thesis .
qed

lemma plain_name [simp]:
  "''displayName'' \<in> set plain_names" "''mspId'' \<in> set plain_names" "''organizationId'' \<in> set plain_names"
  "''role'' \<in> set plain_names" "''username'' \<in> set plain_names" "''passwordHash'' \<in> set plain_names"
  "''salt'' \<in> set plain_names" "''password'' \<in> set plain_names" "''amountCents'' \<in> set plain_names"
  "''buyer'' \<in> set plain_names" "''buyerMspId'' \<in> set plain_names" "''currency'' \<in> set plain_names"
  "''id'' \<in> set plain_names" "''invoiceNo'' \<in> set plain_names" "''issueDate'' \<in> set plain_names"
  "''issuer'' \<in> set plain_names" "''projectId'' \<in> set plain_names" "''taxCents'' \<in> set plain_names"
  "''invoiceId'' \<in> set plain_names" "''evidence'' \<in> set plain_names"
  by (simp_all add: plain_names_def)

end
