(* ===== verification/Messages.thy ===== *)
theory Messages
  imports GoStrings
begin

text \<open>
  The Chinese texts of the backend (\<open>backend/auth/auth.go\<close>, \<open>backend/api/invoice.go\<close>,
  \<open>backend/ocr/service.go\<close>), as the UTF-8 bytes the program sends. Theory sources are ASCII, so each
  text is written in hexadecimal and named after what it says.
\<close>

definition hex_val :: "char \<Rightarrow> nat" where
  "hex_val c = (let n = of_char c in if n < 58 then n - 48 else n - 87)"

fun hx :: "string \<Rightarrow> string" where
  "hx (a # b # s) = char_of (16 * hex_val a + hex_val b) # hx s"
| "hx _ = []"

section \<open>The account service\<close>

definition n_issuer :: string where
  "n_issuer = hx ''4f72673120e5bc80e7a5a8e59198''"

definition n_holder :: string where
  "n_holder = hx ''4f72673220e8b7a8e7bb84e7bb87e6b581e8bdace59198''"

definition n_auditor :: string where
  "n_auditor = hx ''e5aea1e8aea1e69fa5e79c8be59198''"

definition n_member :: string where
  "n_member = hx ''e9a1b9e79baee7bb84e68890e59198''"

definition n_reviewer :: string where
  "n_reviewer = hx ''e9a1b9e79baee7aea1e79086e5aea1e6a0b8e59198''"

definition n_finance :: string where
  "n_finance = hx ''e8b4a2e58aa1e7aea1e79086e59198''"

definition n_orgadmin :: string where
  "n_orgadmin = hx ''e7bb84e7bb87e7aea1e79086e59198''"

definition n_orgadmin2 :: string where
  "n_orgadmin2 = hx ''4f72673220e7bb84e7bb87e7aea1e79086e59198''"

definition m_store_check :: string where
  "m_store_check = hx ''e6a380e69fa5e69cace59cb0e8b4a6e688b7e5ba93e5a4b1e8b4a5efbc88e4b8bae981bfe5858de8a686e79b96e68896e4b8a2e5a4b1e5b7b2e69c89e8b4a6e58fb7efbc8ce69c8de58aa1e69caae590afe58aa8efbc893a20''"

definition m_enter_account :: string where
  "m_enter_account = hx ''e8afb7e8be93e585a5e8b4a6e688b7e5928ce5af86e7a081''"

definition m_wrong_account :: string where
  "m_wrong_account = hx ''e8b4a6e688b7e68896e5af86e7a081e99499e8afaf''"

definition m_bad_msp :: string where
  "m_bad_msp = hx ''e6b3a8e5868ce4bfa1e681afe4b8ade79a842046616272696320e7bb84e7bb87e4b88de59088e6b395''"

definition m_account_pre :: string where
  "m_account_pre = hx ''e799bbe5bd95e8b4a6e58fb720''"

definition m_account_taken :: string where
  "m_account_taken = hx ''20e5b7b2e5ad98e59ca8''"

definition m_save_failed :: string where
  "m_save_failed = hx ''e4bf9de5ad98e69cace59cb0e799bbe5bd95e8b4a6e688b7e5a4b1e8b4a53a20''"

definition m_bad_username :: string where
  "m_bad_username = hx ''e799bbe5bd95e8b4a6e58fb7e9a1bbe4b8ba20332d333220e4bd8de5ad97e6af8de38081e695b0e5ad97e38081e4b88be58892e7babfe68896e8bf9ee5ad97e7aca6''"

definition m_short_password :: string where
  "m_short_password = hx ''e5af86e7a081e887b3e5b091e99c80e8a681203620e4bd8d''"

definition m_bad_registration :: string where
  "m_bad_registration = hx ''e6b3a8e5868ce4bfa1e681afe4b88de5ae8ce695b4e68896e4b88de59088e6b395''"

definition m_not_logged_in :: string where
  "m_not_logged_in = hx ''e69caae799bbe5bd95''"

definition m_login_first :: string where
  "m_login_first = hx ''e8afb7e58588e799bbe5bd95''"

definition m_role_denied :: string where
  "m_role_denied = hx ''e5bd93e5898de8a792e889b2e6b2a1e69c89e6ada4e6938de4bd9ce69d83e99990''"

definition m_session_failed :: string where
  "m_session_failed = hx ''e5889be5bbbae799bbe5bd95e4bc9ae8af9de5a4b1e8b4a5''"

definition m_no_backup :: string where
  "m_no_backup = hx ''e4b8bbe69687e4bbb6e68d9fe59d8fe4b894e5a487e4bbbde4b88de58fafe794a83a20''"

definition m_both_broken :: string where
  "m_both_broken = hx ''e4b8bbe69687e4bbb6e4b88ee5a487e4bbbde59d87e697a0e6b395e8a7a3e69e903a20e4b8bbe69687e4bbb63d''"

definition m_both_broken2 :: string where
  "m_both_broken2 = hx ''efbc8ce5a487e4bbbd3d''"

definition m_store_null :: string where
  "m_store_null = hx ''e8b4a6e688b7e69687e4bbb6e5bf85e9a1bbe698af204a534f4e20e695b0e7bb84efbc8ce4b88de883bde4b8ba206e756c6c''"

definition m_store_invalid :: string where
  "m_store_invalid = hx ''e8b4a6e688b7e69687e4bbb6e58c85e590abe697a0e69588e68896e9878de5a48de8b4a6e688b7''"

section \<open>The handlers\<close>

definition m_ocr_off :: string where
  "m_ocr_off = hx ''4f435220e69c8de58aa1e5b09ae69caae9858de7bdaee38082e8afb7e88194e7b3bbe7aea1e79086e59198e8aebee7bdaee998bfe9878ce4ba91204163636573734b657920e5908ee9878de8af95e38082''"

definition m_ocr_file :: string where
  "m_ocr_file = hx ''e8afb7e98089e68ba9e4b880e5bca0e4b88de8b685e8bf872031304d4220e79a84e58f91e7a5a8e59bbee78987e688962050444620e69687e4bbb6e38082''"

definition m_org_inactive :: string where
  "m_org_inactive = hx ''e68980e98089e4b89ae58aa1e7bb84e7bb87e5b7b2e5819ce794a8efbc8ce8afb7e98089e68ba9e585b6e4bb96e7bb84e7bb87e38082''"

definition m_total_range :: string where
  "m_total_range = hx ''e58f91e7a5a8e98791e9a29de4b88ee7a88ee9a29de4b98be5928ce5bf85e9a1bbe5a4a7e4ba8e2030efbc8ce4b894e4b88de883bde8b685e8bf87e7b3bbe7bb9fe4b88ae99990e38082''"

definition m_invoice_created :: string where
  "m_invoice_created = hx ''e58f91e7a5a8e5b7b2e5ae8ce68890e993bee4b88ae5ad98e8af81''"

definition m_correction_range :: string where
  "m_correction_range = hx ''e69bb4e6ada3e5908ee79a84e98791e9a29de4b88ee7a88ee9a29de4b98be5928ce5bf85e9a1bbe5a4a7e4ba8e2030efbc8ce4b894e4b88de883bde8b685e8bf87e7b3bbe7bb9fe4b88ae99990e38082''"

definition m_correction_created :: string where
  "m_correction_created = hx ''e5b7b2e5889be5bbbae69bb4e6ada3e78988e69cace5b9b6e4bf9de79599e58e9fe4bd9ce5ba9fe5ad98e8af81''"

definition m_linked :: string where
  "m_linked = hx ''e58f91e7a5a8e5b7b2e585b3e88194e9a1b9e79bae''"

definition m_unlinked :: string where
  "m_unlinked = hx ''e5b7b2e58f96e6b688e58f91e7a5a8e4b88ee9a1b9e79baee79a84e585b3e88194''"

definition m_org_foreign :: string where
  "m_org_foreign = hx ''e7bb84e7bb87e7aea1e79086e59198e58faae883bde59ca8e887aae5b7b1e68ea5e585a5e79a842046616272696320e88a82e782b9e799bbe8aeb0e4b89ae58aa1e7bb84e7bb87e38082''"

definition m_org_created :: string where
  "m_org_created = hx ''e4b89ae58aa1e7bb84e7bb87e5b7b2e799bbe8aeb0e5b9b6e58699e585a5e993bee4b88a''"

definition m_project_created :: string where
  "m_project_created = hx ''e9a1b9e79baee88d89e7a8bfe5b7b2e58699e585a5e993bee4b88a''"

definition m_project_updated :: string where
  "m_project_updated = hx ''e9a1b9e79baee88d89e7a8bfe5b7b2e69bb4e696b0''"

definition m_project_submitted :: string where
  "m_project_submitted = hx ''e9a1b9e79baee794b3e8afb7e5b7b2e68f90e4baa4e5aea1e6a0b8''"

definition m_project_reviewed :: string where
  "m_project_reviewed = hx ''e9a1b9e79baee5aea1e6a0b8e7bb93e69e9ce5b7b2e4b88ae993be''"

definition m_closure_requested :: string where
  "m_closure_requested = hx ''e7bb93e9a1b9e794b3e8afb7e4b88ee69d90e69699e69198e8a681e5b7b2e68f90e4baa4e5aea1e6a0b8''"

definition m_closure_reviewed :: string where
  "m_closure_reviewed = hx ''e7bb93e9a1b9e5aea1e6a0b8e7bb93e69e9ce5b7b2e4b88ae993be''"

definition m_finalized :: string where
  "m_finalized = hx ''e9a1b9e79baee8b4a2e58aa1e7bb93e7ae97e5ae8ce68890efbc8ce589a9e4bd99e9a29de5baa6e5b7b2e59b9ee694b6e5b9b6e5bd92e6a1a3''"

definition m_hidden_project_invoices :: string where
  "m_hidden_project_invoices = hx ''e697a0e69d83e69fa5e79c8be8afa5e9a1b9e79baee58f91e7a5a8''"

definition m_hidden_project_events :: string where
  "m_hidden_project_events = hx ''e697a0e69d83e69fa5e79c8be8afa5e9a1b9e79baee79a84e993bee4b88ae4ba8be4bbb6''"

definition m_hidden_project_members :: string where
  "m_hidden_project_members = hx ''e697a0e69d83e69fa5e79c8be8afa5e9a1b9e79baee68890e59198e5908de58d95''"

definition m_member_added :: string where
  "m_member_added = hx ''e9a1b9e79baee68890e59198e5b7b2e6b7bbe58aa0''"

definition m_claim_created :: string where
  "m_claim_created = hx ''e68aa5e99480e58d95e5b7b2e68f90e4baa4e5aea1e6a0b8''"

definition m_claim_resubmitted :: string where
  "m_claim_resubmitted = hx ''e68aa5e99480e58d95e5b7b2e9878de696b0e68f90e4baa4e5aea1e6a0b8''"

definition m_claim_withdrawn :: string where
  "m_claim_withdrawn = hx ''e68aa5e99480e58d95e5b7b2e692a4e59b9eefbc9be5a682e69bbee586bbe7bb93e9a29de5baa6efbc8ce5b7b2e5908ce6ada5e9878ae694bee38082''"

definition m_claim_reviewed :: string where
  "m_claim_reviewed = hx ''e68aa5e99480e5aea1e6a0b8e7bb93e69e9ce5b7b2e4b88ae993be''"

definition m_claim_paid :: string where
  "m_claim_paid = hx ''e68aa5e99480e6acbee5b7b2e694afe4bb98e5b9b6e5ae8ce68890e8b584e98791e6b1a0e689a3e5878f''"

definition m_not_holder :: string where
  "m_not_holder = hx ''e58faae69c89e5bd93e5898de8b4a3e4bbbbe4babae58fafe4bba5e58f91e8b5b7e8b7a8e7bb84e7bb87e6b581e8bdac''"

definition m_transfer_requested :: string where
  "m_transfer_requested = hx ''e4baa4e68ea5e794b3e8afb7e5b7b2e68f90e4baa4efbc8ce7ad89e5be85e68ea5e694b6e696b9e7a1aee8aea4''"

definition m_transfer_answered :: string where
  "m_transfer_answered = hx ''e4baa4e68ea5e59b9ee5ba94e5b7b2e58699e585a5e993bee4b88a''"

definition m_transfer_cancelled :: string where
  "m_transfer_cancelled = hx ''e4baa4e68ea5e794b3e8afb7e5b7b2e692a4e59b9e''"

definition m_voided :: string where
  "m_voided = hx ''e58f91e7a5a8e5b7b2e4bd9ce5ba9fefbc8ce58e9fe5a78be993bee4b88ae8aeb0e5bd95e58f8ae58e86e58fb2e5b7b2e4bf9de79599''"

definition m_void_requested :: string where
  "m_void_requested = hx ''e4bd9ce5ba9fe794b3e8afb7e5b7b2e68f90e4baa4efbc8ce7ad89e5be85e5bc80e7a5a8e59198e5aea1e6a0b8''"

definition m_void_reviewed :: string where
  "m_void_reviewed = hx ''e4bd9ce5ba9fe794b3e8afb7e5b7b2e5ae8ce68890e5aea1e6a0b8''"

definition m_verify_form :: string where
  "m_verify_form = hx ''e8afb7e5a1abe58699e69c89e69588e79a84e7a5a8e99da2e58685e5aeb9efbc9ae697a5e69c9fe38081e98791e9a29de5928ce7a88ee9a29de5bf85e9a1bbe4b88ee58f91e7a5a8e4b880e887b4e38082''"

definition m_hidden_invoice :: string where
  "m_hidden_invoice = hx ''e697a0e69d83e69fa5e79c8be8afa5e4b89ae58aa1e7bb84e7bb87e79a84e58f91e7a5a8''"

definition m_bad_request :: string where
  "m_bad_request = hx ''e68f90e4baa4e4bfa1e681afe4b88de5ae8ce695b4e68896e6a0bce5bc8fe4b88de6ada3e7a1aeefbc8ce8afb7e6a380e69fa5e5bf85e5a1abe9a1b9e38081e98791e9a29de38081e697a5e69c9fe5928ce8be93e585a5e995bfe5baa6e38082''"

definition m_server_error :: string where
  "m_server_error = hx ''e7b3bbe7bb9fe69a82e697b6e697a0e6b395e5a484e79086e8afa5e8afb7e6b182efbc8ce8afb7e588b7e696b0e9a1b5e99da2e5908ee9878de8af95efbc9be88ba5e997aee9a298e68c81e7bbadefbc8ce8afb7e6a380e69fa5e5908ee7abafe69c8de58aa1e697a5e5bf97e38082''"

definition m_not_done :: string where
  "m_not_done = hx ''e6938de4bd9ce69caae5ae8ce68890efbc9a''"

definition m_unavailable :: string where
  "m_unavailable = hx ''e58cbae59d97e993bee7bd91e7bb9ce69a82e4b88de58fafe8bf9ee68ea5efbc8ce8afb7e7a1aee8aea420466162726963205065657220e5b7b2e590afe58aa8e5908ee9878de8af95e38082''"

definition m_not_submitted :: string where
  "m_not_submitted = hx ''e58cbae59d97e993bee4baa4e69893e69caae68f90e4baa4efbc8ce8afb7e7a88de5908ee9878de8af95efbc9be88ba5e68c81e7bbade5a4b1e8b4a5e8afb7e6a380e69fa5e5908ee7abafe697a5e5bf97e38082''"

definition f_number_taken :: string where
  "f_number_taken = hx ''e8afa5e58f91e7a5a8e58fb7e7a081e5b7b2e7bb8fe5ad98e8af81efbc8ce4b88de883bde9878de5a48de5bd95e585a5e38082''"

definition f_no_invoice :: string where
  "f_no_invoice = hx ''e68980e98089e58f91e7a5a8e4b88de5ad98e59ca8efbc8ce8afb7e4bb8ee58f91e7a5a8e58897e8a1a8e4b8ade9878de696b0e98089e68ba9e38082''"

definition f_no_project :: string where
  "f_no_project = hx ''e68980e98089e9a1b9e79baee4b88de5ad98e59ca8efbc8ce8afb7e4bb8ee9a1b9e79baee58897e8a1a8e4b8ade9878de696b0e98089e68ba9e38082''"

definition f_already_claimed :: string where
  "f_already_claimed = hx ''e8bf99e5bca0e58f91e7a5a8e5b7b2e7bb8fe585b3e88194e8bf87e68aa5e99480e58d95efbc8ce4b88de883bde9878de5a48de68aa5e99480e38082''"

definition f_no_funds :: string where
  "f_no_funds = hx ''e9a1b9e79baee8b584e98791e6b1a0e4bd99e9a29de4b88de8b6b3efbc8ce697a0e6b395e5aea1e6a0b8e9809ae8bf87e8bf99e7ac94e68aa5e99480e38082''"

definition f_not_linked :: string where
  "f_not_linked = hx ''e68980e98089e58f91e7a5a8e6b2a1e69c89e585b3e88194e5bd93e5898de9a1b9e79baeefbc8ce8afb7e98089e68ba9e8afa5e9a1b9e79baee4b88be79a84e58f91e7a5a8e38082''"

definition f_voided :: string where
  "f_voided = hx ''e8afa5e58f91e7a5a8e5b7b2e4bd9ce5ba9fefbc8ce4b88de883bde794a8e4ba8ee68aa5e99480e38082''"

definition f_not_pending :: string where
  "f_not_pending = hx ''e8afa5e8aeb0e5bd95e5bd93e5898de4b88de5a484e4ba8ee5be85e5aea1e6a0b8e78ab6e68081efbc8ce58fafe883bde5b7b2e8a2abe585b6e4bb96e4babae5a484e79086e38082''"

definition f_wrong_phase :: string where
  "f_wrong_phase = hx ''e5bd93e5898de9a1b9e79baee78ab6e68081e4b88de58581e8aeb8e6ada4e6938de4bd9cefbc8ce8afb7e588b7e696b0e5908ee7a1aee8aea4e9a1b9e79baee78ab6e68081e38082''"

definition m_fabric_down :: string where
  "m_fabric_down = hx ''46616272696320e7bd91e7bb9ce68896e993bee7a081e5bd93e5898de4b88de58fafe8aebfe997ae''"

section \<open>The OCR service\<close>

definition o_not_configured :: string where
  "o_not_configured = hx ''e998bfe9878ce4ba91204f435220e5b09ae69caae9858de7bdaeefbc9ae8afb7e8aebee7bdae20414c4959554e5f4143434553535f4b45595f494420e5928c20414c4959554e5f4143434553535f4b45595f534543524554''"

definition o_empty :: string where
  "o_empty = hx ''e4b88ae4bca0e69687e4bbb6e4b8bae7a9ba''"

definition o_too_big :: string where
  "o_too_big = hx ''e69687e4bbb6e4b88de883bde8b685e8bf872031304d42''"

definition o_bad_type :: string where
  "o_bad_type = hx ''e4bb85e694afe68c8120504e47e380814a5047e380814a504547e38081424d50e38081474946e3808154494646e380815765625020e688962050444620e58f91e7a5a8e69687e4bbb6''"

definition o_init_failed :: string where
  "o_init_failed = hx ''e5889de5a78be58c96e998bfe9878ce4ba91204f435220e5aea2e688b7e7abafe5a4b1e8b4a53a20''"

definition o_call_failed :: string where
  "o_call_failed = hx ''e998bfe9878ce4ba91204f435220e8b083e794a8e5a4b1e8b4a53a20''"

definition o_no_result :: string where
  "o_no_result = hx ''e998bfe9878ce4ba91204f435220e69caae8bf94e59b9ee8af86e588abe7bb93e69e9c''"

definition o_rejected :: string where
  "o_rejected = hx ''e998bfe9878ce4ba91204f435220e8af86e588abe5a4b1e8b4a53a20''"

definition o_no_fields :: string where
  "o_no_fields = hx ''e998bfe9878ce4ba91e7bb9fe4b880e8af86e588abe69caae8bf94e59b9ee58f91e7a5a8e7bb93e69e84e58c96e5ad97e6aeb5efbc8ce8afb7e7a1aee8aea4e4b88ae4bca0e79a84e698afe6b885e699b0e79a84e5a29ee580bce7a88ee58f91e7a5a8''"

definition o_unparsed :: string where
  "o_unparsed = hx ''e697a0e6b395e8a7a3e69e90e998bfe9878ce4ba91e7bb9fe4b880e8af86e588abe79a84e58f91e7a5a8e5ad97e6aeb5''"

definition o_ai_down :: string where
  "o_ai_down = hx ''414920e7baa0e5818fe69a82e697b6e4b88de58fafe794a8efbc8ce5b7b2e4bf9de79599e998bfe9878ce4ba91204f435220e58e9fe5a78be8af86e588abe7bb93e69e9ce38082''"

definition o_ai_http :: string where
  "o_ai_http = hx ''414920e69c8de58aa1e8bf94e59b9e204854545020''"

definition o_ai_empty :: string where
  "o_ai_empty = hx ''414920e69c8de58aa1e69caae8bf94e59b9ee69c89e69588e7baa0e5818fe7bb93e69e9c''"

definition o_ai_json :: string where
  "o_ai_json = hx ''414920e7baa0e5818fe7bb93e69e9ce4b88de698afe69c89e69588204a534f4e''"

definition o_ai_amount :: string where
  "o_ai_amount = hx ''414920e8bf94e59b9ee4ba86e697a0e69588e98791e9a29d''"

definition w_number :: string where
  "w_number = hx ''e69caae8af86e588abe588b0e58f91e7a5a8e58fb7e7a081efbc8ce8afb7e4babae5b7a5e5a1abe58699e38082''"

definition w_date :: string where
  "w_date = hx ''e69caae8af86e588abe588b0e69c89e69588e5bc80e7a5a8e697a5e69c9fefbc8ce8afb7e4babae5b7a5e7a1aee8aea4e38082''"

definition w_issuer :: string where
  "w_issuer = hx ''e69caae8af86e588abe588b0e99480e594aee696b9e5908de7a7b0efbc8ce8afb7e4babae5b7a5e7a1aee8aea4e38082''"

definition w_sum :: string where
  "w_sum = hx ''e98791e9a29de38081e7a88ee9a29de4b88ee4bbb7e7a88ee59088e8aea1e4b88de4b880e887b4efbc8ce8afb7e6a0b8e5afb9e58e9fe5a78be58f91e7a5a8e38082''"

definition w_amount :: string where
  "w_amount = hx ''e69caae8af86e588abe588b0e69c89e69588e98791e9a29defbc8ce8afb7e4babae5b7a5e5a1abe58699e38082''"

definition u_year :: string where
  "u_year = hx ''e5b9b4''"

definition u_month :: string where
  "u_month = hx ''e69c88''"

definition u_day :: string where
  "u_day = hx ''e697a5''"

end
