(* ===== verification/Sha256.thy ===== *)
theory Sha256
  imports GoStrings
begin

text \<open>
  Three encoders of Go's standard library that the backend calls: \<open>sha256.Sum256\<close> (FIPS 180-4, the
  single-call form over a byte string), \<open>hex.EncodeToString\<close> and \<open>base64.RawURLEncoding\<close>. A digest in
  hexadecimal is what the program stores as a content hash and as a password hash.
\<close>

section \<open>The compression function\<close>

text \<open>The constants of the standard, in decimal.\<close>

definition sha_k :: "32 word list" where
  "sha_k =
    [1116352408, 1899447441, 3049323471, 3921009573, 961987163, 1508970993, 2453635748,
     2870763221, 3624381080, 310598401, 607225278, 1426881987, 1925078388, 2162078206,
     2614888103, 3248222580, 3835390401, 4022224774, 264347078, 604807628, 770255983, 1249150122,
     1555081692, 1996064986, 2554220882, 2821834349, 2952996808, 3210313671, 3336571891,
     3584528711, 113926993, 338241895, 666307205, 773529912, 1294757372, 1396182291, 1695183700,
     1986661051, 2177026350, 2456956037, 2730485921, 2820302411, 3259730800, 3345764771,
     3516065817, 3600352804, 4094571909, 275423344, 430227734, 506948616, 659060556, 883997877,
     958139571, 1322822218, 1537002063, 1747873779, 1955562222, 2024104815, 2227730452,
     2361852424, 2428436474, 2756734187, 3204031479, 3329325298]"

definition sha_init :: "32 word list" where
  "sha_init =
    [1779033703, 3144134277, 1013904242, 2773480762, 1359893119, 2600822924, 528734635,
     1541459225]"

unbundle bit_operations_syntax

definition small_sigma :: "nat \<Rightarrow> nat \<Rightarrow> nat \<Rightarrow> 32 word \<Rightarrow> 32 word" where
  "small_sigma a b c x = word_rotr a x XOR word_rotr b x XOR drop_bit c x"

definition big_sigma :: "nat \<Rightarrow> nat \<Rightarrow> nat \<Rightarrow> 32 word \<Rightarrow> 32 word" where
  "big_sigma a b c x = word_rotr a x XOR word_rotr b x XOR word_rotr c x"

text \<open>The message schedule, newest word first.\<close>

fun schedule :: "nat \<Rightarrow> 32 word list \<Rightarrow> 32 word list" where
  "schedule 0 ws = ws"
| "schedule (Suc n) ws =
     schedule n ((small_sigma 17 19 10 (ws ! 1) + ws ! 6 + small_sigma 7 18 3 (ws ! 14) + ws ! 15) # ws)"

definition sha_round :: "32 word \<times> 32 word \<Rightarrow> 32 word list \<Rightarrow> 32 word list" where
  "sha_round kw st = (case st of [a, b, c, d, e, f, g, h] \<Rightarrow>
     (let t1 = h + big_sigma 6 11 25 e + ((e AND f) XOR (NOT e AND g)) + fst kw + snd kw;
          t2 = big_sigma 2 13 22 a + ((a AND b) XOR (a AND c) XOR (b AND c))
      in [t1 + t2, a, b, c, d + t1, e, f, g]) | _ \<Rightarrow> st)"

definition sha_block :: "32 word list \<Rightarrow> 32 word list \<Rightarrow> 32 word list" where
  "sha_block block st = map2 (+) st (fold sha_round (zip sha_k (rev (schedule 48 (rev block)))) st)"

section \<open>Padding and output\<close>

definition byte_val :: "char \<Rightarrow> int" where
  "byte_val c = of_char c"

text \<open>The low \<open>k\<close> bytes of a number, most significant first.\<close>

fun be_bytes :: "nat \<Rightarrow> int \<Rightarrow> int list" where
  "be_bytes 0 n = []"
| "be_bytes (Suc k) n = be_bytes k (n div 256) @ [n mod 256]"

definition sha_pad :: "int list \<Rightarrow> int list" where
  "sha_pad bs = (let n = int (length bs)
     in bs @ [128] @ replicate (nat ((119 - n mod 64) mod 64)) 0 @ be_bytes 8 (8 * n))"

fun be_words :: "int list \<Rightarrow> 32 word list" where
  "be_words (a # b # c # d # bs) = word_of_int (((a * 256 + b) * 256 + c) * 256 + d) # be_words bs"
| "be_words _ = []"

text \<open>The padded message is a sequence of blocks of sixteen words.\<close>

fun sha_blocks :: "nat \<Rightarrow> 32 word list \<Rightarrow> 32 word list \<Rightarrow> 32 word list" where
  "sha_blocks 0 ws st = st"
| "sha_blocks (Suc n) ws st = (if ws = [] then st else sha_blocks n (drop 16 ws) (sha_block (take 16 ws) st))"

definition sha256 :: "string \<Rightarrow> int list" where
  "sha256 s = (let ws = be_words (sha_pad (map byte_val s))
     in concat (map (\<lambda>w. be_bytes 4 (uint w)) (sha_blocks (length ws) ws sha_init)))"

definition lower_hex :: "int \<Rightarrow> char" where
  "lower_hex d = char_of (if d < 10 then 48 + d else 87 + d)"

definition upper_hex :: "int \<Rightarrow> char" where
  "upper_hex d = char_of (if d < 10 then 48 + d else 55 + d)"

text \<open>\<open>hex.EncodeToString\<close>, and the verb \<open>%X\<close> on a byte slice.\<close>

definition hex_text :: "int list \<Rightarrow> string" where
  "hex_text bs = concat (map (\<lambda>b. [lower_hex (b div 16 mod 16), lower_hex (b mod 16)]) bs)"

definition hex_text_upper :: "int list \<Rightarrow> string" where
  "hex_text_upper bs = concat (map (\<lambda>b. [upper_hex (b div 16 mod 16), upper_hex (b mod 16)]) bs)"

definition sha256_hex :: "string \<Rightarrow> string" where
  "sha256_hex s = hex_text (sha256 s)"

text \<open>\<open>base64.RawURLEncoding.EncodeToString\<close>: no padding.\<close>

definition base64url :: "int \<Rightarrow> char" where
  "base64url d = (if d < 26 then char_of (65 + d) else if d < 52 then char_of (71 + d)
     else if d < 62 then char_of (d - 4) else if d = 62 then CHR ''-'' else CHR ''_'')"

fun base64_raw_url :: "int list \<Rightarrow> string" where
  "base64_raw_url (a # b # c # bs) =
     [base64url (a div 4), base64url (a mod 4 * 16 + b div 16), base64url (b mod 16 * 4 + c div 64),
      base64url (c mod 64)] @ base64_raw_url bs"
| "base64_raw_url [a, b] = [base64url (a div 4), base64url (a mod 4 * 16 + b div 16), base64url (b mod 16 * 4)]"
| "base64_raw_url [a] = [base64url (a div 4), base64url (a mod 4 * 16)]"
| "base64_raw_url [] = []"

section \<open>What a digest looks like\<close>

lemma length_sha_round: "length st = 8 \<Longrightarrow> length (sha_round kw st) = 8"
  by (auto simp: sha_round_def Let_def split: list.splits)

lemma length_rounds: "length st = 8 \<Longrightarrow> length (fold sha_round kws st) = 8"
  by (induction kws arbitrary: st) (auto simp: length_sha_round)

lemma length_sha_block: "length st = 8 \<Longrightarrow> length (sha_block b st) = 8"
  by (simp add: sha_block_def length_rounds)

lemma length_blocks: "length st = 8 \<Longrightarrow> length (sha_blocks n ws st) = 8"
  by (induction n ws st rule: sha_blocks.induct) (auto simp: length_sha_block)

lemma length_be_bytes [simp]: "length (be_bytes k n) = k"
  by (induction k n rule: be_bytes.induct) auto

lemma length_sha256: "length (sha256 s) = 32"
proof -
  have "length (concat (map (\<lambda>w. be_bytes 4 (uint w)) ws)) = 4 * length ws" for ws :: "32 word list"
    by (induction ws) auto
  moreover have "length (sha_blocks n ws sha_init) = 8" for n ws
    by (rule length_blocks) (simp add: sha_init_def)
  ultimately show ?thesis by (simp add: sha256_def Let_def)
qed

lemma length_hex_text [simp]: "length (hex_text bs) = 2 * length bs"
  by (induction bs) (auto simp: hex_text_def)

lemma lower_hex_digit:
  assumes "0 \<le> d" "d < 16"
  shows "is_hex_digit (lower_hex d) \<and> lower_byte (lower_hex d) = lower_hex d"
proof -
  have "d = 0 \<or> d = 1 \<or> d = 2 \<or> d = 3 \<or> d = 4 \<or> d = 5 \<or> d = 6 \<or> d = 7 \<or> d = 8 \<or> d = 9 \<or> d = 10
      \<or> d = 11 \<or> d = 12 \<or> d = 13 \<or> d = 14 \<or> d = 15"
    using assms by arith
  then show ?thesis by (elim disjE; hypsubst; code_simp)
qed

lemma set_hex_text: "c \<in> set (hex_text bs) \<Longrightarrow> \<exists>d \<ge> 0. d < 16 \<and> c = lower_hex d"
proof -
  assume "c \<in> set (hex_text bs)"
  then obtain x where "c = lower_hex (x div 16 mod 16) \<or> c = lower_hex (x mod 16)"
    by (auto simp: hex_text_def)
  moreover have "0 \<le> y mod 16 \<and> y mod 16 < 16" for y :: int by simp
  ultimately show ?thesis by blast
qed

lemma length_sha256_hex [simp]: "length (sha256_hex s) = 64"
  by (simp add: sha256_hex_def length_sha256)

lemma sha256_hex_decodable [simp]: "hex_decodable (sha256_hex s)"
  using set_hex_text lower_hex_digit
  by (fastforce simp: hex_decodable_def list_all_iff sha256_hex_def length_sha256)

lemma ToLower_sha256_hex [simp]: "ToLower (sha256_hex s) = sha256_hex s"
proof -
  have "ToLower (sha256_hex s) = map lower_byte (sha256_hex s)"
    using sha256_hex_decodable [of s] by (intro ToLower_hex) (simp add: hex_decodable_def list_all_iff)
  also have "\<dots> = sha256_hex s"
    using set_hex_text lower_hex_digit by (auto simp: sha256_hex_def intro!: map_idI)
  finally show ?thesis .
qed

lemma sha256_abc:
  "sha256_hex ''abc'' = ''ba7816bf8f01cfea414140de5dae2223b00361a396177a9cb410ff61f20015ad''"
  by code_simp

end
