(* ===== verification/Accounts.thy ===== *)
theory Accounts
  imports Decode Messages Sha256 "HOL-Library.AList"
begin

text \<open>
  The account service of the backend, \<open>backend/auth/auth.go\<close>: password hashes of the login accounts
  in memory and in one file with a backup, sessions in memory, and the handlers and middleware on
  top of them. What the service takes from the machine (environment, clock, random bytes, files) is
  the record \<open>host\<close>; every file operation can fail.
\<close>

section \<open>The machine\<close>

datatype os_error = NotExist | OsError string

definition os_text :: "os_error \<Rightarrow> string" where
  "os_text e = (case e of NotExist \<Rightarrow> ''file does not exist'' | OsError s \<Rightarrow> s)"

text \<open>
  The random source is a supply of byte strings, one per \<open>rand.Read\<close>; \<open>None\<close> is a read error. A
  failed \<open>WriteFile\<close> may leave anything behind. \<open>hst_order\<close> is the order in which \<open>range\<close> visits
  the keys of a map.
\<close>

record host =
  hst_getenv :: "string \<Rightarrow> string"
  hst_now :: int
  hst_zone :: int
  hst_rand :: "int list option list"
  hst_files :: "string \<Rightarrow> blob option"
  hst_read_err :: "string \<Rightarrow> string option"
  hst_write_err :: "string \<Rightarrow> (string \<times> blob option) option"
  hst_rename_err :: "string \<Rightarrow> string option"
  hst_mkdir_err :: "string \<Rightarrow> string option"
  hst_order :: "string list \<Rightarrow> string list"

definition ReadFile :: "host \<Rightarrow> string \<Rightarrow> os_error + blob" where
  "ReadFile h p = (case hst_read_err h p of Some e \<Rightarrow> Inl (OsError e)
     | None \<Rightarrow> (case hst_files h p of None \<Rightarrow> Inl NotExist | Some b \<Rightarrow> Inr b))"

datatype fs_op = WriteFile string blob | Rename string string

fun run_ops :: "fs_op list \<Rightarrow> host \<Rightarrow> string option \<times> host" where
  "run_ops [] h = (None, h)"
| "run_ops (WriteFile p b # ops) h =
     (case hst_write_err h p of
        Some (e, left) \<Rightarrow> (Some e, h\<lparr>hst_files := (hst_files h)(p := left)\<rparr>)
      | None \<Rightarrow> run_ops ops (h\<lparr>hst_files := (hst_files h)(p := Some b)\<rparr>))"
| "run_ops (Rename p q # ops) h =
     (case hst_rename_err h p of
        Some e \<Rightarrow> (Some e, h)
      | None \<Rightarrow> (if hst_files h p = None then (Some ''no such file or directory'', h)
          else run_ops ops (h\<lparr>hst_files := (hst_files h)(q := hst_files h p, p := None)\<rparr>)))"

text \<open>\<open>rand.Read\<close> of \<open>n\<close> bytes.\<close>

definition rand_read :: "nat \<Rightarrow> host \<Rightarrow> int list option \<times> host" where
  "rand_read n h = (case hst_rand h of [] \<Rightarrow> (None, h)
     | r # rs \<Rightarrow> (map_option (take n) r, h\<lparr>hst_rand := rs\<rparr>))"

definition envOr :: "host \<Rightarrow> string \<Rightarrow> string \<Rightarrow> string" where
  "envOr h name fallback = (let value = hst_getenv h name in if value \<noteq> [] then value else fallback)"

section \<open>Accounts and sessions\<close>

record Principal =
  prc_DisplayName :: string
  prc_MSPID :: string
  prc_OrganizationID :: string
  prc_Role :: string
  prc_Username :: string

record account =
  acc_Principal :: Principal
  acc_PasswordHash :: string
  acc_Salt :: string

record session =
  ses_principal :: Principal
  ses_expiresAt :: int

record Service =
  svc_accounts :: "(string \<times> account) list"
  svc_accountFile :: string
  svc_sessions :: "(string \<times> session) list"

definition enc_Principal :: "Principal \<Rightarrow> json" where
  "enc_Principal p = JObj
    [(''displayName'', JStr (prc_DisplayName p)),
     (''mspId'', JStr (prc_MSPID p)),
     (''organizationId'', JStr (prc_OrganizationID p)),
     (''role'', JStr (prc_Role p)),
     (''username'', JStr (prc_Username p))]"

text \<open>The embedded principal is flattened into the account's object.\<close>

definition enc_account :: "account \<Rightarrow> json" where
  "enc_account a = JObj
    [(''displayName'', JStr (prc_DisplayName (acc_Principal a))),
     (''mspId'', JStr (prc_MSPID (acc_Principal a))),
     (''organizationId'', JStr (prc_OrganizationID (acc_Principal a))),
     (''role'', JStr (prc_Role (acc_Principal a))),
     (''username'', JStr (prc_Username (acc_Principal a))),
     (''passwordHash'', JStr (acc_PasswordHash a)),
     (''salt'', JStr (acc_Salt a))]"

definition dec_account :: "json \<Rightarrow> account res" where
  "dec_account j = bindE (object ''auth.account'' j) (\<lambda>ms.
     bindE (read_str ms ''displayName'' []) (\<lambda>display.
     bindE (read_str ms ''mspId'' []) (\<lambda>msp.
     bindE (read_str ms ''organizationId'' []) (\<lambda>org.
     bindE (read_str ms ''role'' []) (\<lambda>role.
     bindE (read_str ms ''username'' []) (\<lambda>username.
     bindE (read_str ms ''passwordHash'' []) (\<lambda>hash.
     bindE (read_str ms ''salt'' []) (\<lambda>salt.
     Inr \<lparr>acc_Principal = \<lparr>prc_DisplayName = display, prc_MSPID = msp, prc_OrganizationID = org,
            prc_Role = role, prc_Username = username\<rparr>,
          acc_PasswordHash = hash, acc_Salt = salt\<rparr>))))))))"

lemma dec_enc_account [simp]: "dec_account (enc_account a) = Inr a"
  by (simp add: dec_account_def enc_account_def plain_names_fold)

section \<open>Passwords and tokens\<close>

definition passwordHash :: "string \<Rightarrow> string \<Rightarrow> string" where
  "passwordHash salt password = sha256_hex (salt @ '':'' @ password)"

definition passwordMatches :: "string \<Rightarrow> account \<Rightarrow> bool" where
  "passwordMatches password current \<longleftrightarrow> passwordHash (acc_Salt current) password = acc_PasswordHash current"

definition newToken :: "host \<Rightarrow> string option \<times> host" where
  "newToken h = (let (bytes, h) = rand_read 32 h in (map_option base64_raw_url bytes, h))"

definition newAccount :: "Principal \<Rightarrow> string \<Rightarrow> host \<Rightarrow> account option \<times> host" where
  "newAccount prin password h = (let (salt, h) = newToken h in
     (map_option (\<lambda>salt. \<lparr>acc_Principal = prin, acc_PasswordHash = passwordHash salt password,
        acc_Salt = salt\<rparr>) salt, h))"

definition validMSPID :: "string \<Rightarrow> bool" where
  "validMSPID mspID \<longleftrightarrow> mspID = ''Org1MSP'' \<or> mspID = ''Org2MSP''"

definition validRole :: "string \<Rightarrow> bool" where
  "validRole role \<longleftrightarrow> role = ''ISSUER'' \<or> role = ''HOLDER'' \<or> role = ''AUDITOR'' \<or> role = ''PROJECT_MEMBER''
     \<or> role = ''PROJECT_REVIEWER'' \<or> role = ''FINANCE_ADMIN'' \<or> role = ''ORG_ADMIN''"

text \<open>The pattern \<open>^[A-Za-z0-9_-]{3,32}$\<close>.\<close>

definition username_char :: "char \<Rightarrow> bool" where
  "username_char c = (let n = of_char c :: nat in 65 \<le> n \<and> n \<le> 90 \<or> 97 \<le> n \<and> n \<le> 122 \<or> 48 \<le> n \<and> n \<le> 57
     \<or> n = 95 \<or> n = 45)"

definition usernamePattern :: "string \<Rightarrow> bool" where
  "usernamePattern s \<longleftrightarrow> 3 \<le> length s \<and> length s \<le> 32 \<and> list_all username_char s"

section \<open>The account file\<close>

definition account_valid :: "account \<Rightarrow> bool" where
  "account_valid a \<longleftrightarrow>
     usernamePattern (prc_Username (acc_Principal a)) \<and> acc_PasswordHash a \<noteq> [] \<and> acc_Salt a \<noteq> []"

fun check_accounts :: "string list \<Rightarrow> account list \<Rightarrow> unit res" where
  "check_accounts seen [] = Inr ()"
| "check_accounts seen (a # as) =
     (if \<not> account_valid a \<or> prc_Username (acc_Principal a) \<in> set seen then Inl m_store_invalid
      else check_accounts (prc_Username (acc_Principal a) # seen) as)"

definition decodeAccounts :: "blob \<Rightarrow> account list res" where
  "decodeAccounts data =
     (case data of
        Raw _ \<Rightarrow> Inl ''invalid JSON document''
      | Doc JNull \<Rightarrow> Inl m_store_null
      | Doc (JArr js) \<Rightarrow> bindE (mapE dec_account js) (\<lambda>stored. bindE (check_accounts [] stored) (\<lambda>_. Inr stored))
      | Doc j \<Rightarrow> Inl (''json: cannot unmarshal '' @ kind_name j @ '' into Go value of type []auth.account''))"

definition put_account :: "account \<Rightarrow> (string \<times> account) list \<Rightarrow> (string \<times> account) list" where
  "put_account a = AList.update (prc_Username (acc_Principal a)) a"

definition read_accounts :: "string \<Rightarrow> host \<Rightarrow> account list res" where
  "read_accounts file h =
     bindE (case ReadFile h file of
         Inr data \<Rightarrow> Inr (Some data)
       | Inl (OsError e) \<Rightarrow> Inl e
       | Inl NotExist \<Rightarrow>
           (case ReadFile h (file @ ''.bak'') of
              Inr data \<Rightarrow> Inr (Some data)
            | Inl (OsError e) \<Rightarrow> Inl e
            | Inl NotExist \<Rightarrow> Inr None)) (\<lambda>data.
     case data of None \<Rightarrow> Inr []
     | Some data \<Rightarrow>
         (case decodeAccounts data of
            Inr stored \<Rightarrow> Inr stored
          | Inl err \<Rightarrow>
              (case ReadFile h (file @ ''.bak'') of
                 Inl e \<Rightarrow> Inl (m_no_backup @ err)
               | Inr backupData \<Rightarrow>
                   (case decodeAccounts backupData of
                      Inr stored \<Rightarrow> Inr stored
                    | Inl backupErr \<Rightarrow> Inl (m_both_broken @ err @ m_both_broken2 @ backupErr)))))"

definition loadAccounts :: "Service \<Rightarrow> host \<Rightarrow> Service res" where
  "loadAccounts s h = bindE (read_accounts (svc_accountFile s) h) (\<lambda>stored.
     Inr (s\<lparr>svc_accounts := fold put_account (filter account_valid stored) (svc_accounts s)\<rparr>))"

definition builtin_names :: "string list" where
  "builtin_names = [''issuer-org1'', ''holder-org2'', ''auditor'', ''project-member'', ''project-reviewer'',
     ''finance-admin'', ''org-admin'', ''org-admin-org2'']"

definition registered_accounts :: "Service \<Rightarrow> host \<Rightarrow> account list" where
  "registered_accounts s h =
     map (\<lambda>u. the (map_of (svc_accounts s) u))
       (filter (\<lambda>u. u \<notin> set builtin_names) (hst_order h (map fst (svc_accounts s))))"

text \<open>
  Saving reads the previous generation and then writes and renames; the reads come before the first
  write, so the writes are a list fixed by the state before.
\<close>

definition save_ops :: "Service \<Rightarrow> host \<Rightarrow> fs_op list res" where
  "save_ops s h =
    (let f = svc_accountFile s; data = Doc (JArr (map enc_account (registered_accounts s h))) in
     case hst_mkdir_err h f of Some e \<Rightarrow> Inl e | None \<Rightarrow>
     bindE (case ReadFile h f of
         Inr previous \<Rightarrow>
           (case decodeAccounts previous of
              Inr _ \<Rightarrow> Inr [WriteFile (f @ ''.bak.tmp'') previous, Rename (f @ ''.bak.tmp'') (f @ ''.bak'')]
            | Inl _ \<Rightarrow> Inr [])
       | Inl NotExist \<Rightarrow> Inr []
       | Inl (OsError e) \<Rightarrow> Inl e) (\<lambda>backup.
     Inr (backup @ [WriteFile (f @ ''.tmp'') data, Rename (f @ ''.tmp'') f])))"

definition saveRegisteredAccountsLocked :: "Service \<Rightarrow> host \<Rightarrow> string option \<times> host" where
  "saveRegisteredAccountsLocked s h =
     (case save_ops s h of Inl e \<Rightarrow> (Some e, h) | Inr ops \<Rightarrow> run_ops ops h)"

section \<open>Registration\<close>

definition ValidateRegistration :: "Service \<Rightarrow> Principal \<Rightarrow> string \<Rightarrow> unit res" where
  "ValidateRegistration s prin password =
    (if \<not> usernamePattern (prc_Username prin) then Inl m_bad_username
     else if length password < 6 then Inl m_short_password
     else if prc_DisplayName prin = [] \<or> prc_OrganizationID prin = [] \<or> \<not> validRole (prc_Role prin)
     then Inl m_bad_registration
     else if map_of (svc_accounts s) (prc_Username prin) \<noteq> None
     then Inl (m_account_pre @ prc_Username prin @ m_account_taken)
     else Inr ())"

definition RegisterAccount :: "Service \<Rightarrow> Principal \<Rightarrow> string \<Rightarrow> host \<Rightarrow> string option \<times> Service \<times> host" where
  "RegisterAccount s prin password h =
    (case ValidateRegistration s prin password of Inl e \<Rightarrow> (Some e, s, h) | Inr _ \<Rightarrow>
     if \<not> validMSPID (prc_MSPID prin) then (Some m_bad_msp, s, h)
     else (case newAccount prin password h of
       (None, h) \<Rightarrow> (Some ''random source failed'', s, h)
     | (Some created, h) \<Rightarrow>
         if map_of (svc_accounts s) (prc_Username prin) \<noteq> None
         then (Some (m_account_pre @ prc_Username prin @ m_account_taken), s, h)
         else let added = s\<lparr>svc_accounts := AList.update (prc_Username prin) created (svc_accounts s)\<rparr> in
         (case saveRegisteredAccountsLocked added h of
            (Some e, h) \<Rightarrow> (Some (m_save_failed @ e),
               added\<lparr>svc_accounts := AList.delete (prc_Username prin) (svc_accounts added)\<rparr>, h)
          | (None, h) \<Rightarrow> (None, added, h))))"

definition addDemoAccount ::
  "string \<Rightarrow> string \<Rightarrow> string \<Rightarrow> string \<Rightarrow> string \<Rightarrow> Service \<times> host \<Rightarrow> Service \<times> host" where
  "addDemoAccount username displayName mspID role password sh =
    (let (s, h) = sh;
         (created, h) = newAccount \<lparr>prc_DisplayName = displayName, prc_MSPID = mspID, prc_OrganizationID = [],
           prc_Role = role, prc_Username = username\<rparr> password h
     in case created of None \<Rightarrow> (s, h)
        | Some a \<Rightarrow> (s\<lparr>svc_accounts := AList.update username a (svc_accounts s)\<rparr>, h))"

definition NewService :: "host \<Rightarrow> Service res \<times> host" where
  "NewService h0 =
    (let s = \<lparr>svc_accounts = [], svc_accountFile = envOr h0 ''AUTH_DATA_FILE'' ''data/accounts.json'',
           svc_sessions = []\<rparr>;
         (s, h) = (addDemoAccount ''issuer-org1'' n_issuer ''Org1MSP'' ''ISSUER'' (envOr h0 ''DEMO_ISSUER_PASSWORD'' ''issuer123'') (s, h0));
         (s, h) = (addDemoAccount ''holder-org2'' n_holder ''Org2MSP'' ''HOLDER'' (envOr h0 ''DEMO_HOLDER_PASSWORD'' ''holder123'') (s, h));
         (s, h) = (addDemoAccount ''auditor'' n_auditor ''Org1MSP'' ''AUDITOR'' (envOr h0 ''DEMO_AUDITOR_PASSWORD'' ''auditor123'') (s, h));
         (s, h) = (addDemoAccount ''project-member'' n_member ''Org1MSP'' ''PROJECT_MEMBER'' (envOr h0 ''DEMO_PROJECT_MEMBER_PASSWORD'' ''member123'') (s, h));
         (s, h) = (addDemoAccount ''project-reviewer'' n_reviewer ''Org1MSP'' ''PROJECT_REVIEWER'' (envOr h0 ''DEMO_PROJECT_REVIEWER_PASSWORD'' ''review123'') (s, h));
         (s, h) = (addDemoAccount ''finance-admin'' n_finance ''Org2MSP'' ''FINANCE_ADMIN'' (envOr h0 ''DEMO_FINANCE_ADMIN_PASSWORD'' ''finance123'') (s, h));
         (s, h) = (addDemoAccount ''org-admin'' n_orgadmin ''Org1MSP'' ''ORG_ADMIN'' (envOr h0 ''DEMO_ORG_ADMIN_PASSWORD'' ''orgadmin123'') (s, h));
         (s, h) = (addDemoAccount ''org-admin-org2'' n_orgadmin2 ''Org2MSP'' ''ORG_ADMIN'' (envOr h0 ''DEMO_ORG_ADMIN_ORG2_PASSWORD'' ''orgadmin234'') (s, h))
     in (wrapE m_store_check (loadAccounts s h), h))"

end
