(* ===== verification/Gateway.thy ===== *)
theory Gateway
  imports Accounts Contract
begin

text \<open>
  The Fabric gateway clients of the backend, \<open>backend/fabric/gateway.go\<close>: one lazily opened client per
  organization, each under that organization's certificate. The cryptographic and gRPC libraries are
  not part of the program: the record \<open>sdk\<close> says which of their calls fail.
\<close>

record profile =
  prf_MSPID :: string
  prf_OrgDomain :: string
  prf_PeerEndpoint :: string
  prf_PeerName :: string
  prf_UserName :: string

text \<open>A contract handle: the identity it signs with and where its transactions go.\<close>

record contract =
  ctr_MSPID :: string
  ctr_endpoint :: string
  ctr_channel :: string
  ctr_chaincode :: string

record sdk =
  sdk_abs :: "string \<Rightarrow> string res"
  sdk_stat :: "string \<Rightarrow> string option"
  sdk_readdir :: "string \<Rightarrow> string list res"
  sdk_certificate :: "blob \<Rightarrow> string option"
  sdk_private_key :: "blob \<Rightarrow> string option"
  sdk_identity :: "string \<Rightarrow> string option"
  sdk_sign :: "blob \<Rightarrow> string option"
  sdk_dial :: "string \<Rightarrow> string option"
  sdk_connect :: "string \<Rightarrow> string option"

text \<open>The package variables; \<open>gwy_open\<close> counts the gRPC connections that are open.\<close>

record gateways =
  gwy_chaincodeName :: string
  gwy_channelName :: string
  gwy_testNetwork :: string
  gwy_clients :: "(string \<times> contract) list"
  gwy_open :: nat

definition checkE :: "string option \<Rightarrow> unit res" where
  "checkE e = (case e of None \<Rightarrow> Inr () | Some m \<Rightarrow> Inl m)"

lemma checkE_Inr [res_inv]: "checkE e = Inr u \<longleftrightarrow> e = None"
  by (auto simp: checkE_def split: option.splits)

definition profileFor :: "string \<Rightarrow> profile res" where
  "profileFor mspID =
    (if mspID = ''Org1MSP'' then Inr \<lparr>prf_MSPID = ''Org1MSP'', prf_OrgDomain = ''org1.example.com'',
       prf_PeerEndpoint = ''dns:///localhost:7051'', prf_PeerName = ''peer0.org1.example.com'',
       prf_UserName = ''User1@org1.example.com''\<rparr>
     else if mspID = ''Org2MSP'' then Inr \<lparr>prf_MSPID = ''Org2MSP'', prf_OrgDomain = ''org2.example.com'',
       prf_PeerEndpoint = ''dns:///localhost:9051'', prf_PeerName = ''peer0.org2.example.com'',
       prf_UserName = ''User1@org2.example.com''\<rparr>
     else Inl (''unsupported Fabric organization '' @ mspID))"

text \<open>\<open>filepath.Join\<close> of clean, non-empty elements.\<close>

fun join_path :: "string list \<Rightarrow> string" where
  "join_path [] = []"
| "join_path [x] = x"
| "join_path (x # y # xs) = x @ ''/'' @ join_path (y # xs)"

definition read_file :: "host \<Rightarrow> string \<Rightarrow> blob res" where
  "read_file h p = (case ReadFile h p of Inl e \<Rightarrow> Inl (os_text e) | Inr b \<Rightarrow> Inr b)"

definition readFirstFile :: "sdk \<Rightarrow> host \<Rightarrow> string \<Rightarrow> blob res" where
  "readFirstFile k h directory =
    bindE (sdk_readdir k directory) (\<lambda>entries.
    case entries of [] \<Rightarrow> Inl ''directory is empty''
    | entry # _ \<Rightarrow> read_file h (join_path [directory, entry]))"

definition newConnection :: "sdk \<Rightarrow> host \<Rightarrow> gateways \<Rightarrow> profile \<Rightarrow> unit res" where
  "newConnection k h g p =
    bindE (wrapE (''read '' @ prf_MSPID p @ '' peer TLS certificate: '')
      (read_file h (join_path [gwy_testNetwork g, ''organizations'', ''peerOrganizations'', prf_OrgDomain p,
         ''peers'', prf_PeerName p, ''tls'', ''ca.crt'']))) (\<lambda>pem.
    bindE (checkE (sdk_certificate k pem)) (\<lambda>_.
    wrapE (''create '' @ prf_MSPID p @ '' gRPC connection: '') (checkE (sdk_dial k (prf_PeerEndpoint p)))))"

text \<open>The identity is made for the MSP of the profile; the result is the MSP it signs for.\<close>

definition newIdentity :: "sdk \<Rightarrow> host \<Rightarrow> gateways \<Rightarrow> profile \<Rightarrow> string res" where
  "newIdentity k h g p =
    bindE (wrapE (''read '' @ prf_MSPID p @ '' client certificate: '')
      (readFirstFile k h (join_path [gwy_testNetwork g, ''organizations'', ''peerOrganizations'', prf_OrgDomain p,
         ''users'', prf_UserName p, ''msp'', ''signcerts'']))) (\<lambda>pem.
    bindE (checkE (sdk_certificate k pem)) (\<lambda>_.
    bindE (checkE (sdk_identity k (prf_MSPID p))) (\<lambda>_. Inr (prf_MSPID p))))"

definition newSign :: "sdk \<Rightarrow> host \<Rightarrow> gateways \<Rightarrow> profile \<Rightarrow> unit res" where
  "newSign k h g p =
    bindE (wrapE (''read '' @ prf_MSPID p @ '' private key: '')
      (readFirstFile k h (join_path [gwy_testNetwork g, ''organizations'', ''peerOrganizations'', prf_OrgDomain p,
         ''users'', prf_UserName p, ''msp'', ''keystore'']))) (\<lambda>pem.
    bindE (checkE (sdk_private_key k pem)) (\<lambda>_. checkE (sdk_sign k pem)))"

text \<open>
  The second result is the number of connections left open: an error after \<open>newConnection\<close> closes
  the one it opened.
\<close>

definition connect :: "sdk \<Rightarrow> host \<Rightarrow> gateways \<Rightarrow> profile \<Rightarrow> contract res \<times> nat" where
  "connect k h g p = (case newConnection k h g p of Inl e \<Rightarrow> (Inl e, 0) | Inr _ \<Rightarrow>
    (case newIdentity k h g p of Inl e \<Rightarrow> (Inl e, 0) | Inr ident \<Rightarrow>
    (case newSign k h g p of Inl e \<Rightarrow> (Inl e, 0) | Inr _ \<Rightarrow>
    (case sdk_connect k ident of
       Some e \<Rightarrow> (Inl (''create Fabric gateway for '' @ prf_MSPID p @ '': '' @ e), 0)
     | None \<Rightarrow> (Inr \<lparr>ctr_MSPID = ident, ctr_endpoint = prf_PeerEndpoint p, ctr_channel = gwy_channelName g,
         ctr_chaincode = gwy_chaincodeName g\<rparr>, 1)))))"

definition ContractFor :: "sdk \<Rightarrow> host \<Rightarrow> string \<Rightarrow> gateways \<Rightarrow> contract res \<times> gateways" where
  "ContractFor k h mspID g =
    (case map_of (gwy_clients g) mspID of Some existing \<Rightarrow> (Inr existing, g)
     | None \<Rightarrow>
       (case profileFor mspID of Inl e \<Rightarrow> (Inl e, g)
        | Inr configuredProfile \<Rightarrow>
          (case connect k h g configuredProfile of
             (Inl e, n) \<Rightarrow> (Inl e, g\<lparr>gwy_open := gwy_open g + n\<rparr>)
           | (Inr created, n) \<Rightarrow>
               (Inr created, g\<lparr>gwy_clients := AList.update mspID created (gwy_clients g),
                  gwy_open := gwy_open g + n\<rparr>))))"

definition closeGateways :: "gateways \<Rightarrow> gateways" where
  "closeGateways g = g\<lparr>gwy_open := gwy_open g - length (gwy_clients g), gwy_clients := []\<rparr>"

definition initGateways :: "sdk \<Rightarrow> host \<Rightarrow> gateways \<Rightarrow> unit res \<times> gateways" where
  "initGateways k h g =
    (let configuredNetwork = hst_getenv h ''FABRIC_TEST_NETWORK'' in
     if configuredNetwork = []
     then (Inl ''FABRIC_TEST_NETWORK is required; point it to fabric-samples/test-network'', g)
     else (case sdk_abs k configuredNetwork of Inl e \<Rightarrow> (Inl e, g) | Inr absNetwork \<Rightarrow>
     (case sdk_stat k absNetwork of
        Some e \<Rightarrow> (Inl (''Fabric Test Network is unavailable at '' @ absNetwork @ '': '' @ e), g)
      | None \<Rightarrow>
        (let g = g\<lparr>gwy_testNetwork := absNetwork, gwy_channelName := envOr h ''CHANNEL_NAME'' ''mychannel'',
               gwy_chaincodeName := envOr h ''CHAINCODE_NAME'' ''invoice''\<rparr>;
             (r, g) = ContractFor k h ''Org1MSP'' g
         in (bindE r (\<lambda>_. Inr ()), g)))))"

section \<open>Each organization has its own client\<close>

definition gateways_ok :: "gateways \<Rightarrow> bool" where
  "gateways_ok g \<longleftrightarrow> gwy_open g = length (gwy_clients g) \<and> distinct (map fst (gwy_clients g))
    \<and> (\<forall>m ct. map_of (gwy_clients g) m = Some ct \<longrightarrow> ctr_MSPID ct = m \<and> validMSPID m
         \<and> (\<exists>p. profileFor m = Inr p \<and> ctr_endpoint ct = prf_PeerEndpoint p))"

lemma profileFor_Inr: "profileFor m = Inr p \<Longrightarrow> prf_MSPID p = m \<and> validMSPID m"
  by (auto simp: profileFor_def validMSPID_def split: if_splits)

lemma connect_cases:
  "connect k h g p = (r, n) \<Longrightarrow>
    (\<exists>e. r = Inl e \<and> n = 0) \<or>
    (r = Inr \<lparr>ctr_MSPID = prf_MSPID p, ctr_endpoint = prf_PeerEndpoint p, ctr_channel = gwy_channelName g,
       ctr_chaincode = gwy_chaincodeName g\<rparr> \<and> n = 1)"
  by (auto simp: connect_def newIdentity_def res_inv split: sum.splits option.splits)

lemma ContractFor_ok:
  assumes "gateways_ok g" "ContractFor k h m g = (r, g')"
  shows "gateways_ok g'" "r = Inr ct \<Longrightarrow> ctr_MSPID ct = m \<and> validMSPID m"
proof -
  have new: "gateways_ok (g\<lparr>gwy_clients := AList.update m c (gwy_clients g), gwy_open := Suc (gwy_open g)\<rparr>)"
    if "map_of (gwy_clients g) m = None" "profileFor m = Inr p"
      "c = \<lparr>ctr_MSPID = prf_MSPID p, ctr_endpoint = prf_PeerEndpoint p, ctr_channel = x, ctr_chaincode = y\<rparr>" for p c x y
  proof -
    have len: "length (AList.update m d xs) = Suc (length xs)" if "map_of xs m = None" for d and xs :: "(string \<times> contract) list"
      using that by (induction xs) (auto split: if_splits)
    show ?thesis
      using assms(1) that profileFor_Inr [OF that(2)]
      by (simp add: gateways_ok_def len update_conv' distinct_update)
  qed
  show "gateways_ok g'"
    using assms new connect_cases [of k h g]
    by (fastforce simp: ContractFor_def split: option.splits sum.splits prod.splits)
  show "ctr_MSPID ct = m \<and> validMSPID m" if "r = Inr ct"
    using assms that connect_cases [of k h g] profileFor_Inr [of m]
    by (fastforce simp: ContractFor_def gateways_ok_def split: option.splits sum.splits prod.splits)
qed

end
