(* ===== verification/Http.thy ===== *)
theory Http
  imports Accounts
begin

text \<open>
  Requests, responses and \<open>gin\<close>'s part in between: JSON replies, \<open>ShouldBindJSON\<close> with the validation
  tags the request structs carry, and the session handlers and middleware of
  \<open>backend/auth/auth.go\<close> (\<open>Login\<close>, \<open>Logout\<close>, \<open>Me\<close>, \<open>Require\<close>, \<open>RequireRole\<close>).
\<close>

section \<open>Requests and responses\<close>

text \<open>
  \<open>rq_cookie\<close> is the unescaped value of the cookie \<open>invoice_session\<close>, \<open>rq_id\<close> the path parameter
  \<open>:id\<close>, which \<open>gin\<close> unescapes as well, \<open>rq_file\<close> the name and the bytes of the file in the form field
  \<open>file\<close>, and \<open>rq_size\<close> the length of the body in bytes.
\<close>

record request =
  rq_cookie :: "string option"
  rq_id :: string
  rq_query :: "(string \<times> string) list"
  rq_body :: blob
  rq_file :: "(string \<times> string) option"
  rq_size :: nat

record response =
  rsp_status :: nat
  rsp_body :: "json option"
  rsp_cookie :: "(string \<times> int) option"

record gin =
  gin_request :: request
  gin_principal :: "Principal option"

definition reply :: "nat \<Rightarrow> json \<Rightarrow> response" where
  "reply status body = \<lparr>rsp_status = status, rsp_body = Some body, rsp_cookie = None\<rparr>"

definition error_reply :: "nat \<Rightarrow> string \<Rightarrow> response" where
  "error_reply status msg = reply status (JObj [(''error'', JStr msg)])"

definition message_reply :: "nat \<Rightarrow> string \<Rightarrow> (string \<times> json) list \<Rightarrow> response" where
  "message_reply status msg extra = reply status (JObj ((''message'', JStr msg) # extra))"

lemma rsp_status_simps [simp]:
  "rsp_status (reply n j) = n" "rsp_status (error_reply n m) = n" "rsp_status (message_reply n m ms) = n"
  "rsp_body (reply n j) = Some j"
  by (simp_all add: reply_def error_reply_def message_reply_def)

definition badRequest :: response where
  "badRequest = error_reply 400 m_bad_request"

definition serverError :: response where
  "serverError = error_reply 500 m_server_error"

section \<open>Validation tags\<close>

text \<open>\<open>utf8.RuneCountInString\<close>: an invalid byte counts as one rune.\<close>

function rune_count :: "string \<Rightarrow> nat" where
  "rune_count s = (if s = [] then 0 else Suc (rune_count (drop (max 1 (rune_len s)) s)))"
  by pat_completeness auto
termination
  by (relation "measure length") auto

declare rune_count.simps [simp del]

lemma rune_count_Nil [simp]: "rune_count [] = 0"
  by (simp add: rune_count.simps)

definition v_required :: "string \<Rightarrow> bool" where
  "v_required s \<longleftrightarrow> s \<noteq> []"

definition v_min :: "nat \<Rightarrow> string \<Rightarrow> bool" where
  "v_min n s \<longleftrightarrow> n \<le> rune_count s"

definition v_max :: "nat \<Rightarrow> string \<Rightarrow> bool" where
  "v_max n s \<longleftrightarrow> rune_count s \<le> n"

definition v_oneof :: "string list \<Rightarrow> string \<Rightarrow> bool" where
  "v_oneof xs s \<longleftrightarrow> s \<in> set xs"

definition v_between :: "int \<Rightarrow> int \<Rightarrow> int64 \<Rightarrow> bool" where
  "v_between lo hi v \<longleftrightarrow> lo \<le> sint v \<and> sint v \<le> hi"

text \<open>\<open>c.ShouldBindJSON(&request)\<close>: decode, then validate; the caller replies to the error alike.\<close>

definition ShouldBindJSON :: "(json \<Rightarrow> 'a res) \<Rightarrow> ('a \<Rightarrow> bool) \<Rightarrow> gin \<Rightarrow> 'a option" where
  "ShouldBindJSON dec valid c = (case Unmarshal dec (rq_body (gin_request c)) of
     Inl _ \<Rightarrow> None | Inr x \<Rightarrow> if valid x then Some x else None)"

lemma ShouldBindJSON_Some: "ShouldBindJSON dec valid c = Some x \<longleftrightarrow>
    (\<exists>j. rq_body (gin_request c) = Doc j \<and> dec j = Inr x \<and> valid x)"
  by (auto simp: ShouldBindJSON_def Unmarshal_def split: sum.splits blob.splits)

section \<open>Sessions\<close>

definition session_ns :: int where
  "session_ns = 8 * 3600 * 1000000000"

definition startSession :: "Service \<Rightarrow> Principal \<Rightarrow> host \<Rightarrow> response \<times> Service \<times> host" where
  "startSession s prin h = (case newToken h of
     (None, h) \<Rightarrow> (error_reply 500 m_session_failed, s, h)
   | (Some token, h) \<Rightarrow>
       ((reply 200 (enc_Principal prin))\<lparr>rsp_cookie := Some (token, 8 * 60 * 60)\<rparr>,
        s\<lparr>svc_sessions := AList.update token \<lparr>ses_principal = prin, ses_expiresAt = hst_now h + session_ns\<rparr>
          (svc_sessions s)\<rparr>, h))"

definition StartRegisteredSession :: "Service \<Rightarrow> Principal \<Rightarrow> host \<Rightarrow> response \<times> Service \<times> host" where
  "StartRegisteredSession s prin h = startSession s prin h"

definition principalFromCookie :: "Service \<Rightarrow> int \<Rightarrow> string option \<Rightarrow> Principal option" where
  "principalFromCookie s now cookie = (case cookie of None \<Rightarrow> None
     | Some token \<Rightarrow> (case map_of (svc_sessions s) token of None \<Rightarrow> None
         | Some current \<Rightarrow> if now > ses_expiresAt current then None else Some (ses_principal current)))"

definition dec_login :: "json \<Rightarrow> (string \<times> string) res" where
  "dec_login j = bindE (object ''struct'' j) (\<lambda>ms. bindE (read_str ms ''username'' []) (\<lambda>u.
     bindE (read_str ms ''password'' []) (\<lambda>p. Inr (u, p))))"

definition Login :: "Service \<Rightarrow> gin \<Rightarrow> host \<Rightarrow> response \<times> Service \<times> host" where
  "Login s c h =
    (case ShouldBindJSON dec_login (\<lambda>(u, p). v_required u \<and> v_required p) c of
       None \<Rightarrow> (error_reply 400 m_enter_account, s, h)
     | Some (username, password) \<Rightarrow>
        (case map_of (svc_accounts s) username of
           None \<Rightarrow> (error_reply 401 m_wrong_account, s, h)
         | Some current \<Rightarrow>
             if \<not> passwordMatches password current then (error_reply 401 m_wrong_account, s, h)
             else startSession s (acc_Principal current) h))"

definition Logout :: "Service \<Rightarrow> gin \<Rightarrow> response \<times> Service" where
  "Logout s c =
    (\<lparr>rsp_status = 204, rsp_body = None, rsp_cookie = Some ([], -1)\<rparr>,
     case rq_cookie (gin_request c) of None \<Rightarrow> s
     | Some token \<Rightarrow> s\<lparr>svc_sessions := AList.delete token (svc_sessions s)\<rparr>)"

definition Me :: "Service \<Rightarrow> gin \<Rightarrow> host \<Rightarrow> response" where
  "Me s c h = (case principalFromCookie s (hst_now h) (rq_cookie (gin_request c)) of
     None \<Rightarrow> error_reply 401 m_not_logged_in | Some prin \<Rightarrow> reply 200 (enc_Principal prin))"

text \<open>The middleware either stops with a reply or passes the context on.\<close>

definition Require :: "Service \<Rightarrow> host \<Rightarrow> gin \<Rightarrow> response + gin" where
  "Require s h c = (case principalFromCookie s (hst_now h) (rq_cookie (gin_request c)) of
     None \<Rightarrow> Inl (error_reply 401 m_login_first) | Some prin \<Rightarrow> Inr (c\<lparr>gin_principal := Some prin\<rparr>))"

definition PrincipalFromContext :: "gin \<Rightarrow> Principal option" where
  "PrincipalFromContext c = gin_principal c"

definition RequireRole :: "string list \<Rightarrow> gin \<Rightarrow> response + gin" where
  "RequireRole roles c = (case PrincipalFromContext c of
     None \<Rightarrow> Inl (error_reply 401 m_login_first)
   | Some prin \<Rightarrow> if prc_Role prin \<in> set roles then Inr c else Inl (error_reply 403 m_role_denied))"

end
