(* ===== verification/Network.thy ===== *)
theory Network
  imports Gateway Http Reads
begin

text \<open>
  What a gateway client does with a transaction. The peers and the gateway library are not part of the
  program; the record \<open>network\<close> says which stub a peer gives to the contract for a certificate and a
  world state, which calls the network loses before or after their commit, how a rejection by the
  contract comes back as an error, and how an empty list comes back. The contract that answers is the
  model of the chaincode.

  The second part is the backend's view of the answers: \<open>decodeList\<close>, the structs it decodes records
  into, and the texts it makes of errors.
\<close>

section \<open>Evaluating and submitting\<close>

text \<open>An error of the gateway: its text and the messages of its \<open>ErrorDetail\<close>s.\<close>

record gw_error =
  gwe_text :: string
  gwe_details :: "string list"

datatype query =
    QReadInvoice string
  | QGetAllInvoices
  | QReadInvoiceTransfer string
  | QReadInvoiceVoidRequest string
  | QGetInvoiceFlows string
  | QGetInvoiceHistory string
  | QVerifyInvoice string string
  | QGetAllBusinessUsers
  | QReadBusinessOrganization string
  | QGetAllBusinessOrganizations
  | QReadProject string
  | QGetAllProjects
  | QGetProjectEvents string
  | QGetProjectMembers string
  | QGetAllReimbursements

record network =
  net_stub :: "string \<Rightarrow> ledger \<Rightarrow> stub"
  net_eval_lost :: "query \<Rightarrow> gw_error option"
  net_lost :: "call \<Rightarrow> gw_error option"
  net_unconfirmed :: "call \<Rightarrow> gw_error option"
  net_reject :: "string \<Rightarrow> gw_error"
  net_empty_list :: blob

definition enc_VerificationResult :: "VerificationResult \<Rightarrow> json" where
  "enc_VerificationResult v = JObj
    [(''dataHashMatched'', JBool (vr_DataHashMatched v)),
     (''invoice'', enc_Invoice (vr_Invoice v)),
     (''reason'', JStr (vr_Reason v)),
     (''valid'', JBool (vr_Valid v))]"

definition enc_HistoryRecord :: "HistoryRecord \<Rightarrow> json" where
  "enc_HistoryRecord r = JObj
    ([(''isDelete'', JBool (hr_IsDelete r)),
      (''timestamp'', JStr (hr_Timestamp r)),
      (''txId'', JStr (hr_TxID r))]
     @ (case hr_Value r of None \<Rightarrow> [] | Some x \<Rightarrow> [(''value'', enc_Invoice x)]))"

definition list_payload :: "network \<Rightarrow> ('a \<Rightarrow> json) \<Rightarrow> 'a list res \<Rightarrow> blob res" where
  "list_payload net enc m =
     bindE m (\<lambda>xs. Inr (if xs = [] then net_empty_list net else Doc (JArr (map enc xs))))"

definition doc_payload :: "('a \<Rightarrow> json) \<Rightarrow> 'a res \<Rightarrow> blob res" where
  "doc_payload enc m = bindE m (\<lambda>x. Inr (Doc (enc x)))"

fun answer :: "network \<Rightarrow> stub \<Rightarrow> query \<Rightarrow> blob res" where
  "answer net ctx (QReadInvoice i) = doc_payload enc_Invoice (ReadInvoice ctx i)"
| "answer net ctx QGetAllInvoices = list_payload net enc_Invoice (GetAllInvoices ctx)"
| "answer net ctx (QReadInvoiceTransfer i) = doc_payload enc_InvoiceTransfer (ReadInvoiceTransfer ctx i)"
| "answer net ctx (QReadInvoiceVoidRequest i) = doc_payload enc_InvoiceVoidRequest (ReadInvoiceVoidRequest ctx i)"
| "answer net ctx (QGetInvoiceFlows i) = list_payload net enc_InvoiceFlow (GetInvoiceFlows ctx i)"
| "answer net ctx (QGetInvoiceHistory i) = list_payload net enc_HistoryRecord (GetInvoiceHistory ctx i)"
| "answer net ctx (QVerifyInvoice i h) = doc_payload enc_VerificationResult (VerifyInvoice ctx i h)"
| "answer net ctx QGetAllBusinessUsers = list_payload net enc_BusinessUser (GetAllBusinessUsers ctx)"
| "answer net ctx (QReadBusinessOrganization i) =
     doc_payload enc_BusinessOrganization (ReadBusinessOrganization ctx i)"
| "answer net ctx QGetAllBusinessOrganizations =
     list_payload net enc_BusinessOrganization (GetAllBusinessOrganizations ctx)"
| "answer net ctx (QReadProject i) = doc_payload enc_Project (ReadProject ctx i)"
| "answer net ctx QGetAllProjects = list_payload net enc_Project (GetAllProjects ctx)"
| "answer net ctx (QGetProjectEvents i) = list_payload net enc_ProjectEvent (GetProjectEvents ctx i)"
| "answer net ctx (QGetProjectMembers i) = list_payload net enc_ProjectMember (GetProjectMembers ctx i)"
| "answer net ctx QGetAllReimbursements = list_payload net enc_Reimbursement (GetAllReimbursements ctx)"

definition EvaluateTransaction :: "network \<Rightarrow> contract \<Rightarrow> query \<Rightarrow> ledger \<Rightarrow> gw_error + blob" where
  "EvaluateTransaction net ct q l = (case net_eval_lost net q of Some e \<Rightarrow> Inl e
     | None \<Rightarrow> (case answer net (net_stub net (ctr_MSPID ct) l) q of
         Inl e \<Rightarrow> Inl (net_reject net e) | Inr payload \<Rightarrow> Inr payload))"

text \<open>A transaction can be committed although the client gets an error (its commit status is lost).\<close>

definition SubmitTransaction :: "network \<Rightarrow> contract \<Rightarrow> call \<Rightarrow> ledger \<Rightarrow> gw_error option \<times> ledger" where
  "SubmitTransaction net ct tx l = (case net_lost net tx of Some e \<Rightarrow> (Some e, l)
     | None \<Rightarrow> (case invoke (net_stub net (ctr_MSPID ct) l) tx of
         Inl e \<Rightarrow> (Some (net_reject net e), l)
       | Inr ws \<Rightarrow> (net_unconfirmed net tx, commit ws l)))"

text \<open>What the backend relies on: a peer runs the contract on the current state under the client's identity.\<close>

definition network_ok :: "network \<Rightarrow> bool" where
  "network_ok net \<longleftrightarrow> (\<forall>m l. st_ledger (net_stub net m l) = l \<and> st_mspid (net_stub net m l) = Inr m)"

lemma SubmitTransaction_ledger:
  assumes "network_ok net" "SubmitTransaction net ct tx l = (e, l')"
  shows "l' = l \<or> l' = submit (net_stub net (ctr_MSPID ct) l) tx"
  using assms by (auto simp: SubmitTransaction_def network_ok_def submit_def finish_def split: option.splits sum.splits)

section \<open>Decoding answers\<close>

definition decodeList :: "(json \<Rightarrow> 'a res) \<Rightarrow> blob \<Rightarrow> 'a list res" where
  "decodeList dec payload =
     (case payload of
        Raw s \<Rightarrow> if TrimSpace s = [] then Inr [] else Inl ''invalid JSON document''
      | Doc JNull \<Rightarrow> Inr []
      | Doc (JArr js) \<Rightarrow> mapE dec js
      | Doc j \<Rightarrow> Inl (''json: cannot unmarshal '' @ kind_name j @ '' into Go value of type []api.T''))"

lemma decodeList_payload:
  assumes "\<And>x. dec (enc x) = Inr x" "net_empty_list net \<in> {Raw [], Doc JNull, Doc (JArr [])}"
    and "list_payload net enc m = Inr payload"
  shows "\<exists>xs. m = Inr xs \<and> decodeList dec payload = Inr xs"
proof -
  have "mapE dec (map enc xs) = Inr xs" for xs
    by (induction xs) (simp_all add: assms(1))
  then show ?thesis using assms(2,3)
    by (auto simp: list_payload_def res_inv decodeList_def trim_left_def trim_right_def TrimSpace_def)
qed

text \<open>
  The structs of the backend have the members of the contract's structs; only the invoice has one more,
  which the backend fills in itself.
\<close>

record ApiInvoice = Invoice +
  inv_PendingTransfer :: "InvoiceTransfer option"

definition invoice_part :: "'a Invoice_scheme \<Rightarrow> Invoice" where
  "invoice_part x = Invoice.truncate x"

definition dec_ApiInvoice :: "json \<Rightarrow> ApiInvoice res" where
  "dec_ApiInvoice j = bindE (dec_Invoice j) (\<lambda>x.
     bindE (members ''api.Invoice'' j) (\<lambda>ms.
     bindE (case member ms ''pendingTransfer'' of JNull \<Rightarrow> Inr None
            | t \<Rightarrow> bindE (dec_InvoiceTransfer t) (\<lambda>t. Inr (Some t))) (\<lambda>pending.
     Inr (Invoice.extend x \<lparr>inv_PendingTransfer = pending\<rparr>))))"

definition enc_ApiInvoice :: "ApiInvoice \<Rightarrow> json" where
  "enc_ApiInvoice x = (case enc_Invoice (invoice_part x) of
     JObj ms \<Rightarrow> JObj (ms @ (case inv_PendingTransfer x of None \<Rightarrow> []
        | Some t \<Rightarrow> [(''pendingTransfer'', enc_InvoiceTransfer t)]))
   | j \<Rightarrow> j)"

section \<open>Error texts\<close>

definition friendlyChaincodeMessage :: "string \<Rightarrow> string" where
  "friendlyChaincodeMessage message =
    (if contains message ''invoice number'' \<and> contains message ''already exists'' then f_number_taken
     else if contains message ''invoice '' \<and> contains message ''does not exist'' then f_no_invoice
     else if contains message ''project '' \<and> contains message ''does not exist'' then f_no_project
     else if contains message ''already linked to reimbursement'' then f_already_claimed
     else if contains message ''available balance is insufficient'' then f_no_funds
     else if contains message ''is not linked to project'' then f_not_linked
     else if contains message ''cannot be reimbursed'' then f_voided
     else if contains message ''not pending review'' then f_not_pending
     else if contains message ''cannot be submitted'' \<or> contains message ''cannot be edited'' then f_wrong_phase
     else message)"

fun first_detail :: "string list \<Rightarrow> string option" where
  "first_detail [] = None"
| "first_detail (d # ds) = (if d \<noteq> [] then Some d else first_detail ds)"

definition fabricErrorMessage :: "gw_error \<Rightarrow> string" where
  "fabricErrorMessage err = (case first_detail (gwe_details err) of
     Some d \<Rightarrow> m_not_done @ friendlyChaincodeMessage d
   | None \<Rightarrow> if contains (gwe_text err) ''connection refused'' \<or> contains (gwe_text err) ''Unavailable''
       then m_unavailable else m_not_submitted)"

definition transactionError :: "gw_error \<Rightarrow> response" where
  "transactionError err = error_reply 422 (fabricErrorMessage err)"

end
