(* ===== verification/Visibility.thy ===== *)
theory Visibility
  imports Http Entities
begin

text \<open>
  Who may read what through the backend: the rules of \<open>backend/api/invoice.go\<close> on a principal and the
  project and organization directories (\<open>projectVisibleTo\<close>, \<open>invoiceVisibleTo\<close>,
  \<open>pendingTransferVisibleTo\<close>), and what they amount to for a registered member and for each built-in
  account.
\<close>

definition hasBootstrapDirectoryAccess :: "Principal \<Rightarrow> bool" where
  "hasBootstrapDirectoryAccess prin \<longleftrightarrow>
    (if prc_OrganizationID prin \<noteq> [] then False
     else (case map_of
       [(''project-reviewer'', (''Org1MSP'', ''PROJECT_REVIEWER'')), (''finance-admin'', (''Org2MSP'', ''FINANCE_ADMIN'')),
        (''auditor'', (''Org1MSP'', ''AUDITOR'')), (''org-admin'', (''Org1MSP'', ''ORG_ADMIN'')),
        (''org-admin-org2'', (''Org2MSP'', ''ORG_ADMIN''))] (prc_Username prin) of
       None \<Rightarrow> False
     | Some (msp, role) \<Rightarrow> prc_MSPID prin = msp \<and> prc_Role prin = role))"

definition hasBuiltInOrg1WorkAccess :: "Principal \<Rightarrow> bool" where
  "hasBuiltInOrg1WorkAccess prin \<longleftrightarrow>
    (if prc_OrganizationID prin \<noteq> [] \<or> prc_MSPID prin \<noteq> ''Org1MSP'' then False
     else prc_Username prin = ''issuer-org1'' \<and> prc_Role prin = ''ISSUER''
       \<or> prc_Username prin = ''project-member'' \<and> prc_Role prin = ''PROJECT_MEMBER'')"

definition isBuiltInOrg2Holder :: "Principal \<Rightarrow> bool" where
  "isBuiltInOrg2Holder prin \<longleftrightarrow> prc_Username prin = ''holder-org2'' \<and> prc_MSPID prin = ''Org2MSP''
     \<and> prc_Role prin = ''HOLDER'' \<and> prc_OrganizationID prin = []"

definition projectVisibleTo :: "Principal \<Rightarrow> Project \<Rightarrow> (string \<rightharpoonup> BusinessOrganization) \<Rightarrow> bool" where
  "projectVisibleTo prin project organizations \<longleftrightarrow>
    (if hasBootstrapDirectoryAccess prin then True
     else if hasBuiltInOrg1WorkAccess prin then prj_ApplicantMSPID project = prc_MSPID prin
     else if prj_OrganizationID project = [] then prj_ApplicantMSPID project = prc_MSPID prin
     else if prj_OrganizationID project = prc_OrganizationID prin then True
     else (case organizations (prj_OrganizationID project) of None \<Rightarrow> False
       | Some organization \<Rightarrow> prc_OrganizationID prin \<noteq> [] \<and> org_ParentID organization = prc_OrganizationID prin))"

definition invoiceVisibleTo ::
  "Principal \<Rightarrow> 'a Invoice_scheme \<Rightarrow> (string \<rightharpoonup> Project) \<Rightarrow> (string \<rightharpoonup> BusinessOrganization) \<Rightarrow> bool" where
  "invoiceVisibleTo prin invoice projects organizations \<longleftrightarrow>
    (if hasBootstrapDirectoryAccess prin then True
     else if hasBuiltInOrg1WorkAccess prin
     then inv_IssuerMSPID invoice = prc_MSPID prin \<or> inv_HolderMSPID invoice = prc_MSPID prin
     else if isBuiltInOrg2Holder prin then inv_HolderMSPID invoice = prc_MSPID prin
     else if inv_ProjectID invoice \<noteq> [] \<and>
       (case projects (inv_ProjectID invoice) of None \<Rightarrow> False
        | Some project \<Rightarrow> projectVisibleTo prin project organizations)
     then True
     else if inv_IssuerOrganizationID invoice \<noteq> [] \<and> inv_IssuerOrganizationID invoice = prc_OrganizationID prin then True
     else if inv_HolderOrganizationID invoice \<noteq> [] \<and> inv_HolderOrganizationID invoice = prc_OrganizationID prin then True
     else inv_IssuerOrganizationID invoice = []
       \<and> (inv_IssuerMSPID invoice = prc_MSPID prin \<or> inv_HolderMSPID invoice = prc_MSPID prin))"

definition pendingTransferVisibleTo :: "Principal \<Rightarrow> InvoiceTransfer option \<Rightarrow> bool" where
  "pendingTransferVisibleTo prin transfer =
    (case transfer of None \<Rightarrow> False
     | Some t \<Rightarrow>
        if trf_Status t \<noteq> ''PENDING'' then False
        else if prc_Role prin \<noteq> ''ISSUER'' \<and> prc_Role prin \<noteq> ''HOLDER'' \<and> prc_Role prin \<noteq> ''PROJECT_MEMBER'' then False
        else trf_To t = prc_Username prin \<and> trf_ToMSPID t = prc_MSPID prin)"

section \<open>What a registered member sees\<close>

text \<open>A registered principal is one of an organization; the rules for built-in accounts do not apply to it.\<close>

lemma registered_member [simp]:
  assumes "prc_OrganizationID prin \<noteq> []"
  shows "\<not> hasBootstrapDirectoryAccess prin" "\<not> hasBuiltInOrg1WorkAccess prin" "\<not> isBuiltInOrg2Holder prin"
  using assms by (simp_all add: hasBootstrapDirectoryAccess_def hasBuiltInOrg1WorkAccess_def isBuiltInOrg2Holder_def)

text \<open>The organizations a member reads for: the own one and its direct sub-organizations.\<close>

definition in_scope :: "Principal \<Rightarrow> (string \<rightharpoonup> BusinessOrganization) \<Rightarrow> string \<Rightarrow> bool" where
  "in_scope prin organizations ident \<longleftrightarrow> ident = prc_OrganizationID prin
     \<or> (\<exists>x. organizations ident = Some x \<and> org_ParentID x = prc_OrganizationID prin)"

lemma project_scope:
  assumes "prc_OrganizationID prin \<noteq> []" "prj_OrganizationID p \<noteq> []"
  shows "projectVisibleTo prin p orgs \<longleftrightarrow> in_scope prin orgs (prj_OrganizationID p)"
  using assms by (auto simp: projectVisibleTo_def in_scope_def split: option.splits)

lemma invoice_scope:
  assumes "prc_OrganizationID prin \<noteq> []" "inv_IssuerOrganizationID x \<noteq> []"
    and "\<And>p. projs (inv_ProjectID x) = Some p \<Longrightarrow> prj_OrganizationID p \<noteq> []"
  shows "invoiceVisibleTo prin x projs orgs \<longleftrightarrow>
    inv_IssuerOrganizationID x = prc_OrganizationID prin \<or> inv_HolderOrganizationID x = prc_OrganizationID prin
    \<or> (\<exists>p. inv_ProjectID x \<noteq> [] \<and> projs (inv_ProjectID x) = Some p \<and> in_scope prin orgs (prj_OrganizationID p))"
proof -
  have "projectVisibleTo prin p orgs \<longleftrightarrow> in_scope prin orgs (prj_OrganizationID p)"
    if "projs (inv_ProjectID x) = Some p" for p
    by (rule project_scope [OF assms(1) assms(3) [OF that]])
  with assms(1,2) show ?thesis by (auto simp: invoiceVisibleTo_def split: option.splits)
qed

end
