(* ===== verification/Requests.thy ===== *)
theory Requests
  imports Http
begin

text \<open>
  The request bodies of \<open>backend/api/invoice.go\<close>: one record per struct, its decoder by the member names
  of the struct tags, and \<open>valid_*\<close>, the conjunction of its \<open>binding\<close> tags. Below them the
  \<open>normalize\<close> methods.
\<close>

record createInvoiceRequest =
  cir_AmountCents :: int64
  cir_Buyer :: string
  cir_BuyerMSPID :: string
  cir_Currency :: string
  cir_ID :: string
  cir_InvoiceNo :: string
  cir_IssueDate :: string
  cir_Issuer :: string
  cir_ProjectID :: string
  cir_TaxCents :: int64

definition dec_createInvoiceRequest :: "json \<Rightarrow> createInvoiceRequest res" where
  "dec_createInvoiceRequest j = bindE (object ''api.createInvoiceRequest'' j) (\<lambda>ms.
     bindE (read_int64 ms ''amountCents'' 0) (\<lambda>xAmountCents.
     bindE (read_str ms ''buyer'' []) (\<lambda>xBuyer.
     bindE (read_str ms ''buyerMspId'' []) (\<lambda>xBuyerMSPID.
     bindE (read_str ms ''currency'' []) (\<lambda>xCurrency.
     bindE (read_str ms ''id'' []) (\<lambda>xID.
     bindE (read_str ms ''invoiceNo'' []) (\<lambda>xInvoiceNo.
     bindE (read_str ms ''issueDate'' []) (\<lambda>xIssueDate.
     bindE (read_str ms ''issuer'' []) (\<lambda>xIssuer.
     bindE (read_str ms ''projectId'' []) (\<lambda>xProjectID.
     bindE (read_int64 ms ''taxCents'' 0) (\<lambda>xTaxCents.
     Inr \<lparr>cir_AmountCents = xAmountCents, cir_Buyer = xBuyer, cir_BuyerMSPID = xBuyerMSPID, cir_Currency = xCurrency,
       cir_ID = xID, cir_InvoiceNo = xInvoiceNo, cir_IssueDate = xIssueDate, cir_Issuer = xIssuer,
       cir_ProjectID = xProjectID, cir_TaxCents = xTaxCents\<rparr>)))))))))))"

definition valid_createInvoiceRequest :: "createInvoiceRequest \<Rightarrow> bool" where
  "valid_createInvoiceRequest r \<longleftrightarrow> v_between 0 10000000000 (cir_AmountCents r)
     \<and> v_required (cir_Buyer r)
     \<and> v_required (cir_BuyerMSPID r) \<and> v_oneof [''Org1MSP'', ''Org2MSP''] (cir_BuyerMSPID r)
     \<and> (cir_Currency r = [] \<or> v_oneof [''CNY''] (cir_Currency r))
     \<and> v_max 48 (cir_ID r)
     \<and> v_required (cir_InvoiceNo r)
     \<and> v_required (cir_IssueDate r)
     \<and> v_required (cir_Issuer r)
     \<and> v_between 0 10000000000 (cir_TaxCents r)"

record transferRequest =
  trq_To :: string
  trq_ToMSPID :: string
  trq_Note :: string

definition dec_transferRequest :: "json \<Rightarrow> transferRequest res" where
  "dec_transferRequest j = bindE (object ''api.transferRequest'' j) (\<lambda>ms.
     bindE (read_str ms ''to'' []) (\<lambda>xTo.
     bindE (read_str ms ''toMspId'' []) (\<lambda>xToMSPID.
     bindE (read_str ms ''note'' []) (\<lambda>xNote.
     Inr \<lparr>trq_To = xTo, trq_ToMSPID = xToMSPID, trq_Note = xNote\<rparr>))))"

definition valid_transferRequest :: "transferRequest \<Rightarrow> bool" where
  "valid_transferRequest r \<longleftrightarrow> v_required (trq_To r)
     \<and> v_required (trq_ToMSPID r) \<and> v_oneof [''Org1MSP'', ''Org2MSP''] (trq_ToMSPID r)
     \<and> v_max 500 (trq_Note r)"

record transferResponseRequest =
  tre_Decision :: string
  tre_Response :: string

definition dec_transferResponseRequest :: "json \<Rightarrow> transferResponseRequest res" where
  "dec_transferResponseRequest j = bindE (object ''api.transferResponseRequest'' j) (\<lambda>ms.
     bindE (read_str ms ''decision'' []) (\<lambda>xDecision.
     bindE (read_str ms ''response'' []) (\<lambda>xResponse.
     Inr \<lparr>tre_Decision = xDecision, tre_Response = xResponse\<rparr>)))"

definition valid_transferResponseRequest :: "transferResponseRequest \<Rightarrow> bool" where
  "valid_transferResponseRequest r \<longleftrightarrow> v_required (tre_Decision r) \<and> v_oneof [''ACCEPT'', ''REJECT''] (tre_Decision r)
     \<and> v_max 500 (tre_Response r)"

record projectMemberRequest =
  pmr_Username :: string

definition dec_projectMemberRequest :: "json \<Rightarrow> projectMemberRequest res" where
  "dec_projectMemberRequest j = bindE (object ''api.projectMemberRequest'' j) (\<lambda>ms.
     bindE (read_str ms ''username'' []) (\<lambda>xUsername.
     Inr \<lparr>pmr_Username = xUsername\<rparr>))"

definition valid_projectMemberRequest :: "projectMemberRequest \<Rightarrow> bool" where
  "valid_projectMemberRequest r \<longleftrightarrow> v_required (pmr_Username r) \<and> v_min 3 (pmr_Username r) \<and> v_max 32 (pmr_Username r)"

record linkProjectRequest =
  lpr_ProjectID :: string

definition dec_linkProjectRequest :: "json \<Rightarrow> linkProjectRequest res" where
  "dec_linkProjectRequest j = bindE (object ''api.linkProjectRequest'' j) (\<lambda>ms.
     bindE (read_str ms ''projectId'' []) (\<lambda>xProjectID.
     Inr \<lparr>lpr_ProjectID = xProjectID\<rparr>))"

definition valid_linkProjectRequest :: "linkProjectRequest \<Rightarrow> bool" where
  "valid_linkProjectRequest r \<longleftrightarrow> v_required (lpr_ProjectID r) \<and> v_max 48 (lpr_ProjectID r)"

record voidRequest =
  vdr_Reason :: string

definition dec_voidRequest :: "json \<Rightarrow> voidRequest res" where
  "dec_voidRequest j = bindE (object ''api.voidRequest'' j) (\<lambda>ms.
     bindE (read_str ms ''reason'' []) (\<lambda>xReason.
     Inr \<lparr>vdr_Reason = xReason\<rparr>))"

definition valid_voidRequest :: "voidRequest \<Rightarrow> bool" where
  "valid_voidRequest r \<longleftrightarrow> v_required (vdr_Reason r) \<and> v_min 2 (vdr_Reason r) \<and> v_max 200 (vdr_Reason r)"

record voidReviewRequest =
  vrr_Decision :: string
  vrr_Opinion :: string

definition dec_voidReviewRequest :: "json \<Rightarrow> voidReviewRequest res" where
  "dec_voidReviewRequest j = bindE (object ''api.voidReviewRequest'' j) (\<lambda>ms.
     bindE (read_str ms ''decision'' []) (\<lambda>xDecision.
     bindE (read_str ms ''opinion'' []) (\<lambda>xOpinion.
     Inr \<lparr>vrr_Decision = xDecision, vrr_Opinion = xOpinion\<rparr>)))"

definition valid_voidReviewRequest :: "voidReviewRequest \<Rightarrow> bool" where
  "valid_voidReviewRequest r \<longleftrightarrow> v_required (vrr_Decision r) \<and> v_oneof [''APPROVE'', ''REJECT''] (vrr_Decision r)
     \<and> v_required (vrr_Opinion r) \<and> v_min 2 (vrr_Opinion r) \<and> v_max 1000 (vrr_Opinion r)"

record verifyRequest =
  vfr_AmountCents :: int64
  vfr_Buyer :: string
  vfr_BuyerMSPID :: string
  vfr_Currency :: string
  vfr_InvoiceNo :: string
  vfr_IssueDate :: string
  vfr_Issuer :: string
  vfr_TaxCents :: int64

definition dec_verifyRequest :: "json \<Rightarrow> verifyRequest res" where
  "dec_verifyRequest j = bindE (object ''api.verifyRequest'' j) (\<lambda>ms.
     bindE (read_int64 ms ''amountCents'' 0) (\<lambda>xAmountCents.
     bindE (read_str ms ''buyer'' []) (\<lambda>xBuyer.
     bindE (read_str ms ''buyerMspId'' []) (\<lambda>xBuyerMSPID.
     bindE (read_str ms ''currency'' []) (\<lambda>xCurrency.
     bindE (read_str ms ''invoiceNo'' []) (\<lambda>xInvoiceNo.
     bindE (read_str ms ''issueDate'' []) (\<lambda>xIssueDate.
     bindE (read_str ms ''issuer'' []) (\<lambda>xIssuer.
     bindE (read_int64 ms ''taxCents'' 0) (\<lambda>xTaxCents.
     Inr \<lparr>vfr_AmountCents = xAmountCents, vfr_Buyer = xBuyer, vfr_BuyerMSPID = xBuyerMSPID, vfr_Currency = xCurrency,
       vfr_InvoiceNo = xInvoiceNo, vfr_IssueDate = xIssueDate, vfr_Issuer = xIssuer, vfr_TaxCents = xTaxCents\<rparr>)))))))))"

definition valid_verifyRequest :: "verifyRequest \<Rightarrow> bool" where
  "valid_verifyRequest r \<longleftrightarrow> v_between 0 10000000000 (vfr_AmountCents r)
     \<and> v_required (vfr_Buyer r)
     \<and> v_required (vfr_BuyerMSPID r) \<and> v_oneof [''Org1MSP'', ''Org2MSP''] (vfr_BuyerMSPID r)
     \<and> (vfr_Currency r = [] \<or> v_oneof [''CNY''] (vfr_Currency r))
     \<and> v_required (vfr_InvoiceNo r)
     \<and> v_required (vfr_IssueDate r)
     \<and> v_required (vfr_Issuer r)
     \<and> v_between 0 10000000000 (vfr_TaxCents r)"

record registerRequest =
  rgr_DisplayName :: string
  rgr_OrganizationID :: string
  rgr_Password :: string
  rgr_Role :: string
  rgr_Username :: string

definition dec_registerRequest :: "json \<Rightarrow> registerRequest res" where
  "dec_registerRequest j = bindE (object ''api.registerRequest'' j) (\<lambda>ms.
     bindE (read_str ms ''displayName'' []) (\<lambda>xDisplayName.
     bindE (read_str ms ''organizationId'' []) (\<lambda>xOrganizationID.
     bindE (read_str ms ''password'' []) (\<lambda>xPassword.
     bindE (read_str ms ''role'' []) (\<lambda>xRole.
     bindE (read_str ms ''username'' []) (\<lambda>xUsername.
     Inr \<lparr>rgr_DisplayName = xDisplayName, rgr_OrganizationID = xOrganizationID, rgr_Password = xPassword, rgr_Role = xRole,
       rgr_Username = xUsername\<rparr>))))))"

definition valid_registerRequest :: "registerRequest \<Rightarrow> bool" where
  "valid_registerRequest r \<longleftrightarrow> v_required (rgr_DisplayName r) \<and> v_min 2 (rgr_DisplayName r) \<and> v_max 48 (rgr_DisplayName r)
     \<and> v_required (rgr_OrganizationID r) \<and> v_max 48 (rgr_OrganizationID r)
     \<and> v_required (rgr_Password r) \<and> v_min 6 (rgr_Password r) \<and> v_max 72 (rgr_Password r)
     \<and> (rgr_Role r = [] \<or> v_oneof [''PROJECT_MEMBER''] (rgr_Role r))
     \<and> v_required (rgr_Username r) \<and> v_min 3 (rgr_Username r) \<and> v_max 32 (rgr_Username r)"

record organizationRequest =
  ogr_Description :: string
  ogr_MSPID :: string
  ogr_Name :: string
  ogr_ParentID :: string
  ogr_Type :: string

definition dec_organizationRequest :: "json \<Rightarrow> organizationRequest res" where
  "dec_organizationRequest j = bindE (object ''api.organizationRequest'' j) (\<lambda>ms.
     bindE (read_str ms ''description'' []) (\<lambda>xDescription.
     bindE (read_str ms ''mspId'' []) (\<lambda>xMSPID.
     bindE (read_str ms ''name'' []) (\<lambda>xName.
     bindE (read_str ms ''parentId'' []) (\<lambda>xParentID.
     bindE (read_str ms ''type'' []) (\<lambda>xType.
     Inr \<lparr>ogr_Description = xDescription, ogr_MSPID = xMSPID, ogr_Name = xName, ogr_ParentID = xParentID,
       ogr_Type = xType\<rparr>))))))"

definition valid_organizationRequest :: "organizationRequest \<Rightarrow> bool" where
  "valid_organizationRequest r \<longleftrightarrow> v_max 1000 (ogr_Description r)
     \<and> v_required (ogr_MSPID r) \<and> v_oneof [''Org1MSP'', ''Org2MSP''] (ogr_MSPID r)
     \<and> v_required (ogr_Name r) \<and> v_min 2 (ogr_Name r) \<and> v_max 100 (ogr_Name r)
     \<and> v_max 48 (ogr_ParentID r)
     \<and> v_required (ogr_Type r) \<and> v_oneof [''PRIMARY'', ''PROJECT_TEAM'', ''EXTERNAL''] (ogr_Type r)"

record projectRequest =
  pjr_BudgetCents :: int64
  pjr_Content :: string
  pjr_ExpectedEndDate :: string
  pjr_ID :: string
  pjr_Name :: string

definition dec_projectRequest :: "json \<Rightarrow> projectRequest res" where
  "dec_projectRequest j = bindE (object ''api.projectRequest'' j) (\<lambda>ms.
     bindE (read_int64 ms ''budgetCents'' 0) (\<lambda>xBudgetCents.
     bindE (read_str ms ''content'' []) (\<lambda>xContent.
     bindE (read_str ms ''expectedEndDate'' []) (\<lambda>xExpectedEndDate.
     bindE (read_str ms ''id'' []) (\<lambda>xID.
     bindE (read_str ms ''name'' []) (\<lambda>xName.
     Inr \<lparr>pjr_BudgetCents = xBudgetCents, pjr_Content = xContent, pjr_ExpectedEndDate = xExpectedEndDate, pjr_ID = xID,
       pjr_Name = xName\<rparr>))))))"

definition valid_projectRequest :: "projectRequest \<Rightarrow> bool" where
  "valid_projectRequest r \<longleftrightarrow> v_between 1 10000000000 (pjr_BudgetCents r)
     \<and> v_required (pjr_Content r) \<and> v_min 2 (pjr_Content r) \<and> v_max 2000 (pjr_Content r)
     \<and> v_required (pjr_ExpectedEndDate r)
     \<and> v_max 48 (pjr_ID r)
     \<and> v_required (pjr_Name r) \<and> v_min 2 (pjr_Name r) \<and> v_max 100 (pjr_Name r)"

record reviewRequest =
  rvr_Decision :: string
  rvr_Opinion :: string

definition dec_reviewRequest :: "json \<Rightarrow> reviewRequest res" where
  "dec_reviewRequest j = bindE (object ''api.reviewRequest'' j) (\<lambda>ms.
     bindE (read_str ms ''decision'' []) (\<lambda>xDecision.
     bindE (read_str ms ''opinion'' []) (\<lambda>xOpinion.
     Inr \<lparr>rvr_Decision = xDecision, rvr_Opinion = xOpinion\<rparr>)))"

definition valid_reviewRequest :: "reviewRequest \<Rightarrow> bool" where
  "valid_reviewRequest r \<longleftrightarrow> v_required (rvr_Decision r) \<and> v_oneof [''APPROVE'', ''REVISION''] (rvr_Decision r)
     \<and> v_required (rvr_Opinion r) \<and> v_min 2 (rvr_Opinion r) \<and> v_max 1000 (rvr_Opinion r)"

record closureRequest =
  clr_Materials :: string

definition dec_closureRequest :: "json \<Rightarrow> closureRequest res" where
  "dec_closureRequest j = bindE (object ''api.closureRequest'' j) (\<lambda>ms.
     bindE (read_str ms ''materials'' []) (\<lambda>xMaterials.
     Inr \<lparr>clr_Materials = xMaterials\<rparr>))"

definition valid_closureRequest :: "closureRequest \<Rightarrow> bool" where
  "valid_closureRequest r \<longleftrightarrow> v_required (clr_Materials r) \<and> v_min 2 (clr_Materials r) \<and> v_max 4000 (clr_Materials r)"

record reimbursementRequest =
  rbr_Evidence :: string
  rbr_ID :: string
  rbr_InvoiceID :: string
  rbr_ProjectID :: string

definition dec_reimbursementRequest :: "json \<Rightarrow> reimbursementRequest res" where
  "dec_reimbursementRequest j = bindE (object ''api.reimbursementRequest'' j) (\<lambda>ms.
     bindE (read_str ms ''evidence'' []) (\<lambda>xEvidence.
     bindE (read_str ms ''id'' []) (\<lambda>xID.
     bindE (read_str ms ''invoiceId'' []) (\<lambda>xInvoiceID.
     bindE (read_str ms ''projectId'' []) (\<lambda>xProjectID.
     Inr \<lparr>rbr_Evidence = xEvidence, rbr_ID = xID, rbr_InvoiceID = xInvoiceID, rbr_ProjectID = xProjectID\<rparr>)))))"

definition valid_reimbursementRequest :: "reimbursementRequest \<Rightarrow> bool" where
  "valid_reimbursementRequest r \<longleftrightarrow> v_required (rbr_Evidence r) \<and> v_min 2 (rbr_Evidence r) \<and> v_max 4000 (rbr_Evidence r)
     \<and> v_max 48 (rbr_ID r)
     \<and> v_required (rbr_InvoiceID r) \<and> v_max 48 (rbr_InvoiceID r)
     \<and> v_required (rbr_ProjectID r) \<and> v_max 48 (rbr_ProjectID r)"

section \<open>Normalization\<close>

definition normalize_currency :: "string \<Rightarrow> string" where
  "normalize_currency s = (let s = ToUpper (TrimSpace s) in if s = [] then ''CNY'' else s)"

definition normalize_createInvoice :: "createInvoiceRequest \<Rightarrow> createInvoiceRequest" where
  "normalize_createInvoice r = r\<lparr>cir_ID := TrimSpace (cir_ID r), cir_InvoiceNo := TrimSpace (cir_InvoiceNo r),
     cir_IssueDate := TrimSpace (cir_IssueDate r), cir_Issuer := TrimSpace (cir_Issuer r),
     cir_Buyer := TrimSpace (cir_Buyer r), cir_BuyerMSPID := TrimSpace (cir_BuyerMSPID r),
     cir_ProjectID := TrimSpace (cir_ProjectID r), cir_Currency := normalize_currency (cir_Currency r)\<rparr>"

definition normalize_verify :: "verifyRequest \<Rightarrow> verifyRequest" where
  "normalize_verify r = r\<lparr>vfr_InvoiceNo := TrimSpace (vfr_InvoiceNo r), vfr_IssueDate := TrimSpace (vfr_IssueDate r),
     vfr_Issuer := TrimSpace (vfr_Issuer r), vfr_Buyer := TrimSpace (vfr_Buyer r),
     vfr_BuyerMSPID := TrimSpace (vfr_BuyerMSPID r), vfr_Currency := normalize_currency (vfr_Currency r)\<rparr>"

definition normalize_project :: "projectRequest \<Rightarrow> projectRequest" where
  "normalize_project r = r\<lparr>pjr_ID := TrimSpace (pjr_ID r), pjr_Name := TrimSpace (pjr_Name r),
     pjr_Content := TrimSpace (pjr_Content r), pjr_ExpectedEndDate := TrimSpace (pjr_ExpectedEndDate r)\<rparr>"

end
