(* ===== verification/Floats.thy ===== *)
theory Floats
  imports GoStrings Complex_Main "HOL-Library.Log_Nat"
begin

text \<open>
  The part of Go's \<open>float64\<close> arithmetic that amounts of money pass through: \<open>strconv.ParseFloat\<close> of a
  decimal, a product and a sum of non-negative numbers, and the conversion to \<open>int64\<close>. A finite
  \<open>float64\<close> is the rational it denotes and \<open>None\<close> is \<open>+Inf\<close>; every operation is the exact
  result rounded to 53 bits, ties to even, with the gradual underflow of IEEE 754. What the language
  leaves to the processor is in the record \<open>processor\<close>: whether a product and a sum are fused into one
  operation, and what a number outside of \<open>int64\<close> is converted to.
\<close>

type_synonym float64 = "rat option"

record processor =
  cpu_fused :: bool
  cpu_wide :: "float64 \<Rightarrow> int64"

section \<open>Rounding\<close>

text \<open>The exponent of the binade of a positive number.\<close>

definition magnitude :: "rat \<Rightarrow> int" where
  "magnitude x = (case quotient_of x of (p, q) \<Rightarrow>
     let e = int (floorlog 2 (nat p)) - int (floorlog 2 (nat q)) in if x < 2 powi e then e - 1 else e)"

definition ulp :: "rat \<Rightarrow> rat" where
  "ulp x = 2 powi (max (magnitude x - 52) (-1074))"

definition half_even :: "rat \<Rightarrow> int" where
  "half_even y = (let k = \<lfloor>y\<rfloor>; r = y - of_int k in if r < 1/2 \<or> r = 1/2 \<and> even k then k else k + 1)"

definition nearest :: "rat \<Rightarrow> rat" where
  "nearest x = (if x \<le> 0 then 0 else of_int (half_even (x / ulp x)) * ulp x)"

text \<open>The rounded value of a non-negative number; too large a number becomes infinite.\<close>

definition to_float :: "rat \<Rightarrow> float64" where
  "to_float x = (if nearest x < 2 ^ 1024 then Some (nearest x) else None)"

section \<open>The operations\<close>

text \<open>
  \<open>strconv.ParseFloat(s, 64)\<close> of a text of digits, dots and signs: \<open>None\<close> is the syntax or the range
  error. A negative number is given by the rounded value of its magnitude.
\<close>

definition decimal :: "string \<Rightarrow> rat option" where
  "decimal s = (let i = takeWhile is_digit s; rest = dropWhile is_digit s in
     case rest of [] \<Rightarrow> if i = [] then None else Some (of_int (digits_val 0 i))
     | c # f \<Rightarrow> if c = CHR ''.'' \<and> list_all is_digit f \<and> i @ f \<noteq> []
         then Some (of_int (digits_val 0 (i @ f)) / 10 ^ length f) else None)"

definition ParseFloat :: "string \<Rightarrow> rat option" where
  "ParseFloat s = (case s of [] \<Rightarrow> None | c # cs \<Rightarrow>
     if c = CHR ''-'' then Option.bind (decimal cs) (\<lambda>x. map_option uminus (to_float x))
     else Option.bind (decimal (if c = CHR ''+'' then cs else s)) to_float)"

text \<open>\<open>a*b + c\<close> for non-negative numbers.\<close>

definition mul_add :: "processor \<Rightarrow> rat \<Rightarrow> rat \<Rightarrow> rat \<Rightarrow> float64" where
  "mul_add cpu a b c =
     (if cpu_fused cpu then to_float (a * b + c) else Option.bind (to_float (a * b)) (\<lambda>p. to_float (p + c)))"

text \<open>\<open>int64(v)\<close> drops the fraction.\<close>

definition float_to_int64 :: "processor \<Rightarrow> float64 \<Rightarrow> int64" where
  "float_to_int64 cpu v = (case v of None \<Rightarrow> cpu_wide cpu None
     | Some r \<Rightarrow> if r < 2 ^ 63 then word_of_int \<lfloor>r\<rfloor> else cpu_wide cpu v)"

section \<open>Rounding errors\<close>

lemma magnitude_bounds:
  assumes "0 < x" shows "2 powi (magnitude x) \<le> x" "x < 2 powi (magnitude x + 1)"
proof -
  obtain p q where pq: "quotient_of x = (p, q)" by fastforce
  have x: "x = of_int p / of_int q" and q: "0 < q"
    using quotient_of_div [OF pq] quotient_of_denom_pos [OF pq] by auto
  with assms have p: "0 < p" by (simp add: zero_less_divide_iff)
  define a where "a = floorlog 2 (nat p)"
  define b where "b = floorlog 2 (nat q)"
  have lg: "1 \<le> floorlog 2 n \<and> 2 ^ (floorlog 2 n - 1) \<le> n \<and> n < 2 ^ floorlog 2 n" if "0 < n" for n
    using floorlog_bounds [of n 2] that by (auto simp: floorlog_def)
  have P: "1 \<le> a" "2 ^ (a - 1) \<le> p" "p < 2 ^ a" and Q: "1 \<le> b" "2 ^ (b - 1) \<le> q" "q < 2 ^ b"
    using lg [of "nat p"] lg [of "nat q"] p q by (auto simp: a_def b_def nat_le_iff nat_less_iff le_nat_iff)
  have up: "x < 2 powi (int a - int b + 1)"
  proof -
    have "x * 2 ^ (b - 1) \<le> x * of_int q"
      using Q(2) assms by (intro mult_left_mono) (metis of_int_le_iff of_int_numeral of_int_power, simp)
    also have "x * of_int q = of_int p" using x q by simp
    also have "\<dots> < 2 ^ a" using P(3) by (metis of_int_less_iff of_int_numeral of_int_power)
    finally have "x < 2 ^ a / 2 ^ (b - 1)" by (simp add: pos_less_divide_eq)
    also have "(2::rat) ^ a / 2 ^ (b - 1) = 2 powi (int a - int (b - 1))"
      by (subst power_int_diff) auto
    finally show ?thesis using Q(1) by (simp add: of_nat_diff algebra_simps)
  qed
  have lo: "2 powi (int a - int b - 1) \<le> x"
  proof -
    have "(2::rat) ^ (a - 1) \<le> of_int p" using P(2) by (metis of_int_le_iff of_int_numeral of_int_power)
    also have "\<dots> = x * of_int q" using x q by simp
    also have "\<dots> \<le> x * 2 ^ b"
      using Q(3) assms by (intro mult_left_mono) (metis less_imp_le of_int_le_iff of_int_numeral of_int_power, simp)
    finally have "(2::rat) ^ (a - 1) / 2 ^ b \<le> x" by (simp add: pos_divide_le_eq)
    moreover have "(2::rat) ^ (a - 1) / 2 ^ b = 2 powi (int (a - 1) - int b)"
      by (subst power_int_diff) auto
    ultimately show ?thesis using P(1) by (simp add: of_nat_diff algebra_simps)
  qed
  have m: "magnitude x = (if x < 2 powi (int a - int b) then int a - int b - 1 else int a - int b)"
    by (simp add: magnitude_def pq a_def b_def Let_def)
  show "2 powi (magnitude x) \<le> x" "x < 2 powi (magnitude x + 1)"
    using lo up by (auto simp: m)
qed

lemma half_even_error: "\<bar>of_int (half_even y) - y\<bar> \<le> 1/2"
proof -
  have "of_int \<lfloor>y\<rfloor> \<le> y" "y < of_int \<lfloor>y\<rfloor> + 1" by linarith+
  then show ?thesis unfolding half_even_def Let_def by (auto simp: abs_le_iff)
qed

lemma half_even_nonneg: "0 \<le> y \<Longrightarrow> 0 \<le> half_even y"
  by (simp add: half_even_def Let_def)

lemma ulp_pos: "0 < ulp x"
  by (simp add: ulp_def)

lemma ulp_le: assumes "0 < x" shows "ulp x \<le> x / 2 ^ 52 + 1 / 2 ^ 1074"
proof -
  have "2 powi (magnitude x - 52) = 2 powi (magnitude x) / (2::rat) ^ 52"
    by (subst power_int_diff) auto
  also have "\<dots> \<le> x / 2 ^ 52" using magnitude_bounds(1) [OF assms] by (intro divide_right_mono) auto
  finally have "2 powi (magnitude x - 52) \<le> x / 2 ^ 52" .
  moreover have "(2::rat) powi (-1074) = 1 / 2 ^ 1074"
    by (simp add: power_int_def power_one_over)
  moreover have "0 \<le> x / 2 ^ 52" "(0::rat) \<le> 1 / 2 ^ 1074" using assms by auto
  ultimately show ?thesis by (auto simp: ulp_def max_def simp del: power_numeral)
qed

lemma nearest_error: assumes "0 \<le> x" shows "\<bar>nearest x - x\<bar> \<le> x / 2 ^ 53 + 1 / 2 ^ 1075"
proof (cases "x = 0")
  case False
  with assms have x: "0 < x" by simp
  let ?k = "of_int (half_even (x / ulp x))"
  have "nearest x - x = (?k - x / ulp x) * ulp x"
    using x ulp_pos [of x] by (simp add: nearest_def field_simps)
  then have "\<bar>nearest x - x\<bar> \<le> 1/2 * ulp x"
    using half_even_error [of "x / ulp x"] ulp_pos [of x] by (simp add: abs_mult mult_right_mono)
  also have "\<dots> \<le> 1/2 * (x / 2 ^ 52 + 1 / 2 ^ 1074)"
    using ulp_le [OF x] by simp
  also have "\<dots> = x / 2 ^ 53 + 1 / 2 ^ 1075" by (simp add: field_simps)
  finally show ?thesis .
qed (simp add: nearest_def)

lemma nearest_nonneg: "0 \<le> nearest x"
  using ulp_pos [of x] by (auto simp: nearest_def intro!: mult_nonneg_nonneg half_even_nonneg divide_nonneg_pos)

text \<open>A coarse form of the bound for linear arithmetic: the relative error and a tiny rest.\<close>

lemma nearest_near:
  assumes "0 \<le> x"
  shows "nearest x \<le> x + x / 9007199254740992 + 1 / 100000000000000000000" "x - x / 9007199254740992 - 1 / 100000000000000000000 \<le> nearest x"
proof -
  have "(1::rat) / 2 ^ 1075 \<le> 1 / 100000000000000000000" by (intro divide_left_mono) auto
  then show "nearest x \<le> x + x / 9007199254740992 + 1 / 100000000000000000000" "x - x / 9007199254740992 - 1 / 100000000000000000000 \<le> nearest x"
    using nearest_error [OF assms] by auto
qed

lemma to_float_small: "0 \<le> x \<Longrightarrow> x \<le> 10 ^ 18 \<Longrightarrow> to_float x = Some (nearest x)"
proof -
  assume x: "0 \<le> x" "x \<le> 10 ^ 18"
  then have "nearest x \<le> 10 ^ 19" using nearest_near(1) [OF x(1)] by simp
  also have "(10::rat) ^ 19 < 2 ^ 1024" by simp
  finally show ?thesis by (simp add: to_float_def)
qed

text \<open>
  A decimal amount of up to ten trillion with two places is off by far less than half a cent after
  the three roundings, so dropping the fraction gives the cents.
\<close>

lemma hundredfold:
  assumes "0 \<le> n" "n \<le> 10 ^ 15"
  defines "a \<equiv> nearest (of_int n / 100)"
  obtains r where "mul_add cpu a 100 (1/2) = Some r" "of_int n \<le> r" "r < of_int n + 1"
proof -
  define N :: rat where "N = of_int n"
  have n: "0 \<le> N" "N \<le> 1000000000000000"
    unfolding N_def using assms(1) of_int_le_iff [of n "10 ^ 15", where 'a = rat] assms(2) by simp_all
  have a: "N / 100 - N / 100 / 9007199254740992 - 1 / 100000000000000000000 \<le> a"
    "a \<le> N / 100 + N / 100 / 9007199254740992 + 1 / 100000000000000000000" "0 \<le> a"
    using nearest_near [of "N / 100"] nearest_nonneg [of "N / 100"] n by (simp_all add: a_def N_def)
  have small: "to_float x = Some (nearest x)" if "0 \<le> x" "x \<le> 2000000000000000" for x
    using that by (intro to_float_small) auto
  define p where "p = (if cpu_fused cpu then a * 100 else nearest (a * 100))"
  have ap: "0 \<le> a * 100" "a * 100 \<le> 1000000000000001" using a n by auto
  have h: "N - N / 9007199254740992 - 1 / 1000000000000000000 \<le> a * 100" "a * 100 \<le> N + N / 9007199254740992 + 1 / 1000000000000000000"
    using a(1,2) by linarith+
  have "nearest (a * 100) \<le> a * 100 + a * 100 / 9007199254740992 + 1 / 100000000000000000000"
    "a * 100 - a * 100 / 9007199254740992 - 1 / 100000000000000000000 \<le> nearest (a * 100)"
    using nearest_near [OF ap(1)] by auto
  then have "nearest (a * 100) \<le> N + N / 3602879701896396 + 1 / 100000000000000000"
    "N - N / 3602879701896396 - 1 / 100000000000000000 \<le> nearest (a * 100)"
    using h n by linarith+
  moreover have "a * 100 \<le> N + N / 3602879701896396 + 1 / 100000000000000000" "N - N / 3602879701896396 - 1 / 100000000000000000 \<le> a * 100"
    using h n by linarith+
  ultimately have p: "0 \<le> p" "N - N / 3602879701896396 - 1 / 100000000000000000 \<le> p" "p \<le> N + N / 3602879701896396 + 1 / 100000000000000000"
    using nearest_nonneg [of "a * 100"] ap by (simp_all add: p_def)
  then have q: "0 \<le> p + 1/2" "p + 1/2 \<le> 2000000000000000" using n by auto
  then have "mul_add cpu a 100 (1/2) = Some (nearest (p + 1/2))"
    using small [of "p + 1/2"] small [of "a * 100"] ap by (simp add: mul_add_def p_def split: if_splits)
  moreover have "N \<le> nearest (p + 1/2)" "nearest (p + 1/2) < N + 1"
    using nearest_near [OF q(1)] p n by (simp_all add: add_divide_distrib)
  ultimately show thesis using that by (auto simp: N_def)
qed

end
