(* ===== verification/OcrText.thy ===== *)
theory OcrText
  imports Messages GoTime Floats
begin

text \<open>
  The text conversions of \<open>backend/ocr/service.go\<close>: amounts and dates as a recognition service prints
  them, file extensions, and the code fence a language model puts around its answer; with the
  functions of \<open>strings\<close> and \<open>regexp\<close> they use.
\<close>

section \<open>Trimming, replacing and splitting\<close>

definition trim_chars_right :: "string \<Rightarrow> string \<Rightarrow> string" where
  "trim_chars_right cutset s = rev (dropWhile (\<lambda>c. c \<in> set cutset) (rev s))"

definition trim_chars :: "string \<Rightarrow> string \<Rightarrow> string" where
  "trim_chars cutset s = trim_chars_right cutset (dropWhile (\<lambda>c. c \<in> set cutset) s)"

definition TrimPrefix :: "string \<Rightarrow> string \<Rightarrow> string" where
  "TrimPrefix s pre = (if prefix pre s then drop (length pre) s else s)"

definition TrimSuffix :: "string \<Rightarrow> string \<Rightarrow> string" where
  "TrimSuffix s suf = (if suffix suf s then take (length s - length suf) s else s)"

text \<open>\<open>strings.NewReplacer\<close>: at every position the first rule that matches, and no text is replaced twice.\<close>

function Replace :: "(string \<times> string) list \<Rightarrow> string \<Rightarrow> string" where
  "Replace rules s = (case s of [] \<Rightarrow> [] | c # t \<Rightarrow>
     (case find (\<lambda>(old, new). old \<noteq> [] \<and> prefix old s) rules of None \<Rightarrow> c # Replace rules t
      | Some (old, new) \<Rightarrow> new @ Replace rules (drop (length old) s)))"
  by pat_completeness auto
termination
  by (relation "measure (\<lambda>(rules, s). length s)") (auto simp: find_Some_iff intro!: diff_less)

declare Replace.simps [simp del]

text \<open>\<open>strings.Split\<close> at a separator of one byte.\<close>

fun split_at :: "char \<Rightarrow> string \<Rightarrow> string list" where
  "split_at sep [] = [[]]"
| "split_at sep (c # s) = (if c = sep then [] # split_at sep s
     else (case split_at sep s of [] \<Rightarrow> [[c]] | w # ws \<Rightarrow> (c # w) # ws))"

section \<open>The conversions\<close>

definition money_char :: "char \<Rightarrow> bool" where
  "money_char c \<longleftrightarrow> is_digit c \<or> c = CHR ''.'' \<or> c = CHR ''-''"

definition parseCents :: "processor \<Rightarrow> string \<Rightarrow> int64" where
  "parseCents cpu value =
    (let clean = filter money_char (TrimSpace value) in
     if clean = [] then 0
     else (case ParseFloat clean of None \<Rightarrow> 0
       | Some amount \<Rightarrow> if amount < 0 then 0 else float_to_int64 cpu (mul_add cpu amount 100 (1/2))))"

definition date_rules :: "(string \<times> string) list" where
  "date_rules = [(u_year, ''-''), (u_month, ''-''), (u_day, []), (''/'', ''-''), (''.'', ''-'')]"

definition re_space :: "char \<Rightarrow> bool" where
  "re_space c \<longleftrightarrow> c \<in> {CHR 0x09, CHR 0x0A, CHR 0x0C, CHR 0x0D, CHR 0x20}"

text \<open>The format \<open>%04d-%02d-%02d\<close>.\<close>

definition iso_text :: "int \<Rightarrow> int \<Rightarrow> int \<Rightarrow> string" where
  "iso_text y m d = pad4 y @ ''-'' @ pad2 m @ ''-'' @ pad2 d"

definition normalizeDate :: "string \<Rightarrow> string" where
  "normalizeDate value =
    (case split_at (CHR ''-'') (filter (\<lambda>c. \<not> re_space c) (Replace date_rules (TrimSpace value))) of
       [a, b, c] \<Rightarrow>
         (case (ParseInt a, ParseInt b, ParseInt c) of
            (Some y, Some m, Some d) \<Rightarrow>
              if sint y < 2000 \<or> sint m < 1 \<or> sint m > 12 \<or> sint d < 1 \<or> sint d > 31 then []
              else (let normalized = iso_text (sint y) (sint m) (sint d)
                    in if parse_iso_date normalized = None then [] else normalized)
          | _ \<Rightarrow> [])
     | _ \<Rightarrow> [])"

definition fileExtension :: "string \<Rightarrow> string" where
  "fileExtension filename =
    (if CHR ''.'' \<in> set filename then CHR ''.'' # rev (takeWhile (\<lambda>c. c \<noteq> CHR ''.'') (rev filename)) else [])"

definition stripCodeFence :: "string \<Rightarrow> string" where
  "stripCodeFence value =
    trim_chars [CHR 0x0A] (TrimSpace (TrimSuffix (TrimPrefix (TrimSpace value) ''```json'') ''```''))"

section \<open>Amounts\<close>

text \<open>The decimal text of an amount in cents.\<close>

definition cents_text :: "nat \<Rightarrow> string" where
  "cents_text n = nat_digits (n div 100) @ CHR ''.'' # pad2 (int (n mod 100))"

lemma digits_val_append: "digits_val acc (a @ b) = digits_val (digits_val acc a) b"
  by (induction a arbitrary: acc) auto

lemma pad2_digits [simp]: "0 \<le> n \<Longrightarrow> n < 100 \<Longrightarrow> list_all is_digit (pad2 n) \<and> digits_val acc (pad2 n) = 100 * acc + n \<and> length (pad2 n) = 2"
  by (auto simp: pad2_def zmod_int nat_less_iff)

lemma decimal_cents_text: "decimal (cents_text n) = Some (of_int (int n) / 100)"
proof -
  have "\<not> is_digit CHR ''.''" by (simp add: is_digit_def)
  then have sp: "takeWhile is_digit (cents_text n) = nat_digits (n div 100)"
    "dropWhile is_digit (cents_text n) = CHR ''.'' # pad2 (int (n mod 100))"
    using nat_digits_all [of "n div 100"] by (simp_all add: cents_text_def takeWhile_append2 dropWhile_append2 list_all_iff)
  have "digits_val 0 (nat_digits (n div 100) @ pad2 (int (n mod 100))) = int n"
    by (simp add: digits_val_append digits_val_nat_digits) (simp add: zdiv_int zmod_int)
  then show ?thesis by (simp add: decimal_def sp)
qed

lemma ParseFloat_cents_text: "n \<le> 10 ^ 15 \<Longrightarrow> ParseFloat (cents_text n) = Some (nearest (of_int (int n) / 100))"
proof -
  obtain c cs where c: "nat_digits (n div 100) = c # cs" by (cases "nat_digits (n div 100)") auto
  then have hd: "cents_text n = c # cs @ CHR ''.'' # pad2 (int (n mod 100))" by (simp add: cents_text_def)
  assume "n \<le> 10 ^ 15"
  then have "(of_nat n :: rat) \<le> of_nat (10 ^ 15)" by (simp only: of_nat_le_iff)
  then have "to_float (of_int (int n) / 100) = Some (nearest (of_int (int n) / 100))"
    by (intro to_float_small) auto
  with nat_digits_hd [OF c] decimal_cents_text [of n] show ?thesis by (simp add: ParseFloat_def hd)
qed

theorem amounts_are_read_exactly:
  assumes "n \<le> 10 ^ 15" "filter money_char (TrimSpace s) = cents_text n"
  shows "sint (parseCents cpu s) = int n"
proof -
  let ?a = "nearest (of_int (int n) / 100)"
  obtain r where r: "mul_add cpu ?a 100 (1/2) = Some r" "of_int (int n) \<le> r" "r < of_int (int n) + 1"
    using hundredfold [of "int n" cpu] assms(1) by (metis int_ops(3) of_nat_0_le_iff of_nat_le_iff of_nat_numeral of_nat_power)
  have "cents_text n \<noteq> []" by (simp add: cents_text_def)
  moreover have "\<lfloor>r\<rfloor> = int n" using r by (simp add: floor_eq_iff)
  moreover have "r < 2 ^ 63"
  proof -
    have "(of_nat n :: rat) \<le> of_nat (10 ^ 15)" using assms(1) by (simp only: of_nat_le_iff)
    with r(3) show ?thesis by simp
  qed
  moreover have "\<not> ?a < 0" using nearest_nonneg [of "of_int (int n) / 100"] by simp
  ultimately show ?thesis
    using assms ParseFloat_cents_text [OF assms(1)] r(1) sint64_of_int [of "int n"]
    by (simp add: parseCents_def float_to_int64_def)
qed

section \<open>Dates\<close>

lemma days_in_month_le: "days_in_month y m \<le> 31"
  by (simp add: days_in_month_def)

lemma pad4_digits: "0 \<le> y \<Longrightarrow> y < 10000 \<Longrightarrow> list_all is_digit (pad4 y) \<and> digits_val 0 (pad4 y) = y \<and> length (pad4 y) = 4"
  by (simp add: pad4_def digits_val_append zdiv_mono1 [of y 9999 100, simplified] pos_imp_zdiv_nonneg_iff)

lemma parse_iso_text:
  assumes "0 \<le> y" "y < 10000" "1 \<le> m" "m \<le> 12" "1 \<le> d" "d \<le> days_in_month y m"
  shows "parse_iso_date (iso_text y m d) = Some (y, m, d)"
proof -
  have d: "d < 100" using assms days_in_month_le [of y m] by simp
  have p: "list_all is_digit (pad4 y)" "digits_val 0 (pad4 y) = y" "length (pad4 y) = 4"
    using pad4_digits [OF assms(1,2)] by auto
  with assms d show ?thesis by (simp add: parse_iso_date_def iso_text_def nth_append)
qed

lemma digit_bounds: "is_digit x \<Longrightarrow> 0 \<le> digit_val x \<and> digit_val x < 10 \<and> digit_char (nat (digit_val x)) = x"
  by (auto simp: is_digit_def digit_val_def digit_char_def Let_def nat_diff_distrib)

lemma pad2_two_digits: "is_digit a \<Longrightarrow> is_digit b \<Longrightarrow> pad2 (10 * digit_val a + digit_val b) = [a, b]"
  using digit_bounds [of a] digit_bounds [of b] by (simp add: pad2_def)

lemma hundreds: "0 \<le> q \<Longrightarrow> q < 100 \<Longrightarrow> (100 * p + q) div 100 = p \<and> (100 * p + q) mod 100 = (q :: int)"
  by auto

text \<open>A date text is its own normal form.\<close>

lemma iso_text_of:
  assumes "parse_iso_date s = Some (y, m, d)"
  shows "s = iso_text y m d \<and> 0 \<le> y \<and> y < 10000 \<and> 1 \<le> m \<and> m \<le> 12 \<and> 1 \<le> d \<and> d \<le> days_in_month y m"
proof -
  have "length s = 10" using assms by (auto simp: parse_iso_date_def split: if_splits)
  then obtain a b c e f g h i j k where s: "s = [a, b, c, e, f, g, h, i, j, k]"
    by (auto simp: numeral_eq_Suc length_Suc_conv)
  have dig: "is_digit a" "is_digit b" "is_digit c" "is_digit e" "is_digit g" "is_digit h" "is_digit j" "is_digit k"
    "f = CHR ''-''" "i = CHR ''-''"
    using assms by (auto simp: parse_iso_date_def s numeral_eq_Suc split: if_splits)
  then have v: "y = 100 * (10 * digit_val a + digit_val b) + (10 * digit_val c + digit_val e)"
    "m = 10 * digit_val g + digit_val h" "d = 10 * digit_val j + digit_val k"
    using assms by (auto simp: parse_iso_date_def s numeral_eq_Suc Let_def split: if_splits)
  have "0 \<le> 10 * digit_val c + digit_val e" "10 * digit_val c + digit_val e < 100"
    "0 \<le> 10 * digit_val a + digit_val b" "10 * digit_val a + digit_val b < 100"
    using digit_bounds [OF dig(1)] digit_bounds [OF dig(2)] digit_bounds [OF dig(3)] digit_bounds [OF dig(4)] by auto
  note h = hundreds [OF this(1,2), of "10 * digit_val a + digit_val b"] this
  then have y: "y div 100 = 10 * digit_val a + digit_val b" "y mod 100 = 10 * digit_val c + digit_val e" "0 \<le> y" "y < 10000"
    unfolding v(1) by (blast, blast, linarith, linarith)
  then have "pad4 y = [a, b, c, e]" using dig by (simp add: pad4_def pad2_two_digits)
  with y(3,4) parse_iso_date_bounds [OF assms] dig show ?thesis
    by (simp add: iso_text_def s v(2,3) pad2_two_digits)
qed

text \<open>Digits and separators of a printed date.\<close>

lemma ParseInt_digits:
  assumes "ds \<noteq> []" "list_all is_digit ds" "digits_val 0 ds \<le> max_int64"
  shows "ParseInt ds = Some (word_of_int (digits_val 0 ds))"
proof -
  have "0 \<le> digits_val acc s" if "list_all is_digit s" "0 \<le> acc" for acc s
    using that
  proof (induction s arbitrary: acc)
    case (Cons c s)
    then have "0 \<le> 10 * acc + digit_val c" using digit_bounds [of c] by simp
    with Cons show ?case by simp
  qed simp
  with assms(2) have n: "0 \<le> digits_val 0 ds" by simp
  obtain c cs where c: "ds = c # cs" using assms(1) by (cases ds) auto
  have "c \<noteq> CHR ''-''" "c \<noteq> CHR ''+''" using assms(2) by (auto simp: c is_digit_def)
  then have "ParseInt ds = (case parse_nat ds of None \<Rightarrow> None
      | Some i \<Rightarrow> if min_int64 \<le> i \<and> i \<le> max_int64 then Some (word_of_int i) else None)"
    by (simp add: ParseInt_def c)
  also have "parse_nat ds = Some (digits_val 0 ds)" using assms(1,2) by (simp add: parse_nat_def)
  finally show ?thesis using n assms(3) by simp
qed

lemma u_bytes: "u_year = [CHR 0xE5, CHR 0xB9, CHR 0xB4]" "u_month = [CHR 0xE6, CHR 0x9C, CHR 0x88]"
  "u_day = [CHR 0xE6, CHR 0x97, CHR 0xA5]"
  by code_simp+

lemma Replace_hit:
  "s = c # t \<Longrightarrow> find (\<lambda>(old, new). old \<noteq> [] \<and> prefix old s) rules = Some (old, new) \<Longrightarrow>
    Replace rules s = new @ Replace rules (drop (length old) s)"
  by (subst Replace.simps) simp

lemma Replace_miss:
  "s = c # t \<Longrightarrow> find (\<lambda>(old, new). old \<noteq> [] \<and> prefix old s) rules = None \<Longrightarrow> Replace rules s = c # Replace rules t"
  by (subst Replace.simps) simp

lemma Replace_digits: "list_all is_digit ds \<Longrightarrow> Replace date_rules (ds @ t) = ds @ Replace date_rules t"
proof (induction ds)
  case (Cons c ds)
  then have "CHR 0xE5 \<noteq> c" "CHR 0xE6 \<noteq> c" "CHR ''/'' \<noteq> c" "CHR ''.'' \<noteq> c" by (auto simp: is_digit_def)
  then have "find (\<lambda>(old, new). old \<noteq> [] \<and> prefix old (c # ds @ t)) date_rules = None"
    by (simp add: date_rules_def u_bytes)
  from Replace_miss [OF refl this] Cons show ?case by simp
qed simp

lemma Replace_separator:
  assumes "a \<in> {u_year, u_month, ''/'', ''.'', ''-''}"
  shows "Replace date_rules (a @ t) = CHR ''-'' # Replace date_rules t"
proof (cases "a = ''-''")
  case True
  then show ?thesis
    by (simp add: Replace_miss [of _ "CHR ''-''" t] date_rules_def u_bytes)
next
  case False
  with assms have "find (\<lambda>(old, new). old \<noteq> [] \<and> prefix old (a @ t)) date_rules = Some (a, ''-'')"
    by (elim insertE emptyE) (simp_all add: date_rules_def u_bytes)
  moreover obtain c r where c: "a @ t = c # r" using assms by (cases "a @ t") (auto simp: u_bytes)
  moreover have "drop (length a) (a @ t) = t" by simp
  ultimately show ?thesis using Replace_hit [OF c, of date_rules a "''-''"] by simp
qed

lemma Replace_end: "c \<in> {u_day, []} \<Longrightarrow> Replace date_rules c = []"
  by (auto simp: Replace.simps [of "_ # _"] Replace.simps [of _ "[]"] Replace.simps date_rules_def u_bytes)

lemma split_at_digits: "list_all is_digit ds \<Longrightarrow> split_at (CHR ''-'') (ds @ CHR ''-'' # t) = ds # split_at (CHR ''-'') t"
  "list_all is_digit ds \<Longrightarrow> split_at (CHR ''-'') ds = [ds]"
  by (induction ds) (auto simp: is_digit_def)

lemma normalize_printed:
  assumes ds: "list_all is_digit ys" "list_all is_digit ms" "list_all is_digit ds" "ys \<noteq> []" "ms \<noteq> []" "ds \<noteq> []"
    and v: "digits_val 0 ys = y" "digits_val 0 ms = m" "digits_val 0 ds = d"
    and b: "2000 \<le> y" "y < 10000" "1 \<le> m" "m \<le> 12" "1 \<le> d" "d \<le> days_in_month y m"
    and sep: "{s1, s2} \<subseteq> {u_year, u_month, ''/'', ''.'', ''-''}" "s3 \<in> {u_day, []}"
  shows "normalizeDate (ys @ s1 @ ms @ s2 @ ds @ s3) = iso_text y m d"
proof -
  let ?v = "ys @ s1 @ ms @ s2 @ ds @ s3" and ?w = "ys @ CHR ''-'' # ms @ CHR ''-'' # ds"
  have dg: "\<not> space1 c \<and> c \<notin> {CHR 0xC2, CHR 0xE1, CHR 0xE2, CHR 0xE3} \<and> \<not> re_space c" if "is_digit c" for c
    using that by (auto simp: is_digit_def space1_def re_space_def)
  have digits: "\<not> space1 c \<and> c \<notin> {CHR 0xC2, CHR 0xE1, CHR 0xE2, CHR 0xE3}" if "c \<in> set w" "list_all is_digit w" for c w
    using that dg by (auto simp: list_all_iff)
  have seps: "\<not> space1 c \<and> c \<notin> {CHR 0xC2, CHR 0xE1, CHR 0xE2, CHR 0xE3}"
    if "c \<in> set w" "w \<in> {u_year, u_month, u_day, ''/'', ''.'', ''-'', []}" for c w
    using that by (auto simp: u_bytes space1_def)
  have "\<not> space1 c \<and> c \<notin> {CHR 0xC2, CHR 0xE1, CHR 0xE2, CHR 0xE3}" if "c \<in> set ?v" for c
    using that digits [OF _ ds(1)] digits [OF _ ds(2)] digits [OF _ ds(3)] seps [of c s1] seps [of c s2] seps [of c s3] sep
    unfolding set_append Un_iff by (elim disjE) blast+
  then have "TrimSpace ?v = ?v" by (rule TrimSpace_same)
  moreover have "Replace date_rules ?v = ?w"
    using ds(1-3) sep Replace_digits [OF ds(3), of s3] by (simp add: Replace_digits Replace_separator Replace_end)
  moreover have "filter (\<lambda>c. \<not> re_space c) ?w = ?w"
    using ds(1-3) dg by (auto simp: filter_id_conv list_all_iff re_space_def)
  moreover have "split_at (CHR ''-'') ?w = [ys, ms, ds]"
    using ds(1-3) by (simp add: split_at_digits)
  ultimately have "split_at (CHR ''-'') (filter (\<lambda>c. \<not> re_space c) (Replace date_rules (TrimSpace ?v))) = [ys, ms, ds]"
    by (simp only:)
  moreover have "ParseInt ys = Some (word_of_int y)" "ParseInt ms = Some (word_of_int m)" "ParseInt ds = Some (word_of_int d)"
    using ParseInt_digits [OF ds(4,1)] ParseInt_digits [OF ds(5,2)] ParseInt_digits [OF ds(6,3)] v b days_in_month_le [of y m]
    by simp_all
  moreover have "sint (word_of_int y :: int64) = y" "sint (word_of_int m :: int64) = m" "sint (word_of_int d :: int64) = d"
    using b days_in_month_le [of y m] by (simp_all add: sint64_of_int)
  ultimately show ?thesis
    using b days_in_month_le [of y m] parse_iso_text [of y m d]
    by (simp add: normalizeDate_def)
qed

text \<open>Every normal form is empty or a date, and the normal form of a date is the date itself.\<close>

lemma digits_val_less: "list_all is_digit s \<Longrightarrow> digits_val acc s < (acc + 1) * 10 ^ length s"
proof (induction s arbitrary: acc)
  case (Cons c s)
  then have "digits_val (10 * acc + digit_val c) s < (10 * acc + digit_val c + 1) * 10 ^ length s" by simp
  also have "\<dots> \<le> (10 * (acc + 1)) * 10 ^ length s"
    using digit_bounds [of c] Cons.prems by (intro mult_right_mono) auto
  finally show ?case by (simp add: algebra_simps)
qed simp

lemma iso_text_year:
  assumes "parse_iso_date (iso_text y m d) \<noteq> None" "0 \<le> y"
  shows "y < 10000"
proof (rule ccontr)
  assume n: "\<not> y < 10000"
  then have "length (iso_text y m d) = length (nat_digits (nat y)) + 6"
    by (simp add: iso_text_def pad4_def pad2_def)
  moreover have "length (iso_text y m d) = 10" using assms(1) by (auto simp: parse_iso_date_def split: if_splits)
  ultimately have "length (nat_digits (nat y)) = 4" by simp
  then show False
    using digits_val_less [OF nat_digits_all, of 0 "nat y"] n by (simp add: digits_val_nat_digits)
qed

lemma parse_iso_text_Some:
  assumes "parse_iso_date (iso_text y m d) \<noteq> None" "0 \<le> y" "1 \<le> m" "m \<le> 12" "1 \<le> d" "d \<le> 31"
  shows "parse_iso_date (iso_text y m d) = Some (y, m, d)"
proof -
  note y = iso_text_year [OF assms(1,2)]
  then have p: "list_all is_digit (pad4 y)" "digits_val 0 (pad4 y) = y" "length (pad4 y) = 4"
    using pad4_digits [OF assms(2)] by auto
  show ?thesis
    using assms p by (simp add: parse_iso_date_def iso_text_def nth_append split: if_splits)
qed

lemma parsed_year:
  assumes "parse_iso_date (iso_text y m d) = Some (a, b, c)" "2000 \<le> y" "1 \<le> m" "m \<le> 12" "1 \<le> d" "d \<le> 31"
  shows "2000 \<le> a"
  using parse_iso_text_Some [of y m d] assms by simp

lemma normalizeDate_cases:
  "normalizeDate v = [] \<or> (\<exists>y m d. parse_iso_date (normalizeDate v) = Some (y, m, d) \<and> 2000 \<le> y)"
  by (auto simp: normalizeDate_def Let_def not_less split: list.split option.split intro: parsed_year)

lemma normalizeDate_iso:
  assumes "parse_iso_date s = Some (y, m, d)" "2000 \<le> y"
  shows "normalizeDate s = s"
proof -
  have s: "s = iso_text y m d" and b: "y < 10000" "1 \<le> m" "m \<le> 12" "1 \<le> d" "d \<le> days_in_month y m"
    using iso_text_of [OF assms(1)] by auto
  have "d < 100" using b days_in_month_le [of y m] by simp
  then have "list_all is_digit (pad4 y)" "list_all is_digit (pad2 m)" "list_all is_digit (pad2 d)"
    "digits_val 0 (pad4 y) = y" "digits_val 0 (pad2 m) = m" "digits_val 0 (pad2 d) = d"
    "pad4 y \<noteq> []" "pad2 m \<noteq> []" "pad2 d \<noteq> []"
    using pad4_digits [of y] b assms(2) by (auto simp: pad2_def)
  from normalize_printed [OF this(1-3,7-9,4-6) assms(2) b, of "''-''" "''-''" "[]"] show ?thesis
    by (simp add: s iso_text_def)
qed

lemma normalizeDate_Nil: "normalizeDate [] = []"
  by (simp add: normalizeDate_def Replace.simps)

lemma normalizeDate_idem: "normalizeDate (normalizeDate v) = normalizeDate v"
  using normalizeDate_cases [of v] normalizeDate_iso normalizeDate_Nil by fastforce

end
