(* ===== verification/JsonText.thy ===== *)
theory JsonText
  imports Json
begin

text \<open>
  The text level of \<open>encoding/json\<close>: how \<open>json.Unmarshal\<close> and \<open>json.Decoder\<close> read the bytes of a
  document, with the escapes and surrogate pairs of strings, the replacement of invalid UTF-8, the
  number grammar and the limit of 10000 nested containers. What \<open>json_text\<close> prints is read back.
\<close>

section \<open>Strings\<close>

definition hex_digit_val :: "char \<Rightarrow> nat" where
  "hex_digit_val c = (let n = of_char c in if n < 58 then n - 48 else if n < 71 then n - 55 else n - 87)"

definition hex4 :: "string \<Rightarrow> nat option" where
  "hex4 s = (case s of a # b # c # d # _ \<Rightarrow>
       if list_all is_hex_digit [a, b, c, d]
       then Some (4096 * hex_digit_val a + 256 * hex_digit_val b + 16 * hex_digit_val c + hex_digit_val d)
       else None
     | _ \<Rightarrow> None)"

definition utf8 :: "nat \<Rightarrow> string" where
  "utf8 n = (if n < 0x80 then [char_of n]
     else if n < 0x800 then [char_of (0xC0 + n div 64), char_of (0x80 + n mod 64)]
     else if n < 0x10000 then
       [char_of (0xE0 + n div 4096), char_of (0x80 + n div 64 mod 64), char_of (0x80 + n mod 64)]
     else [char_of (0xF0 + n div 262144), char_of (0x80 + n div 4096 mod 64), char_of (0x80 + n div 64 mod 64),
       char_of (0x80 + n mod 64)])"

definition replacement :: string where
  "replacement = utf8 0xFFFD"

definition unescape :: "char \<Rightarrow> char" where
  "unescape c = (if c = CHR ''b'' then CHR 0x08 else if c = CHR ''f'' then CHR 0x0C else if c = CHR ''n'' then CHR 0x0A
     else if c = CHR ''r'' then CHR 0x0D else if c = CHR ''t'' then CHR 0x09 else c)"

text \<open>The second half of a surrogate pair, if the text goes on with one.\<close>

definition low_surrogate :: "string \<Rightarrow> nat option" where
  "low_surrogate s = (if take 2 s = [CHR 0x5C, CHR ''u''] then
       (case hex4 (drop 2 s) of None \<Rightarrow> None
        | Some v \<Rightarrow> if 0xDC00 \<le> v \<and> v < 0xE000 then Some v else None)
     else None)"

text \<open>What one escape, without its backslash, stands for, and the text after it.\<close>

definition read_escape :: "string \<Rightarrow> (string \<times> string) option" where
  "read_escape s = (case s of [] \<Rightarrow> None | b # t \<Rightarrow>
     if b = CHR ''u'' then
       (case hex4 t of None \<Rightarrow> None
        | Some u \<Rightarrow>
            if 0xD800 \<le> u \<and> u < 0xE000 then
              (case (if u < 0xDC00 then low_surrogate (drop 4 t) else None) of
                 Some v \<Rightarrow> Some (utf8 (0x10000 + 1024 * (u - 0xD800) + (v - 0xDC00)), drop 10 t)
               | None \<Rightarrow> Some (replacement, drop 4 t))
            else Some (utf8 u, drop 4 t))
     else if b \<in> {CHR 0x22, CHR 0x5C, CHR ''/'', CHR ''b'', CHR ''f'', CHR ''n'', CHR ''r'', CHR ''t''}
       then Some ([unescape b], t)
     else None)"

lemma read_escape_shorter: "read_escape s = Some (r, t) \<Longrightarrow> length t < length s"
  by (auto simp: read_escape_def split: list.splits option.splits if_splits)

text \<open>The rest of a string after its opening quotation mark: the value, and the text after the closing one.\<close>

function read_string :: "string \<Rightarrow> (string \<times> string) option" where
  "read_string s = (case s of [] \<Rightarrow> None | a # t \<Rightarrow>
     if a = CHR 0x22 then Some ([], t)
     else if a = CHR 0x5C then
       (case read_escape t of None \<Rightarrow> None | Some (r, u) \<Rightarrow> map_option (apfst ((@) r)) (read_string u))
     else if a < CHR 0x20 then None
     else if rune_len s = 0 then map_option (apfst ((@) replacement)) (read_string t)
     else map_option (apfst ((@) (take (rune_len s) s))) (read_string (drop (rune_len s) s)))"
  by pat_completeness auto
termination
  by (relation "measure length") (auto dest: read_escape_shorter)

declare read_string.simps [simp del]

lemma read_string_shorter: "read_string s = Some (r, t) \<Longrightarrow> length t < length s"
proof (induction s arbitrary: r t rule: measure_induct_rule [of length])
  case (less s)
  have "length t < length s \<or> (\<exists>y r'. read_string y = Some (r', t) \<and> length y < length s)"
    using less.prems
    by (subst (asm) read_string.simps)
      (auto simp: apfst_def split: list.splits option.splits if_splits prod.splits dest!: read_escape_shorter)
  with less.IH show ?case by (blast intro: less_trans)
qed

section \<open>Numbers\<close>

text \<open>The literal at the start of a text: an integer part without leading zeros, a fraction, an exponent.\<close>

definition span_digits :: "string \<Rightarrow> string \<times> string" where
  "span_digits s = (takeWhile is_digit s, dropWhile is_digit s)"

definition read_exponent :: "string \<Rightarrow> (string \<times> string) option" where
  "read_exponent s = (case s of [] \<Rightarrow> Some ([], s) | e # t \<Rightarrow>
     if e \<in> {CHR ''e'', CHR ''E''} then
       (let sign = takeWhile (\<lambda>c. c \<in> {CHR ''+'', CHR ''-''}) (take 1 t);
            (ds, r) = span_digits (drop (length sign) t)
        in if ds = [] then None else Some (e # sign @ ds, r))
     else Some ([], s))"

definition read_fraction :: "string \<Rightarrow> (string \<times> string) option" where
  "read_fraction s = (case s of [] \<Rightarrow> Some ([], s) | p # t \<Rightarrow>
     if p = CHR ''.'' then (let (ds, r) = span_digits t in if ds = [] then None else Some (p # ds, r))
     else Some ([], s))"

definition read_integer :: "string \<Rightarrow> (string \<times> string) option" where
  "read_integer s = (let (ds, r) = span_digits s in
     if ds = [] then None else if hd ds = CHR ''0'' then Some (''0'', tl ds @ r) else Some (ds, r))"

definition read_number :: "string \<Rightarrow> (json \<times> string) option" where
  "read_number s = (let neg = (take 1 s = ''-'') in
     case read_integer (if neg then tl s else s) of None \<Rightarrow> None
     | Some (ds, r) \<Rightarrow> (case read_fraction r of None \<Rightarrow> None
       | Some (f, r') \<Rightarrow> (case read_exponent r' of None \<Rightarrow> None
         | Some (e, r'') \<Rightarrow>
             if f = [] \<and> e = [] then Some (JInt (if neg then - digits_val 0 ds else digits_val 0 ds), r'')
             else Some (JReal ((if neg then ''-'' else []) @ ds @ f @ e), r''))))"

lemma span_digits_append: "span_digits s = (d, r) \<Longrightarrow> s = d @ r"
  by (auto simp: span_digits_def)

lemma read_integer_shorter: "read_integer s = Some (d, r) \<Longrightarrow> length r < length s"
proof -
  assume a: "read_integer s = Some (d, r)"
  obtain ds q where sp: "span_digits s = (ds, q)" by fastforce
  have s: "s = ds @ q" by (rule span_digits_append [OF sp])
  from a sp show ?thesis
    by (cases ds) (auto simp: read_integer_def s split: if_splits)
qed

lemma read_fraction_length: "read_fraction s = Some (d, r) \<Longrightarrow> length r \<le> length s"
  by (auto simp: read_fraction_def split: list.splits if_splits prod.splits dest!: span_digits_append)

lemma read_exponent_length: "read_exponent s = Some (d, r) \<Longrightarrow> length r \<le> length s"
proof -
  assume a: "read_exponent s = Some (d, r)"
  have "length r \<le> length t" if "span_digits (drop n t) = (ds, r)" for n t ds
    using arg_cong [OF span_digits_append [OF that], of length] by simp
  then have "r = s \<or> length r \<le> length (tl s)"
    using a by (cases s) (auto simp: read_exponent_def Let_def split: if_splits prod.splits)
  then show ?thesis by auto
qed

lemma read_number_shorter: "read_number s = Some (j, r) \<Longrightarrow> length r < length s"
  by (auto simp: read_number_def Let_def split: option.splits if_splits prod.splits
      dest!: read_integer_shorter read_fraction_length read_exponent_length)

section \<open>Values\<close>

definition skip_ws :: "string \<Rightarrow> string" where
  "skip_ws s = dropWhile (\<lambda>c. c \<in> {CHR 0x20, CHR 0x09, CHR 0x0A, CHR 0x0D}) s"

lemma skip_ws_length: "length (skip_ws s) \<le> length s"
  by (simp add: skip_ws_def length_dropWhile_le)

lemma skip_ws_Cons: "skip_ws s = c # t \<Longrightarrow> length t < length s"
  using skip_ws_length [of s] by simp

text \<open>Text that must follow at this point, and the text after it.\<close>

definition expect :: "string \<Rightarrow> string \<Rightarrow> string option" where
  "expect w s = (if prefix w s then Some (drop (length w) s) else None)"

lemma expect_length: "expect w s = Some r \<Longrightarrow> length r = length s - length w \<and> length w \<le> length s"
  by (auto simp: expect_def prefix_def split: if_splits)

text \<open>
  The first argument counts the containers that may still be opened. The tests on the lengths are
  always true, as shown below; they are there for the termination proof.
\<close>

function read_value :: "nat \<Rightarrow> string \<Rightarrow> (json \<times> string) option"
  and read_elements :: "nat \<Rightarrow> string \<Rightarrow> (json list \<times> string) option"
  and read_members :: "nat \<Rightarrow> string \<Rightarrow> ((string \<times> json) list \<times> string) option" where
  "read_value d s = (case skip_ws s of [] \<Rightarrow> None | c # t \<Rightarrow>
     if c = CHR ''{'' then
       (if d = 0 then None else case expect ''}'' (skip_ws t) of
          Some r \<Rightarrow> Some (JObj [], r) | None \<Rightarrow> map_option (apfst JObj) (read_members (d - 1) t))
     else if c = CHR ''['' then
       (if d = 0 then None else case expect '']'' (skip_ws t) of
          Some r \<Rightarrow> Some (JArr [], r) | None \<Rightarrow> map_option (apfst JArr) (read_elements (d - 1) t))
     else if c = CHR 0x22 then map_option (apfst JStr) (read_string t)
     else if c = CHR ''t'' then map_option (Pair (JBool True)) (expect ''rue'' t)
     else if c = CHR ''f'' then map_option (Pair (JBool False)) (expect ''alse'' t)
     else if c = CHR ''n'' then map_option (Pair JNull) (expect ''ull'' t)
     else read_number (c # t))"
| "read_elements d s = (case read_value d s of None \<Rightarrow> None | Some (j, r) \<Rightarrow>
     (case skip_ws r of [] \<Rightarrow> None | c # t \<Rightarrow>
        if c = CHR '']'' then Some ([j], t)
        else if c = CHR '','' \<and> length t < length s then map_option (apfst ((#) j)) (read_elements d t)
        else None))"
| "read_members d s = (case skip_ws s of [] \<Rightarrow> None | q # u \<Rightarrow>
     if q \<noteq> CHR 0x22 then None
     else (case read_string u of None \<Rightarrow> None | Some (name, v) \<Rightarrow>
     (case expect '':'' (skip_ws v) of None \<Rightarrow> None | Some w \<Rightarrow>
     (case read_value d w of None \<Rightarrow> None | Some (j, r) \<Rightarrow>
     (case skip_ws r of [] \<Rightarrow> None | c # t \<Rightarrow>
        if c = CHR ''}'' then Some ([(name, j)], t)
        else if c = CHR '','' \<and> length t < length s then map_option (apfst ((#) (name, j))) (read_members d t)
        else None)))))"
  by pat_completeness auto
termination
  by (relation "measures [case_sum (\<lambda>(d, s). length s) (case_sum (\<lambda>(d, s). length s) (\<lambda>(d, s). length s)),
      case_sum (\<lambda>_. 0) (case_sum (\<lambda>_. 1) (\<lambda>_. 1))]")
    (auto dest!: skip_ws_Cons read_string_shorter expect_length, (use skip_ws_length in \<open>fastforce dest: le_trans\<close>)+)

declare read_value.simps [simp del] read_elements.simps [simp del] read_members.simps [simp del]

lemma read_value_cases:
  assumes "read_value d s = Some (j, r)"
  shows "\<exists>c t. skip_ws s = c # t \<and> ((\<exists>ms. read_members (d - 1) t = Some (ms, r)) \<or> (\<exists>js. read_elements (d - 1) t = Some (js, r))
    \<or> (\<exists>x. read_string t = Some (x, r)) \<or> (\<exists>w. expect w t = Some r) \<or> (\<exists>w. w \<noteq> [] \<and> expect w (skip_ws t) = Some r)
    \<or> read_number (c # t) = Some (j, r))"
proof (cases "skip_ws s")
  case (Cons c t)
  from assms show ?thesis
    unfolding read_value.simps [of d s] Cons list.case
    by (simp only: list.inject ex_simps simp_thms, cases "expect ''}'' (skip_ws t)"; cases "expect '']'' (skip_ws t)")
      (force simp: apfst_def split: if_splits)+
qed (use assms in \<open>simp add: read_value.simps\<close>)

lemma read_elements_cases:
  assumes "read_elements d s = Some (js, r)"
  shows "\<exists>j u c t. read_value d s = Some (j, u) \<and> skip_ws u = c # t
    \<and> (r = t \<or> length t < length s \<and> (\<exists>js. read_elements d t = Some (js, r)))"
  using assms by (subst (asm) read_elements.simps) (auto simp: apfst_def split: option.splits list.splits if_splits)

lemma read_members_cases:
  assumes "read_members d s = Some (ms, r)"
  shows "\<exists>q u name v w j x c t. skip_ws s = q # u \<and> read_string u = Some (name, v) \<and> expect '':'' (skip_ws v) = Some w
    \<and> read_value d w = Some (j, x) \<and> skip_ws x = c # t
    \<and> (r = t \<or> length t < length s \<and> (\<exists>ms. read_members d t = Some (ms, r)))"
  using assms by (subst (asm) read_members.simps) (auto simp: apfst_def split: option.splits list.splits if_splits)

text \<open>Every reader consumes text, so the tests on the lengths can be dropped.\<close>

lemma readers_shorter:
  shows read_value_shorter: "read_value d s = Some (j, r) \<Longrightarrow> length r < length s"
    and read_elements_shorter: "read_elements d s = Some (js, r) \<Longrightarrow> length r < length s"
    and read_members_shorter: "read_members d s = Some (ms, r) \<Longrightarrow> length r < length s"
proof (induction s arbitrary: d j r js ms rule: measure_induct_rule [of length])
  case (less s)
  have v: "length r < length s" if val: "read_value d s = Some (j, r)" for d j r
  proof -
    obtain c t where ct: "skip_ws s = c # t" and or: "(\<exists>ms. read_members (d - 1) t = Some (ms, r))
        \<or> (\<exists>js. read_elements (d - 1) t = Some (js, r)) \<or> (\<exists>x. read_string t = Some (x, r)) \<or> (\<exists>w. expect w t = Some r)
        \<or> (\<exists>w. w \<noteq> [] \<and> expect w (skip_ws t) = Some r) \<or> read_number (c # t) = Some (j, r)"
      using read_value_cases [OF val] by blast
    have t: "length t < length s" by (rule skip_ws_Cons [OF ct])
    have "length (c # t) \<le> length s" using skip_ws_length [of s] by (simp add: ct)
    with or t less.IH(2,3) [OF t] skip_ws_length [of t] show ?thesis
      by (elim disjE exE conjE) (fastforce dest: read_string_shorter expect_length read_number_shorter)+
  qed
  {
    case 1 then show ?case by (rule v)
  next
    case 2
    then obtain k u c t where e: "read_value d s = Some (k, u)" "skip_ws u = c # t"
      "r = t \<or> length t < length s \<and> (\<exists>js. read_elements d t = Some (js, r))" using read_elements_cases by blast
    from e(3) v [OF e(1)] skip_ws_Cons [OF e(2)] less.IH(2) show ?case by (meson less_trans)
  next
    case 3
    from read_members_cases [OF this] obtain q u name v w k x c t where e: "skip_ws s = q # u" "read_string u = Some (name, v)"
      "expect '':'' (skip_ws v) = Some w" "read_value d w = Some (k, x)" "skip_ws x = c # t"
      "r = t \<or> length t < length s \<and> (\<exists>ms. read_members d t = Some (ms, r))" by (elim exE conjE) (rule that)
    have "length w < length s"
      using skip_ws_Cons [OF e(1)] read_string_shorter [OF e(2)] expect_length [OF e(3)] skip_ws_length [of v] by simp
    with less.IH(1) [OF this e(4)] have "length x < length s" by simp
    with e(6) skip_ws_Cons [OF e(5)] less.IH(3) show ?case by (meson less_trans)
  }
qed

lemma read_elements_eq:
  "read_elements d s = (case read_value d s of None \<Rightarrow> None | Some (j, r) \<Rightarrow>
     (case skip_ws r of [] \<Rightarrow> None | c # t \<Rightarrow>
        if c = CHR '']'' then Some ([j], t)
        else if c = CHR '','' then map_option (apfst ((#) j)) (read_elements d t) else None))"
proof -
  have "length t < length s" if "read_value d s = Some (j, r)" "skip_ws r = c # t" for j r c t
    using read_value_shorter [OF that(1)] skip_ws_Cons [OF that(2)] by simp
  then show ?thesis
    by (subst read_elements.simps) (auto split: option.split prod.split list.split)
qed

lemma read_members_eq:
  "read_members d s = (case skip_ws s of [] \<Rightarrow> None | q # u \<Rightarrow>
     if q \<noteq> CHR 0x22 then None
     else (case read_string u of None \<Rightarrow> None | Some (name, v) \<Rightarrow>
     (case expect '':'' (skip_ws v) of None \<Rightarrow> None | Some w \<Rightarrow>
     (case read_value d w of None \<Rightarrow> None | Some (j, r) \<Rightarrow>
     (case skip_ws r of [] \<Rightarrow> None | c # t \<Rightarrow>
        if c = CHR ''}'' then Some ([(name, j)], t)
        else if c = CHR '','' then map_option (apfst ((#) (name, j))) (read_members d t) else None)))))"
proof -
  have "length t < length s" if "skip_ws s = q # u" "read_string u = Some (name, v)" "expect '':'' (skip_ws v) = Some w"
    "read_value d w = Some (j, r)" "skip_ws r = c # t" for q u name v w j r c t
    using skip_ws_Cons [OF that(1)] read_string_shorter [OF that(2)] expect_length [OF that(3)] skip_ws_length [of v]
      read_value_shorter [OF that(4)] skip_ws_Cons [OF that(5)] by simp
  then show ?thesis
    by (subst read_members.simps) (auto split: option.split prod.split list.split)
qed

section \<open>Whole documents\<close>

definition max_nesting :: nat where
  "max_nesting = 10000"

text \<open>\<open>json.Unmarshal\<close> reads one value and accepts nothing but white space after it.\<close>

definition parse_json :: "string \<Rightarrow> json option" where
  "parse_json s = (case read_value max_nesting s of None \<Rightarrow> None
     | Some (j, r) \<Rightarrow> if skip_ws r = [] then Some j else None)"

text \<open>\<open>json.NewDecoder(r).Decode\<close> reads the first value of a stream.\<close>

definition decode_first :: "string \<Rightarrow> json option" where
  "decode_first s = map_option fst (read_value max_nesting s)"

section \<open>Reading a printed string back\<close>

text \<open>A valid UTF-8 string: no step of \<open>json_escape\<close> meets an invalid byte.\<close>

function valid_utf8 :: "string \<Rightarrow> bool" where
  "valid_utf8 s \<longleftrightarrow> (if s = [] then True else if rune_len s = 0 then False else valid_utf8 (drop (rune_len s) s))"
  by pat_completeness auto
termination
  by (relation "measure length") auto

declare valid_utf8.simps [simp del]

lemma valid_utf8_ascii: "list_all (\<lambda>c. c < CHR 0x80) s \<Longrightarrow> valid_utf8 s"
proof (induction s)
  case (Cons c s)
  then have "rune_len (c # s) = 1" by (simp add: rune_len_def)
  with Cons show ?case by (simp add: valid_utf8.simps [of "c # s"])
qed (simp add: valid_utf8.simps)

definition two_bytes :: "char \<Rightarrow> char \<Rightarrow> bool" where
  "two_bytes a b \<longleftrightarrow> CHR 0xC2 \<le> a \<and> a \<le> CHR 0xDF \<and> cont_byte b"

definition three_bytes :: "char \<Rightarrow> char \<Rightarrow> char \<Rightarrow> bool" where
  "three_bytes a b c \<longleftrightarrow> cont_byte c \<and> (a = CHR 0xE0 \<and> CHR 0xA0 \<le> b \<and> b \<le> CHR 0xBF
    \<or> a = CHR 0xED \<and> CHR 0x80 \<le> b \<and> b \<le> CHR 0x9F
    \<or> CHR 0xE1 \<le> a \<and> a \<le> CHR 0xEF \<and> a \<noteq> CHR 0xED \<and> cont_byte b)"

definition four_bytes :: "char \<Rightarrow> char \<Rightarrow> char \<Rightarrow> char \<Rightarrow> bool" where
  "four_bytes a b c d \<longleftrightarrow> cont_byte c \<and> cont_byte d \<and> (a = CHR 0xF0 \<and> CHR 0x90 \<le> b \<and> b \<le> CHR 0xBF
    \<or> a = CHR 0xF4 \<and> CHR 0x80 \<le> b \<and> b \<le> CHR 0x8F
    \<or> CHR 0xF1 \<le> a \<and> a \<le> CHR 0xF3 \<and> cont_byte b)"

lemma rune_len_high:
  "\<not> a < CHR 0x80 \<Longrightarrow> rune_len (a # b # t) = (if two_bytes a b then 2 else (case t of [] \<Rightarrow> 0 | c # u \<Rightarrow>
     if three_bytes a b c then 3 else (case u of [] \<Rightarrow> 0 | d # v \<Rightarrow> if four_bytes a b c d then 4 else 0)))"
  by (simp only: rune_len_def two_bytes_def three_bytes_def four_bytes_def list.case if_False)

lemma rune_len_low: "a < CHR 0x80 \<Longrightarrow> rune_len (a # t) = 1"
  by (simp add: rune_len_def)

text \<open>Only the bytes of the first rune count.\<close>

lemma long_rune:
  assumes "1 < rune_len s"
  obtains a b t where "s = a # b # t" "\<not> a < CHR 0x80"
proof -
  obtain a u where u: "s = a # u" using assms by (cases s) (auto simp: rune_len_def)
  with assms have a: "\<not> a < CHR 0x80" using rune_len_low by fastforce
  with u assms obtain b t where "u = b # t" by (cases u) (auto simp: rune_len_def)
  with u a that show thesis by blast
qed

lemma rune_len_take:
  assumes "1 < rune_len s"
  shows "rune_len (take (rune_len s) s @ t) = rune_len s \<and> length (take (rune_len s) s) = rune_len s"
proof -
  obtain a b u where s: "s = a # b # u" and a: "\<not> a < CHR 0x80" by (rule long_rune [OF assms])
  show ?thesis
    using assms unfolding s rune_len_high [OF a]
    by (auto simp: rune_len_high [OF a] numeral_eq_Suc split: if_splits list.splits)
qed

lemma read_string_Cons:
  "read_string (a # t) =
    (if a = CHR 0x22 then Some ([], t)
     else if a = CHR 0x5C then
       (case read_escape t of None \<Rightarrow> None | Some (r, u) \<Rightarrow> map_option (apfst ((@) r)) (read_string u))
     else if a < CHR 0x20 then None
     else if rune_len (a # t) = 0 then map_option (apfst ((@) replacement)) (read_string t)
     else map_option (apfst ((@) (take (rune_len (a # t)) (a # t)))) (read_string (drop (rune_len (a # t)) (a # t))))"
  by (subst read_string.simps) simp

lemma hex4_low: "n < 256 \<Longrightarrow> hex4 (CHR ''0'' # CHR ''0'' # hex_char (n div 16) # hex_char (n mod 16) # t) = Some n"
proof -
  have c: "is_hex_digit (hex_char d) \<and> hex_digit_val (hex_char d) = d" if "d < 16" for d
    using that by (auto simp: is_hex_digit_def hex_digit_val_def hex_char_def Let_def)
  assume "n < 256"
  then have "n div 16 < 16" "n mod 16 < 16" by auto
  with c show ?thesis by (simp add: hex4_def is_hex_digit_def hex_digit_val_def)
qed

lemma read_esc_ascii:
  assumes "a < CHR 0x80"
  shows "read_string (esc_ascii a @ t) = map_option (apfst ((@) [a])) (read_string t)"
proof -
  have n: "of_char a < (128 :: nat)" using assms by (simp add: less_char_def)
  then have u: "read_escape (CHR ''u'' # CHR ''0'' # CHR ''0'' # hex_char (of_char a div 16) # hex_char (of_char a mod 16) # t) = Some ([a], t)"
    by (simp add: read_escape_def hex4_low utf8_def)
  show ?thesis
    unfolding esc_ascii_def
    using u by (simp add: read_string_Cons rune_len_low [OF assms] read_escape_def unescape_def)
qed

lemma read_esc_rune:
  assumes "1 < rune_len s"
  shows "read_string (esc_rune (take (rune_len s) s) @ t) = map_option (apfst ((@) (take (rune_len s) s))) (read_string t)"
proof -
  let ?r = "take (rune_len s) s"
  obtain a b u where s: "s = a # b # u" and a: "\<not> a < CHR 0x80" by (rule long_rune [OF assms])
  have "\<not> a < CHR 0x20" "a \<noteq> CHR 0x22" "a \<noteq> CHR 0x5C" using a by (auto simp: less_char_def)
  moreover obtain w where w: "?r = a # w" using assms by (cases "rune_len s") (simp_all add: s)
  ultimately have plain: "read_string (?r @ t) = map_option (apfst ((@) ?r)) (read_string t)"
    using rune_len_take [OF assms, of t] assms
    by (simp add: read_string_Cons) (metis append_Cons append_eq_conv_conj length_Cons w)
  have bytes: "char_of (226 :: nat) = CHR 0xE2" "char_of (128 :: nat) = CHR 0x80" "char_of (168 :: nat) = CHR 0xA8"
    "char_of (169 :: nat) = CHR 0xA9" by code_simp+
  have esc: "read_escape (''u202'' @ [c] @ t) = Some ([CHR 0xE2, CHR 0x80, d], t)"
    if "(c, d) \<in> {(CHR ''8'', CHR 0xA8), (CHR ''9'', CHR 0xA9)}" for c d
    using that by (auto simp: read_escape_def hex4_def is_hex_digit_def hex_digit_val_def utf8_def bytes)
  show ?thesis
    using plain esc [of "CHR ''8''" "CHR 0xA8"] esc [of "CHR ''9''" "CHR 0xA9"]
    by (auto simp: esc_rune_def read_string_Cons)
qed

lemma read_string_escape: "valid_utf8 s \<Longrightarrow> read_string (json_escape s @ CHR 0x22 # t) = Some (s, t)"
proof (induction s rule: json_escape.induct)
  case (1 s)
  show ?case
  proof (cases "s = []")
    case False
    with 1(4) have v: "rune_len s \<noteq> 0" "valid_utf8 (drop (rune_len s) s)"
      by (auto simp: valid_utf8.simps [of s] split: if_splits)
    show ?thesis
    proof (cases "rune_len s = 1")
      case True
      with False have "hd s < CHR 0x80"
        by (cases s; cases "tl s") (auto simp: rune_len_def split: if_splits list.splits)
      moreover from False v 1(2) [OF False v(1) True] True
      have "read_string (json_escape (tl s) @ CHR 0x22 # t) = Some (tl s, t)" by (simp add: drop_Suc)
      ultimately show ?thesis
        using False True by (simp add: json_escape.simps [of s] read_esc_ascii)
    next
      case other: False
      with v(1) have "1 < rune_len s" by simp
      from read_esc_rune [OF this] False v other 1(3) [OF False v(1) other v(2)] show ?thesis
        by (simp add: json_escape.simps [of s])
    qed
  qed (simp add: json_escape.simps [of "[]"] read_string_Cons)
qed

lemma quote_inject:
  assumes "valid_utf8 s" "valid_utf8 s'" "quote s @ t = quote s' @ t'"
  shows "s = s' \<and> t = t'"
proof -
  have "json_escape s @ CHR 0x22 # t = json_escape s' @ CHR 0x22 # t'" using assms(3) by (simp add: quote_def)
  then have "Some (s, t) = Some (s', t')"
    using read_string_escape [OF assms(1), of t] read_string_escape [OF assms(2), of t'] by metis
  then show ?thesis by simp
qed

section \<open>Reading a printed document back\<close>

text \<open>
  Documents whose strings are valid UTF-8, whose numbers are integers (the only ones the program
  prints) and that nest at most \<open>d\<close> containers.
\<close>

fun printable :: "nat \<Rightarrow> json \<Rightarrow> bool" where
  "printable d (JStr s) = valid_utf8 s"
| "printable d (JReal t) = False"
| "printable d (JArr js) = (0 < d \<and> (\<forall>j \<in> set js. printable (d - 1) j))"
| "printable d (JObj ms) = (0 < d \<and> (\<forall>m \<in> set ms. valid_utf8 (fst m) \<and> printable (d - 1) (snd m)))"
| "printable d _ = True"

text \<open>Text after which a number ends.\<close>

definition number_ends :: "string \<Rightarrow> bool" where
  "number_ends t \<longleftrightarrow> (case t of [] \<Rightarrow> True | c # _ \<Rightarrow> c \<in> {CHR '','', CHR '']'', CHR ''}''})"

lemma number_ends_Cons [simp]: "number_ends []" "number_ends (CHR '','' # t)" "number_ends (CHR '']'' # t)"
    "number_ends (CHR ''}'' # t)"
  by (simp_all add: number_ends_def)

lemma nat_digits_zero: "hd (nat_digits n) = CHR ''0'' \<Longrightarrow> n = 0"
proof (induction n rule: nat_digits.induct)
  case (1 n)
  show ?case
  proof (cases "n < 10")
    case True
    with 1(2) have "digit_val (digit_char n) = digit_val (CHR ''0'')" by (simp add: nat_digits.simps [of n])
    with True show ?thesis by (simp add: digit_val_def [of "CHR ''0''"])
  next
    case False
    with 1(2) have "hd (nat_digits (n div 10)) = CHR ''0''" by (simp add: nat_digits.simps [of n])
    with 1(1) False show ?thesis by auto
  qed
qed

lemma span_nat_digits: "number_ends t \<Longrightarrow> span_digits (nat_digits n @ t) = (nat_digits n, t)"
  using nat_digits_all [of n]
  by (cases t) (auto simp: span_digits_def list_all_iff number_ends_def is_digit_def takeWhile_append)

lemma read_integer_digits: "number_ends t \<Longrightarrow> read_integer (nat_digits n @ t) = Some (nat_digits n, t)"
proof (cases "n = 0")
  case False
  with nat_digits_zero [of n] have "hd (nat_digits n) \<noteq> CHR ''0''" by blast
  then show "number_ends t \<Longrightarrow> ?thesis" by (simp add: read_integer_def span_nat_digits)
next
  case True
  have "nat_digits 0 = ''0''" by code_simp
  then show "number_ends t \<Longrightarrow> ?thesis" using span_nat_digits [of t 0] by (simp add: read_integer_def True)
qed

lemma read_number_int_text: "number_ends t \<Longrightarrow> read_number (int_text i @ t) = Some (JInt i, t)"
proof -
  assume t: "number_ends t"
  have "read_fraction t = Some ([], t)" "read_exponent t = Some ([], t)"
    using t by (cases t; auto simp: read_fraction_def read_exponent_def number_ends_def)+
  moreover obtain c cs where c: "nat_digits (nat i) = c # cs" by (cases "nat_digits (nat i)") auto
  ultimately show ?thesis
    using nat_digits_hd [OF c] read_integer_digits [OF t, of "nat i"] read_integer_digits [OF t, of "nat (- i)"]
      digits_val_nat_digits [of "nat i"]
    by (cases "i < 0") (auto simp: read_number_def int_text_def digits_val_nat_digits c)
qed

lemma json_text_hd:
  "printable d j \<Longrightarrow> \<exists>c r. json_text j = c # r \<and> c \<notin> {CHR 0x20, CHR 0x09, CHR 0x0A, CHR 0x0D, CHR '']'', CHR ''}''}"
proof (cases j)
  case (JInt i)
  obtain c cs where c: "nat_digits (nat i) = c # cs" by (cases "nat_digits (nat i)") auto
  then have "is_digit c" using nat_digits_all [of "nat i"] by simp
  then show ?thesis by (auto simp: JInt int_text_def c is_digit_def)
qed (simp_all add: quote_def)

lemma skip_ws_text: "printable d j \<Longrightarrow> skip_ws (json_text j @ t) = json_text j @ t"
  using json_text_hd [of d j] by (auto simp: skip_ws_def)

lemma skip_ws_none: "c \<notin> {CHR 0x20, CHR 0x09, CHR 0x0A, CHR 0x0D} \<Longrightarrow> skip_ws (c # t) = c # t"
  by (simp add: skip_ws_def)

lemma expect_none: "printable d j \<Longrightarrow> c \<in> {CHR '']'', CHR ''}''} \<Longrightarrow> expect [c] (json_text j @ t) = None"
  using json_text_hd [of d j] by (auto simp: expect_def)

lemma read_elements_text:
  assumes "js \<noteq> []" "\<And>j t. j \<in> set js \<Longrightarrow> number_ends t \<Longrightarrow> read_value d (json_text j @ t) = Some (j, t)"
  shows "read_elements d (intersperse '','' (map json_text js) @ CHR '']'' # t) = Some (js, t)"
  using assms
proof (induction js rule: induct_list012)
  case (2 j)
  then show ?case by (subst read_elements_eq) (simp add: skip_ws_none)
next
  case (3 j k js)
  have v: "read_value d (json_text j @ CHR '','' # u) = Some (j, CHR '','' # u)" for u
    using 3(4) by simp
  from 3 show ?case by (subst read_elements_eq) (simp add: v skip_ws_none)
qed simp

lemma read_members_text:
  assumes "ms \<noteq> []" "\<And>m. m \<in> set ms \<Longrightarrow> valid_utf8 (fst m)"
    "\<And>m t. m \<in> set ms \<Longrightarrow> number_ends t \<Longrightarrow> read_value d (json_text (snd m) @ t) = Some (snd m, t)"
  shows "read_members d (intersperse '','' (map (\<lambda>(n, j). quote n @ '':'' @ json_text j) ms) @ CHR ''}'' # t) = Some (ms, t)"
  using assms
proof (induction ms rule: induct_list012)
  case (2 m)
  obtain n j where m: "m = (n, j)" by fastforce
  from 2 show ?case
    by (subst read_members_eq) (simp add: m skip_ws_none quote_def read_string_escape expect_def)
next
  case (3 m m' ms)
  obtain n j where m: "m = (n, j)" by fastforce
  have v: "read_value d (json_text j @ CHR '','' # u) = Some (j, CHR '','' # u)" "valid_utf8 n" for u
    using 3(4,5) [of "(n, j)"] by (simp_all add: m)
  from 3 show ?case
    by (subst read_members_eq) (simp add: m v skip_ws_none quote_def read_string_escape expect_def)
qed simp

lemma read_value_text: "printable d j \<Longrightarrow> number_ends t \<Longrightarrow> read_value d (json_text j @ t) = Some (j, t)"
proof (induction j arbitrary: d t)
  case (JInt i)
  have t: "read_number (int_text i @ t) = Some (JInt i, t)" by (rule read_number_int_text [OF JInt(2)])
  obtain c r where c: "int_text i = c # r" "c = CHR ''-'' \<or> is_digit c"
  proof -
    obtain c cs where c: "nat_digits (nat i) = c # cs" by (cases "nat_digits (nat i)") auto
    moreover from c have "is_digit c" using nat_digits_all [of "nat i"] by simp
    ultimately show thesis using that by (cases "i < 0") (simp_all add: int_text_def)
  qed
  then have "c \<notin> {CHR 0x20, CHR 0x09, CHR 0x0A, CHR 0x0D, CHR ''{'', CHR ''['', CHR 0x22, CHR ''t'', CHR ''f'', CHR ''n''}"
    by (auto simp: is_digit_def)
  with t c(1) show ?case by (subst read_value.simps) (simp add: skip_ws_none)
next
  case (JStr s)
  then show ?case
    by (subst read_value.simps) (simp add: skip_ws_none quote_def read_string_escape)
next
  case (JArr js)
  show ?case
  proof (cases js)
    case Nil
    with JArr show ?thesis by (subst read_value.simps) (simp add: skip_ws_none expect_def)
  next
    case (Cons j ks)
    have "read_elements (d - 1) (intersperse '','' (map json_text js) @ CHR '']'' # t) = Some (js, t)"
      using JArr by (intro read_elements_text) (auto simp: Cons)
    moreover have "intersperse '','' (map json_text js) = json_text j @ (if ks = [] then [] else '','' @ intersperse '','' (map json_text ks))"
      by (cases ks) (simp_all add: Cons)
    moreover have "printable (d - 1) j" "0 < d" using JArr by (simp_all add: Cons)
    ultimately show ?thesis
      by (subst read_value.simps) (simp add: skip_ws_none skip_ws_text expect_none)
  qed
next
  case (JObj ms)
  show ?case
  proof (cases ms)
    case Nil
    with JObj show ?thesis by (subst read_value.simps) (simp add: skip_ws_none expect_def)
  next
    case (Cons m ks)
    have "read_members (d - 1) (intersperse '','' (map (\<lambda>(n, j). quote n @ '':'' @ json_text j) ms) @ CHR ''}'' # t) = Some (ms, t)"
    proof (rule read_members_text)
      fix m' u assume "m' \<in> set ms" "number_ends u"
      with JObj(2) JObj(1) [of m' "snd m'" "d - 1" u]
      show "read_value (d - 1) (json_text (snd m') @ u) = Some (snd m', u)" by (cases m') (fastforce simp: snds.simps)
    qed (use JObj(2) Cons in auto)
    moreover have "\<exists>u. intersperse '','' (map (\<lambda>(n, j). quote n @ '':'' @ json_text j) ms) = CHR 0x22 # u"
      by (cases ks) (auto simp: Cons quote_def split_beta)
    moreover have "0 < d" using JObj by simp
    ultimately show ?thesis
      by (subst read_value.simps) (auto simp: skip_ws_none expect_def)
  qed
qed (subst read_value.simps; simp add: skip_ws_none expect_def)+

theorem parse_json_text: "printable max_nesting j \<Longrightarrow> parse_json (json_text j) = Some j"
  using read_value_text [of max_nesting j "[]"] by (simp add: parse_json_def skip_ws_def)

text \<open>Reading a value from its bytes: \<open>json.Unmarshal\<close> parses the text and fills the struct.\<close>

definition unmarshal_text :: "(json \<Rightarrow> 'a res) \<Rightarrow> string \<Rightarrow> 'a res" where
  "unmarshal_text dec text = (case parse_json text of None \<Rightarrow> Inl ''invalid JSON document'' | Some j \<Rightarrow> dec j)"

lemma unmarshal_json_text:
  "printable max_nesting (enc x) \<Longrightarrow> dec (enc x) = Inr x \<Longrightarrow> unmarshal_text dec (json_text (enc x)) = Inr x"
  by (simp add: unmarshal_text_def parse_json_text)

end
