(* ===== verification/Ocr.thy ===== *)
theory Ocr
  imports OcrText JsonText Decode Accounts
begin

text \<open>
  \<open>backend/ocr/service.go\<close>: the recognition of an uploaded invoice by a cloud service, the validation of
  its fields, and the optional correction by a language model. The client library of the cloud
  service, the two services and the processor are not part of the program: the record \<open>cloud\<close> says what
  they answer.
\<close>

section \<open>Data\<close>

record InvoiceFields =
  fld_AmountCents :: int64
  fld_BuyerName :: string
  fld_InvoiceNo :: string
  fld_IssueDate :: string
  fld_Issuer :: string
  fld_TaxCents :: int64
  fld_TotalCents :: int64

record Correction =
  cor_Field :: string
  cor_From :: string
  cor_Reason :: string
  cor_To :: string

text \<open>A \<open>nil\<close> slice of corrections is \<open>None\<close>; the warnings are \<open>nil\<close> exactly when there are none.\<close>

record Result =
  rcg_AIEnabled :: bool
  rcg_AIUsed :: bool
  rcg_Corrections :: "Correction list option"
  rcg_Fields :: InvoiceFields
  rcg_OCRRequestID :: string
  rcg_SuggestedFields :: "InvoiceFields option"
  rcg_Warnings :: "string list"

record OcrService =
  ocr_accessKeyID :: string
  ocr_accessKeySecret :: string
  ocr_aiAPIKey :: string
  ocr_aiBaseURL :: string
  ocr_aiModel :: string
  ocr_region :: string

text \<open>The struct \<open>payload\<close> one image is decoded into.\<close>

record payload =
  pay_InvoiceAmountPreTax :: string
  pay_InvoiceDate :: string
  pay_InvoiceNumber :: string
  pay_InvoiceTax :: string
  pay_PurchaserName :: string
  pay_SellerName :: string
  pay_TotalAmount :: string

text \<open>
  What the program reads of a response of the cloud service. \<open>KvInfo.Data\<close> is a text or a decoded
  value; \<open>None\<close> is \<open>nil\<close>: of an image itself, of its \<open>KvInfo\<close>, or of the \<open>Data\<close> in it.
\<close>

datatype kv_data = KvText string | KvValue json

record ocr_body =
  bdy_Code :: "string option"
  bdy_Message :: "string option"
  bdy_RequestId :: "string option"
  bdy_SubImages :: "kv_data option option option list option"

record ocr_config =
  cfg_AccessKeyId :: string
  cfg_AccessKeySecret :: string
  cfg_Endpoint :: string
  cfg_RegionId :: string

record ocr_request =
  req_Body :: string
  req_PageNo :: int
  req_Type :: string

record ai_request =
  air_url :: string
  air_headers :: "(string \<times> string) list"
  air_body :: string

record cloud =
  cld_client :: "ocr_config \<Rightarrow> string option"
  cld_recognize :: "ocr_config \<Rightarrow> ocr_request \<Rightarrow> ocr_body option res"
  cld_send :: "ai_request \<Rightarrow> (int \<times> string) res"
  cld_cpu :: processor

section \<open>Configuration\<close>

definition NewOcrService :: "host \<Rightarrow> OcrService" where
  "NewOcrService h =
    (let region = TrimSpace (hst_getenv h ''ALIYUN_OCR_REGION'') in
     \<lparr>ocr_accessKeyID = TrimSpace (hst_getenv h ''ALIYUN_ACCESS_KEY_ID''),
      ocr_accessKeySecret = TrimSpace (hst_getenv h ''ALIYUN_ACCESS_KEY_SECRET''),
      ocr_aiAPIKey = TrimSpace (hst_getenv h ''AI_CORRECTION_API_KEY''),
      ocr_aiBaseURL = trim_chars_right ''/'' (TrimSpace (hst_getenv h ''AI_CORRECTION_BASE_URL'')),
      ocr_aiModel = TrimSpace (hst_getenv h ''AI_CORRECTION_MODEL''),
      ocr_region = (if region = [] then ''cn-hangzhou'' else region)\<rparr>)"

definition Enabled :: "OcrService \<Rightarrow> bool" where
  "Enabled s \<longleftrightarrow> ocr_accessKeyID s \<noteq> [] \<and> ocr_accessKeySecret s \<noteq> []"

definition AIEnabled :: "OcrService \<Rightarrow> bool" where
  "AIEnabled s \<longleftrightarrow> ocr_aiAPIKey s \<noteq> [] \<and> ocr_aiBaseURL s \<noteq> [] \<and> ocr_aiModel s \<noteq> []"

definition maxFileSize :: nat where
  "maxFileSize = 10 * 2 ^ 20"

definition allowedExtensions :: "string list" where
  "allowedExtensions = [''.png'', ''.jpg'', ''.jpeg'', ''.bmp'', ''.gif'', ''.tiff'', ''.webp'', ''.pdf'']"

definition stringValue :: "string option \<Rightarrow> string" where
  "stringValue v = (case v of None \<Rightarrow> [] | Some s \<Rightarrow> s)"

section \<open>Decoding the recognised fields\<close>

definition payload_fields :: "(string \<times> (string \<Rightarrow> payload \<Rightarrow> payload)) list" where
  "payload_fields =
    [(''invoiceAmountPreTax'', \<lambda>v. pay_InvoiceAmountPreTax_update (\<lambda>_. v)),
     (''invoiceDate'', \<lambda>v. pay_InvoiceDate_update (\<lambda>_. v)),
     (''invoiceNumber'', \<lambda>v. pay_InvoiceNumber_update (\<lambda>_. v)),
     (''invoiceTax'', \<lambda>v. pay_InvoiceTax_update (\<lambda>_. v)),
     (''purchaserName'', \<lambda>v. pay_PurchaserName_update (\<lambda>_. v)),
     (''sellerName'', \<lambda>v. pay_SellerName_update (\<lambda>_. v)),
     (''totalAmount'', \<lambda>v. pay_TotalAmount_update (\<lambda>_. v))]"

text \<open>
  \<open>json.Unmarshal\<close> goes on after a member of the wrong type, so that a failed call has filled the other
  fields: the second result tells whether there was an error.
\<close>

fun fill_payload :: "(string \<times> json) list \<Rightarrow> payload \<Rightarrow> payload \<times> bool" where
  "fill_payload [] p = (p, True)"
| "fill_payload ((k, j) # ms) p =
     (case find (\<lambda>(n, fill). EqualFold k n) payload_fields of None \<Rightarrow> fill_payload ms p
      | Some (n, fill) \<Rightarrow>
          (case j of JStr s \<Rightarrow> fill_payload ms (fill s p) | JNull \<Rightarrow> fill_payload ms p
           | _ \<Rightarrow> (fst (fill_payload ms p), False)))"

definition unmarshal_payload :: "json option \<Rightarrow> payload \<Rightarrow> payload \<times> bool" where
  "unmarshal_payload d p = (case d of Some (JObj ms) \<Rightarrow> fill_payload ms p | Some JNull \<Rightarrow> (p, True) | _ \<Rightarrow> (p, False))"

text \<open>\<open>json.Marshal\<close> of a decoded value writes the members of its maps in the order of their names.\<close>

fun sorted_value :: "json \<Rightarrow> json" where
  "sorted_value (JArr js) = JArr (map sorted_value js)"
| "sorted_value (JObj ms) = JObj (sort_key fst (map (\<lambda>(n, j). (n, sorted_value j)) ms))"
| "sorted_value j = j"

definition unmarshalUnifiedData :: "kv_data \<Rightarrow> payload \<Rightarrow> payload \<times> bool" where
  "unmarshalUnifiedData v p = (case v of KvText text \<Rightarrow> unmarshal_payload (parse_json text) p
     | KvValue j \<Rightarrow> unmarshal_payload (parse_json (json_text (sorted_value j))) p)"

text \<open>The loop over the images stops at the first one that decodes.\<close>

fun read_images :: "kv_data option option option list \<Rightarrow> payload \<Rightarrow> payload option" where
  "read_images [] p = None"
| "read_images (Some (Some (Some v)) # imgs) p =
     (let (p', parsed) = unmarshalUnifiedData v p in if parsed then Some p' else read_images imgs p')"
| "read_images (_ # imgs) p = read_images imgs p"

definition zero_payload :: payload where
  "zero_payload = \<lparr>pay_InvoiceAmountPreTax = [], pay_InvoiceDate = [], pay_InvoiceNumber = [], pay_InvoiceTax = [],
     pay_PurchaserName = [], pay_SellerName = [], pay_TotalAmount = []\<rparr>"

definition recognised_fields :: "processor \<Rightarrow> payload \<Rightarrow> InvoiceFields" where
  "recognised_fields cpu p =
    \<lparr>fld_AmountCents = parseCents cpu (pay_InvoiceAmountPreTax p), fld_BuyerName = TrimSpace (pay_PurchaserName p),
     fld_InvoiceNo = TrimSpace (pay_InvoiceNumber p), fld_IssueDate = normalizeDate (pay_InvoiceDate p),
     fld_Issuer = TrimSpace (pay_SellerName p), fld_TaxCents = parseCents cpu (pay_InvoiceTax p),
     fld_TotalCents = parseCents cpu (pay_TotalAmount p)\<rparr>"

definition validate :: "InvoiceFields \<Rightarrow> string list" where
  "validate f =
    (if fld_InvoiceNo f = [] then [w_number] else [])
    @ (if fld_IssueDate f = [] then [w_date] else [])
    @ (if fld_Issuer f = [] then [w_issuer] else [])
    @ (if sint (fld_TotalCents f) > 0 \<and> fld_AmountCents f + fld_TaxCents f \<noteq> fld_TotalCents f then [w_sum] else [])
    @ (if fld_TotalCents f = 0 \<and> fld_AmountCents f = 0 then [w_amount] else [])"

section \<open>Correction by a language model\<close>

definition enc_InvoiceFields :: "InvoiceFields \<Rightarrow> json" where
  "enc_InvoiceFields f = JObj
    [(''amountCents'', JInt64 (fld_AmountCents f)),
     (''buyerName'', JStr (fld_BuyerName f)),
     (''invoiceNo'', JStr (fld_InvoiceNo f)),
     (''issueDate'', JStr (fld_IssueDate f)),
     (''issuer'', JStr (fld_Issuer f)),
     (''taxCents'', JInt64 (fld_TaxCents f)),
     (''totalCents'', JInt64 (fld_TotalCents f))]"

definition enc_strings :: "string list \<Rightarrow> json" where
  "enc_strings xs = (if xs = [] then JNull else JArr (map JStr xs))"

definition system_prompt :: string where
  "system_prompt = hx ''e4bda0e698afe58f91e7a5a8204f435220e7baa0e5818fe58aa9e6898be38082e58faae883bde6a0b9e68daee7bb99e5ae9a204f435220e5ad97e6aeb5e5928ce8a784e58899e68f90e7a4bae5819ae4bf9de5ae88e4bfaee6ada3efbc8ce4b88de883bde7bc96e980a0e4bbbbe4bd95e7bcbae5a4b1e4bfa1e681afe38082e8bf94e59b9ee4b8a5e6a0bc204a534f4eefbc9a7b226669656c6473223a7b22696e766f6963654e6f223a22222c22697373756544617465223a22595959592d4d4d2d444420e68896e7a9ba222c22697373756572223a22222c2262757965724e616d65223a22222c22616d6f756e7443656e7473223a302c2274617843656e7473223a302c22746f74616c43656e7473223a307d2c22636f7272656374696f6e73223a5b7b226669656c64223a22222c2266726f6d223a22222c22746f223a22222c22726561736f6e223a22227d5d7de38082e697a0e68a8ae68fa1e697b6e7bbb4e68c81e58e9fe580bce38082''"

definition ai_prompt :: "InvoiceFields \<Rightarrow> string list \<Rightarrow> string" where
  "ai_prompt f warnings =
     json_text (JObj [(''ocrFields'', enc_InvoiceFields f), (''ruleWarnings'', enc_strings warnings)])"

definition ai_body :: "OcrService \<Rightarrow> InvoiceFields \<Rightarrow> string list \<Rightarrow> string" where
  "ai_body s f warnings = json_text (JObj
    [(''messages'', JArr
       [JObj [(''content'', JStr system_prompt), (''role'', JStr ''system'')],
        JObj [(''content'', JStr (ai_prompt f warnings)), (''role'', JStr ''user'')]]),
     (''model'', JStr (ocr_aiModel s)),
     (''response_format'', JObj [(''type'', JStr ''json_object'')]),
     (''temperature'', JInt 0)])"

definition ai_call :: "OcrService \<Rightarrow> InvoiceFields \<Rightarrow> string list \<Rightarrow> ai_request" where
  "ai_call s f warnings =
    \<lparr>air_url = ocr_aiBaseURL s @ ''/chat/completions'',
     air_headers = [(''Authorization'', ''Bearer '' @ ocr_aiAPIKey s), (''Content-Type'', ''application/json'')],
     air_body = ai_body s f warnings\<rparr>"

text \<open>A JSON array decoded into a slice fills the elements the slice has before it adds new ones.\<close>

definition read_slice :: "('a \<Rightarrow> json \<Rightarrow> 'a res) \<Rightarrow> 'a \<Rightarrow> string \<Rightarrow> json \<Rightarrow> 'a list option \<Rightarrow> 'a list option res" where
  "read_slice into zero name j old = (case j of JNull \<Rightarrow> Inr None
     | JArr js \<Rightarrow> bindE (mapE (\<lambda>(v, j). into v j)
           (zip ((case old of None \<Rightarrow> [] | Some xs \<Rightarrow> xs) @ replicate (length js) zero) js)) (\<lambda>xs. Inr (Some xs))
     | _ \<Rightarrow> Inl (type_error j name ''slice''))"

text \<open>A member of a struct type: every occurrence is decoded into the same value.\<close>

fun read_member :: "(json \<Rightarrow> 'a \<Rightarrow> 'a res) \<Rightarrow> (string \<times> json) list \<Rightarrow> string \<Rightarrow> 'a \<Rightarrow> 'a res" where
  "read_member into [] name v = Inr v"
| "read_member into ((k, j) # ms) name v =
     (if EqualFold k name then bindE (into j v) (\<lambda>v. read_member into ms name v) else read_member into ms name v)"

definition into_InvoiceFields :: "json \<Rightarrow> InvoiceFields \<Rightarrow> InvoiceFields res" where
  "into_InvoiceFields j f =
    bindE (object ''InvoiceFields'' j) (\<lambda>ms.
    bindE (read_int64 ms ''amountCents'' (fld_AmountCents f)) (\<lambda>amountCents.
    bindE (read_str ms ''buyerName'' (fld_BuyerName f)) (\<lambda>buyerName.
    bindE (read_str ms ''invoiceNo'' (fld_InvoiceNo f)) (\<lambda>invoiceNo.
    bindE (read_str ms ''issueDate'' (fld_IssueDate f)) (\<lambda>issueDate.
    bindE (read_str ms ''issuer'' (fld_Issuer f)) (\<lambda>issuer.
    bindE (read_int64 ms ''taxCents'' (fld_TaxCents f)) (\<lambda>taxCents.
    bindE (read_int64 ms ''totalCents'' (fld_TotalCents f)) (\<lambda>totalCents.
    Inr \<lparr>fld_AmountCents = amountCents, fld_BuyerName = buyerName, fld_InvoiceNo = invoiceNo, fld_IssueDate = issueDate,
      fld_Issuer = issuer, fld_TaxCents = taxCents, fld_TotalCents = totalCents\<rparr>))))))))"

definition into_Correction :: "Correction \<Rightarrow> json \<Rightarrow> Correction res" where
  "into_Correction c j =
    bindE (object ''Correction'' j) (\<lambda>ms.
    bindE (read_str ms ''field'' (cor_Field c)) (\<lambda>fld.
    bindE (read_str ms ''from'' (cor_From c)) (\<lambda>old.
    bindE (read_str ms ''reason'' (cor_Reason c)) (\<lambda>reason.
    bindE (read_str ms ''to'' (cor_To c)) (\<lambda>new.
    Inr \<lparr>cor_Field = fld, cor_From = old, cor_Reason = reason, cor_To = new\<rparr>)))))"

definition zero_InvoiceFields :: InvoiceFields where
  "zero_InvoiceFields = \<lparr>fld_AmountCents = 0, fld_BuyerName = [], fld_InvoiceNo = [], fld_IssueDate = [], fld_Issuer = [],
     fld_TaxCents = 0, fld_TotalCents = 0\<rparr>"

definition zero_Correction :: Correction where
  "zero_Correction = \<lparr>cor_Field = [], cor_From = [], cor_Reason = [], cor_To = []\<rparr>"

text \<open>The struct \<open>completion\<close> as the contents of its choices, and the struct \<open>answer\<close>.\<close>

definition dec_completion :: "json \<Rightarrow> string list option res" where
  "dec_completion j =
    bindE (object ''struct'' j) (\<lambda>ms. read_member (\<lambda>j v. read_slice (\<lambda>content j.
        bindE (object ''struct'' j) (\<lambda>ms. read_member (\<lambda>j content.
          bindE (object ''struct'' j) (\<lambda>ms. read_str ms ''content'' content)) ms ''message'' content)) [] ''choices'' j v)
      ms ''choices'' None)"

definition dec_answer :: "json \<Rightarrow> (InvoiceFields \<times> Correction list option) res" where
  "dec_answer j =
    bindE (object ''struct'' j) (\<lambda>ms.
    bindE (read_member into_InvoiceFields ms ''fields'' zero_InvoiceFields) (\<lambda>f.
    bindE (read_member (\<lambda>j v. read_slice into_Correction zero_Correction ''corrections'' j v) ms ''corrections'' None) (\<lambda>c.
    Inr (f, c))))"

definition or_text :: "string \<Rightarrow> string \<Rightarrow> string" where
  "or_text suggested recognised = (if suggested = [] then recognised else suggested)"

definition or_cents :: "int64 \<Rightarrow> int64 \<Rightarrow> int64" where
  "or_cents suggested recognised = (if suggested = 0 \<and> sint recognised > 0 then recognised else suggested)"

text \<open>The suggestion that is shown: what the answer leaves out stays as it was recognised.\<close>

definition merge_answer :: "InvoiceFields \<Rightarrow> InvoiceFields \<Rightarrow> InvoiceFields res" where
  "merge_answer f a =
    (let amountCents = or_cents (fld_AmountCents a) (fld_AmountCents f);
         taxCents = or_cents (fld_TaxCents a) (fld_TaxCents f);
         totalCents = or_cents (fld_TotalCents a) (fld_TotalCents f)
     in if sint amountCents < 0 \<or> sint taxCents < 0 \<or> sint totalCents < 0 then Inl o_ai_amount
        else Inr \<lparr>fld_AmountCents = amountCents, fld_BuyerName = or_text (fld_BuyerName a) (fld_BuyerName f),
          fld_InvoiceNo = or_text (fld_InvoiceNo a) (fld_InvoiceNo f),
          fld_IssueDate = normalizeDate (or_text (fld_IssueDate a) (fld_IssueDate f)),
          fld_Issuer = or_text (fld_Issuer a) (fld_Issuer f), fld_TaxCents = taxCents, fld_TotalCents = totalCents\<rparr>)"

text \<open>What the response of the model says: at most 2 MB of it are read.\<close>

definition read_answer :: "int \<Rightarrow> string \<Rightarrow> (InvoiceFields \<times> Correction list option) res" where
  "read_answer status body =
    (if status < 200 \<or> status \<ge> 300 then Inl (o_ai_http @ int_text status)
     else (case decode_first (take (2 * 2 ^ 20) body) of None \<Rightarrow> Inl o_ai_empty
       | Some completion \<Rightarrow> (case dec_completion completion of
           Inr (Some (content # _)) \<Rightarrow>
             (case parse_json (stripCodeFence content) of None \<Rightarrow> Inl o_ai_json
              | Some text \<Rightarrow> (case dec_answer text of Inl _ \<Rightarrow> Inl o_ai_json | Inr a \<Rightarrow> Inr a))
         | _ \<Rightarrow> Inl o_ai_empty)))"

definition correct :: "cloud \<Rightarrow> OcrService \<Rightarrow> InvoiceFields \<Rightarrow> string list
    \<Rightarrow> (InvoiceFields \<times> Correction list option) res" where
  "correct w s f warnings =
    bindE (cld_send w (ai_call s f warnings)) (\<lambda>(status, body).
    bindE (read_answer status body) (\<lambda>(a, corrections).
    bindE (merge_answer f a) (\<lambda>suggestion. Inr (suggestion, corrections))))"

section \<open>Recognition\<close>

definition finish_recognition :: "cloud \<Rightarrow> OcrService \<Rightarrow> Result \<Rightarrow> Result" where
  "finish_recognition w s result =
    (if \<not> AIEnabled s then result
     else (case correct w s (rcg_Fields result) (rcg_Warnings result) of
        Inl _ \<Rightarrow> result\<lparr>rcg_Warnings := rcg_Warnings result @ [o_ai_down]\<rparr>
      | Inr (suggestion, corrections) \<Rightarrow>
          result\<lparr>rcg_AIUsed := True, rcg_SuggestedFields := Some suggestion, rcg_Corrections := corrections\<rparr>))"

definition read_response :: "processor \<Rightarrow> ocr_body option \<Rightarrow> (InvoiceFields \<times> string) res" where
  "read_response cpu response = (case response of None \<Rightarrow> Inl o_no_result
     | Some body \<Rightarrow>
        if (case bdy_Code body of None \<Rightarrow> False | Some code \<Rightarrow> code \<noteq> [] \<and> code \<noteq> ''200'')
        then Inl (o_rejected @ stringValue (bdy_Message body))
        else (case bdy_SubImages body of None \<Rightarrow> Inl o_no_fields
          | Some imgs \<Rightarrow> if imgs = [] then Inl o_no_fields
              else (case read_images imgs zero_payload of None \<Rightarrow> Inl o_unparsed
                | Some p \<Rightarrow> Inr (recognised_fields cpu p, stringValue (bdy_RequestId body)))))"

text \<open>The call of the cloud service: the fields it recognises and the identifier of its response.\<close>

definition recognise :: "cloud \<Rightarrow> OcrService \<Rightarrow> string \<Rightarrow> string \<Rightarrow> (InvoiceFields \<times> string) res" where
  "recognise w s filename content =
    (if \<not> Enabled s then Inl o_not_configured
     else if content = [] then Inl o_empty
     else if length content > maxFileSize then Inl o_too_big
     else if ToLower (fileExtension filename) \<notin> set allowedExtensions then Inl o_bad_type
     else (let config = \<lparr>cfg_AccessKeyId = ocr_accessKeyID s, cfg_AccessKeySecret = ocr_accessKeySecret s,
                cfg_Endpoint = ''ocr-api.'' @ ocr_region s @ ''.aliyuncs.com'', cfg_RegionId = ocr_region s\<rparr> in
       (case cld_client w config of Some e \<Rightarrow> Inl (o_init_failed @ e)
        | None \<Rightarrow>
          bindE (wrapE o_call_failed
            (cld_recognize w config \<lparr>req_Body = content, req_PageNo = 1, req_Type = ''Invoice''\<rparr>)) (read_response (cld_cpu w)))))"

definition RecognizeInvoice :: "cloud \<Rightarrow> OcrService \<Rightarrow> string \<Rightarrow> string \<Rightarrow> Result res" where
  "RecognizeInvoice w s filename content =
    bindE (recognise w s filename content) (\<lambda>(fields, requestId).
    Inr (finish_recognition w s
      \<lparr>rcg_AIEnabled = AIEnabled s, rcg_AIUsed = False, rcg_Corrections = None, rcg_Fields = fields,
       rcg_OCRRequestID = requestId, rcg_SuggestedFields = None, rcg_Warnings = validate fields\<rparr>))"

section \<open>The answer of the handler\<close>

definition enc_Correction :: "Correction \<Rightarrow> json" where
  "enc_Correction c = JObj
    [(''field'', JStr (cor_Field c)),
     (''from'', JStr (cor_From c)),
     (''reason'', JStr (cor_Reason c)),
     (''to'', JStr (cor_To c))]"

definition enc_Result :: "Result \<Rightarrow> json" where
  "enc_Result r = JObj
    ([(''aiEnabled'', JBool (rcg_AIEnabled r)),
      (''aiUsed'', JBool (rcg_AIUsed r)),
      (''corrections'', case rcg_Corrections r of None \<Rightarrow> JNull | Some cs \<Rightarrow> JArr (map enc_Correction cs)),
      (''fields'', enc_InvoiceFields (rcg_Fields r)),
      (''ocrRequestId'', JStr (rcg_OCRRequestID r))]
     @ (case rcg_SuggestedFields r of None \<Rightarrow> [] | Some f \<Rightarrow> [(''suggestedFields'', enc_InvoiceFields f)])
     @ [(''warnings'', enc_strings (rcg_Warnings r))])"

end
