(* ===== verification/Server.thy ===== *)
theory Server
  imports Network Visibility Requests Ocr
begin

text \<open>
  The state of the running backend and the steps every handler of \<open>backend/api/invoice.go\<close> is made of:
  taking the principal and its organization's contract, evaluating or submitting a transaction, and
  replying early. A handler is a function from the gin context and the server to a response and the
  server afterwards. What lies outside the program is the record \<open>env\<close>: the Fabric libraries, the
  network, the recognition services, and how \<open>sort.Slice\<close> rearranges elements that compare equal;
  the configuration of the recognition, which never changes, goes with it.
\<close>

record server =
  srv_auth :: Service
  srv_host :: host
  srv_gate :: gateways
  srv_ledger :: ledger

record env =
  env_sdk :: sdk
  env_net :: network
  env_sort :: "ApiInvoice list \<Rightarrow> ApiInvoice list"
  env_ocr :: OcrService
  env_cloud :: cloud

type_synonym handler = "env \<Rightarrow> gin \<Rightarrow> server \<Rightarrow> response \<times> server"

section \<open>Early replies\<close>

definition orReply :: "response + 'a \<Rightarrow> server \<Rightarrow> ('a \<Rightarrow> response \<times> server) \<Rightarrow> response \<times> server" where
  "orReply m s k = (case m of Inl r \<Rightarrow> (r, s) | Inr x \<Rightarrow> k x)"

definition bound :: "'a option \<Rightarrow> server \<Rightarrow> ('a \<Rightarrow> response \<times> server) \<Rightarrow> response \<times> server" where
  "bound m s k = (case m of None \<Rightarrow> (badRequest, s) | Some x \<Rightarrow> k x)"

definition loggedIn :: "gin \<Rightarrow> server \<Rightarrow> (Principal \<Rightarrow> response \<times> server) \<Rightarrow> response \<times> server" where
  "loggedIn c s k = (case PrincipalFromContext c of None \<Rightarrow> (error_reply 401 m_login_first, s) | Some prin \<Rightarrow> k prin)"

lemma orReply_simps [simp]: "orReply (Inl r) s k = (r, s)" "orReply (Inr x) s k = k x"
  by (simp_all add: orReply_def)

lemma bound_simps [simp]: "bound None s k = (badRequest, s)" "bound (Some x) s k = k x"
  by (simp_all add: bound_def)

section \<open>Contracts and transactions\<close>

definition contractOf :: "env \<Rightarrow> string \<Rightarrow> server \<Rightarrow> (response + contract) \<times> server" where
  "contractOf env mspID s =
    (let (r, g) = ContractFor (env_sdk env) (srv_host s) mspID (srv_gate s)
     in (case r of Inl _ \<Rightarrow> Inl serverError | Inr ct \<Rightarrow> Inr ct, s\<lparr>srv_gate := g\<rparr>))"

definition contractForRequest :: "env \<Rightarrow> gin \<Rightarrow> server \<Rightarrow> (response + contract) \<times> server" where
  "contractForRequest env c s = (case PrincipalFromContext c of
     None \<Rightarrow> (Inl (error_reply 401 m_login_first), s)
   | Some prin \<Rightarrow> contractOf env (prc_MSPID prin) s)"

definition withContract ::
  "(response + contract) \<times> server \<Rightarrow> (contract \<Rightarrow> server \<Rightarrow> response \<times> server) \<Rightarrow> response \<times> server" where
  "withContract rs k = (case rs of (Inl r, s) \<Rightarrow> (r, s) | (Inr ct, s) \<Rightarrow> k ct s)"

definition evaluate :: "env \<Rightarrow> contract \<Rightarrow> query \<Rightarrow> server \<Rightarrow> gw_error + blob" where
  "evaluate env ct q s = EvaluateTransaction (env_net env) ct q (srv_ledger s)"

definition submitting :: "env \<Rightarrow> contract \<Rightarrow> call \<Rightarrow> server \<Rightarrow> response \<Rightarrow> response \<times> server" where
  "submitting env ct tx s ok = (case SubmitTransaction (env_net env) ct tx (srv_ledger s) of
     (Some e, l) \<Rightarrow> (transactionError e, s\<lparr>srv_ledger := l\<rparr>)
   | (None, l) \<Rightarrow> (ok, s\<lparr>srv_ledger := l\<rparr>))"

text \<open>Evaluate and decode, with the two replies to the two kinds of error.\<close>

definition fetch :: "env \<Rightarrow> contract \<Rightarrow> query \<Rightarrow> (blob \<Rightarrow> 'a res) \<Rightarrow> server \<Rightarrow> response + 'a" where
  "fetch env ct q dec s = (case evaluate env ct q s of Inl e \<Rightarrow> Inl (transactionError e)
     | Inr payload \<Rightarrow> (case dec payload of Inl _ \<Rightarrow> Inl serverError | Inr x \<Rightarrow> Inr x))"

definition plain_error :: "string \<Rightarrow> gw_error" where
  "plain_error e = \<lparr>gwe_text = e, gwe_details = []\<rparr>"

definition read_all :: "env \<Rightarrow> contract \<Rightarrow> query \<Rightarrow> (json \<Rightarrow> 'a res) \<Rightarrow> server \<Rightarrow> gw_error + 'a list" where
  "read_all env ct q dec s = (case evaluate env ct q s of Inl e \<Rightarrow> Inl e
     | Inr payload \<Rightarrow> (case decodeList dec payload of Inl e \<Rightarrow> Inl (plain_error e) | Inr xs \<Rightarrow> Inr xs))"

definition readAllProjects :: "env \<Rightarrow> contract \<Rightarrow> server \<Rightarrow> gw_error + Project list" where
  "readAllProjects env ct s = read_all env ct QGetAllProjects dec_Project s"

text \<open>The maps the handlers build: a later record under the same identifier wins.\<close>

definition by_id :: "('a \<Rightarrow> string) \<Rightarrow> 'a list \<Rightarrow> string \<Rightarrow> 'a option" where
  "by_id ident xs = map_of (rev (map (\<lambda>x. (ident x, x)) xs))"

definition readAllOrganizations :: "env \<Rightarrow> contract \<Rightarrow> server \<Rightarrow> gw_error + (string \<rightharpoonup> BusinessOrganization)" where
  "readAllOrganizations env ct s =
    (case read_all env ct QGetAllBusinessOrganizations dec_BusinessOrganization s of
       Inl e \<Rightarrow> Inl e | Inr xs \<Rightarrow> Inr (by_id org_ID xs))"

definition orTransactionError :: "gw_error + 'a \<Rightarrow> response + 'a" where
  "orTransactionError m = (case m of Inl e \<Rightarrow> Inl (transactionError e) | Inr x \<Rightarrow> Inr x)"

definition orServerError :: "gw_error + 'a \<Rightarrow> response + 'a" where
  "orServerError m = (case m of Inl e \<Rightarrow> Inl serverError | Inr x \<Rightarrow> Inr x)"

definition readPendingTransferForPrincipal ::
  "env \<Rightarrow> contract \<Rightarrow> string \<Rightarrow> Principal \<Rightarrow> server \<Rightarrow> gw_error + InvoiceTransfer option" where
  "readPendingTransferForPrincipal env ct invoiceID prin s =
    (if prc_Role prin \<noteq> ''ISSUER'' \<and> prc_Role prin \<noteq> ''HOLDER'' \<and> prc_Role prin \<noteq> ''PROJECT_MEMBER'' then Inr None
     else (case evaluate env ct (QReadInvoiceTransfer invoiceID) s of
       Inl e \<Rightarrow> if contains (gwe_text e) ''does not exist'' then Inr None else Inl e
     | Inr payload \<Rightarrow> (case Unmarshal dec_InvoiceTransfer payload of
         Inl e \<Rightarrow> Inl (plain_error e)
       | Inr transfer \<Rightarrow> if pendingTransferVisibleTo prin (Some transfer) then Inr (Some transfer) else Inr None)))"

text \<open>The invoice of \<open>:id\<close> if the principal may read it; the zero principal stands for none.\<close>

definition zero_Principal :: Principal where
  "zero_Principal = \<lparr>prc_DisplayName = [], prc_MSPID = [], prc_OrganizationID = [], prc_Role = [], prc_Username = []\<rparr>"

definition the_principal :: "gin \<Rightarrow> Principal" where
  "the_principal c = (case PrincipalFromContext c of None \<Rightarrow> zero_Principal | Some prin \<Rightarrow> prin)"

definition read_visible :: "env \<Rightarrow> gin \<Rightarrow> contract \<Rightarrow> server \<Rightarrow> response + ApiInvoice" where
  "read_visible env c ct s =
    (case fetch env ct (QReadInvoice (rq_id (gin_request c))) (Unmarshal dec_ApiInvoice) s of Inl r \<Rightarrow> Inl r | Inr invoice \<Rightarrow>
    (case orTransactionError (readAllProjects env ct s) of Inl r \<Rightarrow> Inl r | Inr projects \<Rightarrow>
    (case orTransactionError (readAllOrganizations env ct s) of Inl r \<Rightarrow> Inl r | Inr organizations \<Rightarrow>
     if invoiceVisibleTo (the_principal c) invoice (by_id prj_ID projects) organizations then Inr invoice
     else (case orTransactionError (readPendingTransferForPrincipal env ct (inv_ID invoice) (the_principal c) s) of
         Inl r \<Rightarrow> Inl r
       | Inr None \<Rightarrow> Inl (error_reply 403 m_hidden_invoice)
       | Inr (Some t) \<Rightarrow> Inr (invoice\<lparr>inv_PendingTransfer := Some t\<rparr>)))))"

definition readInvoice :: "env \<Rightarrow> gin \<Rightarrow> server \<Rightarrow> (response + ApiInvoice) \<times> server" where
  "readInvoice env c s = (case contractForRequest env c s of
     (Inl r, s) \<Rightarrow> (Inl r, s) | (Inr ct, s) \<Rightarrow> (read_visible env c ct s, s))"

section \<open>Identifiers and content hashes\<close>

definition stamp :: "host \<Rightarrow> string" where
  "stamp h = (let secs = hst_now h div 1000000000 + hst_zone h; rest = secs mod 86400;
       (y, m, d) = civil_from_days (secs div 86400)
     in pad4 y @ pad2 m @ pad2 d @ ''-'' @ pad2 (rest div 3600) @ pad2 (rest mod 3600 div 60) @ pad2 (rest mod 60))"

definition newBusinessID :: "string \<Rightarrow> host \<Rightarrow> string \<times> host" where
  "newBusinessID pre h = (case rand_read 3 h of
     (None, h) \<Rightarrow> (pre @ ''-'' @ stamp h @ ''-'' @ int_text (hst_now h mod 1000000), h)
   | (Some bytes, h) \<Rightarrow> (pre @ ''-'' @ stamp h @ ''-'' @ hex_text_upper bytes, h))"

definition newID :: "string \<Rightarrow> server \<Rightarrow> string \<times> server" where
  "newID pre s = (let (ident, h) = newBusinessID pre (srv_host s) in (ident, s\<lparr>srv_host := h\<rparr>))"

definition hash_input :: "createInvoiceRequest \<Rightarrow> json" where
  "hash_input r = JObj
    [(''version'', JStr ''v2''),
     (''invoiceNo'', JStr (cir_InvoiceNo r)),
     (''issueDate'', JStr (cir_IssueDate r)),
     (''issuer'', JStr (cir_Issuer r)),
     (''buyer'', JStr (cir_Buyer r)),
     (''buyerMspId'', JStr (cir_BuyerMSPID r)),
     (''amountCents'', JInt64 (cir_AmountCents r)),
     (''taxCents'', JInt64 (cir_TaxCents r)),
     (''totalCents'', JInt64 (cir_AmountCents r + cir_TaxCents r)),
     (''currency'', JStr (cir_Currency r))]"

definition invoiceHash :: "createInvoiceRequest \<Rightarrow> string" where
  "invoiceHash r = sha256_hex (json_text (hash_input r))"

definition legacy_text :: "createInvoiceRequest \<Rightarrow> string" where
  "legacy_text r = intersperse ''|'' [cir_InvoiceNo r, cir_IssueDate r, cir_Issuer r, cir_Buyer r, cir_BuyerMSPID r,
     FormatInt (cir_AmountCents r), FormatInt (cir_TaxCents r), FormatInt (cir_AmountCents r + cir_TaxCents r),
     cir_Currency r]"

definition invoiceHashLegacy :: "createInvoiceRequest \<Rightarrow> string" where
  "invoiceHashLegacy r = sha256_hex (legacy_text r)"

definition textHash :: "string \<Rightarrow> string" where
  "textHash value = sha256_hex (TrimSpace value)"

text \<open>The check of amount and tax before an invoice is created, corrected or verified.\<close>

definition total_out_of_range :: "int64 \<Rightarrow> int64 \<Rightarrow> bool" where
  "total_out_of_range amount tax \<longleftrightarrow> sint (amount + tax) \<le> 0 \<or> sint amount > sint (10000000000 - tax)"

definition positiveQuery :: "gin \<Rightarrow> string \<Rightarrow> int \<Rightarrow> int \<Rightarrow> int" where
  "positiveQuery c name fallback maximum =
    (case map_of (rq_query (gin_request c)) name of None \<Rightarrow> fallback
     | Some v \<Rightarrow> (case ParseInt v of None \<Rightarrow> fallback
        | Some i \<Rightarrow> if sint i < 1 then fallback else if sint i > maximum then maximum else sint i))"

end
