(* ===== verification/Handlers.thy ===== *)
theory Handlers
  imports Server
begin

text \<open>
  The handlers of \<open>backend/api/invoice.go\<close> that submit a transaction. Each binds its body, takes the
  principal and the contract of the principal's organization, and submits one call that names the
  principal as its operator; \<open>registerUser\<close> is the exception: it has no session and ends in one.
\<close>

section \<open>Registration\<close>

definition registerUser :: handler where
  "registerUser env c s = bound (ShouldBindJSON dec_registerRequest valid_registerRequest c) s (\<lambda>r.
    let username = TrimSpace (rgr_Username r); display = TrimSpace (rgr_DisplayName r);
        organizationID = TrimSpace (rgr_OrganizationID r); role = ''PROJECT_MEMBER'';
        prin = \<lparr>prc_DisplayName = display, prc_MSPID = [], prc_OrganizationID = organizationID, prc_Role = role,
          prc_Username = username\<rparr> in
    case ValidateRegistration (srv_auth s) prin (rgr_Password r) of
      Inl e \<Rightarrow> (error_reply 422 e, s)
    | Inr _ \<Rightarrow>
      withContract (contractOf env ''Org1MSP'' s) (\<lambda>directory s.
      orReply (fetch env directory (QReadBusinessOrganization organizationID) (Unmarshal dec_BusinessOrganization) s) s (\<lambda>organization.
      if org_Status organization \<noteq> ''ACTIVE'' then (error_reply 422 m_org_inactive, s)
      else withContract (contractOf env (org_MSPID organization) s) (\<lambda>ct s.
      case SubmitTransaction (env_net env) ct
          (TxRegisterBusinessUser username display (org_MSPID organization) role (org_ID organization)) (srv_ledger s) of
        (Some e, l) \<Rightarrow> (transactionError e, s\<lparr>srv_ledger := l\<rparr>)
      | (None, l) \<Rightarrow>
        (let s = s\<lparr>srv_ledger := l\<rparr>;
             prin = prin\<lparr>prc_MSPID := org_MSPID organization, prc_OrganizationID := org_ID organization\<rparr> in
         case RegisterAccount (srv_auth s) prin (rgr_Password r) (srv_host s) of
           (Some _, a, h) \<Rightarrow> (serverError, s\<lparr>srv_auth := a, srv_host := h\<rparr>)
         | (None, a, h) \<Rightarrow>
             (let (rsp, a, h) = StartRegisteredSession a prin h
              in (rsp, s\<lparr>srv_auth := a, srv_host := h\<rparr>)))))))"

definition createBusinessOrganization :: handler where
  "createBusinessOrganization env c s = bound (ShouldBindJSON dec_organizationRequest valid_organizationRequest c) s (\<lambda>r.
    loggedIn c s (\<lambda>prin.
    if ogr_MSPID r \<noteq> prc_MSPID prin then (error_reply 403 m_org_foreign, s)
    else withContract (contractOf env (ogr_MSPID r) s) (\<lambda>ct s.
      let (ident, s) = newID ''ORG'' s in
      submitting env ct (TxCreateBusinessOrganization ident (TrimSpace (ogr_Name r)) (ToUpper (TrimSpace (ogr_Type r)))
          (TrimSpace (ogr_ParentID r)) (TrimSpace (ogr_Description r)) (prc_Username prin)) s
        (message_reply 201 m_org_created [(''id'', JStr ident)]))))"

section \<open>Invoices\<close>

definition create_call :: "createInvoiceRequest \<Rightarrow> Principal \<Rightarrow> string \<Rightarrow> call" where
  "create_call r prin correctionOf = TxCreateInvoice (cir_ID r) (cir_InvoiceNo r) (cir_IssueDate r) (cir_Issuer r)
     (cir_Buyer r) (cir_BuyerMSPID r) (FormatInt (cir_AmountCents r)) (FormatInt (cir_TaxCents r)) (cir_Currency r)
     (invoiceHash r) (cir_ProjectID r) (prc_Username prin) (prc_MSPID prin) (prc_OrganizationID prin) correctionOf"

definition createInvoice :: handler where
  "createInvoice env c s = bound (ShouldBindJSON dec_createInvoiceRequest valid_createInvoiceRequest c) s (\<lambda>r.
    let r = normalize_createInvoice r;
        (r, s) = (if cir_ID r = [] then (let (ident, s) = newID ''INV'' s in (r\<lparr>cir_ID := ident\<rparr>, s)) else (r, s)) in
    loggedIn c s (\<lambda>prin.
    withContract (contractForRequest env c s) (\<lambda>ct s.
    let r = (if cir_Currency r = [] then r\<lparr>cir_Currency := ''CNY''\<rparr> else r) in
    if total_out_of_range (cir_AmountCents r) (cir_TaxCents r) then (error_reply 422 m_total_range, s)
    else submitting env ct (create_call r prin []) s
      (message_reply 201 m_invoice_created [(''id'', JStr (cir_ID r)), (''dataHash'', JStr (invoiceHash r))]))))"

definition correctInvoice :: handler where
  "correctInvoice env c s = bound (ShouldBindJSON dec_createInvoiceRequest valid_createInvoiceRequest c) s (\<lambda>r.
    let r = normalize_createInvoice r; (ident, s) = newID ''INV'' s; r = r\<lparr>cir_ID := ident\<rparr> in
    loggedIn c s (\<lambda>prin.
    if total_out_of_range (cir_AmountCents r) (cir_TaxCents r) then (error_reply 422 m_correction_range, s)
    else withContract (contractForRequest env c s) (\<lambda>ct s.
    submitting env ct (create_call r prin (rq_id (gin_request c))) s
      (message_reply 201 m_correction_created [(''id'', JStr (cir_ID r))]))))"

definition linkInvoiceProject :: handler where
  "linkInvoiceProject env c s = bound (ShouldBindJSON dec_linkProjectRequest valid_linkProjectRequest c) s (\<lambda>r.
    loggedIn c s (\<lambda>prin. withContract (contractForRequest env c s) (\<lambda>ct s.
    submitting env ct (TxLinkInvoiceToProject (rq_id (gin_request c)) (TrimSpace (lpr_ProjectID r)) (prc_Username prin)) s
      (message_reply 200 m_linked []))))"

definition unlinkInvoiceProject :: handler where
  "unlinkInvoiceProject env c s =
    loggedIn c s (\<lambda>prin. withContract (contractForRequest env c s) (\<lambda>ct s.
    submitting env ct (TxUnlinkInvoiceFromProject (rq_id (gin_request c)) (prc_Username prin)) s
      (message_reply 200 m_unlinked [])))"

definition requestInvoiceTransfer :: handler where
  "requestInvoiceTransfer env c s = bound (ShouldBindJSON dec_transferRequest valid_transferRequest c) s (\<lambda>r.
    loggedIn c s (\<lambda>prin.
    let (m, s) = readInvoice env c s in orReply m s (\<lambda>invoice.
    if inv_CurrentHolder invoice \<noteq> prc_Username prin then (error_reply 403 m_not_holder, s)
    else withContract (contractForRequest env c s) (\<lambda>ct s.
    submitting env ct (TxRequestInvoiceTransfer (rq_id (gin_request c)) (TrimSpace (trq_To r)) (trq_ToMSPID r)
        (TrimSpace (trq_Note r)) (prc_Username prin)) s
      (message_reply 200 m_transfer_requested [])))))"

definition respondInvoiceTransfer :: handler where
  "respondInvoiceTransfer env c s = bound (ShouldBindJSON dec_transferResponseRequest valid_transferResponseRequest c) s (\<lambda>r.
    loggedIn c s (\<lambda>prin. withContract (contractForRequest env c s) (\<lambda>ct s.
    submitting env ct (TxRespondInvoiceTransfer (rq_id (gin_request c)) (tre_Decision r) (TrimSpace (tre_Response r))
        (prc_Username prin)) s
      (message_reply 200 m_transfer_answered []))))"

definition cancelInvoiceTransfer :: handler where
  "cancelInvoiceTransfer env c s =
    loggedIn c s (\<lambda>prin. withContract (contractForRequest env c s) (\<lambda>ct s.
    submitting env ct (TxCancelInvoiceTransfer (rq_id (gin_request c)) (prc_Username prin)) s
      (message_reply 200 m_transfer_cancelled [])))"

definition voidInvoice :: handler where
  "voidInvoice env c s = bound (ShouldBindJSON dec_voidRequest valid_voidRequest c) s (\<lambda>r.
    loggedIn c s (\<lambda>prin. withContract (contractForRequest env c s) (\<lambda>ct s.
    submitting env ct (TxVoidInvoice (rq_id (gin_request c)) (TrimSpace (vdr_Reason r)) (prc_Username prin)) s
      (message_reply 200 m_voided []))))"

definition requestInvoiceVoid :: handler where
  "requestInvoiceVoid env c s = bound (ShouldBindJSON dec_voidRequest valid_voidRequest c) s (\<lambda>r.
    loggedIn c s (\<lambda>prin. withContract (contractForRequest env c s) (\<lambda>ct s.
    submitting env ct (TxRequestInvoiceVoid (rq_id (gin_request c)) (TrimSpace (vdr_Reason r)) (prc_Username prin)) s
      (message_reply 200 m_void_requested []))))"

definition reviewInvoiceVoid :: handler where
  "reviewInvoiceVoid env c s = bound (ShouldBindJSON dec_voidReviewRequest valid_voidReviewRequest c) s (\<lambda>r.
    loggedIn c s (\<lambda>prin. withContract (contractForRequest env c s) (\<lambda>ct s.
    submitting env ct (TxReviewInvoiceVoid (rq_id (gin_request c)) (vrr_Decision r) (TrimSpace (vrr_Opinion r))
        (prc_Username prin)) s
      (message_reply 200 m_void_reviewed []))))"

section \<open>Projects\<close>

definition createProject :: handler where
  "createProject env c s = bound (ShouldBindJSON dec_projectRequest valid_projectRequest c) s (\<lambda>r.
    loggedIn c s (\<lambda>prin.
    let r = normalize_project r;
        (r, s) = (if pjr_ID r = [] then (let (ident, s) = newID ''PRJ'' s in (r\<lparr>pjr_ID := ident\<rparr>, s)) else (r, s)) in
    withContract (contractForRequest env c s) (\<lambda>ct s.
    submitting env ct (TxCreateProject (pjr_ID r) (pjr_Name r) (pjr_Content r) (FormatInt (pjr_BudgetCents r))
        (pjr_ExpectedEndDate r) (prc_Username prin) (prc_OrganizationID prin)) s
      (message_reply 201 m_project_created [(''id'', JStr (pjr_ID r))]))))"

definition updateProject :: handler where
  "updateProject env c s = bound (ShouldBindJSON dec_projectRequest valid_projectRequest c) s (\<lambda>r.
    loggedIn c s (\<lambda>prin.
    let r = normalize_project (r\<lparr>pjr_ID := rq_id (gin_request c)\<rparr>) in
    withContract (contractForRequest env c s) (\<lambda>ct s.
    submitting env ct (TxUpdateProject (pjr_ID r) (pjr_Name r) (pjr_Content r) (FormatInt (pjr_BudgetCents r))
        (pjr_ExpectedEndDate r) (prc_Username prin)) s
      (message_reply 200 m_project_updated []))))"

definition submitProject :: handler where
  "submitProject env c s =
    loggedIn c s (\<lambda>prin. withContract (contractForRequest env c s) (\<lambda>ct s.
    submitting env ct (TxSubmitProject (rq_id (gin_request c)) (prc_Username prin)) s
      (message_reply 200 m_project_submitted [])))"

definition reviewProject :: handler where
  "reviewProject env c s = bound (ShouldBindJSON dec_reviewRequest valid_reviewRequest c) s (\<lambda>r.
    loggedIn c s (\<lambda>prin. withContract (contractForRequest env c s) (\<lambda>ct s.
    submitting env ct (TxReviewProject (rq_id (gin_request c)) (rvr_Decision r) (TrimSpace (rvr_Opinion r))
        (prc_Username prin)) s
      (message_reply 200 m_project_reviewed []))))"

definition requestProjectClosure :: handler where
  "requestProjectClosure env c s = bound (ShouldBindJSON dec_closureRequest valid_closureRequest c) s (\<lambda>r.
    loggedIn c s (\<lambda>prin. withContract (contractForRequest env c s) (\<lambda>ct s.
    submitting env ct (TxRequestProjectClosure (rq_id (gin_request c)) (TrimSpace (clr_Materials r))
        (textHash (clr_Materials r)) (prc_Username prin)) s
      (message_reply 200 m_closure_requested [(''materialsHash'', JStr (textHash (clr_Materials r)))]))))"

definition reviewProjectClosure :: handler where
  "reviewProjectClosure env c s = bound (ShouldBindJSON dec_reviewRequest valid_reviewRequest c) s (\<lambda>r.
    loggedIn c s (\<lambda>prin. withContract (contractForRequest env c s) (\<lambda>ct s.
    submitting env ct (TxReviewProjectClosure (rq_id (gin_request c)) (rvr_Decision r) (TrimSpace (rvr_Opinion r))
        (prc_Username prin)) s
      (message_reply 200 m_closure_reviewed []))))"

definition finalizeProjectSettlement :: handler where
  "finalizeProjectSettlement env c s =
    loggedIn c s (\<lambda>prin. withContract (contractForRequest env c s) (\<lambda>ct s.
    submitting env ct (TxFinalizeProjectSettlement (rq_id (gin_request c)) (prc_Username prin)) s
      (message_reply 200 m_finalized [])))"

definition addProjectMember :: handler where
  "addProjectMember env c s = bound (ShouldBindJSON dec_projectMemberRequest valid_projectMemberRequest c) s (\<lambda>r.
    loggedIn c s (\<lambda>prin. withContract (contractForRequest env c s) (\<lambda>ct s.
    submitting env ct (TxAddProjectMember (rq_id (gin_request c)) (TrimSpace (pmr_Username r)) (prc_Username prin)) s
      (message_reply 201 m_member_added []))))"

section \<open>Reimbursements\<close>

definition createReimbursement :: handler where
  "createReimbursement env c s = bound (ShouldBindJSON dec_reimbursementRequest valid_reimbursementRequest c) s (\<lambda>r.
    loggedIn c s (\<lambda>prin. withContract (contractForRequest env c s) (\<lambda>ct s.
    let r = r\<lparr>rbr_ID := TrimSpace (rbr_ID r)\<rparr>;
        (r, s) = (if rbr_ID r = [] then (let (ident, s) = newID ''REIM'' s in (r\<lparr>rbr_ID := ident\<rparr>, s)) else (r, s)) in
    submitting env ct (TxCreateReimbursement (rbr_ID r) (TrimSpace (rbr_ProjectID r)) (TrimSpace (rbr_InvoiceID r))
        (prc_Username prin) (TrimSpace (rbr_Evidence r)) (textHash (rbr_Evidence r))) s
      (message_reply 201 m_claim_created [(''id'', JStr (rbr_ID r))]))))"

definition resubmitReimbursement :: handler where
  "resubmitReimbursement env c s = bound (ShouldBindJSON dec_reimbursementRequest valid_reimbursementRequest c) s (\<lambda>r.
    loggedIn c s (\<lambda>prin. withContract (contractForRequest env c s) (\<lambda>ct s.
    submitting env ct (TxResubmitReimbursement (rq_id (gin_request c)) (TrimSpace (rbr_Evidence r))
        (textHash (rbr_Evidence r)) (prc_Username prin)) s
      (message_reply 200 m_claim_resubmitted []))))"

definition withdrawReimbursement :: handler where
  "withdrawReimbursement env c s =
    loggedIn c s (\<lambda>prin. withContract (contractForRequest env c s) (\<lambda>ct s.
    submitting env ct (TxWithdrawReimbursement (rq_id (gin_request c)) (prc_Username prin)) s
      (message_reply 200 m_claim_withdrawn [])))"

definition reviewReimbursement :: handler where
  "reviewReimbursement env c s = bound (ShouldBindJSON dec_reviewRequest valid_reviewRequest c) s (\<lambda>r.
    loggedIn c s (\<lambda>prin. withContract (contractForRequest env c s) (\<lambda>ct s.
    submitting env ct (TxReviewReimbursement (rq_id (gin_request c)) (rvr_Decision r) (TrimSpace (rvr_Opinion r))
        (prc_Username prin)) s
      (message_reply 200 m_claim_reviewed []))))"

definition payReimbursement :: handler where
  "payReimbursement env c s =
    loggedIn c s (\<lambda>prin. withContract (contractForRequest env c s) (\<lambda>ct s.
    submitting env ct (TxPayReimbursement (rq_id (gin_request c)) (prc_Username prin)) s
      (message_reply 200 m_claim_paid [])))"

end
