(* ===== verification/Readers.thy ===== *)
theory Readers
  imports Server "HOL-Library.Multiset"
begin

text \<open>
  The handlers of \<open>backend/api/invoice.go\<close> that only read. They evaluate queries with the contract of the
  principal's organization and filter the answers by the rules of \<open>Visibility\<close>.
\<close>

definition json_list :: "('a \<Rightarrow> json) \<Rightarrow> 'a list \<Rightarrow> json" where
  "json_list enc xs = JArr (map enc xs)"

section \<open>Directories\<close>

definition getBusinessUsers :: handler where
  "getBusinessUsers env c s = withContract (contractForRequest env c s) (\<lambda>ct s.
    orReply (fetch env ct QGetAllBusinessUsers (decodeList dec_BusinessUser) s) s (\<lambda>users.
    (reply 200 (json_list enc_BusinessUser users), s)))"

definition getPublicBusinessOrganizations :: handler where
  "getPublicBusinessOrganizations env c s = withContract (contractOf env ''Org1MSP'' s) (\<lambda>ct s.
    orReply (fetch env ct QGetAllBusinessOrganizations (decodeList dec_BusinessOrganization) s) s (\<lambda>organizations.
    (reply 200 (json_list enc_BusinessOrganization organizations), s)))"

definition getBusinessOrganizations :: handler where
  "getBusinessOrganizations env c s = withContract (contractForRequest env c s) (\<lambda>ct s.
    orReply (fetch env ct QGetAllBusinessOrganizations (decodeList dec_BusinessOrganization) s) s (\<lambda>organizations.
    (reply 200 (json_list enc_BusinessOrganization organizations), s)))"

section \<open>Invoices\<close>

text \<open>
  The loop of \<open>getInvoices\<close> over all invoices: those the principal may read, and those that are on
  their way to the principal, with the pending transfer attached.
\<close>

fun visible_invoices :: "env \<Rightarrow> contract \<Rightarrow> server \<Rightarrow> Principal \<Rightarrow> (string \<rightharpoonup> Project)
    \<Rightarrow> (string \<rightharpoonup> BusinessOrganization) \<Rightarrow> ApiInvoice list \<Rightarrow> gw_error + ApiInvoice list" where
  "visible_invoices env ct s prin projects organizations [] = Inr []"
| "visible_invoices env ct s prin projects organizations (invoice # rest) =
     (let later = visible_invoices env ct s prin projects organizations rest;
          keep = (\<lambda>x. case later of Inl e \<Rightarrow> Inl e | Inr xs \<Rightarrow> Inr (x # xs)) in
      if invoiceVisibleTo prin invoice projects organizations then keep invoice
      else (case readPendingTransferForPrincipal env ct (inv_ID invoice) prin s of
         Inl e \<Rightarrow> Inl e
       | Inr None \<Rightarrow> later
       | Inr (Some t) \<Rightarrow> keep (invoice\<lparr>inv_PendingTransfer := Some t\<rparr>)))"

definition summary :: "ApiInvoice list \<Rightarrow> json" where
  "summary xs = JObj
    [(''total'', JInt (int (length xs))),
     (''circulating'', JInt (int (length (filter (\<lambda>x. inv_Status x = ''IN_CIRCULATION'') xs)))),
     (''amountCents'', JInt64 (sum_list (map inv_TotalCents
        (filter (\<lambda>x. inv_Status x \<noteq> ''VOIDED'' \<and> inv_Currency x = ''CNY'') xs))))]"

definition matches :: "string \<Rightarrow> ApiInvoice \<Rightarrow> bool" where
  "matches keyword x \<longleftrightarrow> keyword = [] \<or> contains (ToLower (intersperse '' ''
     [inv_ID x, inv_InvoiceNo x, inv_Issuer x, inv_Buyer x, inv_CurrentHolder x])) keyword"

text \<open>The slice \<open>visible[start:end]\<close> of a page.\<close>

definition page_of :: "int \<Rightarrow> int \<Rightarrow> 'a list \<Rightarrow> 'a list" where
  "page_of page pageSize xs =
    (let total' = int (length xs); start = (page - 1) * pageSize; start = (if start > total' then total' else start);
         end' = start + pageSize; end' = (if end' > total' then total' else end')
     in drop (nat start) (take (nat end') xs))"

text \<open>
  \<open>sort.Slice\<close> by \<open>CreatedAt\<close>, descending. It is not stable: \<open>env_sort\<close> proposes an arrangement of the list
  before it is sorted by time, so that invoices of the same time may come in any order; a proposal that
  is no rearrangement counts for nothing.
\<close>

definition newest_first :: "ApiInvoice list \<Rightarrow> ApiInvoice list" where
  "newest_first xs = rev (sort_key inv_CreatedAt xs)"

definition sort_slice :: "env \<Rightarrow> ApiInvoice list \<Rightarrow> ApiInvoice list" where
  "sort_slice env xs = newest_first (if mset (env_sort env xs) = mset xs then env_sort env xs else xs)"

text \<open>So the result is a rearrangement with the newest first, and each such one can come about.\<close>

lemma newest_first_sorted: "sorted_wrt (\<lambda>x y. inv_CreatedAt y \<le> inv_CreatedAt x) (newest_first xs)"
  using sorted_sort_key [of inv_CreatedAt xs] by (simp add: newest_first_def sorted_wrt_rev sorted_map)

lemma sort_slice_mset: "mset (sort_slice env xs) = mset xs"
  by (simp add: sort_slice_def newest_first_def)

lemma sort_slice_any:
  assumes "mset ys = mset xs" "sorted_wrt (\<lambda>x y. inv_CreatedAt y \<le> inv_CreatedAt x) ys"
  shows "sort_slice (env\<lparr>env_sort := \<lambda>_. rev ys\<rparr>) xs = ys"
proof -
  have "sorted (map inv_CreatedAt (rev ys))" using assms(2) by (simp add: sorted_map sorted_wrt_rev)
  then show ?thesis using assms(1) by (simp add: sort_slice_def newest_first_def sort_key_id_if_sorted)
qed

text \<open>The answer made of the readable invoices: a page of those that match, and a summary of all of them.\<close>

definition list_reply :: "env \<Rightarrow> gin \<Rightarrow> int \<Rightarrow> ApiInvoice list \<Rightarrow> json" where
  "list_reply env c now readable =
    (let keyword = ToLower (TrimSpace (case map_of (rq_query (gin_request c)) ''q'' of None \<Rightarrow> [] | Some q \<Rightarrow> q));
         visible = sort_slice env (filter (matches keyword) readable);
         page = positiveQuery c ''page'' 1 100000; pageSize = positiveQuery c ''pageSize'' 20 100 in
     JObj [(''items'', json_list enc_ApiInvoice (page_of page pageSize visible)),
       (''total'', JInt (int (length visible))), (''page'', JInt page), (''pageSize'', JInt pageSize),
       (''summary'', summary readable), (''updatedAt'', JStr (format_rfc3339 (now div 1000000000)))])"

definition getInvoices :: handler where
  "getInvoices env c s = withContract (contractForRequest env c s) (\<lambda>ct s.
    orReply (fetch env ct QGetAllInvoices (decodeList dec_ApiInvoice) s) s (\<lambda>invoices.
    orReply (orTransactionError (readAllProjects env ct s)) s (\<lambda>projects.
    orReply (orTransactionError (readAllOrganizations env ct s)) s (\<lambda>organizations.
    orReply (orTransactionError
      (visible_invoices env ct s (the_principal c) (by_id prj_ID projects) organizations invoices)) s (\<lambda>readable.
    (reply 200 (list_reply env c (hst_now (srv_host s)) readable), s))))))"

definition getInvoice :: handler where
  "getInvoice env c s = (let (m, s) = readInvoice env c s in orReply m s (\<lambda>invoice.
    (reply 200 (enc_ApiInvoice invoice), s)))"

text \<open>The two reads whose missing record is no error: the reply is \<open>null\<close>.\<close>

definition reply_or_null :: "env \<Rightarrow> contract \<Rightarrow> query \<Rightarrow> (json \<Rightarrow> 'a res) \<Rightarrow> ('a \<Rightarrow> json) \<Rightarrow> server \<Rightarrow> response \<times> server" where
  "reply_or_null env ct q dec enc s = (case evaluate env ct q s of
     Inl e \<Rightarrow> if contains (gwe_text e) ''does not exist'' then (reply 200 JNull, s) else (transactionError e, s)
   | Inr payload \<Rightarrow> (case Unmarshal dec payload of Inl _ \<Rightarrow> (serverError, s) | Inr x \<Rightarrow> (reply 200 (enc x), s)))"

definition getInvoiceTransfer :: handler where
  "getInvoiceTransfer env c s = (let (m, s) = readInvoice env c s in orReply m s (\<lambda>_.
    withContract (contractForRequest env c s) (\<lambda>ct s.
    reply_or_null env ct (QReadInvoiceTransfer (rq_id (gin_request c))) dec_InvoiceTransfer enc_InvoiceTransfer s)))"

definition getInvoiceVoidRequest :: handler where
  "getInvoiceVoidRequest env c s = (let (m, s) = readInvoice env c s in orReply m s (\<lambda>_.
    withContract (contractForRequest env c s) (\<lambda>ct s.
    reply_or_null env ct (QReadInvoiceVoidRequest (rq_id (gin_request c))) dec_InvoiceVoidRequest enc_InvoiceVoidRequest s)))"

definition getFlows :: handler where
  "getFlows env c s = (let (m, s) = readInvoice env c s in orReply m s (\<lambda>_.
    withContract (contractForRequest env c s) (\<lambda>ct s.
    orReply (fetch env ct (QGetInvoiceFlows (rq_id (gin_request c))) (decodeList dec_InvoiceFlow) s) s (\<lambda>flows.
    (reply 200 (json_list enc_InvoiceFlow flows), s)))))"

record ApiHistoryRecord =
  ahr_IsDelete :: bool
  ahr_Timestamp :: string
  ahr_TxID :: string
  ahr_Value :: "ApiInvoice option"

definition dec_ApiHistoryRecord :: "json \<Rightarrow> ApiHistoryRecord res" where
  "dec_ApiHistoryRecord j = bindE (members ''api.HistoryRecord'' j) (\<lambda>ms.
     bindE (get_bool ms ''isDelete'') (\<lambda>deleted.
     bindE (get_str ms ''timestamp'') (\<lambda>stamped.
     bindE (get_str ms ''txId'') (\<lambda>tx.
     bindE (case member ms ''value'' of JNull \<Rightarrow> Inr None | v \<Rightarrow> bindE (dec_ApiInvoice v) (\<lambda>x. Inr (Some x))) (\<lambda>v.
     Inr \<lparr>ahr_IsDelete = deleted, ahr_Timestamp = stamped, ahr_TxID = tx, ahr_Value = v\<rparr>)))))"

definition enc_ApiHistoryRecord :: "ApiHistoryRecord \<Rightarrow> json" where
  "enc_ApiHistoryRecord r = JObj
    ([(''isDelete'', JBool (ahr_IsDelete r)), (''timestamp'', JStr (ahr_Timestamp r)), (''txId'', JStr (ahr_TxID r))]
     @ (case ahr_Value r of None \<Rightarrow> [] | Some x \<Rightarrow> [(''value'', enc_ApiInvoice x)]))"

definition getHistory :: handler where
  "getHistory env c s = (let (m, s) = readInvoice env c s in orReply m s (\<lambda>_.
    withContract (contractForRequest env c s) (\<lambda>ct s.
    orReply (fetch env ct (QGetInvoiceHistory (rq_id (gin_request c))) (decodeList dec_ApiHistoryRecord) s) s (\<lambda>records.
    (reply 200 (json_list enc_ApiHistoryRecord records), s)))))"

definition presented :: "verifyRequest \<Rightarrow> createInvoiceRequest" where
  "presented r = \<lparr>cir_AmountCents = vfr_AmountCents r, cir_Buyer = vfr_Buyer r, cir_BuyerMSPID = vfr_BuyerMSPID r,
     cir_Currency = vfr_Currency r, cir_ID = [], cir_InvoiceNo = vfr_InvoiceNo r, cir_IssueDate = vfr_IssueDate r,
     cir_Issuer = vfr_Issuer r, cir_ProjectID = [], cir_TaxCents = vfr_TaxCents r\<rparr>"

definition verifyInvoice :: handler where
  "verifyInvoice env c s = bound (ShouldBindJSON dec_verifyRequest valid_verifyRequest c) s (\<lambda>r.
    let (m, s) = readInvoice env c s in orReply m s (\<lambda>invoice.
    let r = normalize_verify r in
    if parse_iso_date (vfr_IssueDate r) = None \<or> total_out_of_range (vfr_AmountCents r) (vfr_TaxCents r)
    then (error_reply 422 m_verify_form, s)
    else withContract (contractForRequest env c s) (\<lambda>ct s.
    let presentedHash = (if inv_HashVersion invoice \<noteq> ''v2'' then invoiceHashLegacy (presented r)
                         else invoiceHash (presented r)) in
    orReply (fetch env ct (QVerifyInvoice (rq_id (gin_request c)) presentedHash) (Unmarshal Inr) s) s (\<lambda>verification.
    (reply 200 verification, s)))))"

section \<open>Recognition\<close>

text \<open>
  A body of more than 11 MB fails to parse, as does one without a file; a file is read up to one byte
  more than the service accepts. The body has been received in memory, so reading it cannot fail.
\<close>

definition recognizeInvoice :: handler where
  "recognizeInvoice env c s =
    (if \<not> Enabled (env_ocr env) then (error_reply 503 m_ocr_off, s)
     else (case (if rq_size (gin_request c) > 11 * 2 ^ 20 then None else rq_file (gin_request c)) of
        None \<Rightarrow> (error_reply 400 m_ocr_file, s)
      | Some (filename, content) \<Rightarrow>
          (case RecognizeInvoice (env_cloud env) (env_ocr env) filename (take (10 * 2 ^ 20 + 1) content) of
             Inl e \<Rightarrow> (error_reply 400 e, s)
           | Inr result \<Rightarrow> (reply 200 (enc_Result result), s))))"

section \<open>Projects and reimbursements\<close>

definition getProjects :: handler where
  "getProjects env c s = withContract (contractForRequest env c s) (\<lambda>ct s.
    orReply (fetch env ct QGetAllProjects (decodeList dec_Project) s) s (\<lambda>projects.
    orReply (orTransactionError (readAllOrganizations env ct s)) s (\<lambda>organizations.
    (reply 200 (json_list enc_Project
       (filter (\<lambda>p. projectVisibleTo (the_principal c) p organizations) projects)), s))))"

definition getProjectInvoices :: handler where
  "getProjectInvoices env c s = withContract (contractForRequest env c s) (\<lambda>ct s.
    orReply (fetch env ct (QReadProject (rq_id (gin_request c))) (Unmarshal dec_Project) s) s (\<lambda>project.
    orReply (orServerError (readAllOrganizations env ct s)) s (\<lambda>organizations.
    if \<not> projectVisibleTo (the_principal c) project organizations then (error_reply 403 m_hidden_project_invoices, s)
    else orReply (fetch env ct QGetAllInvoices (decodeList dec_ApiInvoice) s) s (\<lambda>invoices.
    (reply 200 (json_list enc_ApiInvoice (filter (\<lambda>x. inv_ProjectID x = prj_ID project) invoices)), s)))))"

definition getProjectEvents :: handler where
  "getProjectEvents env c s = withContract (contractForRequest env c s) (\<lambda>ct s.
    orReply (fetch env ct (QReadProject (rq_id (gin_request c))) (Unmarshal dec_Project) s) s (\<lambda>project.
    orReply (orServerError (readAllOrganizations env ct s)) s (\<lambda>organizations.
    if \<not> projectVisibleTo (the_principal c) project organizations then (error_reply 403 m_hidden_project_events, s)
    else orReply (fetch env ct (QGetProjectEvents (rq_id (gin_request c))) (decodeList dec_ProjectEvent) s) s (\<lambda>events.
    (reply 200 (json_list enc_ProjectEvent events), s)))))"

definition getProjectMembers :: handler where
  "getProjectMembers env c s = withContract (contractForRequest env c s) (\<lambda>ct s.
    orReply (fetch env ct (QReadProject (rq_id (gin_request c))) (Unmarshal dec_Project) s) s (\<lambda>project.
    orReply (orTransactionError (readAllOrganizations env ct s)) s (\<lambda>organizations.
    if \<not> projectVisibleTo (the_principal c) project organizations then (error_reply 403 m_hidden_project_members, s)
    else orReply (fetch env ct (QGetProjectMembers (rq_id (gin_request c))) (decodeList dec_ProjectMember) s) s (\<lambda>members.
    (reply 200 (json_list enc_ProjectMember members), s)))))"

definition getReimbursements :: handler where
  "getReimbursements env c s = withContract (contractForRequest env c s) (\<lambda>ct s.
    orReply (fetch env ct QGetAllReimbursements (decodeList dec_Reimbursement) s) s (\<lambda>reimbursements.
    orReply (orTransactionError (readAllProjects env ct s)) s (\<lambda>projects.
    orReply (orTransactionError (readAllOrganizations env ct s)) s (\<lambda>organizations.
    (reply 200 (json_list enc_Reimbursement (filter (\<lambda>r. case by_id prj_ID projects (rmb_ProjectID r) of
         None \<Rightarrow> False | Some project \<Rightarrow> projectVisibleTo (the_principal c) project organizations) reimbursements)), s)))))"

end
