(* ===== verification/Routes.thy ===== *)
theory Routes
  imports Handlers Readers
begin

text \<open>
  \<open>RegisterRoutes\<close> of \<open>backend/api/invoice.go\<close> as a table from verb and path to the middleware and the
  handler, and \<open>serve\<close>, which dispatches one request the way \<open>gin\<close> does: the public group without a
  session, the rest behind \<open>Require\<close>, most writes and the recognition of invoices behind \<open>RequireRole\<close>
  as well.
\<close>

datatype guard = Public | Session | Role "string list"

definition login_handler :: handler where
  "login_handler env c s = (let (rsp, a, h) = Login (srv_auth s) c (srv_host s) in (rsp, s\<lparr>srv_auth := a, srv_host := h\<rparr>))"

definition logout_handler :: handler where
  "logout_handler env c s = (let (rsp, a) = Logout (srv_auth s) c in (rsp, s\<lparr>srv_auth := a\<rparr>))"

definition me_handler :: handler where
  "me_handler env c s = (Me (srv_auth s) c (srv_host s), s)"

definition RegisterRoutes :: "(string \<times> string list \<times> guard \<times> handler) list" where
  "RegisterRoutes =
    (let member = Role [''PROJECT_MEMBER'', ''ISSUER'']; maker = Role [''ISSUER'', ''PROJECT_MEMBER''];
         party = Role [''ISSUER'', ''HOLDER'', ''PROJECT_MEMBER''] in
    [(''POST'', [''auth'', ''login''], Public, login_handler),
     (''POST'', [''auth'', ''register''], Public, registerUser),
     (''POST'', [''auth'', ''logout''], Public, logout_handler),
     (''GET'', [''auth'', ''me''], Public, me_handler),
     (''GET'', [''auth'', ''organizations''], Public, getPublicBusinessOrganizations),
     (''GET'', [''users''], Session, getBusinessUsers),
     (''GET'', [''organizations''], Session, getBusinessOrganizations),
     (''POST'', [''organizations''], Role [''ORG_ADMIN''], createBusinessOrganization),
     (''POST'', [''ocr'', ''invoice''], maker, recognizeInvoice),
     (''GET'', [''invoices''], Session, getInvoices),
     (''POST'', [''invoices''], maker, createInvoice),
     (''POST'', [''invoices'', '':id'', ''corrections''], maker, correctInvoice),
     (''GET'', [''invoices'', '':id''], Session, getInvoice),
     (''POST'', [''invoices'', '':id'', ''project''], maker, linkInvoiceProject),
     (''DELETE'', [''invoices'', '':id'', ''project''], maker, unlinkInvoiceProject),
     (''GET'', [''invoices'', '':id'', ''transfer''], Session, getInvoiceTransfer),
     (''POST'', [''invoices'', '':id'', ''transfers''], party, requestInvoiceTransfer),
     (''POST'', [''invoices'', '':id'', ''transfers'', ''respond''], party, respondInvoiceTransfer),
     (''POST'', [''invoices'', '':id'', ''transfers'', ''cancel''], party, cancelInvoiceTransfer),
     (''POST'', [''invoices'', '':id'', ''void''], Role [''ISSUER''], voidInvoice),
     (''GET'', [''invoices'', '':id'', ''void-request''], Session, getInvoiceVoidRequest),
     (''POST'', [''invoices'', '':id'', ''void-request''], Role [''PROJECT_MEMBER''], requestInvoiceVoid),
     (''POST'', [''invoices'', '':id'', ''void-request'', ''review''], Role [''ISSUER''], reviewInvoiceVoid),
     (''GET'', [''invoices'', '':id'', ''flows''], Session, getFlows),
     (''GET'', [''invoices'', '':id'', ''history''], Session, getHistory),
     (''POST'', [''invoices'', '':id'', ''verify''], Session, verifyInvoice),
     (''GET'', [''projects''], Session, getProjects),
     (''GET'', [''projects'', '':id'', ''invoices''], Session, getProjectInvoices),
     (''GET'', [''projects'', '':id'', ''events''], Session, getProjectEvents),
     (''GET'', [''projects'', '':id'', ''members''], Session, getProjectMembers),
     (''POST'', [''projects'', '':id'', ''members''], member, addProjectMember),
     (''POST'', [''projects''], member, createProject),
     (''PUT'', [''projects'', '':id''], member, updateProject),
     (''POST'', [''projects'', '':id'', ''submit''], member, submitProject),
     (''POST'', [''projects'', '':id'', ''review''], Role [''PROJECT_REVIEWER''], reviewProject),
     (''POST'', [''projects'', '':id'', ''closure''], member, requestProjectClosure),
     (''POST'', [''projects'', '':id'', ''closure-review''], Role [''PROJECT_REVIEWER''], reviewProjectClosure),
     (''POST'', [''projects'', '':id'', ''finalize''], Role [''FINANCE_ADMIN''], finalizeProjectSettlement),
     (''GET'', [''reimbursements''], Session, getReimbursements),
     (''POST'', [''reimbursements''], member, createReimbursement),
     (''POST'', [''reimbursements'', '':id'', ''resubmit''], member, resubmitReimbursement),
     (''POST'', [''reimbursements'', '':id'', ''withdraw''], member, withdrawReimbursement),
     (''POST'', [''reimbursements'', '':id'', ''review''], Role [''PROJECT_REVIEWER''], reviewReimbursement),
     (''POST'', [''reimbursements'', '':id'', ''pay''], Role [''FINANCE_ADMIN''], payReimbursement)])"

section \<open>Dispatch\<close>

text \<open>A path below \<open>/api\<close> is given by its segments; \<open>:id\<close> takes any segment that is not empty.\<close>

fun path_match :: "string list \<Rightarrow> string list \<Rightarrow> bool" where
  "path_match [] [] = True"
| "path_match (p # ps) (x # xs) = ((if p = '':id'' then x \<noteq> [] else p = x) \<and> path_match ps xs)"
| "path_match _ _ = False"

fun path_id :: "string list \<Rightarrow> string list \<Rightarrow> string" where
  "path_id (p # ps) (x # xs) = (if p = '':id'' then x else path_id ps xs)"
| "path_id _ _ = []"

fun lookup_route :: "(string \<times> string list \<times> guard \<times> handler) list \<Rightarrow> string \<Rightarrow> string list
    \<Rightarrow> (string list \<times> guard \<times> handler) option" where
  "lookup_route [] verb path = None"
| "lookup_route ((m, pattern, g, f) # rs) verb path =
     (if m = verb \<and> path_match pattern path then Some (pattern, g, f) else lookup_route rs verb path)"

fun run_guard :: "guard \<Rightarrow> handler \<Rightarrow> handler" where
  "run_guard Public f env c s = f env c s"
| "run_guard Session f env c s = orReply (Require (srv_auth s) (srv_host s) c) s (\<lambda>c. f env c s)"
| "run_guard (Role roles) f env c s = orReply (Require (srv_auth s) (srv_host s) c) s (\<lambda>c.
     orReply (RequireRole roles c) s (\<lambda>c. f env c s))"

definition serve :: "env \<Rightarrow> string \<Rightarrow> string list \<Rightarrow> request \<Rightarrow> server \<Rightarrow> response \<times> server" where
  "serve env verb path req s = (case lookup_route RegisterRoutes verb path of
     None \<Rightarrow> (\<lparr>rsp_status = 404, rsp_body = None, rsp_cookie = None\<rparr>, s)
   | Some (pattern, g, f) \<Rightarrow>
       run_guard g f env \<lparr>gin_request = req\<lparr>rq_id := path_id pattern path\<rparr>, gin_principal = None\<rparr> s)"

lemma lookup_route_in: "lookup_route rs verb path = Some (pattern, g, f) \<Longrightarrow>
    (verb, pattern, g, f) \<in> set rs \<and> path_match pattern path"
  by (induction rs verb path rule: lookup_route.induct) (auto split: if_splits)

end
