(* ===== verification/Impersonation.thy ===== *)
theory Impersonation
  imports Routes
begin

text \<open>
  Every transaction of a request with a session is submitted for the principal of that session: its
  operator is the user name of the principal and it is signed by the principal's organization. The
  proof follows the handlers: each combinator they are written with keeps the server as it was up to
  the connection cache and the random source, until the one submission at the end.
\<close>

section \<open>Who a call speaks for\<close>

fun operator_of :: "call \<Rightarrow> string option" where
  "operator_of (TxRegisterBusinessUser a b c d e) = None"
| "operator_of (TxCreateBusinessOrganization a b c d e f) = Some f"
| "operator_of (TxCreateProject a b c d e f g) = Some f"
| "operator_of (TxUpdateProject a b c d e f) = Some f"
| "operator_of (TxSubmitProject a b) = Some b"
| "operator_of (TxReviewProject a b c d) = Some d"
| "operator_of (TxRequestProjectClosure a b c d) = Some d"
| "operator_of (TxReviewProjectClosure a b c d) = Some d"
| "operator_of (TxFinalizeProjectSettlement a b) = Some b"
| "operator_of (TxAddProjectMember a b c) = Some c"
| "operator_of (TxCreateReimbursement a b c d e f) = Some d"
| "operator_of (TxReviewReimbursement a b c d) = Some d"
| "operator_of (TxResubmitReimbursement a b c d) = Some d"
| "operator_of (TxWithdrawReimbursement a b) = Some b"
| "operator_of (TxPayReimbursement a b) = Some b"
| "operator_of (TxCreateInvoice a b c d e f g h i j k m n p q) = Some m"
| "operator_of (TxLinkInvoiceToProject a b c) = Some c"
| "operator_of (TxUnlinkInvoiceFromProject a b) = Some b"
| "operator_of (TxTransferInvoice a b c d) = Some d"
| "operator_of (TxRequestInvoiceTransfer a b c d e) = Some e"
| "operator_of (TxRespondInvoiceTransfer a b c d) = Some d"
| "operator_of (TxCancelInvoiceTransfer a b) = Some b"
| "operator_of (TxVoidInvoice a b c) = Some c"
| "operator_of (TxRequestInvoiceVoid a b c) = Some c"
| "operator_of (TxReviewInvoiceVoid a b c d) = Some d"

text \<open>The server is as before but for the connection cache and the random source.\<close>

definition same :: "server \<Rightarrow> server \<Rightarrow> bool" where
  "same s0 s \<longleftrightarrow> gateways_ok (srv_gate s) \<and> srv_auth s = srv_auth s0 \<and> srv_ledger s = srv_ledger s0
     \<and> hst_now (srv_host s) = hst_now (srv_host s0)"

definition submitted_for :: "env \<Rightarrow> Principal \<Rightarrow> ledger \<Rightarrow> ledger \<Rightarrow> bool" where
  "submitted_for env prin l l' \<longleftrightarrow> l' = l \<or> (\<exists>tx. operator_of tx = Some (prc_Username prin)
     \<and> l' = submit (net_stub (env_net env) (prc_MSPID prin) l) tx)"

definition acts :: "env \<Rightarrow> Principal \<Rightarrow> server \<Rightarrow> response \<times> server \<Rightarrow> bool" where
  "acts env prin s0 rs \<longleftrightarrow> gateways_ok (srv_gate (snd rs)) \<and> srv_auth (snd rs) = srv_auth s0
     \<and> submitted_for env prin (srv_ledger s0) (srv_ledger (snd rs))"

section \<open>The combinators\<close>

named_theorems acts_intro \<open>introduction rules for what a handler does\<close>
named_theorems acts_elim \<open>what the steps that return a new server keep\<close>

lemma same_refl [acts_intro]: "gateways_ok (srv_gate s) \<Longrightarrow> same s s"
  by (simp add: same_def)

lemma acts_done [acts_intro]: "same s0 s \<Longrightarrow> acts env prin s0 (r, s)"
  by (simp add: acts_def same_def submitted_for_def)

lemma acts_orReply [acts_intro]:
  "same s0 s \<Longrightarrow> (\<And>x. m = Inr x \<Longrightarrow> acts env prin s0 (k x)) \<Longrightarrow> acts env prin s0 (orReply m s k)"
  by (cases m) (auto intro: acts_done)

lemma acts_bound [acts_intro]:
  "same s0 s \<Longrightarrow> (\<And>x. m = Some x \<Longrightarrow> acts env prin s0 (k x)) \<Longrightarrow> acts env prin s0 (bound m s k)"
  by (cases m) (auto intro: acts_done)

lemma acts_loggedIn [acts_intro]:
  "gin_principal c = Some prin \<Longrightarrow> acts env prin s0 (k prin) \<Longrightarrow> acts env prin s0 (loggedIn c s k)"
  by (simp add: loggedIn_def PrincipalFromContext_def)

lemma contractOf_same:
  assumes "same s0 s" "contractOf env m s = (r, s')"
  shows "same s0 s'" "r = Inr ct \<Longrightarrow> ctr_MSPID ct = m"
  using assms ContractFor_ok [of "srv_gate s" "env_sdk env" "srv_host s" m]
  by (auto simp: contractOf_def same_def split: prod.splits sum.splits)

lemma contractForRequest_same:
  assumes "same s0 s" "contractForRequest env c s = (r, s')"
  shows "same s0 s'" "gin_principal c = Some prin \<Longrightarrow> r = Inr ct \<Longrightarrow> ctr_MSPID ct = prc_MSPID prin"
  using assms contractOf_same [OF assms(1)]
  by (auto simp: contractForRequest_def PrincipalFromContext_def split: option.splits)

lemma acts_contractOf [acts_intro]:
  assumes "same s0 s" "m = prc_MSPID prin"
    and "\<And>ct s'. same s0 s' \<Longrightarrow> ctr_MSPID ct = prc_MSPID prin \<Longrightarrow> acts env prin s0 (k ct s')"
  shows "acts env prin s0 (withContract (contractOf env m s) k)"
  using contractOf_same [OF assms(1)] assms(2,3)
  by (auto simp: withContract_def intro: acts_done split: prod.splits sum.splits)

lemma acts_contractForRequest [acts_intro]:
  assumes "same s0 s" "gin_principal c = Some prin"
    and "\<And>ct s'. same s0 s' \<Longrightarrow> ctr_MSPID ct = prc_MSPID prin \<Longrightarrow> acts env prin s0 (k ct s')"
  shows "acts env prin s0 (withContract (contractForRequest env c s) k)"
  using contractForRequest_same [OF assms(1)] assms(2,3)
  by (auto simp: withContract_def intro: acts_done split: prod.splits sum.splits)

lemma acts_submitting [acts_intro]:
  assumes "network_ok (env_net env)" "same s0 s" "ctr_MSPID ct = prc_MSPID prin"
    and "operator_of tx = Some (prc_Username prin)"
  shows "acts env prin s0 (submitting env ct tx s ok)"
proof -
  obtain e l where sub: "SubmitTransaction (env_net env) ct tx (srv_ledger s) = (e, l)" by fastforce
  have "submitted_for env prin (srv_ledger s0) l"
    using SubmitTransaction_ledger [OF assms(1) sub] assms(2-4) by (auto simp: submitted_for_def same_def)
  with sub assms(2) show ?thesis
    by (auto simp: submitting_def acts_def same_def split: option.splits)
qed

lemma same_newID [acts_intro]: "same s0 s \<Longrightarrow> same s0 (snd (newID pre s))"
  by (auto simp: newID_def same_def newBusinessID_def rand_read_def split: prod.splits option.splits list.splits)

lemma same_readInvoice [acts_intro]: "same s0 s \<Longrightarrow> same s0 (snd (readInvoice env c s))"
  using contractForRequest_same(1) [of s0 s env c]
  by (auto simp: readInvoice_def split: prod.splits sum.splits)

lemma acts_let [acts_intro]: "(\<And>x s. p = (x, s) \<Longrightarrow> acts env prin s0 (k x s)) \<Longrightarrow>
    acts env prin s0 (case p of (x, s) \<Rightarrow> k x s)"
  by (cases p) simp

lemma acts_if [acts_intro]:
  "(b \<Longrightarrow> acts env prin s0 x) \<Longrightarrow> (\<not> b \<Longrightarrow> acts env prin s0 y) \<Longrightarrow> acts env prin s0 (if b then x else y)"
  by simp

lemma same_newID_eq [acts_elim]: "newID pre s = (x, t) \<Longrightarrow> same s0 s \<Longrightarrow> same s0 t"
  using same_newID [of s0 s pre] by simp

lemma same_readInvoice_eq [acts_elim]: "readInvoice env c s = (x, t) \<Longrightarrow> same s0 s \<Longrightarrow> same s0 t"
  using same_readInvoice [of s0 s env c] by simp

lemma same_maybe_newID [acts_elim]:
  "(if b then (case newID pre s of (i, t) \<Rightarrow> (f i, t)) else (y, s)) = (x, t) \<Longrightarrow> same s0 s \<Longrightarrow> same s0 t"
  using same_newID [of s0 s pre] by (auto split: if_splits prod.splits)

section \<open>The handlers\<close>

definition acts_always :: "handler \<Rightarrow> bool" where
  "acts_always f \<longleftrightarrow> (\<forall>env c s prin. network_ok (env_net env) \<longrightarrow> gateways_ok (srv_gate s) \<longrightarrow>
     gin_principal c = Some prin \<longrightarrow> acts env prin s (f env c s))"

lemma acts_alwaysI:
  "(\<And>env c s prin. network_ok (env_net env) \<Longrightarrow> gateways_ok (srv_gate s) \<Longrightarrow> gin_principal c = Some prin \<Longrightarrow>
     acts env prin s (f env c s)) \<Longrightarrow> acts_always f"
  by (simp add: acts_always_def)

lemma acts_reply_or_null [acts_intro]: "same s0 s \<Longrightarrow> acts env prin s0 (reply_or_null env ct q dec enc s)"
  by (auto simp: reply_or_null_def intro: acts_done split: sum.splits)

lemma acts_invoice_handlers:
  "acts_always linkInvoiceProject" "acts_always unlinkInvoiceProject"
  "acts_always requestInvoiceTransfer" "acts_always respondInvoiceTransfer"
  "acts_always cancelInvoiceTransfer" "acts_always voidInvoice" "acts_always requestInvoiceVoid"
  "acts_always reviewInvoiceVoid" "acts_always createInvoice" "acts_always correctInvoice"
  unfolding Let_def create_call_def
    linkInvoiceProject_def unlinkInvoiceProject_def requestInvoiceTransfer_def
    respondInvoiceTransfer_def cancelInvoiceTransfer_def voidInvoice_def requestInvoiceVoid_def
    reviewInvoiceVoid_def createInvoice_def correctInvoice_def
  by (assumption | erule acts_elim | rule acts_alwaysI acts_intro refl | simp; fail)+

lemma acts_project_handlers:
  "acts_always createProject" "acts_always updateProject" "acts_always submitProject"
  "acts_always reviewProject" "acts_always requestProjectClosure"
  "acts_always reviewProjectClosure" "acts_always finalizeProjectSettlement"
  "acts_always addProjectMember" "acts_always createBusinessOrganization"
  unfolding Let_def
    createProject_def updateProject_def submitProject_def reviewProject_def
    requestProjectClosure_def reviewProjectClosure_def finalizeProjectSettlement_def
    addProjectMember_def createBusinessOrganization_def
  by (assumption | erule acts_elim | rule acts_alwaysI acts_intro refl | simp; fail)+

lemma acts_reimbursement_handlers:
  "acts_always createReimbursement" "acts_always resubmitReimbursement"
  "acts_always withdrawReimbursement" "acts_always reviewReimbursement"
  "acts_always payReimbursement"
  unfolding Let_def
    createReimbursement_def resubmitReimbursement_def withdrawReimbursement_def
    reviewReimbursement_def payReimbursement_def
  by (assumption | erule acts_elim | rule acts_alwaysI acts_intro refl | simp; fail)+

lemma acts_reading_handlers:
  "acts_always getBusinessUsers" "acts_always getBusinessOrganizations" "acts_always getInvoices"
  "acts_always getInvoice" "acts_always getInvoiceTransfer" "acts_always getInvoiceVoidRequest"
  "acts_always getFlows"
  unfolding Let_def
    getBusinessUsers_def getBusinessOrganizations_def getInvoices_def getInvoice_def
    getInvoiceTransfer_def getInvoiceVoidRequest_def getFlows_def
  by (assumption | erule acts_elim | rule acts_alwaysI acts_intro refl | simp; fail)+

lemma acts_listing_handlers:
  "acts_always getHistory" "acts_always verifyInvoice" "acts_always getProjects"
  "acts_always getProjectInvoices" "acts_always getProjectEvents" "acts_always getProjectMembers"
  "acts_always getReimbursements"
  unfolding Let_def
    getHistory_def verifyInvoice_def getProjects_def getProjectInvoices_def getProjectEvents_def
    getProjectMembers_def getReimbursements_def
  by (assumption | erule acts_elim | rule acts_alwaysI acts_intro refl | simp; fail)+

lemma acts_recognizeInvoice: "acts_always recognizeInvoice"
  by (auto simp: recognizeInvoice_def same_def intro!: acts_alwaysI acts_done split: option.split sum.split)

lemmas acts_handlers =
  acts_invoice_handlers acts_project_handlers acts_reimbursement_handlers acts_reading_handlers
  acts_listing_handlers acts_recognizeInvoice

text \<open>Every handler behind \<open>Require\<close> acts for its principal only.\<close>

lemma guarded_routes_act:
  assumes "(verb, pattern, g, f) \<in> set RegisterRoutes" "g \<noteq> Public"
  shows "acts_always f"
proof -
  have "list_all (\<lambda>(m, p, g, f). g = Public \<or> acts_always f) RegisterRoutes"
    by (simp add: RegisterRoutes_def Let_def acts_handlers)
  with assms show ?thesis by (auto simp: list_all_iff)
qed

section \<open>The public handlers\<close>

lemma public_routes:
  "(verb, pattern, Public, f) \<in> set RegisterRoutes \<Longrightarrow>
     f \<in> {login_handler, logout_handler, me_handler, getPublicBusinessOrganizations}
     \<or> verb = ''POST'' \<and> pattern = [''auth'', ''register''] \<and> f = registerUser"
  by (auto simp: RegisterRoutes_def Let_def)

lemma path_match_register: "path_match [''auth'', ''register''] path \<Longrightarrow> path = [''auth'', ''register'']"
  by (cases path; cases "tl path"; cases "tl (tl path)") auto

text \<open>Registration is the one transaction without a session, and only for an ordinary member.\<close>

definition registers :: "env \<Rightarrow> Service \<Rightarrow> ledger \<Rightarrow> ledger \<Rightarrow> bool" where
  "registers env a l l' \<longleftrightarrow> (\<exists>m u d o'. usernamePattern u \<and> TrimSpace u = u \<and> map_of (svc_accounts a) u = None \<and> l' =
     submit (net_stub (env_net env) m l) (TxRegisterBusinessUser u d m ''PROJECT_MEMBER'' o'))"

definition auth_registers :: "Service \<Rightarrow> Service \<Rightarrow> bool" where
  "auth_registers a a' \<longleftrightarrow> a' = a \<or> (\<exists>prin pw h e b h'. prc_Role prin = ''PROJECT_MEMBER''
     \<and> RegisterAccount a prin pw h = (e, b, h')
     \<and> (a' = b \<or> e = None \<and> a' = fst (snd (startSession b prin h'))))"

definition ends :: "(server \<Rightarrow> bool) \<Rightarrow> response \<times> server \<Rightarrow> bool" where
  "ends Q rs \<longleftrightarrow> Q (snd rs)"

lemma ends_intros:
  "Q s \<Longrightarrow> ends Q (r, s)"
  "Q s \<Longrightarrow> (\<And>x. m = Inr x \<Longrightarrow> ends Q (k x)) \<Longrightarrow> ends Q (orReply m s k)"
  "Q s \<Longrightarrow> (\<And>x. b = Some x \<Longrightarrow> ends Q (l x)) \<Longrightarrow> ends Q (bound b s l)"
  by (cases m; cases b; simp add: ends_def)+

lemma ends_contractOf:
  assumes "same s0 s" "\<And>s'. same s0 s' \<Longrightarrow> Q s'"
    and "\<And>ct s'. same s0 s' \<Longrightarrow> ctr_MSPID ct = m \<Longrightarrow> ends Q (k ct s')"
  shows "ends Q (withContract (contractOf env m s) k)"
  using contractOf_same [OF assms(1)] assms(2,3)
  by (auto simp: withContract_def intro: ends_intros split: prod.splits sum.splits)

definition after_register :: "env \<Rightarrow> server \<Rightarrow> server \<Rightarrow> bool" where
  "after_register env s0 s \<longleftrightarrow> gateways_ok (srv_gate s) \<and> auth_registers (srv_auth s0) (srv_auth s)
    \<and> (srv_ledger s = srv_ledger s0 \<or> registers env (srv_auth s0) (srv_ledger s0) (srv_ledger s))"

lemma after_register_same: "same s0 s \<Longrightarrow> after_register env s0 s"
  by (simp add: same_def after_register_def auth_registers_def)

lemma register_and_login:
  assumes "network_ok (env_net env)" "same s0 s" "ctr_MSPID ct = m" "usernamePattern u" "TrimSpace u = u"
    and "map_of (svc_accounts (srv_auth s0)) u = None"
    and "prc_Role prin = ''PROJECT_MEMBER''"
  shows "ends (after_register env s0)
    (case SubmitTransaction (env_net env) ct (TxRegisterBusinessUser u d m ''PROJECT_MEMBER'' o') (srv_ledger s) of
        (None, l) \<Rightarrow>
          (case RegisterAccount (srv_auth (s\<lparr>srv_ledger := l\<rparr>)) prin pw (srv_host (s\<lparr>srv_ledger := l\<rparr>)) of
             (None, a, h) \<Rightarrow> (case StartRegisteredSession a prin h of (rsp, a, h) \<Rightarrow>
                (rsp, s\<lparr>srv_ledger := l, srv_auth := a, srv_host := h\<rparr>))
           | (Some _, a, h) \<Rightarrow> (serverError, s\<lparr>srv_ledger := l, srv_auth := a, srv_host := h\<rparr>))
      | (Some e, l) \<Rightarrow> (transactionError e, s\<lparr>srv_ledger := l\<rparr>))"
proof -
  obtain e l where sub: "SubmitTransaction (env_net env) ct (TxRegisterBusinessUser u d m ''PROJECT_MEMBER'' o') (srv_ledger s) = (e, l)"
    by fastforce
  have l: "l = srv_ledger s0 \<or> registers env (srv_auth s0) (srv_ledger s0) l"
    using SubmitTransaction_ledger [OF assms(1) sub] assms(2-6) by (auto simp: registers_def same_def)
  obtain f a h where reg: "RegisterAccount (srv_auth s) prin pw (srv_host s) = (f, a, h)" by (metis prod_cases3)
  obtain rsp b k where ses: "startSession a prin h = (rsp, b, k)" by (metis prod_cases3)
  have a: "auth_registers (srv_auth s0) a" "f = None \<Longrightarrow> auth_registers (srv_auth s0) b"
    using reg ses assms(2,7) unfolding auth_registers_def same_def by force+
  have "auth_registers (srv_auth s0) (srv_auth s0)" by (simp add: auth_registers_def)
  moreover have "srv_auth s0 = srv_auth s" "srv_ledger s0 = srv_ledger s" "gateways_ok (srv_gate s)"
    using assms(2) by (simp_all add: same_def)
  ultimately show ?thesis
    using l a by (cases e; cases f) (simp_all add: sub reg ses StartRegisteredSession_def ends_def after_register_def)
qed

lemma registerUser_ends:
  assumes "network_ok (env_net env)" "gateways_ok (srv_gate s0)"
  shows "ends (after_register env s0) (registerUser env c s0)"
  unfolding registerUser_def Let_def
proof (rule ends_intros(3), goal_cases)
  case 1
  show ?case by (simp add: after_register_same same_refl assms(2))
next
  case (2 r)
  show ?case
  proof (split sum.split, intro conjI allI impI, goal_cases)
    case (1 e)
    show ?case by (rule ends_intros(1)) (simp add: after_register_same same_refl assms(2))
  next
    case (2 u)
    then have name: "usernamePattern (TrimSpace (rgr_Username r))"
      "map_of (svc_accounts (srv_auth s0)) (TrimSpace (rgr_Username r)) = None"
      by (auto simp: ValidateRegistration_def split: if_splits)
    show ?case
      by (rule ends_contractOf [OF same_refl [OF assms(2)] after_register_same], assumption,
          rule ends_intros(2), erule after_register_same, split if_split, intro conjI impI,
          rule ends_intros(1), erule after_register_same, rule ends_contractOf, assumption, erule after_register_same)
        (use name in \<open>simp add: register_and_login [OF assms(1)]\<close>)
  qed
qed

section \<open>One request\<close>

text \<open>What a request can do: act for its session, register somebody, or open or close a session.\<close>

definition session_of :: "server \<Rightarrow> request \<Rightarrow> Principal option" where
  "session_of s req = principalFromCookie (srv_auth s) (hst_now (srv_host s)) (rq_cookie req)"

definition logs_in :: "Service \<Rightarrow> Service \<Rightarrow> bool" where
  "logs_in a a' \<longleftrightarrow> a' = a \<or> (\<exists>u acc h. map_of (svc_accounts a) u = Some acc
      \<and> a' = fst (snd (startSession a (acc_Principal acc) h)))
    \<or> (\<exists>token. a' = a\<lparr>svc_sessions := AList.delete token (svc_sessions a)\<rparr>)"

definition allowed :: "guard \<Rightarrow> Principal \<Rightarrow> bool" where
  "allowed g prin \<longleftrightarrow> (case g of Role roles \<Rightarrow> prc_Role prin \<in> set roles | _ \<Rightarrow> True)"

lemma acts_alwaysD:
  "acts_always f \<Longrightarrow> network_ok (env_net env) \<Longrightarrow> gateways_ok (srv_gate s) \<Longrightarrow> f env c s = (r, s') \<Longrightarrow>
     gin_principal c = Some prin \<Longrightarrow> acts env prin s (r, s')"
  unfolding acts_always_def by metis

lemma run_guard_acts:
  assumes "acts_always f" "g \<noteq> Public" "network_ok (env_net env)" "gateways_ok (srv_gate s)"
    and "run_guard g f env c s = (r, s')"
  shows "s' = s \<or> (\<exists>prin. session_of s (gin_request c) = Some prin \<and> allowed g prin \<and> acts env prin s (r, s'))"
proof (cases "session_of s (gin_request c)")
  case None
  with assms(2,5) show ?thesis by (cases g) (auto simp: Require_def session_of_def)
next
  case (Some prin)
  let ?c = "c\<lparr>gin_principal := Some prin\<rparr>"
  have "s' = s \<or> allowed g prin \<and> f env ?c s = (r, s')"
    using assms(2,5) Some
    by (cases g) (auto simp: Require_def RequireRole_def PrincipalFromContext_def session_of_def allowed_def split: if_splits)
  with Some acts_alwaysD [OF assms(1,3,4), where c = ?c and prin = prin] show ?thesis by auto
qed

lemma ends_public_organizations:
  "gateways_ok (srv_gate s) \<Longrightarrow> ends (same s) (getPublicBusinessOrganizations env c s)"
  unfolding getPublicBusinessOrganizations_def
  by (rule ends_contractOf [OF same_refl], assumption, assumption, rule ends_intros(2), assumption,
      rule ends_intros(1), assumption)

lemma Login_logs_in: "Login a c h = (r, a', h') \<Longrightarrow> logs_in a a'"
proof -
  assume login: "Login a c h = (r, a', h')"
  show ?thesis
  proof (cases "a' = a")
    case False
    with login obtain u acc where "map_of (svc_accounts a) u = Some acc" "startSession a (acc_Principal acc) h = (r, a', h')"
      by (auto simp: Login_def split: option.splits if_splits prod.splits)
    then show ?thesis unfolding logs_in_def by (metis fst_conv snd_conv)
  qed (simp add: logs_in_def)
qed

lemma public_acts:
  assumes "f \<in> {login_handler, logout_handler, me_handler, getPublicBusinessOrganizations}"
    and "gateways_ok (srv_gate s)" "f env c s = (r, s')"
  shows "gateways_ok (srv_gate s') \<and> srv_ledger s' = srv_ledger s \<and> logs_in (srv_auth s) (srv_auth s')"
proof -
  consider "f = login_handler" | "f = logout_handler" | "f = me_handler" | "f = getPublicBusinessOrganizations"
    using assms(1) by blast
  then show ?thesis
  proof cases
    case 1
    with assms(2,3) show ?thesis by (auto simp: login_handler_def Login_logs_in split: prod.splits)
  next
    case 2
    with assms(2,3) show ?thesis by (auto simp: logout_handler_def Logout_def logs_in_def split: option.splits)
  next
    case 3
    with assms(2,3) show ?thesis by (auto simp: me_handler_def logs_in_def)
  next
    case 4
    with ends_public_organizations [OF assms(2), of env c] assms(3) show ?thesis
      by (auto simp: ends_def same_def logs_in_def)
  qed
qed

lemma serve_cases:
  assumes "network_ok (env_net env)" "gateways_ok (srv_gate s)" "serve env verb path req s = (r, s')"
  obtains "s' = s"
  | g pattern f prin where "(verb, pattern, g, f) \<in> set RegisterRoutes" "path_match pattern path"
      "session_of s req = Some prin" "allowed g prin" "acts env prin s (r, s')"
  | "verb = ''POST''" "path = [''auth'', ''register'']" "after_register env s s'"
  | "gateways_ok (srv_gate s')" "srv_ledger s' = srv_ledger s" "logs_in (srv_auth s) (srv_auth s')"
proof (cases "lookup_route RegisterRoutes verb path")
  case None
  then show ?thesis using assms(3) that(1) by (simp add: serve_def)
next
  case (Some x)
  obtain pattern g f where x: "x = (pattern, g, f)" by (cases x)
  let ?c = "\<lparr>gin_request = req\<lparr>rq_id := path_id pattern path\<rparr>, gin_principal = None\<rparr>"
  have route: "(verb, pattern, g, f) \<in> set RegisterRoutes" "path_match pattern path"
    using lookup_route_in Some x by blast+
  have run: "run_guard g f env ?c s = (r, s')" using assms(3) Some x by (simp add: serve_def)
  show ?thesis
  proof (cases "g = Public")
    case False
    from run_guard_acts [OF guarded_routes_act [OF route(1) False] False assms(1,2) run] show ?thesis
      using that(1,2) route by (auto simp: session_of_def)
  next
    case True
    then have f: "f env ?c s = (r, s')" using run by simp
    show ?thesis
    proof (cases "f \<in> {login_handler, logout_handler, me_handler, getPublicBusinessOrganizations}")
      case True
      from public_acts [OF this assms(2) f] that(4) show ?thesis by blast
    next
      case False
      then have reg: "verb = ''POST''" "pattern = [''auth'', ''register'']" "f = registerUser"
        using public_routes [of verb pattern f] route(1) \<open>g = Public\<close> by blast+
      have "after_register env s s'"
        using registerUser_ends [OF assms(1,2), of ?c] f reg(3) by (simp add: ends_def)
      with that(3) reg(1) path_match_register route(2) reg(2) show ?thesis by blast
    qed
  qed
qed

end
