(* ===== verification/Website.thy ===== *)
theory Website
  imports Impersonation Authority Branches
begin

text \<open>
  Sequences of requests. The host may change arbitrarily between two requests (time passes, files
  and random bytes change), the network answers each request anew. Three invariants follow: the
  ledger stays one the contract can reach, accounts and sessions stay those of built-in accounts or
  ordinary members, and no user is ever registered under a built-in name.
\<close>

section \<open>Runs\<close>

inductive http_run :: "server \<Rightarrow> server \<Rightarrow> bool" where
  http_refl: "http_run s s"
| http_step: "http_run s0 s \<Longrightarrow> network_ok (env_net env) \<Longrightarrow>
    serve env verb path req (s\<lparr>srv_host := h\<rparr>) = (r, s') \<Longrightarrow> http_run s0 s'"

lemma serve_gateways:
  assumes "network_ok (env_net env)" "gateways_ok (srv_gate s)" "serve env verb path req s = (r, s')"
  shows "gateways_ok (srv_gate s')"
  using assms by (rule serve_cases) (use assms in \<open>simp_all add: acts_def after_register_def\<close>)

lemma http_gateways: "http_run s0 s \<Longrightarrow> gateways_ok (srv_gate s0) \<Longrightarrow> gateways_ok (srv_gate s)"
proof (induction rule: http_run.induct)
  case (http_step s0 s env verb path req h r s')
  then show ?case by (auto intro: serve_gateways [OF http_step.hyps(2) _ http_step.hyps(3)])
qed simp

locale server_invariant =
  fixes I :: "server \<Rightarrow> bool"
  assumes host: "I s \<Longrightarrow> I (s\<lparr>srv_host := h\<rparr>)"
    and keep: "network_ok (env_net env) \<Longrightarrow> gateways_ok (srv_gate s) \<Longrightarrow> I s \<Longrightarrow>
      serve env verb path req s = (r, s') \<Longrightarrow> I s'"
begin

lemma holds: "http_run s0 s \<Longrightarrow> gateways_ok (srv_gate s0) \<Longrightarrow> I s0 \<Longrightarrow> I s"
proof (induction rule: http_run.induct)
  case (http_step s0 s env verb path req h r s')
  then have "gateways_ok (srv_gate (s\<lparr>srv_host := h\<rparr>))" "I (s\<lparr>srv_host := h\<rparr>)"
    using http_gateways host by auto
  with http_step.hyps keep show ?case by blast
qed simp

end

section \<open>The ledger is the contract's\<close>

lemma submitted_run:
  "network_ok (env_net env) \<Longrightarrow> submitted_for env prin l l' \<Longrightarrow> reachable l \<Longrightarrow> reachable l'"
  using run_step [of any_call "[]" "net_stub (env_net env) (prc_MSPID prin) l"]
  by (auto simp: submitted_for_def reachable_def network_ok_def any_call_def)

lemma registers_run:
  "network_ok (env_net env) \<Longrightarrow> registers env a l l' \<Longrightarrow> reachable l \<Longrightarrow> reachable l'"
  using run_step [of any_call "[]" "net_stub (env_net env) m l" for m]
  by (fastforce simp: registers_def reachable_def network_ok_def any_call_def)

interpretation ledgers: server_invariant "\<lambda>s. reachable (srv_ledger s)"
proof unfold_locales
  fix env s verb path req r s'
  assume a: "network_ok (env_net env)" "gateways_ok (srv_gate s)" "reachable (srv_ledger s)"
    "serve env verb path req s = (r, s')"
  from a(1,2,4) show "reachable (srv_ledger s')"
    by (rule serve_cases)
      (use a in \<open>auto simp: acts_def after_register_def intro: submitted_run registers_run\<close>)
qed simp

section \<open>Accounts and sessions\<close>

text \<open>An ordinary member, or one of the built-in accounts with the role it has in the contract.\<close>

definition privilege_ok :: "Principal \<Rightarrow> bool" where
  "privilege_ok prin \<longleftrightarrow>
     (if prc_Username prin \<in> set builtin_names
      then (prc_Username prin, prc_MSPID prin, prc_Role prin) \<in> set demo_accounts
      else prc_Role prin = ''PROJECT_MEMBER'')"

definition auth_ok :: "Service \<Rightarrow> bool" where
  "auth_ok a \<longleftrightarrow>
     (\<forall>u x. map_of (svc_accounts a) u = Some x \<longrightarrow> prc_Username (acc_Principal x) = u \<and> usernamePattern u
        \<and> privilege_ok (acc_Principal x)) \<and>
     (\<forall>t x. map_of (svc_sessions a) t = Some x \<longrightarrow>
        (\<exists>y. map_of (svc_accounts a) (prc_Username (ses_principal x)) = Some y \<and> acc_Principal y = ses_principal x)) \<and>
     set builtin_names \<subseteq> dom (map_of (svc_accounts a))"

lemma auth_ok_session:
  assumes "auth_ok a" "map_of (svc_accounts a) (prc_Username prin) = Some y" "acc_Principal y = prin"
    and "startSession a prin h = (r, a', h')"
  shows "auth_ok a'"
proof (cases "a' = a")
  case False
  with assms(4) obtain token e where "a' = a\<lparr>svc_sessions := AList.update token \<lparr>ses_principal = prin, ses_expiresAt = e\<rparr> (svc_sessions a)\<rparr>"
    by (auto simp: startSession_def split: prod.splits option.splits)
  with assms(1-3) show ?thesis by (simp add: auth_ok_def update_conv')
qed (use assms in simp)

lemma auth_ok_logs_in: "auth_ok a \<Longrightarrow> logs_in a a' \<Longrightarrow> auth_ok a'"
proof -
  assume a: "auth_ok a" "logs_in a a'"
  show ?thesis
  proof (cases "a' = a")
    case False
    with a(2) consider u acc h where "map_of (svc_accounts a) u = Some acc"
        "a' = fst (snd (startSession a (acc_Principal acc) h))"
      | token where "a' = a\<lparr>svc_sessions := AList.delete token (svc_sessions a)\<rparr>"
      unfolding logs_in_def by blast
    then show ?thesis
    proof cases
      case 1
      with a(1) have "prc_Username (acc_Principal acc) = u" by (auto simp: auth_ok_def)
      with 1 auth_ok_session [OF a(1), of "acc_Principal acc" acc] show ?thesis
        by (metis prod.collapse)
    next
      case 2
      with a(1) show ?thesis
        by (auto simp: auth_ok_def delete_conv' split: if_splits)
    qed
  qed (use a in simp)
qed

lemma RegisterAccount_cases:
  assumes "RegisterAccount a prin pw h = (e, b, h')"
  shows "e = None \<and> map_of (svc_accounts a) (prc_Username prin) = None \<and> usernamePattern (prc_Username prin)
      \<and> (\<exists>x. acc_Principal x = prin \<and> passwordMatches pw x
           \<and> b = a\<lparr>svc_accounts := AList.update (prc_Username prin) x (svc_accounts a)\<rparr>)
    \<or> e \<noteq> None \<and> svc_sessions b = svc_sessions a \<and> map_of (svc_accounts b) = map_of (svc_accounts a)"
proof -
  have u: "usernamePattern (prc_Username prin)" "map_of (svc_accounts a) (prc_Username prin) = None"
    if "ValidateRegistration a prin pw = Inr ()"
    using that by (auto simp: ValidateRegistration_def split: if_splits)
  have n: "acc_Principal x = prin \<and> passwordMatches pw x" if "newAccount prin pw h = (Some x, k)" for x k
    using that by (auto simp: newAccount_def passwordMatches_def split: prod.splits)
  show ?thesis
    using assms u n
    by (auto simp: RegisterAccount_def Let_def delete_conv' update_conv' fun_eq_iff
        split: sum.splits if_splits prod.splits option.splits)
qed

lemma auth_ok_same_accounts:
  "auth_ok a \<Longrightarrow> svc_sessions b = svc_sessions a \<Longrightarrow> map_of (svc_accounts b) = map_of (svc_accounts a) \<Longrightarrow> auth_ok b"
  by (simp add: auth_ok_def)

lemma auth_ok_registers: "auth_ok a \<Longrightarrow> auth_registers a a' \<Longrightarrow> auth_ok a'"
proof -
  assume a: "auth_ok a" "auth_registers a a'"
  show ?thesis
  proof (cases "a' = a")
    case False
    with a(2) obtain prin pw h e b h' where reg: "prc_Role prin = ''PROJECT_MEMBER''" "RegisterAccount a prin pw h = (e, b, h')"
      and a': "a' = b \<or> e = None \<and> a' = fst (snd (startSession b prin h'))"
      unfolding auth_registers_def by blast
    show ?thesis
    proof (cases e)
      case None
      with RegisterAccount_cases [OF reg(2)] obtain x where
        x: "map_of (svc_accounts a) (prc_Username prin) = None" "usernamePattern (prc_Username prin)" "acc_Principal x = prin"
          "b = a\<lparr>svc_accounts := AList.update (prc_Username prin) x (svc_accounts a)\<rparr>" by auto
      have "set builtin_names \<subseteq> dom (map_of (svc_accounts a))" using a(1) by (simp add: auth_ok_def)
      with x(1) reg(1) have "privilege_ok prin" by (auto simp: privilege_ok_def)
      with a(1) x have "auth_ok b"
        by (auto simp: auth_ok_def update_conv') (metis option.distinct(1))
      moreover have "map_of (svc_accounts b) (prc_Username prin) = Some x" using x(4) by (simp add: update_conv')
      ultimately show ?thesis using a' auth_ok_session [of b prin x h'] x(3) by (metis prod.collapse)
    next
      case (Some m)
      with RegisterAccount_cases [OF reg(2)] a' a(1) show ?thesis by (auto intro: auth_ok_same_accounts)
    qed
  qed (use a in simp)
qed

interpretation accounts: server_invariant "\<lambda>s. auth_ok (srv_auth s)"
proof unfold_locales
  fix env s verb path req r s'
  assume a: "network_ok (env_net env)" "gateways_ok (srv_gate s)" "auth_ok (srv_auth s)"
    "serve env verb path req s = (r, s')"
  from a(1,2,4) show "auth_ok (srv_auth s')"
    by (rule serve_cases)
      (use a in \<open>auto simp: acts_def after_register_def intro: auth_ok_registers auth_ok_logs_in\<close>)
qed simp

lemma session_privilege:
  assumes "auth_ok (srv_auth s)" "session_of s req = Some prin"
  shows "privilege_ok prin \<and> usernamePattern (prc_Username prin)"
proof -
  obtain t x where "map_of (svc_sessions (srv_auth s)) t = Some x" "ses_principal x = prin"
    using assms(2) by (auto simp: session_of_def principalFromCookie_def split: option.splits if_splits)
  with assms(1) show ?thesis by (fastforce simp: auth_ok_def)
qed

end
