(* ===== verification/Store.thy ===== *)
theory Store
  imports Http "HOL-Library.Multiset"
begin

text \<open>
  The account file. A crash may stop a save before, between or in the middle of its file operations; a
  write that is cut off may leave anything under its name. Whatever happens, the next start reads the
  accounts as they were before the save or as they are after it, and a registration that was
  acknowledged is among the latter.
\<close>

section \<open>Crashes\<close>

inductive crash :: "fs_op list \<Rightarrow> host \<Rightarrow> host \<Rightarrow> bool" where
  crash_now: "crash ops h h"
| crash_in_write: "crash (WriteFile p b # ops) h (h\<lparr>hst_files := (hst_files h)(p := x)\<rparr>)"
| crash_after_write: "crash ops (h\<lparr>hst_files := (hst_files h)(p := Some b)\<rparr>) h' \<Longrightarrow> crash (WriteFile p b # ops) h h'"
| crash_after_rename: "hst_files h p \<noteq> None \<Longrightarrow>
    crash ops (h\<lparr>hst_files := (hst_files h)(q := hst_files h p, p := None)\<rparr>) h' \<Longrightarrow> crash (Rename p q # ops) h h'"

inductive_cases crash_NilE: "crash [] h h'"
inductive_cases crash_WriteE: "crash (WriteFile p b # ops) h h'"
inductive_cases crash_RenameE: "crash (Rename p q # ops) h h'"

lemmas crash_elims = crash_NilE crash_WriteE crash_RenameE

text \<open>A save that fails or succeeds is one of the ways it can stop.\<close>

lemma run_ops_crash: "run_ops ops h = (e, h') \<Longrightarrow> crash ops h h'"
  by (induction ops h rule: run_ops.induct)
    (auto split: option.splits if_splits intro: crash.intros)

section \<open>Reading back\<close>

definition readable :: "host \<Rightarrow> bool" where
  "readable h \<longleftrightarrow> (\<forall>p. hst_read_err h p = None)"

text \<open>What a start finds, as a function of the two files it looks at.\<close>

definition recovered :: "blob option \<Rightarrow> blob option \<Rightarrow> account list res" where
  "recovered main bak = (case main of
     Some data \<Rightarrow> (case decodeAccounts data of Inr stored \<Rightarrow> Inr stored
       | Inl e \<Rightarrow> (case bak of None \<Rightarrow> Inl (m_no_backup @ e)
           | Some b \<Rightarrow> (case decodeAccounts b of Inr stored \<Rightarrow> Inr stored
               | Inl e' \<Rightarrow> Inl (m_both_broken @ e @ m_both_broken2 @ e'))))
   | None \<Rightarrow> (case bak of None \<Rightarrow> Inr []
       | Some b \<Rightarrow> (case decodeAccounts b of Inr stored \<Rightarrow> Inr stored
           | Inl e \<Rightarrow> Inl (m_both_broken @ e @ m_both_broken2 @ e))))"

lemma read_accounts_recovered:
  "readable h \<Longrightarrow> read_accounts f h = recovered (hst_files h f) (hst_files h (f @ ''.bak''))"
  by (auto simp: read_accounts_def recovered_def readable_def ReadFile_def split: option.splits sum.splits)

lemma save_ops_readable:
  assumes "readable h" "save_ops s h = Inr ops" "f = svc_accountFile s"
  shows "ops = (case hst_files h f of None \<Rightarrow> []
      | Some previous \<Rightarrow> (case decodeAccounts previous of Inl _ \<Rightarrow> []
          | Inr _ \<Rightarrow> [WriteFile (f @ ''.bak.tmp'') previous, Rename (f @ ''.bak.tmp'') (f @ ''.bak'')]))
    @ [WriteFile (f @ ''.tmp'') (Doc (JArr (map enc_account (registered_accounts s h)))), Rename (f @ ''.tmp'') f]"
  using assms by (auto simp: save_ops_def readable_def ReadFile_def Let_def split: option.splits sum.splits)

lemma check_accounts_ok:
  "(\<forall>a \<in> set as. account_valid a) \<Longrightarrow> distinct (map (prc_Username \<circ> acc_Principal) as) \<Longrightarrow>
    set seen \<inter> (prc_Username \<circ> acc_Principal) ` set as = {} \<Longrightarrow> check_accounts seen as = Inr ()"
  by (induction as arbitrary: seen) auto

lemma decodeAccounts_enc:
  assumes "\<forall>a \<in> set as. account_valid a" "distinct (map (prc_Username \<circ> acc_Principal) as)"
  shows "decodeAccounts (Doc (JArr (map enc_account as))) = Inr as"
proof -
  have "mapE dec_account (map enc_account as) = Inr as" by (induction as) simp_all
  with check_accounts_ok [OF assms, of "[]"] show ?thesis by (simp add: decodeAccounts_def)
qed

text \<open>The accounts of a service as the file will hold them.\<close>

definition store_ok :: "Service \<Rightarrow> host \<Rightarrow> bool" where
  "store_ok s h \<longleftrightarrow> distinct (map fst (svc_accounts s))
     \<and> (\<forall>us. mset (hst_order h us) = mset us)
     \<and> (\<forall>u x. map_of (svc_accounts s) u = Some x \<longrightarrow> prc_Username (acc_Principal x) = u \<and> account_valid x)"

lemma registered_accounts_ok:
  assumes "store_ok s h"
  shows "\<forall>a \<in> set (registered_accounts s h). account_valid a"
    "distinct (map (prc_Username \<circ> acc_Principal) (registered_accounts s h))"
    "a \<in> set (registered_accounts s h) \<longleftrightarrow>
      (\<exists>u. u \<notin> set builtin_names \<and> map_of (svc_accounts s) u = Some a)"
proof -
  let ?us = "filter (\<lambda>u. u \<notin> set builtin_names) (hst_order h (map fst (svc_accounts s)))"
  have m: "mset (hst_order h (map fst (svc_accounts s))) = mset (map fst (svc_accounts s))"
    and x: "map_of (svc_accounts s) u = Some x \<Longrightarrow> prc_Username (acc_Principal x) = u \<and> account_valid x" for u x
    using assms by (auto simp: store_ok_def)
  from m have us: "set (hst_order h (map fst (svc_accounts s))) = fst ` set (svc_accounts s)"
    by (metis set_mset_mset set_map)
  have "distinct (hst_order h (map fst (svc_accounts s)))"
    using m assms by (metis mset_eq_imp_distinct_iff store_ok_def)
  then have d: "distinct ?us" by simp
  have some: "\<exists>x. map_of (svc_accounts s) u = Some x" if "u \<in> set ?us" for u
    using that us by (auto dest: weak_map_of_SomeI)
  have "map (prc_Username \<circ> acc_Principal) (registered_accounts s h) = ?us"
    unfolding registered_accounts_def using some x by (auto intro!: map_idI simp del: set_filter)
  with d show "distinct (map (prc_Username \<circ> acc_Principal) (registered_accounts s h))" by simp
  show "\<forall>a \<in> set (registered_accounts s h). account_valid a"
    using some x by (fastforce simp: registered_accounts_def simp del: set_filter)
  show "a \<in> set (registered_accounts s h) \<longleftrightarrow> (\<exists>u. u \<notin> set builtin_names \<and> map_of (svc_accounts s) u = Some a)"
  proof
    assume "a \<in> set (registered_accounts s h)"
    then obtain u where "u \<in> set ?us" "a = the (map_of (svc_accounts s) u)"
      unfolding registered_accounts_def set_map by blast
    with some [of u] show "\<exists>u. u \<notin> set builtin_names \<and> map_of (svc_accounts s) u = Some a" by auto
  next
    assume "\<exists>u. u \<notin> set builtin_names \<and> map_of (svc_accounts s) u = Some a"
    then obtain u where u: "u \<notin> set builtin_names" "map_of (svc_accounts s) u = Some a" by blast
    then have "u \<in> fst ` set (svc_accounts s)" by (force dest: map_of_SomeD)
    with u us have "u \<in> set ?us" "a = the (map_of (svc_accounts s) u)" by simp_all
    then show "a \<in> set (registered_accounts s h)" unfolding registered_accounts_def set_map by blast
  qed
qed

lemma other_files [simp]:
  "f @ ''.bak'' \<noteq> f" "f @ ''.tmp'' \<noteq> f" "f @ ''.bak.tmp'' \<noteq> f" "f @ ''.tmp'' \<noteq> f @ ''.bak''"
  "f @ ''.bak.tmp'' \<noteq> f @ ''.bak''" "f @ ''.bak.tmp'' \<noteq> f @ ''.tmp''"
  "f \<noteq> f @ ''.bak''" "f \<noteq> f @ ''.tmp''" "f \<noteq> f @ ''.bak.tmp''"
  by simp_all

text \<open>The last two operations put the new generation in place, whatever is under the other names.\<close>

lemma crash_replace:
  assumes "crash [WriteFile (f @ ''.tmp'') new, Rename (f @ ''.tmp'') f] h h'"
  shows "hst_files h' (f @ ''.bak'') = hst_files h (f @ ''.bak'') \<and> hst_files h' f \<in> {hst_files h f, Some new}"
  using assms by (auto elim!: crash_elims)

lemma crash_backup:
  assumes "crash (WriteFile (f @ ''.bak.tmp'') old # Rename (f @ ''.bak.tmp'') (f @ ''.bak'') # ops) h h'"
    and "\<And>k. hst_files k f = hst_files h f \<Longrightarrow> crash ops k h' \<Longrightarrow> P"
    and "hst_files h' f = hst_files h f \<Longrightarrow> hst_files h' (f @ ''.bak'') \<in> {hst_files h (f @ ''.bak''), Some old} \<Longrightarrow> P"
  shows P
  using assms(1,3) assms(2) [of "h\<lparr>hst_files := (hst_files h)(f @ ''.bak'' \<mapsto> old, f @ ''.bak.tmp'' := None)\<rparr>"]
  by (auto elim!: crash_elims)

lemma crash_recovers:
  assumes "readable h" "save_ops s h = Inr ops" "crash ops h h'" "f = svc_accountFile s"
    and "decodeAccounts (Doc (JArr (map enc_account (registered_accounts s h)))) = Inr new"
    and "recovered (hst_files h f) (hst_files h (f @ ''.bak'')) = Inr old"
  shows "recovered (hst_files h' f) (hst_files h' (f @ ''.bak'')) \<in> {Inr old, Inr new}"
proof -
  let ?new = "Doc (JArr (map enc_account (registered_accounts s h)))"
  note ops = save_ops_readable [OF assms(1,2,4)]
  show ?thesis
  proof (cases "\<exists>m. hst_files h f = Some m \<and> decodeAccounts m = Inr old")
    case True
    then obtain m where m: "hst_files h f = Some m" "decodeAccounts m = Inr old" by blast
    with assms(3) ops have "crash (WriteFile (f @ ''.bak.tmp'') m # Rename (f @ ''.bak.tmp'') (f @ ''.bak'')
        # [WriteFile (f @ ''.tmp'') ?new, Rename (f @ ''.tmp'') f]) h h'" by simp
    then show ?thesis
    proof (rule crash_backup)
      fix k assume "hst_files k f = hst_files h f" "crash [WriteFile (f @ ''.tmp'') ?new, Rename (f @ ''.tmp'') f] k h'"
      with crash_replace [OF this(2)] m assms(5) show ?thesis by (auto simp: recovered_def)
    qed (use m in \<open>simp add: recovered_def\<close>)
  next
    case False
    have "decodeAccounts m \<noteq> Inr z" if "hst_files h f = Some m" for m z
      using False that assms(6) by (auto simp: recovered_def)
    then have "ops = [WriteFile (f @ ''.tmp'') ?new, Rename (f @ ''.tmp'') f]"
      using ops by (auto split: option.splits sum.splits)
    with crash_replace assms(3) have "hst_files h' (f @ ''.bak'') = hst_files h (f @ ''.bak'')"
      "hst_files h' f \<in> {hst_files h f, Some ?new}" by blast+
    with assms(5,6) show ?thesis by (auto simp: recovered_def)
  qed
qed

lemma run_ops_replaces:
  "run_ops (ops @ [WriteFile p b, Rename p q]) h = (None, h') \<Longrightarrow> hst_files h' q = (if p = q then None else Some b)
     \<and> hst_read_err h' = hst_read_err h"
  by (induction ops h rule: run_ops.induct) (auto split: option.splits if_splits)

lemma crash_read_err: "crash ops h h' \<Longrightarrow> hst_read_err h' = hst_read_err h"
  by (induction rule: crash.induct) auto

lemma put_accounts_other:
  "\<forall>a \<in> set as. prc_Username (acc_Principal a) \<noteq> u \<Longrightarrow> map_of (fold put_account as xs) u = map_of xs u"
  by (induction as arbitrary: xs) (auto simp: put_account_def update_conv')

lemma put_accounts_in:
  assumes "distinct (map (prc_Username \<circ> acc_Principal) as)" "a \<in> set as"
  shows "map_of (fold put_account as xs) (prc_Username (acc_Principal a)) = Some a"
  using assms
proof (induction as arbitrary: xs)
  case (Cons b as)
  show ?case
  proof (cases "a \<in> set as")
    case False
    then have "a = b" using Cons.prems(2) by simp
    moreover have "\<forall>c \<in> set as. prc_Username (acc_Principal c) \<noteq> prc_Username (acc_Principal b)"
      using Cons.prems(1) by (auto simp: image_iff dest: bspec)
    ultimately show ?thesis by (simp add: put_accounts_other) (simp add: put_account_def update_conv')
  qed (use Cons in simp)
qed simp

lemma loadAccounts_stored:
  assumes "read_accounts (svc_accountFile fresh) h = Inr as" "\<forall>a \<in> set as. account_valid a"
    and "distinct (map (prc_Username \<circ> acc_Principal) as)"
  shows "loadAccounts fresh h = Inr (fresh\<lparr>svc_accounts := fold put_account as (svc_accounts fresh)\<rparr>)"
  using assms by (simp add: loadAccounts_def filter_id_conv [THEN iffD2])

text \<open>What an acknowledged registration leaves in memory and in the file.\<close>

lemma base64_nonempty: "bs \<noteq> [] \<Longrightarrow> base64_raw_url bs \<noteq> []"
  by (cases bs rule: base64_raw_url.cases) auto

definition random_ok :: "host \<Rightarrow> bool" where
  "random_ok h \<longleftrightarrow> (\<forall>r. Some r \<in> set (hst_rand h) \<longrightarrow> 32 \<le> length r)"

lemma newAccount_valid:
  assumes "newAccount prin pw h = (Some x, k)" "random_ok h" "usernamePattern (prc_Username prin)"
  shows "acc_Principal x = prin \<and> passwordMatches pw x \<and> account_valid x
    \<and> hst_read_err k = hst_read_err h \<and> hst_order k = hst_order h"
proof -
  obtain bs rs where r: "hst_rand h = Some bs # rs" "x = \<lparr>acc_Principal = prin,
      acc_PasswordHash = passwordHash (base64_raw_url (take 32 bs)) pw, acc_Salt = base64_raw_url (take 32 bs)\<rparr>"
      "k = h\<lparr>hst_rand := rs\<rparr>"
    using assms(1) by (auto simp: newAccount_def newToken_def rand_read_def split: list.splits prod.splits)
  then have "32 \<le> length bs" using assms(2) by (auto simp: random_ok_def)
  then have "base64_raw_url (take 32 bs) \<noteq> []" by (intro base64_nonempty) auto
  moreover have "passwordHash salt pw \<noteq> []" for salt
    using length_sha256_hex [of "salt @ '':'' @ pw"] by (auto simp: passwordHash_def simp del: length_sha256_hex)
  ultimately show ?thesis using r assms(3) by (simp add: account_valid_def passwordMatches_def)
qed

section \<open>A service on a healthy machine\<close>

definition demo_host :: host where
  "demo_host = \<lparr>hst_getenv = (\<lambda>_. []), hst_now = 0, hst_zone = 0, hst_rand = [], hst_files = (\<lambda>_. None),
     hst_read_err = (\<lambda>_. None), hst_write_err = (\<lambda>_. None), hst_rename_err = (\<lambda>_. None),
     hst_mkdir_err = (\<lambda>_. None), hst_order = (\<lambda>xs. xs)\<rparr>"

text \<open>The built-in accounts and one registered member; nothing is saved yet.\<close>

definition demo_account :: "string \<Rightarrow> account" where
  "demo_account u = \<lparr>acc_Principal = \<lparr>prc_DisplayName = u, prc_MSPID = ''Org1MSP'', prc_OrganizationID = ''o'',
     prc_Role = ''PROJECT_MEMBER'', prc_Username = u\<rparr>, acc_PasswordHash = passwordHash ''s'' ''secret'', acc_Salt = ''s''\<rparr>"

definition demo_service :: Service where
  "demo_service = \<lparr>svc_accounts = map (\<lambda>u. (u, demo_account u)) (''ann'' # builtin_names), svc_accountFile = ''a'',
     svc_sessions = []\<rparr>"

lemma demo_service_names: "map fst (svc_accounts demo_service) = ''ann'' # builtin_names"
  by (simp add: demo_service_def comp_def)

lemma demo_service_account: "map_of (svc_accounts demo_service) u = Some x \<longleftrightarrow> u \<in> set (''ann'' # builtin_names) \<and> x = demo_account u"
  unfolding demo_service_def Service.select_convs map_of_map_restrict by (auto simp: restrict_map_def)

lemma demo_names_valid: "u \<in> set (''ann'' # builtin_names) \<Longrightarrow> usernamePattern u"
proof -
  have "list_all usernamePattern (''ann'' # builtin_names)" by code_simp
  then show "u \<in> set (''ann'' # builtin_names) \<Longrightarrow> usernamePattern u" by (auto simp: list_all_iff)
qed

lemma demo_account_valid: "usernamePattern u \<Longrightarrow> account_valid (demo_account u) \<and> prc_Username (acc_Principal (demo_account u)) = u"
  using length_sha256_hex [of "''s'' @ '':'' @ ''secret''"]
  by (auto simp: account_valid_def demo_account_def passwordHash_def simp del: length_sha256_hex)

lemma demo_store_ok: "store_ok demo_service (demo_host\<lparr>hst_rand := rs\<rparr>)"
  using demo_names_valid demo_account_valid
  by (simp add: store_ok_def demo_service_names demo_service_account demo_host_def del: set_simps) (simp add: builtin_names_def)

section \<open>Properties\<close>

text \<open>
  C28. A crash at any point of a save, in the middle of a write included, loses no account: the next
  start reads the accounts as they were before the save or as they are after it.
\<close>

theorem crash_while_saving_loses_nothing:
  assumes "readable h" "store_ok s h" "read_accounts (svc_accountFile s) h = Inr old"
    and "save_ops s h = Inr ops" "crash ops h h'"
  shows "read_accounts (svc_accountFile s) h' \<in> {Inr old, Inr (registered_accounts s h)}"
proof -
  have "readable h'" using crash_read_err [OF assms(5)] assms(1) by (simp add: readable_def)
  note reads = read_accounts_recovered [OF assms(1)] read_accounts_recovered [OF this]
  show ?thesis
    unfolding reads
    by (rule crash_recovers [OF assms(1,4,5) refl decodeAccounts_enc])
      (use registered_accounts_ok [OF assms(2)] assms(3) reads in simp_all)
qed

theorem crash_while_saving_loses_nothing_witness:
  "read_accounts ''a'' (demo_host\<lparr>hst_files := (\<lambda>_. None)(''a.tmp'' := Some (Raw ''['')) \<rparr>)
     \<in> {Inr [], Inr [demo_account ''ann'']}"
proof -
  let ?h = "demo_host\<lparr>hst_files := (\<lambda>_. None)(''a.tmp'' := Some (Raw ''[''))\<rparr>"
  have h: "readable demo_host" "store_ok demo_service demo_host"
    using demo_store_ok [of "[]"] by (simp_all add: readable_def demo_host_def)
  have reads: "read_accounts (svc_accountFile demo_service) demo_host = Inr []"
    by (simp add: read_accounts_def ReadFile_def demo_host_def)
  have ops: "save_ops demo_service demo_host
    = Inr [WriteFile ''a.tmp'' (Doc (JArr (map enc_account (registered_accounts demo_service demo_host)))), Rename ''a.tmp'' ''a'']"
    by (simp add: save_ops_def ReadFile_def demo_host_def demo_service_def Let_def)
  have "hst_files demo_host = (\<lambda>_. None)" by (simp add: demo_host_def)
  then have "crash [WriteFile ''a.tmp'' b, Rename ''a.tmp'' ''a''] demo_host ?h" for b
    using crash_in_write [of "''a.tmp''" b _ demo_host "Some (Raw ''['')"] by simp
  from crash_while_saving_loses_nothing [OF h reads ops this]
  have "read_accounts ''a'' ?h \<in> {Inr [], Inr (registered_accounts demo_service demo_host)}"
    by (simp add: demo_service_def)
  moreover have "registered_accounts demo_service demo_host = [demo_account ''ann'']"
    by (simp add: registered_accounts_def demo_service_names demo_host_def)
      (simp add: demo_service_def builtin_names_def)
  ultimately show ?thesis by simp
qed

text \<open>
  C29. An acknowledged registration survives a restart: the account file then holds every registered
  account, the new one with the given password included, and a service that loads it has all of them
  and keeps its built-in accounts.
\<close>

theorem registrations_survive_restart:
  assumes "readable h" "store_ok s h" "random_ok h" "set builtin_names \<subseteq> dom (map_of (svc_accounts s))"
    and "RegisterAccount s prin pw h = (None, b, h')"
    and "svc_accountFile fresh = svc_accountFile s"
  shows "\<exists>t. loadAccounts fresh h' = Inr t
    \<and> (\<forall>u. u \<notin> set builtin_names \<longrightarrow> map_of (svc_accounts b) u \<noteq> None \<longrightarrow>
        map_of (svc_accounts t) u = map_of (svc_accounts b) u)
    \<and> (\<forall>u \<in> set builtin_names. map_of (svc_accounts t) u = map_of (svc_accounts fresh) u)
    \<and> (\<exists>x. map_of (svc_accounts t) (prc_Username prin) = Some x \<and> acc_Principal x = prin \<and> passwordMatches pw x)"
proof -
  let ?u = "prc_Username prin"
  obtain x k where name: "map_of (svc_accounts s) ?u = None" "usernamePattern ?u"
    and new: "newAccount prin pw h = (Some x, k)" and b: "b = s\<lparr>svc_accounts := AList.update ?u x (svc_accounts s)\<rparr>"
    and save: "saveRegisteredAccountsLocked b k = (None, h')"
    using assms(5)
    by (auto simp: RegisterAccount_def ValidateRegistration_def Let_def split: sum.splits if_splits prod.splits option.splits)
  note x = newAccount_valid [OF new assms(3) name(2)]
  have k: "readable k" "store_ok b k"
    using assms(1,2) x name(1)
    by (auto simp: readable_def store_ok_def b update_conv' distinct_update)
  let ?as = "registered_accounts b k"
  note as = registered_accounts_ok [OF k(2)]
  obtain ops where ops: "save_ops b k = Inr ops" "run_ops ops k = (None, h')"
    using save by (auto simp: saveRegisteredAccountsLocked_def split: sum.splits)
  have path: "svc_accountFile b = svc_accountFile s" by (simp add: b)
  have "hst_files h' (svc_accountFile s) = Some (Doc (JArr (map enc_account ?as)))" "readable h'"
    using run_ops_replaces [OF ops(2) [unfolded save_ops_readable [OF k(1) ops(1) refl]]] k(1) path
    by (auto simp: readable_def)
  then have "read_accounts (svc_accountFile fresh) h' = Inr ?as"
    using decodeAccounts_enc [OF as(1,2)] assms(6) by (simp add: read_accounts_recovered recovered_def)
  note load = loadAccounts_stored [OF this as(1,2)]
  have kept: "map_of (fold put_account ?as (svc_accounts fresh)) u = Some y"
    if "u \<notin> set builtin_names" "map_of (svc_accounts b) u = Some y" for u y
  proof -
    have "y \<in> set ?as" using that as(3) by blast
    moreover have "prc_Username (acc_Principal y) = u" using that k(2) by (simp add: store_ok_def)
    ultimately show ?thesis using put_accounts_in [OF as(2)] by blast
  qed
  have builtin: "map_of (fold put_account ?as (svc_accounts fresh)) u = map_of (svc_accounts fresh) u"
    if "u \<in> set builtin_names" for u
    by (rule put_accounts_other) (use that as(3) k(2) in \<open>auto simp: store_ok_def\<close>)
  have "?u \<notin> set builtin_names" "map_of (svc_accounts b) ?u = Some x"
    using assms(4) name(1) by (auto simp: b update_conv')
  with kept builtin load x show ?thesis by force
qed

theorem registrations_survive_restart_witness:
  "\<exists>h' t. loadAccounts (demo_service\<lparr>svc_accounts := []\<rparr>) h' = Inr t
    \<and> map_of (svc_accounts t) ''ann'' = Some (demo_account ''ann'')
    \<and> (\<exists>x. map_of (svc_accounts t) ''bob'' = Some x \<and> passwordMatches ''secret'' x)"
proof -
  let ?h = "demo_host\<lparr>hst_rand := [Some (replicate 32 0)]\<rparr>"
  let ?bob = "\<lparr>prc_DisplayName = ''Bob'', prc_MSPID = ''Org1MSP'', prc_OrganizationID = ''o'',
    prc_Role = ''PROJECT_MEMBER'', prc_Username = ''bob''\<rparr>"
  let ?fresh = "demo_service\<lparr>svc_accounts := []\<rparr>"
  have h: "readable ?h" "store_ok demo_service ?h" "random_ok ?h"
    using demo_store_ok by (auto simp: readable_def random_ok_def demo_host_def)
  have free: "map_of (svc_accounts demo_service) ''bob'' = None"
    by (simp add: map_of_eq_None_iff demo_service_def image_image builtin_names_def)
  have dom: "set builtin_names \<subseteq> dom (map_of (svc_accounts demo_service))"
    by (auto simp: demo_service_account dom_def)
  have pattern: "usernamePattern ''bob''" by code_simp
  obtain b h' where reg: "RegisterAccount demo_service ?bob ''secret'' ?h = (None, b, h')"
    using free pattern
    by (auto simp: RegisterAccount_def ValidateRegistration_def validRole_def validMSPID_def newAccount_def newToken_def
        rand_read_def saveRegisteredAccountsLocked_def save_ops_def ReadFile_def demo_host_def Let_def)
  have "map_of (svc_accounts b) ''ann'' = map_of (svc_accounts demo_service) ''ann''"
    using reg by (auto simp: RegisterAccount_def Let_def update_conv' split: sum.splits if_splits prod.splits option.splits)
  then have "map_of (svc_accounts b) ''ann'' = Some (demo_account ''ann'')" by (simp add: demo_service_account)
  moreover have "''ann'' \<notin> set builtin_names" by (simp add: builtin_names_def)
  moreover obtain t x where "loadAccounts ?fresh h' = Inr t"
      "\<forall>u. u \<notin> set builtin_names \<longrightarrow> map_of (svc_accounts b) u \<noteq> None \<longrightarrow> map_of (svc_accounts t) u = map_of (svc_accounts b) u"
      "map_of (svc_accounts t) ''bob'' = Some x" "passwordMatches ''secret'' x"
    using registrations_survive_restart [OF h dom reg, of ?fresh] by auto
  ultimately have "loadAccounts ?fresh h' = Inr t \<and> map_of (svc_accounts t) ''ann'' = Some (demo_account ''ann'')
      \<and> (\<exists>x. map_of (svc_accounts t) ''bob'' = Some x \<and> passwordMatches ''secret'' x)" by simp
  then show ?thesis by blast
qed

text \<open>
  C30. A login succeeds exactly for an account with the given password (and a working random source).
  Its cookie then stands for the account's principal for eight hours and not longer, other cookies mean
  what they meant before, and a logout ends the session of its cookie.
\<close>

theorem login_opens_the_accounts_session:
  assumes "Login s c h = (r, s', h')"
  shows "(rsp_status r = 200 \<longleftrightarrow> (\<exists>u p x. ShouldBindJSON dec_login (\<lambda>(u, p). v_required u \<and> v_required p) c = Some (u, p)
      \<and> map_of (svc_accounts s) u = Some x \<and> passwordMatches p x \<and> fst (newToken h) \<noteq> None))
    \<and> (rsp_status r \<noteq> 200 \<longrightarrow> s' = s)
    \<and> (rsp_status r = 200 \<longrightarrow> (\<exists>u p x token. map_of (svc_accounts s) u = Some x \<and> passwordMatches p x
        \<and> rsp_body r = Some (enc_Principal (acc_Principal x)) \<and> rsp_cookie r = Some (token, 28800)
        \<and> svc_accounts s' = svc_accounts s
        \<and> (\<forall>now. principalFromCookie s' now (Some token) =
            (if now \<le> hst_now h + session_ns then Some (acc_Principal x) else None))
        \<and> (\<forall>now cookie. cookie \<noteq> Some token \<longrightarrow> principalFromCookie s' now cookie = principalFromCookie s now cookie)
        \<and> (\<forall>d now. rq_cookie (gin_request d) = Some token \<longrightarrow> principalFromCookie (snd (Logout s' d)) now (Some token) = None)))"
proof (cases "ShouldBindJSON dec_login (\<lambda>(u, p). v_required u \<and> v_required p) c")
  case None
  with assms show ?thesis by (auto simp: Login_def)
next
  case (Some up)
  obtain u p where up: "up = (u, p)" by (cases up)
  show ?thesis
  proof (cases "map_of (svc_accounts s) u")
    case None
    with Some up assms show ?thesis by (auto simp: Login_def)
  next
    case x: (Some x)
    obtain t k where t: "newToken h = (t, k)" by fastforce
    then have now: "hst_now k = hst_now h"
      by (auto simp: newToken_def rand_read_def split: list.splits prod.splits)
    show ?thesis
    proof (cases "passwordMatches p x \<and> t \<noteq> None")
      case False
      with Some up x t assms show ?thesis by (auto simp: Login_def startSession_def split: if_splits)
    next
      case True
      then obtain token where token: "t = Some token" by blast
      with True Some up x t assms now have r: "rsp_status r = 200" "rsp_body r = Some (enc_Principal (acc_Principal x))"
        "rsp_cookie r = Some (token, 28800)"
        "s' = s\<lparr>svc_sessions := AList.update token \<lparr>ses_principal = acc_Principal x, ses_expiresAt = hst_now h + session_ns\<rparr> (svc_sessions s)\<rparr>"
        by (auto simp: Login_def startSession_def reply_def)
      have "principalFromCookie s' n (Some token) = (if n \<le> hst_now h + session_ns then Some (acc_Principal x) else None)" for n
        by (simp add: r(4) principalFromCookie_def update_conv' not_less)
      moreover have "principalFromCookie s' n cookie = principalFromCookie s n cookie" if "cookie \<noteq> Some token" for n cookie
        using that by (auto simp: r(4) principalFromCookie_def update_conv' split: option.splits)
      moreover have "principalFromCookie (snd (Logout s' d)) n (Some token) = None" if "rq_cookie (gin_request d) = Some token" for d n
        using that by (simp add: Logout_def principalFromCookie_def delete_conv')
      ultimately show ?thesis using r True Some up x t by auto
    qed
  qed
qed

theorem login_opens_the_accounts_session_witness:
  "\<exists>r s' h'. Login demo_service \<lparr>gin_request = \<lparr>rq_cookie = None, rq_id = [], rq_query = [],
        rq_body = Doc (JObj [(''username'', JStr ''ann''), (''password'', JStr ''secret'')]), rq_file = None, rq_size = 0\<rparr>, gin_principal = None\<rparr>
      (demo_host\<lparr>hst_rand := [Some (replicate 32 0)]\<rparr>) = (r, s', h') \<and> rsp_status r = 200"
proof -
  let ?c = "\<lparr>gin_request = \<lparr>rq_cookie = None, rq_id = [], rq_query = [],
        rq_body = Doc (JObj [(''username'', JStr ''ann''), (''password'', JStr ''secret'')]), rq_file = None, rq_size = 0\<rparr>, gin_principal = None\<rparr>"
  let ?h = "demo_host\<lparr>hst_rand := [Some (replicate 32 0)]\<rparr>"
  obtain r s' h' where login: "Login demo_service ?c ?h = (r, s', h')" by (metis prod.collapse)
  have "ShouldBindJSON dec_login (\<lambda>(u, p). v_required u \<and> v_required p) ?c = Some (''ann'', ''secret'')"
    by (simp add: ShouldBindJSON_Some dec_login_def v_required_def plain_names_fold)
  moreover have "map_of (svc_accounts demo_service) ''ann'' = Some (demo_account ''ann'')"
    by (simp add: demo_service_account)
  moreover have "passwordMatches ''secret'' (demo_account ''ann'')" by (simp add: passwordMatches_def demo_account_def)
  moreover have "fst (newToken ?h) \<noteq> None" by (simp add: newToken_def rand_read_def)
  ultimately have "rsp_status r = 200"
    using login_opens_the_accounts_session [OF login] by blast
  with login show ?thesis by blast
qed

end
