(* ===== verification/Portal.thy ===== *)
theory Portal
  imports Website Closure History Store
begin

text \<open>
  What the website adds to the contract: no visitor can take the name of a built-in account, so the
  powers of those accounts stay with their sessions, and money leaves a project only through the
  session of the finance administrator.
\<close>

section \<open>Who writes users and payments\<close>

lemma families_reimbursement:
  "CreateReimbursement ctx i pid iid a ev evh = Inr ws \<Longrightarrow>
     writes_in ({''PROJECT'', ''REIMBURSEMENT'', ''REIMBURSEMENT_INVOICE'', ''PROJECT_EVENT''}) ws"
  "ReviewReimbursement ctx i d opn r = Inr ws \<Longrightarrow>
     writes_in ({''PROJECT'', ''REIMBURSEMENT'', ''REIMBURSEMENT_INVOICE'', ''PROJECT_EVENT''}) ws"
  "ResubmitReimbursement ctx i ev evh a = Inr ws \<Longrightarrow>
     writes_in ({''PROJECT'', ''REIMBURSEMENT'', ''REIMBURSEMENT_INVOICE'', ''PROJECT_EVENT''}) ws"
  "WithdrawReimbursement ctx i a = Inr ws \<Longrightarrow>
     writes_in ({''PROJECT'', ''REIMBURSEMENT'', ''REIMBURSEMENT_INVOICE'', ''PROJECT_EVENT''}) ws"
  "PayReimbursement ctx i f = Inr ws \<Longrightarrow>
     writes_in ({''PROJECT'', ''REIMBURSEMENT'', ''REIMBURSEMENT_INVOICE'', ''PROJECT_EVENT''}) ws"
  by (auto dest!: CreateReimbursement_effect ReviewReimbursement_effect ResubmitReimbursement_effect
      WithdrawReimbursement_effect PayReimbursement_effect split: if_splits)

lemma only_registration_writes_users:
  assumes "invoke ctx c = Inr ws"
  shows "(\<exists>n d m r x. c = TxRegisterBusinessUser n d m r x) \<or> list_all (\<lambda>w. family (write_key w) \<noteq> ''USER'') ws"
  using assms
  by (cases c) (auto simp: invoice_families_def dest!: families_directory families_invoice families_project
      families_reimbursement elim!: list.pred_mono_strong)

lemma payment_cases:
  assumes "invoke ctx c = Inr ws"
  shows "list_all (\<lambda>w. family (write_key w) \<noteq> ''REIMBURSEMENT'') ws \<or> (\<exists>i f. c = TxPayReimbursement i f)
    \<or> (\<forall>i j x. Put (reimbursementKey i) (Doc j) \<in> set ws \<longrightarrow> dec_Reimbursement j = Inr x \<longrightarrow> rmb_Status x \<noteq> ''PAID'')"
  using assms
  by (cases c) (auto simp: invoice_families_def
      dest!: families_directory families_invoice families_project CreateReimbursement_effect
        ReviewReimbursement_effect ResubmitReimbursement_effect WithdrawReimbursement_effect
      elim!: list.pred_mono_strong split: if_splits)

lemma only_payment_pays:
  assumes "invoke ctx c = Inr ws" "Put (reimbursementKey i) (Doc j) \<in> set ws" "dec_Reimbursement j = Inr x"
    "rmb_Status x = ''PAID''"
  shows "\<exists>i f. c = TxPayReimbursement i f"
  using payment_cases [OF assms(1)] assms(2-4) by (force simp: list_all_iff)

section \<open>Built-in names stay free\<close>

definition names_free :: "ledger \<Rightarrow> bool" where
  "names_free l \<longleftrightarrow> wf_ledger l \<and> (\<forall>u \<in> set builtin_names. get_kv l (userKey u) = None)"

lemma names_free_commit:
  "names_free l \<Longrightarrow> list_all (\<lambda>w. family (write_key w) \<noteq> ''USER'') ws \<Longrightarrow> names_free (commit ws l)"
proof -
  assume a: "names_free l" "list_all (\<lambda>w. family (write_key w) \<noteq> ''USER'') ws"
  have "userKey u \<notin> write_key ` set ws" for u
  proof
    assume "userKey u \<in> write_key ` set ws"
    then obtain w where "w \<in> set ws" "write_key w = userKey u" by auto
    with a(2) show False by (simp add: list_all_iff split: if_splits) (metis family_keys(3))
  qed
  with a(1) show ?thesis by (simp add: names_free_def get_commit_other wf_commit)
qed

lemma names_free_submit:
  assumes "names_free (st_ledger ctx)" "\<nexists>n d m r x. c = TxRegisterBusinessUser n d m r x"
  shows "names_free (submit ctx c)"
proof (cases "invoke ctx c")
  case (Inr ws)
  with only_registration_writes_users [OF Inr] assms show ?thesis
    by (auto simp: submit_def finish_def intro: names_free_commit)
qed (use assms in \<open>simp add: submit_Inl\<close>)

lemma names_free_register:
  assumes "names_free (st_ledger ctx)" "u \<notin> set builtin_names" "TrimSpace u = u"
  shows "names_free (submit ctx (TxRegisterBusinessUser u d m r x))"
proof (cases "RegisterBusinessUser ctx u d m r x")
  case (Inr ws)
  with RegisterBusinessUser_effect [OF Inr] assms show ?thesis
    by (auto simp: submit_def finish_def names_free_def wf_put_kv get_put_kv)
qed (use assms in \<open>simp add: submit_Inl\<close>)

lemma net_ledger: "network_ok net \<Longrightarrow> st_ledger (net_stub net m l) = l"
  by (simp add: network_ok_def)

lemma net_mspid: "network_ok net \<Longrightarrow> st_mspid (net_stub net m l) = Inr m"
  by (simp add: network_ok_def)

text \<open>The two invariants hold together: a name is taken by an account before it is written.\<close>

lemma demo_usernames_free: "u \<in> set builtin_names \<Longrightarrow> auth_ok a \<Longrightarrow> map_of (svc_accounts a) u \<noteq> None"
  by (auto simp: auth_ok_def)

interpretation names: server_invariant "\<lambda>s. auth_ok (srv_auth s) \<and> names_free (srv_ledger s)"
proof unfold_locales
  fix env s verb path req r s'
  assume net: "network_ok (env_net env)" and gate: "gateways_ok (srv_gate s)"
    and inv: "auth_ok (srv_auth s) \<and> names_free (srv_ledger s)"
    and run: "serve env verb path req s = (r, s')"
  have "names_free (srv_ledger s')"
  proof (rule serve_cases [OF net gate run], goal_cases)
    case (2 g pattern f prin)
    with inv show ?case
      by (auto simp: acts_def submitted_for_def net_ledger [OF net] intro!: names_free_submit)
  next
    case 3
    with inv show ?case
      by (auto simp: after_register_def registers_def net_ledger [OF net]
          intro!: names_free_register dest: demo_usernames_free)
  qed (use inv in simp_all)
  with accounts.keep [OF net gate _ run] inv show "auth_ok (srv_auth s') \<and> names_free (srv_ledger s')" by blast
qed simp

section \<open>User names\<close>

lemma TrimSpace_username: "usernamePattern u \<Longrightarrow> TrimSpace u = u"
  by (rule TrimSpace_same) (auto simp: usernamePattern_def list_all_iff username_char_def space1_def)

section \<open>Payments\<close>

lemma paying_call:
  assumes "reachable (st_ledger ctx)" "stored (st_ledger ctx) dec_Reimbursement (reimbursementKey i) x"
    and "rmb_Status x \<noteq> ''PAID''" "stored (submit ctx c) dec_Reimbursement (reimbursementKey i) y"
    and "rmb_Status y = ''PAID''"
  shows "\<exists>j f. c = TxPayReimbursement j f \<and> TrimSpace f = ''finance-admin'' \<and> st_mspid ctx = Inr ''Org2MSP''"
proof -
  note t = reachable_typed [OF assms(1)]
  obtain ws where ws: "invoke ctx c = Inr ws"
    using assms(2-5) by (cases "invoke ctx c") (auto simp: submit_Inl dest: stored_unique)
  then have "get_kv (commit ws (st_ledger ctx)) (reimbursementKey i) \<noteq> get_kv (st_ledger ctx) (reimbursementKey i)"
    using assms(2-5) by (auto simp: submit_def finish_def stored_def)
  then obtain b where "Put (reimbursementKey i) b \<in> set ws" "get_kv (submit ctx c) (reimbursementKey i) = Some b"
    using commit_cases [OF typed_wf [OF t], of ws "reimbursementKey i"] assms(4) ws
    by (auto simp: submit_def finish_def stored_def)
  with assms(4,5) only_payment_pays [OF ws] obtain j f where c: "c = TxPayReimbursement j f"
    by (fastforce simp: stored_def)
  with ws obtain p where "requireProjectManager ctx p (TrimSpace f) ''FINANCE_ADMIN'' = Inr ()"
    by (auto dest: PayReimbursement_effect)
  from c finance_manager [OF this t] show ?thesis by blast
qed

section \<open>A website on a healthy network\<close>

definition demo_net :: "string \<Rightarrow> network" where
  "demo_net tx = \<lparr>net_stub = (\<lambda>m l. demo_ctx m tx l), net_eval_lost = (\<lambda>_. None), net_lost = (\<lambda>_. None),
     net_unconfirmed = (\<lambda>_. None), net_reject = (\<lambda>e. \<lparr>gwe_text = e, gwe_details = [e]\<rparr>), net_empty_list = Raw []\<rparr>"

definition demo_sdk :: sdk where
  "demo_sdk = \<lparr>sdk_abs = Inr, sdk_stat = (\<lambda>_. None), sdk_readdir = (\<lambda>_. Inr []), sdk_certificate = (\<lambda>_. None),
     sdk_private_key = (\<lambda>_. None), sdk_identity = (\<lambda>_. None), sdk_sign = (\<lambda>_. None), sdk_dial = (\<lambda>_. None),
     sdk_connect = (\<lambda>_. None)\<rparr>"

text \<open>A recognition service that is not configured, and a processor without fused operations.\<close>

definition demo_ocr :: OcrService where
  "demo_ocr = NewOcrService demo_host"

definition demo_cloud :: cloud where
  "demo_cloud = \<lparr>cld_client = (\<lambda>_. None), cld_recognize = (\<lambda>_ _. Inr None), cld_send = (\<lambda>_. Inl ''refused''),
     cld_cpu = \<lparr>cpu_fused = False, cpu_wide = (\<lambda>_. 0)\<rparr>\<rparr>"

definition demo_env :: "string \<Rightarrow> env" where
  "demo_env tx = \<lparr>env_sdk = demo_sdk, env_net = demo_net tx, env_sort = (\<lambda>xs. xs), env_ocr = demo_ocr, env_cloud = demo_cloud\<rparr>"

definition demo_principal :: "string \<times> string \<times> string \<Rightarrow> Principal" where
  "demo_principal a = (case a of (u, m, r) \<Rightarrow>
     \<lparr>prc_DisplayName = u, prc_MSPID = m, prc_OrganizationID = [], prc_Role = r, prc_Username = u\<rparr>)"

definition demo_auth :: "string \<times> string \<times> string \<Rightarrow> Service" where
  "demo_auth a = \<lparr>svc_accounts = map (\<lambda>a. (fst a, \<lparr>acc_Principal = demo_principal a, acc_PasswordHash = ''h'', acc_Salt = ''s''\<rparr>)) demo_accounts,
     svc_accountFile = ''a'', svc_sessions = [(''token'', \<lparr>ses_principal = demo_principal a, ses_expiresAt = 1\<rparr>)]\<rparr>"

text \<open>A server with one open client per organization and one session, that of a built-in account.\<close>

definition demo_gate :: gateways where
  "demo_gate = \<lparr>gwy_chaincodeName = ''invoice'', gwy_channelName = ''mychannel'', gwy_testNetwork = ''/net'',
     gwy_clients = [(''Org1MSP'', \<lparr>ctr_MSPID = ''Org1MSP'', ctr_endpoint = ''dns:///localhost:7051'', ctr_channel = ''mychannel'',
         ctr_chaincode = ''invoice''\<rparr>),
       (''Org2MSP'', \<lparr>ctr_MSPID = ''Org2MSP'', ctr_endpoint = ''dns:///localhost:9051'', ctr_channel = ''mychannel'',
         ctr_chaincode = ''invoice''\<rparr>)],
     gwy_open = 2\<rparr>"

definition demo_server :: "string \<times> string \<times> string \<Rightarrow> ledger \<Rightarrow> server" where
  "demo_server a l = \<lparr>srv_auth = demo_auth a, srv_host = demo_host, srv_gate = demo_gate, srv_ledger = l\<rparr>"

definition demo_request :: "blob \<Rightarrow> request" where
  "demo_request b = \<lparr>rq_cookie = Some ''token'', rq_id = [], rq_query = [], rq_body = b, rq_file = None, rq_size = 0\<rparr>"

lemma demo_gate_ok: "gateways_ok demo_gate"
  by (simp add: gateways_ok_def demo_gate_def validMSPID_def profileFor_def)

lemma demo_accounts_ok:
  "a \<in> set demo_accounts \<Longrightarrow> usernamePattern (fst a) \<and> privilege_ok (demo_principal a)"
proof -
  have "list_all (\<lambda>a. usernamePattern (fst a) \<and> privilege_ok (demo_principal a)) demo_accounts"
    by code_simp
  then show "a \<in> set demo_accounts \<Longrightarrow> usernamePattern (fst a) \<and> privilege_ok (demo_principal a)"
    by (simp add: list_all_iff)
qed

lemma demo_account_names: "map fst demo_accounts = builtin_names" "distinct builtin_names"
  by (simp_all add: demo_accounts_def builtin_names_def)

lemma demo_auth_ok:
  assumes "a \<in> set demo_accounts"
  shows "auth_ok (demo_auth a)"
proof -
  let ?x = "\<lambda>a. \<lparr>acc_Principal = demo_principal a, acc_PasswordHash = ''h'', acc_Salt = ''s''\<rparr>"
  have keys: "map fst (svc_accounts (demo_auth a)) = builtin_names"
    by (simp add: demo_auth_def demo_account_names(1) [symmetric])
  have user [simp]: "prc_Username (demo_principal b) = fst b" for b
    by (simp add: demo_principal_def split: prod.splits)
  have "map_of (svc_accounts (demo_auth a)) (fst a) = Some (?x a)"
    by (rule map_of_is_SomeI) (use assms keys in \<open>auto simp: demo_account_names demo_auth_def\<close>)
  moreover have "\<exists>b \<in> set demo_accounts. u = fst b \<and> x = ?x b" if "map_of (svc_accounts (demo_auth a)) u = Some x" for u x
    using map_of_SomeD [OF that] by (auto simp: demo_auth_def)
  moreover have "set builtin_names \<subseteq> dom (map_of (svc_accounts (demo_auth a)))"
    by (simp flip: keys add: dom_map_of_conv_image_fst)
  ultimately show ?thesis
    using demo_accounts_ok by (fastforce simp: auth_ok_def demo_auth_def)
qed

lemma demo_net_ok [simp]: "network_ok (env_net (demo_env tx))"
  by (simp add: demo_env_def demo_net_def network_ok_def demo_ctx_simps)

lemma demo_server_simps [simp]:
  "srv_auth (demo_server a l) = demo_auth a" "srv_host (demo_server a l) = demo_host"
  "srv_gate (demo_server a l) = demo_gate" "srv_ledger (demo_server a l) = l"
  "net_stub (env_net (demo_env tx)) m l = demo_ctx m tx l"
  by (simp_all add: demo_server_def demo_env_def demo_net_def)

lemma demo_session: "session_of (demo_server a l) (demo_request b) = Some (demo_principal a)"
  by (simp add: session_of_def demo_request_def demo_auth_def principalFromCookie_def demo_host_def)

lemma demo_contract:
  "m \<in> {''Org1MSP'', ''Org2MSP''} \<Longrightarrow> \<exists>ct. contractOf env m (demo_server a l) = (Inr ct, demo_server a l) \<and> ctr_MSPID ct = m"
  by (auto simp: contractOf_def ContractFor_def demo_server_def demo_gate_def)

lemma demo_submitting:
  "ctr_MSPID ct = m \<Longrightarrow> snd (submitting (demo_env tx) ct c s ok) = s\<lparr>srv_ledger := submit (demo_ctx m tx (srv_ledger s)) c\<rparr>"
  by (auto simp: submitting_def SubmitTransaction_def demo_env_def demo_net_def submit_def finish_def demo_ctx_simps
      split: sum.splits)

lemma demo_cookie:
  "rq_cookie (demo_request b) = Some ''token''"
  "principalFromCookie (demo_auth a) (hst_now demo_host) (Some ''token'') = Some (demo_principal a)"
  by (simp_all add: demo_request_def demo_auth_def principalFromCookie_def demo_host_def)

lemma demo_principal_simps [simp]:
  "prc_Username (demo_principal (u, m, r)) = u" "prc_MSPID (demo_principal (u, m, r)) = m"
  "prc_Role (demo_principal (u, m, r)) = r" "prc_OrganizationID (demo_principal (u, m, r)) = []"
  by (simp_all add: demo_principal_def)

lemma demo_lookup: "lookup_route RegisterRoutes ''POST'' [''reimbursements'', ''r'', ''pay''] =
    Some ([''reimbursements'', '':id'', ''pay''], Role [''FINANCE_ADMIN''], payReimbursement)"
  by (simp add: RegisterRoutes_def Let_def)

lemma demo_payment:
  "snd (serve (demo_env ''t11'') ''POST'' [''reimbursements'', ''r'', ''pay''] (demo_request (Raw []))
    (demo_server (''finance-admin'', ''Org2MSP'', ''FINANCE_ADMIN'') l10))
   = demo_server (''finance-admin'', ''Org2MSP'', ''FINANCE_ADMIN'') l11"
proof -
  obtain ct where ct: "contractOf (demo_env ''t11'') ''Org2MSP'' (demo_server (''finance-admin'', ''Org2MSP'', ''FINANCE_ADMIN'') l10)
      = (Inr ct, demo_server (''finance-admin'', ''Org2MSP'', ''FINANCE_ADMIN'') l10)" "ctr_MSPID ct = ''Org2MSP''"
    using demo_contract [of "''Org2MSP''"] by blast
  then show ?thesis
    by (simp add: serve_def demo_lookup Require_def RequireRole_def PrincipalFromContext_def payReimbursement_def
        loggedIn_def withContract_def contractForRequest_def demo_cookie demo_submitting l11_def)
qed

lemma demo_paid:
  "stored l10 dec_Reimbursement (reimbursementKey ''r'') demo_approved"
  "stored l11 dec_Reimbursement (reimbursementKey ''r'') (demo_approved\<lparr>rmb_Status := ''PAID''\<rparr>)"
  "rmb_Status demo_approved = ''APPROVED_RESERVED''"
  by (simp_all add: stored_def demo_states) (simp add: demo_approved_def)

lemma demo_paid_differs: "l11 \<noteq> l10"
proof
  assume "l11 = l10"
  with demo_paid(1,2) have "demo_approved = demo_approved\<lparr>rmb_Status := ''PAID''\<rparr>" by (auto dest: stored_unique)
  from arg_cong [OF this, of rmb_Status] show False by (simp add: demo_paid(3))
qed

lemma paying_session:
  assumes "gateways_ok (srv_gate s)" "auth_ok (srv_auth s)" "reachable (srv_ledger s)"
    and "network_ok (env_net env)" "serve env verb path req s = (r, s')"
    and "stored (srv_ledger s) dec_Reimbursement (reimbursementKey i) x" "rmb_Status x \<noteq> ''PAID''"
    and "stored (srv_ledger s') dec_Reimbursement (reimbursementKey i) y" "rmb_Status y = ''PAID''"
  shows "\<exists>prin. session_of s req = Some prin \<and> prc_Username prin = ''finance-admin''
    \<and> prc_MSPID prin = ''Org2MSP'' \<and> prc_Role prin = ''FINANCE_ADMIN''"
proof -
  note pays = paying_call [where x = x and y = y and i = i, OF _ _ assms(7) _ assms(9)]
  from assms(4,1,5) show ?thesis
  proof (rule serve_cases, goal_cases)
    case (2 g pattern f prin)
    then obtain tx where tx: "operator_of tx = Some (prc_Username prin)"
      "srv_ledger s' = submit (net_stub (env_net env) (prc_MSPID prin) (srv_ledger s)) tx"
      using assms(6-9) by (auto simp: acts_def submitted_for_def dest: stored_unique)
    from pays [of "net_stub (env_net env) (prc_MSPID prin) (srv_ledger s)" tx] obtain f
      where "operator_of tx = Some f" "TrimSpace f = ''finance-admin''" "prc_MSPID prin = ''Org2MSP''"
      using assms(3,4,6,8) tx(2) by (auto simp: net_ledger net_mspid)
    moreover have "privilege_ok prin" "TrimSpace (prc_Username prin) = prc_Username prin"
      using session_privilege [OF assms(2) 2(3)] TrimSpace_username by auto
    ultimately show ?case using tx(1) 2(3) by (auto simp: privilege_ok_def builtin_names_def demo_accounts_def)
  next
    case 3
    then show ?case
      using assms(3,4,6-9) by (auto simp: after_register_def registers_def net_ledger dest: stored_unique dest!: pays [rotated 2])
  qed (use assms(6-9) in \<open>auto dest: stored_unique\<close>)
qed

section \<open>Properties\<close>

text \<open>
  C23. A request changes the ledger only by a transaction of its own session: the session's principal
  passes the role check of the route, is the operator of the transaction, and signs with the
  certificate of its organization. The one exception is the registration of a project member under a
  name that no account has.
\<close>

theorem requests_act_for_their_session:
  assumes "network_ok (env_net env)" "gateways_ok (srv_gate s)" "serve env verb path req s = (r, s')"
    and "srv_ledger s' \<noteq> srv_ledger s"
  shows "(\<exists>prin tx g pattern f. session_of s req = Some prin \<and> operator_of tx = Some (prc_Username prin)
      \<and> (verb, pattern, g, f) \<in> set RegisterRoutes \<and> path_match pattern path \<and> allowed g prin
      \<and> srv_ledger s' = submit (net_stub (env_net env) (prc_MSPID prin) (srv_ledger s)) tx)
    \<or> verb = ''POST'' \<and> path = [''auth'', ''register''] \<and>
      (\<exists>u d m o'. usernamePattern u \<and> map_of (svc_accounts (srv_auth s)) u = None \<and> srv_ledger s' =
        submit (net_stub (env_net env) m (srv_ledger s)) (TxRegisterBusinessUser u d m ''PROJECT_MEMBER'' o'))"
  using assms(1-3)
proof (rule serve_cases, goal_cases)
  case (2 g pattern f prin)
  then obtain tx where "operator_of tx = Some (prc_Username prin)"
      "srv_ledger s' = submit (net_stub (env_net env) (prc_MSPID prin) (srv_ledger s)) tx"
    using assms(4) by (auto simp: acts_def submitted_for_def)
  with 2 show ?case by (intro disjI1) blast
next
  case 3
  with assms(4) show ?case by (intro disjI2) (auto simp: after_register_def registers_def)
qed (use assms(4) in simp_all)

theorem requests_act_for_their_session_witness:
  "\<exists>tx. operator_of tx = Some ''finance-admin'' \<and> l11 = submit (demo_ctx ''Org2MSP'' ''t11'' l10) tx"
proof -
  let ?s = "demo_server (''finance-admin'', ''Org2MSP'', ''FINANCE_ADMIN'')"
  obtain r where r: "serve (demo_env ''t11'') ''POST'' [''reimbursements'', ''r'', ''pay''] (demo_request (Raw [])) (?s l10) = (r, ?s l11)"
    using demo_payment by (metis prod.collapse)
  from requests_act_for_their_session [OF demo_net_ok _ r] demo_gate_ok demo_paid_differs show ?thesis
    by (auto simp: demo_session)
qed

end
