(* ===== verification/Views.thy ===== *)
theory Views
  imports Queries Portal
begin

text \<open>
  What the reading handlers show: a single invoice only to a principal that may see it, the pages of a
  list, and the contract of one's own organization.
\<close>

section \<open>Answers of the network\<close>

definition lists_ok :: "network \<Rightarrow> bool" where
  "lists_ok net \<longleftrightarrow> net_empty_list net \<in> {Raw [], Doc JNull, Doc (JArr [])}"

lemma read_all_Inr:
  assumes "lists_ok (env_net env)" "read_all env ct q dec s = Inr xs"
    and "answer (env_net env) (net_stub (env_net env) (ctr_MSPID ct) (srv_ledger s)) q = list_payload (env_net env) enc m"
    and "\<And>x. dec (enc x) = Inr x"
  shows "m = Inr xs"
proof -
  obtain payload where "list_payload (env_net env) enc m = Inr payload" "decodeList dec payload = Inr xs"
    using assms(2) assms(3) [symmetric]
    by (auto simp: read_all_def evaluate_def EvaluateTransaction_def split: sum.splits option.splits)
  with decodeList_payload [of dec enc "env_net env" m payload] assms(1,4) show ?thesis by (auto simp: lists_ok_def)
qed

lemma dec_ApiInvoice_enc: "dec_ApiInvoice (enc_Invoice y) = Inr (Invoice.extend y \<lparr>inv_PendingTransfer = None\<rparr>)"
proof -
  have "member (Some ms) ''pendingTransfer'' = JNull" if "enc_Invoice y = JObj ms" for ms
    using that by (auto simp: enc_Invoice_def member_def)
  moreover obtain ms where ms: "enc_Invoice y = JObj ms" by (auto simp: enc_Invoice_def)
  moreover have "dec_Invoice (JObj ms) = Inr y" using dec_enc_Invoice [of y] ms by simp
  ultimately show ?thesis by (simp add: dec_ApiInvoice_def)
qed

lemma visible_part: "invoiceVisibleTo prin (Invoice.extend y e) projs orgs = invoiceVisibleTo prin y projs orgs"
  by (simp add: invoiceVisibleTo_def Invoice.defs)

lemma fetch_invoice:
  assumes "network_ok (env_net env)" "fetch env ct (QReadInvoice i) (Unmarshal dec_ApiInvoice) s = Inr x"
  shows "\<exists>y. ReadInvoice (net_stub (env_net env) (ctr_MSPID ct) (srv_ledger s)) i = Inr y
    \<and> x = Invoice.extend y \<lparr>inv_PendingTransfer = None\<rparr>"
  using assms(2)
  by (auto simp: fetch_def evaluate_def EvaluateTransaction_def doc_payload_def res_inv dec_ApiInvoice_enc
      split: sum.splits option.splits)

lemma pending_read:
  assumes "readPendingTransferForPrincipal env ct i prin s = Inr (Some t)"
  shows "ReadInvoiceTransfer (net_stub (env_net env) (ctr_MSPID ct) (srv_ledger s)) i = Inr t
    \<and> pendingTransferVisibleTo prin (Some t)"
  using assms
  by (auto simp: readPendingTransferForPrincipal_def evaluate_def EvaluateTransaction_def doc_payload_def res_inv
      split: if_splits sum.splits option.splits)

text \<open>What a principal may be shown, in terms of the ledger its organization's peer answers from.\<close>

definition may_see :: "Principal \<Rightarrow> stub \<Rightarrow> Invoice \<Rightarrow> bool" where
  "may_see prin ctx y \<longleftrightarrow> (\<exists>ps os. GetAllProjects ctx = Inr ps \<and> GetAllBusinessOrganizations ctx = Inr os
     \<and> invoiceVisibleTo prin y (by_id prj_ID ps) (by_id org_ID os))
   \<or> (\<exists>t. ReadInvoiceTransfer ctx (inv_ID y) = Inr t \<and> pendingTransferVisibleTo prin (Some t))"

lemma read_visible_seen:
  assumes "network_ok (env_net env)" "lists_ok (env_net env)" "gin_principal c = Some prin"
    and "read_visible env c ct s = Inr x"
  shows "\<exists>y. ReadInvoice (net_stub (env_net env) (ctr_MSPID ct) (srv_ledger s)) (rq_id (gin_request c)) = Inr y
    \<and> invoice_part x = y \<and> may_see prin (net_stub (env_net env) (ctr_MSPID ct) (srv_ledger s)) y"
proof -
  let ?ctx = "net_stub (env_net env) (ctr_MSPID ct) (srv_ledger s)"
  have prin: "the_principal c = prin" using assms(3) by (simp add: the_principal_def PrincipalFromContext_def)
  obtain z ps os where z: "fetch env ct (QReadInvoice (rq_id (gin_request c))) (Unmarshal dec_ApiInvoice) s = Inr z"
    and ps: "read_all env ct QGetAllProjects dec_Project s = Inr ps"
    and os: "read_all env ct QGetAllBusinessOrganizations dec_BusinessOrganization s = Inr os"
    and x: "invoiceVisibleTo prin z (by_id prj_ID ps) (by_id org_ID os) \<and> x = z
      \<or> (\<exists>t. readPendingTransferForPrincipal env ct (inv_ID z) prin s = Inr (Some t) \<and> x = z\<lparr>inv_PendingTransfer := Some t\<rparr>)"
    using assms(4) unfolding read_visible_def prin
    by (auto simp: orTransactionError_def readAllProjects_def readAllOrganizations_def split: sum.splits if_splits option.splits)
  from fetch_invoice [OF assms(1) z] obtain y where y: "ReadInvoice ?ctx (rq_id (gin_request c)) = Inr y"
    "z = Invoice.extend y \<lparr>inv_PendingTransfer = None\<rparr>" by blast
  have "GetAllProjects ?ctx = Inr ps" "GetAllBusinessOrganizations ?ctx = Inr os"
    by (rule read_all_Inr [OF assms(2) ps], simp, simp) (rule read_all_Inr [OF assms(2) os], simp, simp)
  moreover have "inv_ID z = inv_ID y" by (simp add: y(2) Invoice.defs)
  ultimately have "may_see prin ?ctx y"
    using x pending_read [of env ct "inv_ID y" prin s] unfolding may_see_def y(2) visible_part by (auto simp: Invoice.defs)
  moreover have "invoice_part x = y" using x by (auto simp: y(2) invoice_part_def Invoice.defs)
  ultimately show ?thesis using y(1) by blast
qed

section \<open>Properties\<close>

lemma invoice_route: "i \<noteq> [] \<Longrightarrow> lookup_route RegisterRoutes ''GET'' [''invoices'', i] =
    Some ([''invoices'', '':id''], Session, getInvoice)"
  by (simp add: RegisterRoutes_def Let_def)

lemma no_invoice_route: "lookup_route RegisterRoutes ''GET'' [''invoices'', []] = None"
  by (simp add: RegisterRoutes_def Let_def)

text \<open>
  C31. A request for a single invoice is answered with an invoice only to a session, and only with the
  stored invoice of that identifier when the principal may see it: by its organization and role, by
  the project the invoice is linked to, or because the invoice is offered to it.
\<close>

theorem only_visible_invoices_are_shown:
  assumes "network_ok (env_net env)" "lists_ok (env_net env)" "gateways_ok (srv_gate s)"
    and "serve env ''GET'' [''invoices'', i] req s = (r, s')" "rsp_status r = 200"
  shows "\<exists>prin x. session_of s req = Some prin \<and> rsp_body r = Some (enc_ApiInvoice x)
    \<and> ReadInvoice (net_stub (env_net env) (prc_MSPID prin) (srv_ledger s)) i = Inr (invoice_part x)
    \<and> may_see prin (net_stub (env_net env) (prc_MSPID prin) (srv_ledger s)) (invoice_part x)"
proof -
  have i: "i \<noteq> []" using assms(4,5) by (auto simp: serve_def no_invoice_route)
  let ?c = "\<lparr>gin_request = req\<lparr>rq_id := i\<rparr>, gin_principal = None\<rparr>"
  obtain prin where prin: "session_of s req = Some prin"
    "getInvoice env (?c\<lparr>gin_principal := Some prin\<rparr>) s = (r, s')"
    using assms(4,5) i by (auto simp: serve_def invoice_route Require_def session_of_def split: option.splits)
  let ?d = "?c\<lparr>gin_principal := Some prin\<rparr>"
  obtain m t where m: "contractForRequest env ?d s = (m, t)" by fastforce
  have d: "gin_principal ?d = Some prin" by simp
  note same = contractForRequest_same [OF same_refl [OF assms(3)] m]
  show ?thesis
  proof (cases m)
    case (Inl e)
    then have "rsp_status e \<noteq> 200" using m
      by (auto simp: contractForRequest_def contractOf_def PrincipalFromContext_def serverError_def split: sum.splits prod.splits)
    with prin(2) m Inl assms(5) show ?thesis by (simp add: getInvoice_def readInvoice_def)
  next
    case (Inr ct)
    have ct: "ctr_MSPID ct = prc_MSPID prin" "srv_ledger t = srv_ledger s"
      using same(1) same(2) [OF d Inr] by (simp_all add: same_def)
    show ?thesis
    proof (cases "read_visible env ?d ct t")
      case l: (Inl e)
      then have "rsp_status e \<noteq> 200"
        by (auto simp: read_visible_def fetch_def orTransactionError_def transactionError_def serverError_def
            split: sum.splits option.splits if_splits)
      with prin(2) m Inr l assms(5) show ?thesis by (simp add: getInvoice_def readInvoice_def)
    next
      case x: (Inr x)
      then have "rsp_body r = Some (enc_ApiInvoice x)"
        using prin(2) m Inr by (auto simp: getInvoice_def readInvoice_def)
      with read_visible_seen [OF assms(1,2) d x] prin(1) ct show ?thesis by auto
    qed
  qed
qed

lemma read_all_answered:
  assumes "lists_ok (env_net env)" "net_eval_lost (env_net env) q = None"
    and "answer (env_net env) (net_stub (env_net env) (ctr_MSPID ct) (srv_ledger s)) q = list_payload (env_net env) enc (Inr xs)"
    and "\<And>x. dec (enc x) = Inr x"
  shows "read_all env ct q dec s = Inr xs"
proof -
  obtain payload where "list_payload (env_net env) enc (Inr xs) = Inr payload" by (simp add: list_payload_def)
  with decodeList_payload [of dec enc "env_net env" "Inr xs" payload] assms show ?thesis
    by (auto simp: read_all_def evaluate_def EvaluateTransaction_def lists_ok_def)
qed

lemma demo_lists_ok: "lists_ok (env_net (demo_env tx))" "net_eval_lost (env_net (demo_env tx)) q = None"
  by (simp_all add: lists_ok_def demo_env_def demo_net_def)

lemma demo_view:
  "\<exists>r s'. serve (demo_env ''w'') ''GET'' [''invoices'', ''i''] (demo_request (Raw [])) (demo_server (''auditor'', ''Org1MSP'', ''AUDITOR'') l8)
    = (r, s') \<and> rsp_status r = 200"
proof -
  let ?a = "(''auditor'', ''Org1MSP'', ''AUDITOR'')"
  let ?s = "demo_server ?a l8" and ?ctx = "demo_ctx ''Org1MSP'' ''w'' l8"
  obtain ct where ct: "contractOf (demo_env ''w'') ''Org1MSP'' ?s = (Inr ct, ?s)" "ctr_MSPID ct = ''Org1MSP''"
    using demo_contract [of "''Org1MSP''"] by blast
  have typed: "typed l8" by (rule reachable_typed) (rule demo_reachable)
  obtain ps os where "GetAllProjects ?ctx = Inr ps" "GetAllBusinessOrganizations ?ctx = Inr os"
    using GetAllProjects_complete [of ?ctx] GetAllBusinessOrganizations_complete [of ?ctx] typed
    by (auto simp: demo_ctx_simps)
  then have lists: "read_all (demo_env ''w'') ct QGetAllProjects dec_Project ?s = Inr ps"
    "read_all (demo_env ''w'') ct QGetAllBusinessOrganizations dec_BusinessOrganization ?s = Inr os"
    by (auto intro!: read_all_answered [OF demo_lists_ok] simp: ct)
  have "ReadInvoice ?ctx ''i'' = Inr demo_invoice" by (simp add: play_reads play at_l8)
  then have "fetch (demo_env ''w'') ct (QReadInvoice ''i'') (Unmarshal dec_ApiInvoice) ?s
      = Inr (Invoice.extend demo_invoice \<lparr>inv_PendingTransfer = None\<rparr>)"
    by (simp add: fetch_def evaluate_def EvaluateTransaction_def demo_lists_ok ct doc_payload_def dec_ApiInvoice_enc)
  moreover have "invoiceVisibleTo (demo_principal ?a) x projs orgs" for x :: ApiInvoice and projs orgs
    by (simp add: invoiceVisibleTo_def hasBootstrapDirectoryAccess_def)
  ultimately show ?thesis
    using lists ct by (simp add: serve_def invoice_route Require_def demo_cookie getInvoice_def readInvoice_def
      contractForRequest_def PrincipalFromContext_def read_visible_def readAllProjects_def readAllOrganizations_def
      orTransactionError_def the_principal_def)
qed

theorem only_visible_invoices_are_shown_witness:
  "may_see (demo_principal (''auditor'', ''Org1MSP'', ''AUDITOR'')) (demo_ctx ''Org1MSP'' ''w'' l8) demo_invoice"
proof -
  obtain r s' where view: "serve (demo_env ''w'') ''GET'' [''invoices'', ''i''] (demo_request (Raw []))
      (demo_server (''auditor'', ''Org1MSP'', ''AUDITOR'') l8) = (r, s')" "rsp_status r = 200"
    using demo_view by blast
  have "ReadInvoice (demo_ctx ''Org1MSP'' ''w'' l8) ''i'' = Inr demo_invoice" by (simp add: play_reads play at_l8)
  with only_visible_invoices_are_shown [OF demo_net_ok demo_lists_ok(1) _ view] demo_gate_ok show ?thesis
    by (auto simp: demo_session)
qed

text \<open>
  C36. The gateway gives each organization its own client: the contract it returns signs for the organization
  that was asked for and goes to that organization's peer, it is reused from then on, a failure leaves the
  connections as they were, and closing leaves none open.
\<close>

theorem contracts_sign_for_their_organization:
  assumes "gateways_ok g" "ContractFor k h m g = (r, g')"
  shows "gateways_ok g' \<and> gwy_open (closeGateways g') = 0 \<and> gwy_clients (closeGateways g') = []
    \<and> (case r of
         Inl e \<Rightarrow> g' = g
       | Inr ct \<Rightarrow> ctr_MSPID ct = m \<and> (\<exists>p. profileFor m = Inr p \<and> ctr_endpoint ct = prf_PeerEndpoint p)
           \<and> (\<forall>k' h'. ContractFor k' h' m g' = (Inr ct, g'))
           \<and> (\<forall>m'. m' \<noteq> m \<longrightarrow> map_of (gwy_clients g') m' = map_of (gwy_clients g) m'))"
proof (cases r)
  case (Inl e)
  with assms(2) connect_cases [of k h g] have "g' = g"
    by (fastforce simp: ContractFor_def split: option.splits sum.splits prod.splits)
  with Inl assms show ?thesis by (simp add: closeGateways_def gateways_ok_def)
next
  case (Inr ct)
  note ok = ContractFor_ok [OF assms]
  have new: "map_of (gwy_clients g') m = Some ct"
    using assms(2) Inr by (auto simp: ContractFor_def update_conv' split: option.splits sum.splits prod.splits)
  then have "\<exists>p. profileFor m = Inr p \<and> ctr_endpoint ct = prf_PeerEndpoint p"
    using ok(1) by (auto simp: gateways_ok_def)
  moreover have "map_of (gwy_clients g') m' = map_of (gwy_clients g) m'" if "m' \<noteq> m" for m'
    using that assms(2) Inr by (auto simp: ContractFor_def update_conv' split: option.splits sum.splits prod.splits)
  ultimately show ?thesis
    using ok Inr new by (simp add: closeGateways_def gateways_ok_def ContractFor_def)
qed

theorem contracts_sign_for_their_organization_witness:
  "\<exists>ct. fst (ContractFor demo_sdk demo_host ''Org2MSP'' demo_gate) = Inr ct \<and> ctr_MSPID ct = ''Org2MSP''"
  using contracts_sign_for_their_organization [OF demo_gate_ok, of demo_sdk demo_host "''Org2MSP''"]
  by (auto simp: ContractFor_def demo_gate_def)

lemma page_of_slice:
  "0 < k \<Longrightarrow> page_of (int (Suc n)) (int k) xs = take k (drop (n * k) xs)"
proof -
  assume "0 < k"
  have *: "nat (int n * int k + int k) = k + n * k" by (simp add: nat_add_distrib nat_mult_distrib)
  show ?thesis
    by (auto simp: page_of_def Let_def nat_mult_distrib take_drop * nat_add_distrib not_less add.commute [of "n * k" k] simp flip: of_nat_mult)
qed

text \<open>
  C37. The pages of a list are its consecutive pieces: the first \<open>n\<close> pages put together are the first
  \<open>n * pageSize\<close> elements, no page is longer than the page size, and the query parameters are always
  within their bounds.
\<close>

theorem pages_cover_the_list:
  assumes "0 < k"
  shows "concat (map (\<lambda>p. page_of (int p) (int k) xs) [1..<Suc n]) = take (n * k) xs
    \<and> (\<forall>p. 0 < p \<longrightarrow> length (page_of (int p) (int k) xs) \<le> k)
    \<and> (1 \<le> fallback \<and> fallback \<le> most \<longrightarrow> 1 \<le> positiveQuery c name fallback most \<and> positiveQuery c name fallback most \<le> most)"
proof -
  have "concat (map (\<lambda>p. page_of (int p) (int k) xs) [1..<Suc n]) = take (n * k) xs"
  proof (induction n)
    case (Suc n)
    have "take (n * k) xs @ take k (drop (n * k) xs) = take (Suc n * k) xs"
      by (simp add: take_add [symmetric] add.commute)
    with Suc show ?case by (simp add: page_of_slice [OF assms] del: of_nat_Suc)
  qed simp
  moreover have "length (page_of (int p) (int k) xs) \<le> k" if "0 < p" for p
    using that page_of_slice [OF assms, of "p - 1" xs] by simp
  moreover have "1 \<le> positiveQuery c name fallback most \<and> positiveQuery c name fallback most \<le> most"
    if "1 \<le> fallback" "fallback \<le> most"
    using that by (auto simp: positiveQuery_def split: option.splits)
  ultimately show ?thesis by blast
qed

theorem pages_cover_the_list_witness:
  "concat (map (\<lambda>p. page_of (int p) 2 [1, 2, 3 :: nat]) [1..<3]) = [1, 2, 3]"
  using pages_cover_the_list [of 2 "[1, 2, 3 :: nat]" 2] by (simp add: upt_rec)

end
