(* ===== verification/Agreement.thy ===== *)
theory Agreement
  imports Views
begin

text \<open>
  The list of invoices and the single reads agree: on a network that answers, a principal finds in the
  list exactly the invoices that it is shown one by one.
\<close>

section \<open>A network that answers\<close>

text \<open>No query is lost, the peers are healthy, and a rejection carries the text of the contract.\<close>

definition answering :: "network \<Rightarrow> bool" where
  "answering net \<longleftrightarrow> network_ok net \<and> lists_ok net \<and> (\<forall>q. net_eval_lost net q = None)
    \<and> (\<forall>m l. healthy (net_stub net m l))
    \<and> (\<forall>e. contains e ''does not exist'' \<longrightarrow> contains (gwe_text (net_reject net e)) ''does not exist'')"

definition peer :: "env \<Rightarrow> contract \<Rightarrow> server \<Rightarrow> stub" where
  "peer env ct s = net_stub (env_net env) (ctr_MSPID ct) (srv_ledger s)"

lemma peer_facts:
  assumes "answering (env_net env)"
  shows "st_ledger (peer env ct s) = srv_ledger s" "healthy (peer env ct s)"
  using assms by (simp_all add: answering_def peer_def net_ledger)

lemma evaluate_answering:
  "answering (env_net env) \<Longrightarrow> evaluate env ct q s =
     (case answer (env_net env) (peer env ct s) q of Inl e \<Rightarrow> Inl (net_reject (env_net env) e) | Inr payload \<Rightarrow> Inr payload)"
  by (simp add: evaluate_def EvaluateTransaction_def answering_def peer_def)

text \<open>The transfer of an invoice that is offered to the principal.\<close>

definition offered :: "Principal \<Rightarrow> stub \<Rightarrow> string \<Rightarrow> InvoiceTransfer option" where
  "offered prin ctx i =
    (case ReadInvoiceTransfer ctx i of Inl _ \<Rightarrow> None
     | Inr t \<Rightarrow> if pendingTransferVisibleTo prin (Some t) then Some t else None)"

lemma ReadInvoiceTransfer_missing:
  assumes "healthy ctx" "typed (st_ledger ctx)" "ReadInvoiceTransfer ctx i = Inl e"
  shows "contains e ''does not exist''"
proof -
  have "get_kv (st_ledger ctx) (transferRequestKey (TrimSpace i)) = None"
  proof (rule ccontr)
    assume "get_kv (st_ledger ctx) (transferRequestKey (TrimSpace i)) \<noteq> None"
    then obtain b where b: "get_kv (st_ledger ctx) (transferRequestKey (TrimSpace i)) = Some b" by blast
    from typed_entry [OF b assms(2)] obtain x where "b = Doc (enc_InvoiceTransfer x)" by auto
    with b assms(1) have "ReadInvoiceTransfer ctx i = Inr x" by (simp add: read_inv healthy_def stored_def)
    with assms(3) show False by simp
  qed
  with assms(1,3) have "e = (''invoice transfer '' @ i @ '' '') @ ''does not exist'' @ []"
    by (simp add: ReadInvoiceTransfer_def GetState_def healthy_def)
  then show ?thesis using contains_append_middle by blast
qed

lemma readPending_answering:
  assumes "answering (env_net env)" "typed (srv_ledger s)"
  shows "readPendingTransferForPrincipal env ct i prin s = Inr (offered prin (peer env ct s) i)"
proof (cases "ReadInvoiceTransfer (peer env ct s) i")
  case (Inl e)
  then have "contains (gwe_text (net_reject (env_net env) e)) ''does not exist''"
    using ReadInvoiceTransfer_missing [of "peer env ct s" i e] assms peer_facts [OF assms(1), of ct s]
    by (simp add: answering_def)
  then show ?thesis
    using Inl by (simp add: readPendingTransferForPrincipal_def evaluate_answering [OF assms(1)] doc_payload_def offered_def)
next
  case (Inr t)
  then show ?thesis
    by (auto simp: readPendingTransferForPrincipal_def evaluate_answering [OF assms(1)] doc_payload_def offered_def
        pendingTransferVisibleTo_def)
qed

section \<open>What is shown of an invoice\<close>

abbreviation unmarked :: "Invoice \<Rightarrow> ApiInvoice" where
  "unmarked y \<equiv> Invoice.extend y \<lparr>inv_PendingTransfer = None\<rparr>"

definition shown :: "Principal \<Rightarrow> stub \<Rightarrow> (string \<rightharpoonup> Project) \<Rightarrow> (string \<rightharpoonup> BusinessOrganization) \<Rightarrow> Invoice \<Rightarrow> ApiInvoice option" where
  "shown prin ctx projects organizations y =
    (if invoiceVisibleTo prin y projects organizations then Some (unmarked y)
     else map_option (\<lambda>t. (unmarked y)\<lparr>inv_PendingTransfer := Some t\<rparr>) (offered prin ctx (inv_ID y)))"

lemma unmarked_ID [simp]: "inv_ID (unmarked y) = inv_ID y" "inv_ID ((unmarked y)\<lparr>inv_PendingTransfer := p\<rparr>) = inv_ID y"
  by (simp_all add: Invoice.defs)

lemma shown_ID: "shown prin ctx projects organizations y = Some x \<Longrightarrow> inv_ID x = inv_ID y"
  by (auto simp: shown_def split: if_splits)

lemma visible_invoices_answering:
  assumes "answering (env_net env)" "typed (srv_ledger s)"
  shows "visible_invoices env ct s prin projects organizations (map unmarked ys)
    = Inr (List.map_filter (shown prin (peer env ct s) projects organizations) ys)"
  by (induction ys) (auto simp: Let_def readPending_answering [OF assms] visible_part shown_def
      map_filter_simps split: option.splits)

lemma fetch_answering:
  assumes "answering (env_net env)" "ReadInvoice (peer env ct s) i = Inr y"
  shows "fetch env ct (QReadInvoice i) (Unmarshal dec_ApiInvoice) s = Inr (unmarked y)"
  using assms by (simp add: fetch_def evaluate_answering doc_payload_def dec_ApiInvoice_enc)

lemma read_visible_answering:
  assumes "answering (env_net env)" "typed (srv_ledger s)" "gin_principal c = Some prin"
    and ps: "read_all env ct QGetAllProjects dec_Project s = Inr ps"
    and os: "read_all env ct QGetAllBusinessOrganizations dec_BusinessOrganization s = Inr os"
  shows "read_visible env c ct s = Inr x \<longleftrightarrow>
    (\<exists>y. ReadInvoice (peer env ct s) (rq_id (gin_request c)) = Inr y
      \<and> shown prin (peer env ct s) (by_id prj_ID ps) (by_id org_ID os) y = Some x)"
proof (cases "ReadInvoice (peer env ct s) (rq_id (gin_request c))")
  case (Inl e)
  have "fetch env ct (QReadInvoice (rq_id (gin_request c))) (Unmarshal dec_ApiInvoice) s \<noteq> Inr z" for z
    using Inl by (simp add: fetch_def evaluate_answering [OF assms(1)] doc_payload_def)
  with Inl show ?thesis by (auto simp: read_visible_def split: sum.splits)
next
  case (Inr y)
  have prin: "the_principal c = prin" using assms(3) by (simp add: the_principal_def PrincipalFromContext_def)
  show ?thesis
    using Inr fetch_answering [OF assms(1) Inr] ps os
    by (auto simp: read_visible_def readAllProjects_def readAllOrganizations_def orTransactionError_def prin
        readPending_answering [OF assms(1,2)] visible_part shown_def split: option.splits)
qed

section \<open>The list\<close>

lemma decodeList_answer:
  assumes "lists_ok net" "\<And>x. dec (enc x) = Inr (g x)" "list_payload net enc (Inr xs) = Inr payload"
  shows "decodeList dec payload = Inr (map g xs)"
proof -
  have "mapE dec (map enc xs) = Inr (map g xs)" for xs
    by (induction xs) (simp_all add: assms(2))
  then show ?thesis using assms(1,3)
    by (auto simp: list_payload_def lists_ok_def decodeList_def trim_left_def trim_right_def TrimSpace_def split: if_splits)
qed

lemma fetch_all_invoices:
  assumes "answering (env_net env)" "GetAllInvoices (peer env ct s) = Inr ys"
  shows "fetch env ct QGetAllInvoices (decodeList dec_ApiInvoice) s = Inr (map unmarked ys)"
proof -
  obtain payload where p: "list_payload (env_net env) enc_Invoice (Inr ys) = Inr payload" by (simp add: list_payload_def)
  have "lists_ok (env_net env)" using assms(1) by (simp add: answering_def)
  then have "decodeList dec_ApiInvoice payload = Inr (map unmarked ys)"
    by (rule decodeList_answer [where enc = enc_Invoice]) (use p in \<open>simp_all add: dec_ApiInvoice_enc\<close>)
  with p assms show ?thesis by (simp add: fetch_def evaluate_answering)
qed

text \<open>The invoices of the list are those the single reads show.\<close>

lemma list_answering:
  assumes "answering (env_net env)" "reachable (srv_ledger s)"
  shows "\<exists>ps os ys. read_all env ct QGetAllProjects dec_Project s = Inr ps
    \<and> read_all env ct QGetAllBusinessOrganizations dec_BusinessOrganization s = Inr os
    \<and> GetAllInvoices (peer env ct s) = Inr ys
    \<and> set ys = {y. ReadInvoice (peer env ct s) (inv_ID y) = Inr y}
    \<and> (\<forall>i y. ReadInvoice (peer env ct s) i = Inr y \<longrightarrow> inv_ID y = i \<and> i \<noteq> [])"
proof -
  note t = reachable_typed [OF assms(2)] and h = peer_facts [OF assms(1), of ct s]
  obtain ps os ys where g: "GetAllProjects (peer env ct s) = Inr ps" "GetAllBusinessOrganizations (peer env ct s) = Inr os"
    "GetAllInvoices (peer env ct s) = Inr ys"
    and ys: "set ys = {x. \<exists>i. stored (srv_ledger s) dec_Invoice (invoiceKey i) x}"
    using GetAllProjects_complete [OF h(2)] GetAllBusinessOrganizations_complete [OF h(2)] GetAllInvoices_complete [OF h(2)] t h(1)
    by auto
  have read: "ReadInvoice (peer env ct s) i = Inr y \<longleftrightarrow> stored (srv_ledger s) dec_Invoice (invoiceKey i) y" for i y
    using h by (simp add: read_inv healthy_def)
  have ident: "inv_ID y = i \<and> i \<noteq> []" if "ReadInvoice (peer env ct s) i = Inr y" for i y
    using typed_ReadInvoice [OF that] t h(1) invoice_ok_def [of y] by auto
  have "read_all env ct QGetAllProjects dec_Project s = Inr ps"
    "read_all env ct QGetAllBusinessOrganizations dec_BusinessOrganization s = Inr os"
    using assms(1) g(1,2) by (auto intro!: read_all_answered simp: answering_def peer_def)
  moreover have "set ys = {y. ReadInvoice (peer env ct s) (inv_ID y) = Inr y}"
    using ys ident unfolding read by blast
  ultimately show ?thesis using g(3) ident by blast
qed

lemma shown_in_list:
  assumes "set ys = {y. ReadInvoice ctx (inv_ID y) = Inr y}"
  shows "x \<in> set (List.map_filter (shown prin ctx projects organizations) ys)
    \<longleftrightarrow> (\<exists>y. ReadInvoice ctx (inv_ID x) = Inr y \<and> shown prin ctx projects organizations y = Some x)"
proof -
  let ?f = "shown prin ctx projects organizations"
  have "x \<in> set (List.map_filter ?f ys) \<longleftrightarrow> (\<exists>y \<in> set ys. ?f y = Some x)" by (force simp: map_filter_def)
  also have "\<dots> \<longleftrightarrow> (\<exists>y. ReadInvoice ctx (inv_ID y) = Inr y \<and> ?f y = Some x)" using assms by blast
  also have "\<dots> \<longleftrightarrow> (\<exists>y. ReadInvoice ctx (inv_ID x) = Inr y \<and> ?f y = Some x)"
    by (rule iff_exI) (metis shown_ID)
  finally show ?thesis .
qed

lemma list_route: "lookup_route RegisterRoutes ''GET'' [''invoices''] = Some ([''invoices''], Session, getInvoices)"
  by (simp add: RegisterRoutes_def Let_def)

text \<open>The two requests, for a session whose contract is at hand.\<close>

abbreviation context_of :: "request \<Rightarrow> Principal \<Rightarrow> string \<Rightarrow> gin" where
  "context_of req prin i \<equiv> \<lparr>gin_request = req\<lparr>rq_id := i\<rparr>, gin_principal = Some prin\<rparr>"

lemma serve_session:
  assumes "session_of s req = Some prin" "contractOf env (prc_MSPID prin) s = (Inr ct, t)"
  shows "Require (srv_auth s) (srv_host s) \<lparr>gin_request = req\<lparr>rq_id := i\<rparr>, gin_principal = None\<rparr> = Inr (context_of req prin i)"
    "contractForRequest env (context_of req prin i) s = (Inr ct, t)"
  using assms by (simp_all add: Require_def session_of_def contractForRequest_def PrincipalFromContext_def)

lemma serve_one:
  assumes "session_of s req = Some prin" "contractOf env (prc_MSPID prin) s = (Inr ct, t)" "i \<noteq> []"
  shows "serve env ''GET'' [''invoices'', i] req s = (case read_visible env (context_of req prin i) ct t of Inl r \<Rightarrow> (r, t)
      | Inr x \<Rightarrow> (reply 200 (enc_ApiInvoice x), t))"
  using assms(3) serve_session [OF assms(1,2)]
  by (simp add: serve_def invoice_route getInvoice_def readInvoice_def split: sum.split)

lemma serve_all:
  assumes "session_of s req = Some prin" "contractOf env (prc_MSPID prin) s = (Inr ct, t)"
    and "answering (env_net env)" "typed (srv_ledger t)" "GetAllInvoices (peer env ct t) = Inr ys"
    and "read_all env ct QGetAllProjects dec_Project t = Inr ps"
    and "read_all env ct QGetAllBusinessOrganizations dec_BusinessOrganization t = Inr os"
  shows "serve env ''GET'' [''invoices''] req s = (reply 200 (list_reply env (context_of req prin []) (hst_now (srv_host t))
      (List.map_filter (shown prin (peer env ct t) (by_id prj_ID ps) (by_id org_ID os)) ys)), t)"
  using assms(6,7) serve_session [OF assms(1,2)] fetch_all_invoices [OF assms(3,5)] visible_invoices_answering [OF assms(3,4)]
  by (simp add: serve_def list_route getInvoices_def withContract_def readAllProjects_def readAllOrganizations_def
      orTransactionError_def the_principal_def PrincipalFromContext_def)

lemma read_visible_error: "read_visible env c ct t = Inl e \<Longrightarrow> rsp_status e \<noteq> 200"
  by (auto simp: read_visible_def fetch_def orTransactionError_def transactionError_def serverError_def
      split: sum.splits option.splits if_splits)

text \<open>
  C32. The list and the single reads agree: on a network that answers, a session gets in the list (paged,
  newest first, filtered by its keyword) exactly the invoices it is shown one by one, with the same
  content.
\<close>

theorem list_shows_what_single_reads_show:
  assumes "answering (env_net env)" "reachable (srv_ledger s)" "gateways_ok (srv_gate s)"
    and "session_of s req = Some prin" "contractOf env (prc_MSPID prin) s = (Inr ct, t)"
  shows "\<exists>readable c. gin_request c = req\<lparr>rq_id := []\<rparr>
    \<and> serve env ''GET'' [''invoices''] req s = (reply 200 (list_reply env c (hst_now (srv_host s)) readable), t)
    \<and> (\<forall>x \<in> set readable. serve env ''GET'' [''invoices'', inv_ID x] req s = (reply 200 (enc_ApiInvoice x), t))
    \<and> (\<forall>i r s'. serve env ''GET'' [''invoices'', i] req s = (r, s') \<and> rsp_status r = 200 \<longrightarrow>
         (\<exists>x \<in> set readable. inv_ID x = i \<and> r = reply 200 (enc_ApiInvoice x)))"
proof -
  have t: "srv_ledger t = srv_ledger s" "hst_now (srv_host t) = hst_now (srv_host s)"
    using contractOf_same [OF same_refl [OF assms(3)] assms(5)] by (simp_all add: same_def)
  note typed = reachable_typed [OF assms(2), folded t(1)]
  obtain ps os ys where ps: "read_all env ct QGetAllProjects dec_Project t = Inr ps"
    and os: "read_all env ct QGetAllBusinessOrganizations dec_BusinessOrganization t = Inr os"
    and ys: "GetAllInvoices (peer env ct t) = Inr ys" "set ys = {y. ReadInvoice (peer env ct t) (inv_ID y) = Inr y}"
    and ident: "\<forall>i y. ReadInvoice (peer env ct t) i = Inr y \<longrightarrow> inv_ID y = i \<and> i \<noteq> []"
    using list_answering [of env t ct] assms(1,2) t(1) by auto
  let ?shown = "shown prin (peer env ct t) (by_id prj_ID ps) (by_id org_ID os)"
  let ?readable = "List.map_filter ?shown ys"
  have vis: "read_visible env (context_of req prin i) ct t = Inr x
      \<longleftrightarrow> (\<exists>y. ReadInvoice (peer env ct t) i = Inr y \<and> ?shown y = Some x)" for i x
    using read_visible_answering [OF assms(1) typed _ ps os, of "context_of req prin i" prin x] by simp
  have mem: "x \<in> set ?readable \<longleftrightarrow> read_visible env (context_of req prin (inv_ID x)) ct t = Inr x" for x
    unfolding vis by (rule shown_in_list [OF ys(2)])
  have own: "inv_ID x = i \<and> i \<noteq> []" if val: "read_visible env (context_of req prin i) ct t = Inr x" for i x
    using val ident shown_ID unfolding vis by metis
  have one: "serve env ''GET'' [''invoices'', inv_ID x] req s = (reply 200 (enc_ApiInvoice x), t)" if x: "x \<in> set ?readable" for x
  proof -
    have v: "read_visible env (context_of req prin (inv_ID x)) ct t = Inr x" using x by (simp only: mem)
    with own have "inv_ID x \<noteq> []" by blast
    from serve_one [OF assms(4,5) this] v show ?thesis by simp
  qed
  have only: "\<exists>x \<in> set ?readable. inv_ID x = i \<and> r = reply 200 (enc_ApiInvoice x)"
    if r: "serve env ''GET'' [''invoices'', i] req s = (r, s')" "rsp_status r = 200" for i r s'
  proof -
    have "i \<noteq> []" using r by (auto simp: serve_def no_invoice_route)
    note served = serve_one [OF assms(4,5) this]
    then obtain x where x: "read_visible env (context_of req prin i) ct t = Inr x" "r = reply 200 (enc_ApiInvoice x)"
      using r read_visible_error by (fastforce split: sum.splits)
    with own have "inv_ID x = i" by blast
    with x have "x \<in> set ?readable" by (simp only: mem)
    with \<open>inv_ID x = i\<close> x(2) show ?thesis by blast
  qed
  show ?thesis
    using serve_all [OF assms(4,5,1) typed ys(1) ps os] one only
    by (intro exI [of _ ?readable] exI [of _ "context_of req prin []"]) (auto simp: t(2))
qed

lemma demo_answering: "answering (env_net (demo_env tx))"
  by (simp add: answering_def demo_lists_ok) (simp add: demo_env_def demo_net_def)

theorem list_shows_what_single_reads_show_witness:
  "\<exists>readable c t. serve (demo_env ''w'') ''GET'' [''invoices''] (demo_request (Raw [])) (demo_server (''auditor'', ''Org1MSP'', ''AUDITOR'') l8)
      = (reply 200 (list_reply (demo_env ''w'') c (hst_now demo_host) readable), t)
    \<and> (\<exists>x \<in> set readable. inv_ID x = ''i'')"
proof -
  let ?a = "(''auditor'', ''Org1MSP'', ''AUDITOR'')"
  let ?s = "demo_server ?a l8"
  obtain ct where ct: "contractOf (demo_env ''w'') ''Org1MSP'' ?s = (Inr ct, ?s)"
    using demo_contract [of "''Org1MSP''"] by blast
  have "session_of ?s (demo_request (Raw [])) = Some (demo_principal ?a)" by (simp add: demo_session)
  moreover have "prc_MSPID (demo_principal ?a) = ''Org1MSP''" by (simp add: demo_principal_def)
  moreover obtain r s' where "serve (demo_env ''w'') ''GET'' [''invoices'', ''i''] (demo_request (Raw [])) ?s = (r, s')"
    "rsp_status r = 200" using demo_view by blast
  ultimately show ?thesis
    using list_shows_what_single_reads_show [where env = "demo_env ''w''" and s = ?s and t = ?s and ct = ct
        and req = "demo_request (Raw [])" and prin = "demo_principal ?a"] demo_answering [of "''w''"]
      ct demo_gate_ok demo_reachable(8) by (auto simp: demo_server_def) metis
qed

end
