(* ===== verification/ProjectViews.thy ===== *)
theory ProjectViews
  imports Agreement
begin

text \<open>
  What a session sees of projects: the lists of projects and reimbursements are exactly the visible ones,
  and the data below a project are shown only to those who see it. Visibility is a relation of the
  principal and the ledger: the maps the handlers build agree with what is stored.
\<close>

section \<open>The maps of the handlers\<close>

definition organization_at :: "ledger \<Rightarrow> string \<Rightarrow> BusinessOrganization option" where
  "organization_at l i = (case get_kv l (organizationKey i) of
     Some (Doc j) \<Rightarrow> (case dec_BusinessOrganization j of Inr x \<Rightarrow> Some x | Inl _ \<Rightarrow> None) | _ \<Rightarrow> None)"

lemma organization_at_Some: "organization_at l i = Some x \<longleftrightarrow> stored l dec_BusinessOrganization (organizationKey i) x"
  by (auto simp: organization_at_def stored_def split: option.splits blob.splits sum.splits)

text \<open>The principal sees the project stored under the identifier.\<close>

definition sees :: "Principal \<Rightarrow> ledger \<Rightarrow> string \<Rightarrow> bool" where
  "sees prin l i \<longleftrightarrow> (\<exists>p. stored l dec_Project (projectKey i) p \<and> projectVisibleTo prin p (organization_at l))"

lemma by_id_stored:
  assumes "set xs = {x. \<exists>i. stored l dec (key i) x}" "\<And>i x. stored l dec (key i) x \<Longrightarrow> ident x = i"
  shows "by_id ident xs i = Some x \<longleftrightarrow> stored l dec (key i) x"
proof -
  have only: "stored l dec (key i) y" if "by_id ident xs i = Some y" for y
  proof -
    have "(i, y) \<in> set (rev (map (\<lambda>x. (ident x, x)) xs))" using that unfolding by_id_def by (rule map_of_SomeD)
    then obtain j where "stored l dec (key j) y" "ident y = i" using assms(1) by auto
    with assms(2) show ?thesis by metis
  qed
  moreover have "by_id ident xs i = Some x" if st: "stored l dec (key i) x"
  proof -
    have "x \<in> set xs" "ident x = i" using assms st by blast+
    then have "i \<in> fst ` set (rev (map (\<lambda>x. (ident x, x)) xs))" by force
    then obtain y where "by_id ident xs i = Some y"
      unfolding by_id_def by (metis map_of_eq_None_iff not_None_eq)
    with only stored_unique st show ?thesis by metis
  qed
  ultimately show ?thesis by blast
qed

text \<open>No copy of a project under a padded key (a call with a padded identifier can store one).\<close>

definition unpadded :: "ledger \<Rightarrow> bool" where
  "unpadded l \<longleftrightarrow> (\<forall>i p. stored l dec_Project (projectKey i) p \<longrightarrow> TrimSpace i = i)"

lemma stored_entry:
  "stored l dec k x \<Longrightarrow> typed l \<Longrightarrow> \<exists>j. entry_ok k (Doc j) \<and> dec j = Inr x"
  by (auto simp: stored_def dest: typed_entry)

text \<open>What the lists of a network that answers contain.\<close>

lemma fetch_list:
  assumes "answering (env_net env)" "answer (env_net env) (peer env ct s) q = list_payload (env_net env) enc (Inr xs)"
    and "\<And>x. dec (enc x) = Inr x"
  shows "fetch env ct q (decodeList dec) s = Inr xs"
proof -
  obtain payload where p: "list_payload (env_net env) enc (Inr xs) = Inr payload" by (simp add: list_payload_def)
  have "lists_ok (env_net env)" using assms(1) by (simp add: answering_def)
  then have "decodeList dec payload = Inr (map id xs)"
    by (rule decodeList_answer [where enc = enc]) (use p assms(3) in simp_all)
  with p assms(1,2) show ?thesis by (simp add: fetch_def evaluate_answering)
qed

lemma listed_projects:
  assumes "answering (env_net env)" "reachable (srv_ledger s)"
  obtains ps where "fetch env ct QGetAllProjects (decodeList dec_Project) s = Inr ps"
    "readAllProjects env ct s = Inr ps" "set ps = {p. \<exists>i. stored (srv_ledger s) dec_Project (projectKey i) p}"
    "\<And>i p. unpadded (srv_ledger s) \<Longrightarrow> by_id prj_ID ps i = Some p \<longleftrightarrow> stored (srv_ledger s) dec_Project (projectKey i) p"
proof -
  note t = reachable_typed [OF assms(2)] and h = peer_facts [OF assms(1), of ct s]
  obtain ps where ps: "GetAllProjects (peer env ct s) = Inr ps" "set ps = {p. \<exists>i. stored (srv_ledger s) dec_Project (projectKey i) p}"
    using GetAllProjects_complete [OF h(2)] t h(1) by auto
  have own: "prj_ID p = i" if "unpadded (srv_ledger s)" "stored (srv_ledger s) dec_Project (projectKey i) p" for i p
    using that stored_entry [OF that(2) t] by (auto simp: unpadded_def)
  have "fetch env ct QGetAllProjects (decodeList dec_Project) s = Inr ps"
    by (rule fetch_list [OF assms(1), where enc = enc_Project]) (simp_all add: ps(1))
  moreover have "readAllProjects env ct s = Inr ps"
    using assms(1) ps(1) unfolding readAllProjects_def by (auto intro!: read_all_answered simp: answering_def peer_def)
  moreover have "by_id prj_ID ps i = Some p \<longleftrightarrow> stored (srv_ledger s) dec_Project (projectKey i) p"
    if "unpadded (srv_ledger s)" for i p
    by (rule by_id_stored [OF ps(2)]) (rule own [OF that])
  ultimately show thesis using that ps(2) by blast
qed

lemma listed_organizations:
  assumes "answering (env_net env)" "reachable (srv_ledger s)"
  shows "readAllOrganizations env ct s = Inr (organization_at (srv_ledger s))"
proof -
  note t = reachable_typed [OF assms(2)] and h = peer_facts [OF assms(1), of ct s]
  obtain os where os: "GetAllBusinessOrganizations (peer env ct s) = Inr os"
    "set os = {x. \<exists>i. stored (srv_ledger s) dec_BusinessOrganization (organizationKey i) x}"
    using GetAllBusinessOrganizations_complete [OF h(2)] t h(1) by auto
  have own: "org_ID x = i" if "stored (srv_ledger s) dec_BusinessOrganization (organizationKey i) x" for i x
    using stored_entry [OF that t] by auto
  have "by_id org_ID os i = Some x \<longleftrightarrow> organization_at (srv_ledger s) i = Some x" for i x
    unfolding organization_at_Some by (rule by_id_stored [OF os(2)]) (rule own)
  then have "by_id org_ID os = organization_at (srv_ledger s)"
    by (intro ext) (metis option.exhaust)
  moreover have "read_all env ct QGetAllBusinessOrganizations dec_BusinessOrganization s = Inr os"
    using assms(1) os(1) by (auto intro!: read_all_answered simp: answering_def peer_def)
  ultimately show ?thesis by (simp add: readAllOrganizations_def)
qed

lemma read_project:
  assumes "answering (env_net env)"
  shows "fetch env ct (QReadProject i) (Unmarshal dec_Project) s = Inr p
      \<longleftrightarrow> stored (srv_ledger s) dec_Project (projectKey (TrimSpace i)) p"
    and "fetch env ct (QReadProject i) (Unmarshal dec_Project) s = Inl r \<Longrightarrow> rsp_status r = 422"
proof -
  note h = peer_facts [OF assms, of ct s]
  have read: "ReadProject (peer env ct s) i = Inr p \<longleftrightarrow> stored (srv_ledger s) dec_Project (projectKey (TrimSpace i)) p" for p
    using h by (simp add: read_inv healthy_def)
  show "fetch env ct (QReadProject i) (Unmarshal dec_Project) s = Inr p
      \<longleftrightarrow> stored (srv_ledger s) dec_Project (projectKey (TrimSpace i)) p"
    unfolding read [symmetric]
    by (cases "ReadProject (peer env ct s) i") (simp_all add: fetch_def evaluate_answering [OF assms] doc_payload_def)
  show "rsp_status r = 422" if "fetch env ct (QReadProject i) (Unmarshal dec_Project) s = Inl r"
    using that by (cases "ReadProject (peer env ct s) i")
      (auto simp: fetch_def evaluate_answering [OF assms] doc_payload_def transactionError_def)
qed

lemma project_routes:
  "lookup_route RegisterRoutes ''GET'' [''projects''] = Some ([''projects''], Session, getProjects)"
  "lookup_route RegisterRoutes ''GET'' [''reimbursements''] = Some ([''reimbursements''], Session, getReimbursements)"
  "i \<noteq> [] \<Longrightarrow> lookup_route RegisterRoutes ''GET'' [''projects'', i, ''invoices''] = Some ([''projects'', '':id'', ''invoices''], Session, getProjectInvoices)"
  "i \<noteq> [] \<Longrightarrow> lookup_route RegisterRoutes ''GET'' [''projects'', i, ''events''] = Some ([''projects'', '':id'', ''events''], Session, getProjectEvents)"
  "i \<noteq> [] \<Longrightarrow> lookup_route RegisterRoutes ''GET'' [''projects'', i, ''members''] = Some ([''projects'', '':id'', ''members''], Session, getProjectMembers)"
  by (simp_all add: RegisterRoutes_def Let_def)

section \<open>The handlers on a network that answers\<close>

lemma projects_shown:
  assumes "answering (env_net env)" "reachable (srv_ledger t)"
    and "session_of s req = Some prin" "contractOf env (prc_MSPID prin) s = (Inr ct, t)"
  shows "\<exists>ps. serve env ''GET'' [''projects''] req s = (reply 200 (json_list enc_Project ps), t)
    \<and> set ps = {p. (\<exists>i. stored (srv_ledger t) dec_Project (projectKey i) p) \<and> projectVisibleTo prin p (organization_at (srv_ledger t))}"
proof -
  obtain ps where "fetch env ct QGetAllProjects (decodeList dec_Project) t = Inr ps"
    "set ps = {p. \<exists>i. stored (srv_ledger t) dec_Project (projectKey i) p}"
    using listed_projects [OF assms(1,2)] by metis
  then show ?thesis
    using serve_session [OF assms(3,4), of "[]"] listed_organizations [OF assms(1,2), of ct]
    by (intro exI [of _ "filter (\<lambda>p. projectVisibleTo prin p (organization_at (srv_ledger t))) ps"])
      (auto simp: serve_def project_routes getProjects_def withContract_def orTransactionError_def the_principal_def
        PrincipalFromContext_def)
qed

lemma reimbursements_shown:
  assumes "answering (env_net env)" "reachable (srv_ledger t)" "unpadded (srv_ledger t)"
    and "session_of s req = Some prin" "contractOf env (prc_MSPID prin) s = (Inr ct, t)"
  shows "\<exists>rs. serve env ''GET'' [''reimbursements''] req s = (reply 200 (json_list enc_Reimbursement rs), t)
    \<and> set rs = {r. (\<exists>i. stored (srv_ledger t) dec_Reimbursement (reimbursementKey i) r) \<and> sees prin (srv_ledger t) (rmb_ProjectID r)}"
proof -
  note h = peer_facts [OF assms(1), of ct t] and typed = reachable_typed [OF assms(2)]
  have session: "the_principal (context_of req prin []) = prin" by (simp add: the_principal_def PrincipalFromContext_def)
  obtain ps where ps: "readAllProjects env ct t = Inr ps"
    "\<And>i p. by_id prj_ID ps i = Some p \<longleftrightarrow> stored (srv_ledger t) dec_Project (projectKey i) p"
    using listed_projects [OF assms(1,2)] assms(3) by metis
  obtain rs where rs: "GetAllReimbursements (peer env ct t) = Inr rs"
    "set rs = {r. \<exists>i. stored (srv_ledger t) dec_Reimbursement (reimbursementKey i) r}"
    using GetAllReimbursements_complete [OF h(2)] typed h(1) by auto
  have fetched: "fetch env ct QGetAllReimbursements (decodeList dec_Reimbursement) t = Inr rs"
    by (rule fetch_list [OF assms(1), where enc = enc_Reimbursement]) (simp_all add: rs(1))
  let ?keep = "\<lambda>r. case by_id prj_ID ps (rmb_ProjectID r) of None \<Rightarrow> False
      | Some p \<Rightarrow> projectVisibleTo prin p (organization_at (srv_ledger t))"
  have keep: "?keep r \<longleftrightarrow> sees prin (srv_ledger t) (rmb_ProjectID r)" for r
    unfolding sees_def ps(2) [symmetric] by (auto split: option.splits)
  have "serve env ''GET'' [''reimbursements''] req s = (reply 200 (json_list enc_Reimbursement (filter ?keep rs)), t)"
    using serve_session [OF assms(4,5), of "[]"] listed_organizations [OF assms(1,2), of ct] fetched ps(1)
    by (simp add: serve_def project_routes getReimbursements_def withContract_def orTransactionError_def session
        PrincipalFromContext_def cong: option.case_cong)
  moreover have "set (filter ?keep rs) = {r. (\<exists>i. stored (srv_ledger t) dec_Reimbursement (reimbursementKey i) r)
      \<and> sees prin (srv_ledger t) (rmb_ProjectID r)}"
    unfolding keep using rs(2) by auto
  ultimately show ?thesis by blast
qed

lemma project_invoices_shown:
  assumes "answering (env_net env)" "reachable (srv_ledger t)"
    and "session_of s req = Some prin" "contractOf env (prc_MSPID prin) s = (Inr ct, t)"
    and "sees prin (srv_ledger t) (TrimSpace i)" "i \<noteq> []"
  shows "\<exists>xs. serve env ''GET'' [''projects'', i, ''invoices''] req s = (reply 200 (json_list enc_ApiInvoice (map unmarked xs)), t)
    \<and> set xs = {x. (\<exists>j. stored (srv_ledger t) dec_Invoice (invoiceKey j) x) \<and> inv_ProjectID x = TrimSpace i}"
proof -
  note h = peer_facts [OF assms(1), of ct t] and typed = reachable_typed [OF assms(2)]
  obtain p where p: "stored (srv_ledger t) dec_Project (projectKey (TrimSpace i)) p"
    "projectVisibleTo prin p (organization_at (srv_ledger t))" using assms(5) by (auto simp: sees_def)
  have own: "prj_ID p = TrimSpace i" using stored_entry [OF p(1) typed] by auto
  have fetched: "fetch env ct (QReadProject i) (Unmarshal dec_Project) t = Inr p"
    using p(1) read_project(1) [OF assms(1)] by blast
  obtain ys where ys: "GetAllInvoices (peer env ct t) = Inr ys"
    "set ys = {x. \<exists>j. stored (srv_ledger t) dec_Invoice (invoiceKey j) x}"
    using GetAllInvoices_complete [OF h(2)] typed h(1) by auto
  have project: "inv_ProjectID (unmarked y) = inv_ProjectID y" for y by (simp add: Invoice.defs)
  then have "filter (\<lambda>x. inv_ProjectID x = prj_ID p) (map unmarked ys) = map unmarked (filter (\<lambda>y. inv_ProjectID y = prj_ID p) ys)"
    by (simp add: filter_map comp_def)
  with fetched p(2) serve_session [OF assms(3,4), of i] listed_organizations [OF assms(1,2), of ct] fetch_all_invoices [OF assms(1) ys(1)]
  have "serve env ''GET'' [''projects'', i, ''invoices''] req s
      = (reply 200 (json_list enc_ApiInvoice (map unmarked (filter (\<lambda>y. inv_ProjectID y = prj_ID p) ys))), t)"
    using assms(6)
    by (simp add: serve_def project_routes getProjectInvoices_def withContract_def orServerError_def the_principal_def
        PrincipalFromContext_def)
  then show ?thesis
    using ys(2) by (intro exI [of _ "filter (\<lambda>y. inv_ProjectID y = prj_ID p) ys"]) (auto simp: own)
qed

lemma project_parts_refused:
  assumes "answering (env_net env)" "reachable (srv_ledger t)"
    and "session_of s req = Some prin" "contractOf env (prc_MSPID prin) s = (Inr ct, t)"
    and "\<not> sees prin (srv_ledger t) (TrimSpace i)" "i \<noteq> []" "part \<in> {''invoices'', ''events'', ''members''}"
  shows "rsp_status (fst (serve env ''GET'' [''projects'', i, part] req s)) \<in> {403, 422}
    \<and> snd (serve env ''GET'' [''projects'', i, part] req s) = t"
proof -
  note own = serve_session [OF assms(3,4), of i] listed_organizations [OF assms(1,2), of ct]
  note defs = serve_def project_routes getProjectInvoices_def getProjectEvents_def getProjectMembers_def withContract_def
    orServerError_def orTransactionError_def the_principal_def PrincipalFromContext_def
  show ?thesis
  proof (cases "fetch env ct (QReadProject i) (Unmarshal dec_Project) t")
    case (Inl r)
    with read_project(2) [OF assms(1)] have "rsp_status r = 422" by blast
    with Inl own assms(6,7) show ?thesis by (auto simp: defs)
  next
    case (Inr p)
    then have "\<not> projectVisibleTo prin p (organization_at (srv_ledger t))"
      using assms(5) read_project(1) [OF assms(1)] by (auto simp: sees_def)
    with Inr own assms(6,7) show ?thesis by (auto simp: defs)
  qed
qed

text \<open>
  C33. What a session sees of projects follows its scope: on a network that answers (and a ledger without
  padded copies) the list of projects contains exactly the stored projects that are visible to it, the
  list of reimbursements exactly those of visible projects; below a project it gets exactly the
  project's invoices if it sees the project, and otherwise neither invoices nor events nor members.
\<close>

theorem project_data_follow_visibility:
  assumes "answering (env_net env)" "reachable (srv_ledger s)" "gateways_ok (srv_gate s)" "unpadded (srv_ledger s)"
    and "session_of s req = Some prin" "contractOf env (prc_MSPID prin) s = (Inr ct, t)"
  shows "(\<exists>ps. serve env ''GET'' [''projects''] req s = (reply 200 (json_list enc_Project ps), t)
      \<and> set ps = {p. (\<exists>i. stored (srv_ledger s) dec_Project (projectKey i) p) \<and> projectVisibleTo prin p (organization_at (srv_ledger s))})
    \<and> (\<exists>rs. serve env ''GET'' [''reimbursements''] req s = (reply 200 (json_list enc_Reimbursement rs), t)
      \<and> set rs = {r. (\<exists>i. stored (srv_ledger s) dec_Reimbursement (reimbursementKey i) r) \<and> sees prin (srv_ledger s) (rmb_ProjectID r)})
    \<and> (\<forall>i. i \<noteq> [] \<longrightarrow>
        (if sees prin (srv_ledger s) (TrimSpace i)
         then \<exists>xs. serve env ''GET'' [''projects'', i, ''invoices''] req s = (reply 200 (json_list enc_ApiInvoice (map unmarked xs)), t)
           \<and> set xs = {x. (\<exists>j. stored (srv_ledger s) dec_Invoice (invoiceKey j) x) \<and> inv_ProjectID x = TrimSpace i}
         else \<forall>part \<in> {''invoices'', ''events'', ''members''}.
           rsp_status (fst (serve env ''GET'' [''projects'', i, part] req s)) \<in> {403, 422}))"
proof -
  have t: "srv_ledger t = srv_ledger s"
    using contractOf_same [OF same_refl [OF assms(3)] assms(6)] by (simp add: same_def)
  have ok: "reachable (srv_ledger t)" "unpadded (srv_ledger t)" using assms(2,4) by (simp_all add: t)
  show ?thesis
    using projects_shown [OF assms(1) ok(1) assms(5,6)] reimbursements_shown [OF assms(1) ok assms(5,6)]
      project_invoices_shown [OF assms(1) ok(1) assms(5,6)] project_parts_refused [OF assms(1) ok(1) assms(5,6)]
    unfolding t by (intro conjI allI impI; simp split: if_split; blast?)
qed

lemma demo_claimed:
  "stored l9 dec_Project (projectKey ''p'') demo_settling"
  "stored l9 dec_Reimbursement (reimbursementKey ''r'') demo_reimbursement"
  "stored l9 dec_Invoice (invoiceKey ''i'') demo_invoice"
  "rmb_ProjectID demo_reimbursement = ''p''" "inv_ProjectID demo_invoice = ''p''"
  by (simp_all add: stored_def demo_states demo_reimbursement_def demo_invoice_def)

lemma demo_unpadded: "unpadded l9"
  by (simp add: unpadded_def stored_def demo_states play)

theorem project_data_follow_visibility_witness:
  "(\<exists>rs. serve (demo_env ''w'') ''GET'' [''reimbursements''] (demo_request (Raw [])) (demo_server (''auditor'', ''Org1MSP'', ''AUDITOR'') l9)
      = (reply 200 (json_list enc_Reimbursement rs), demo_server (''auditor'', ''Org1MSP'', ''AUDITOR'') l9) \<and> demo_reimbursement \<in> set rs)
    \<and> (\<exists>xs. serve (demo_env ''w'') ''GET'' [''projects'', ''p'', ''invoices''] (demo_request (Raw [])) (demo_server (''auditor'', ''Org1MSP'', ''AUDITOR'') l9)
      = (reply 200 (json_list enc_ApiInvoice (map unmarked xs)), demo_server (''auditor'', ''Org1MSP'', ''AUDITOR'') l9) \<and> demo_invoice \<in> set xs)"
proof -
  let ?a = "(''auditor'', ''Org1MSP'', ''AUDITOR'')"
  let ?s = "demo_server ?a l9" and ?req = "demo_request (Raw [])" and ?prin = "demo_principal ?a"
  have "prc_MSPID ?prin = ''Org1MSP''" by (simp add: demo_principal_def)
  then obtain ct where ct: "contractOf (demo_env ''w'') (prc_MSPID ?prin) ?s = (Inr ct, ?s)"
    using demo_contract [of "''Org1MSP''" "demo_env ''w''" ?a l9] by auto
  have gate: "gateways_ok (srv_gate ?s)" using demo_gate_ok by simp
  have reach: "reachable (srv_ledger ?s)" using demo_reachable(9) by simp
  have unpadded: "unpadded (srv_ledger ?s)" using demo_unpadded by simp
  have session: "session_of ?s ?req = Some ?prin" by (rule demo_session)
  note all = project_data_follow_visibility [OF demo_answering reach gate unpadded session ct]
  have "hasBootstrapDirectoryAccess ?prin" by (simp add: hasBootstrapDirectoryAccess_def demo_principal_def)
  then have seen: "sees ?prin l9 ''p''" using demo_claimed(1) by (auto simp: sees_def projectVisibleTo_def)
  obtain rs where rs: "serve (demo_env ''w'') ''GET'' [''reimbursements''] ?req ?s = (reply 200 (json_list enc_Reimbursement rs), ?s)"
    "set rs = {r. (\<exists>i. stored l9 dec_Reimbursement (reimbursementKey i) r) \<and> sees ?prin l9 (rmb_ProjectID r)}"
    using all by auto
  have "demo_reimbursement \<in> set rs" using rs(2) demo_claimed(2,4) seen by auto
  moreover have "TrimSpace ''p'' = ''p''" by (simp add: play)
  with all seen obtain xs where xs: "serve (demo_env ''w'') ''GET'' [''projects'', ''p'', ''invoices''] ?req ?s
      = (reply 200 (json_list enc_ApiInvoice (map unmarked xs)), ?s)"
    "set xs = {x. (\<exists>j. stored l9 dec_Invoice (invoiceKey j) x) \<and> inv_ProjectID x = ''p''}"
    by (auto dest!: spec [of _ "''p''"])
  have "demo_invoice \<in> set xs" using xs(2) demo_claimed(3,5) by auto
  ultimately show ?thesis using rs(1) xs(1) by blast
qed

end
