(* ===== verification/Fingerprint.thy ===== *)
theory Fingerprint
  imports Portal JsonText
begin

text \<open>
  The content hash. The text that is hashed since version 2 is the JSON form of the printed content; that
  it is read back shows that it determines the content. The text of the legacy hash
  does not. An invoice recorded through the backend verifies with exactly the contents that have its
  hash.
\<close>

section \<open>The hashed text\<close>

definition printed :: "createInvoiceRequest \<Rightarrow> string list \<times> int64 \<times> int64" where
  "printed r = ([cir_InvoiceNo r, cir_IssueDate r, cir_Issuer r, cir_Buyer r, cir_BuyerMSPID r, cir_Currency r],
     cir_AmountCents r, cir_TaxCents r)"

lemma hash_input_printable:
  "list_all valid_utf8 (fst (printed r)) \<Longrightarrow> printable max_nesting (hash_input r)"
proof -
  have "list_all valid_utf8 [''version'', ''v2'', ''invoiceNo'', ''issueDate'', ''issuer'', ''buyer'', ''buyerMspId'',
      ''amountCents'', ''taxCents'', ''totalCents'', ''currency'']"
    by code_simp
  then show "list_all valid_utf8 (fst (printed r)) \<Longrightarrow> printable max_nesting (hash_input r)"
    by (simp add: hash_input_def printed_def JInt64_def max_nesting_def)
qed

text \<open>The printed document is read back, so its text determines it.\<close>

lemma hash_text_inject:
  assumes "list_all valid_utf8 (fst (printed r))" "list_all valid_utf8 (fst (printed q))"
    and "json_text (hash_input r) = json_text (hash_input q)"
  shows "printed r = printed q"
proof -
  have "hash_input r = hash_input q"
    using parse_json_text [OF hash_input_printable [OF assms(1)]] parse_json_text [OF hash_input_printable [OF assms(2)]]
    unfolding assms(3) by (metis option.inject)
  then show ?thesis by (simp add: hash_input_def printed_def)
qed

lemma hash_input_printed: "printed r = printed q \<Longrightarrow> invoiceHash r = invoiceHash q"
  by (simp add: printed_def invoiceHash_def hash_input_def)

section \<open>Comparing hashes\<close>

lemma hex_plain: "set (sha256_hex s) \<subseteq> Collect is_hex_digit"
  using sha256_hex_decodable [of s] by (auto simp: hex_decodable_def list_all_iff)

lemma fold_sha256_hex [simp]: "fold_case (sha256_hex s) = sha256_hex s"
proof -
  have "CHR 0xC4 \<notin> set (sha256_hex s)" "CHR 0xC5 \<notin> set (sha256_hex s)" "CHR 0xE2 \<notin> set (sha256_hex s)"
    using hex_plain [of s] by (auto simp: is_hex_digit_def)
  then have "fold_case (sha256_hex s) = ToLower (sha256_hex s)" by (metis fold_case_plain ToLower_plain)
  then show ?thesis by simp
qed

lemma TrimSpace_sha256_hex [simp]: "TrimSpace (sha256_hex s) = sha256_hex s"
  using hex_plain [of s] by (intro TrimSpace_same) (auto simp: is_hex_digit_def space1_def dest!: subsetD)

lemma EqualFold_sha256_hex [simp]: "EqualFold (sha256_hex s) (sha256_hex t) \<longleftrightarrow> sha256_hex s = sha256_hex t"
  by (simp add: EqualFold_def)

text \<open>The invoice a creation by the backend leaves in the ledger.\<close>

lemma created_invoice:
  assumes "wf_ledger (st_ledger ctx)" "invoke ctx (create_call r prin corr) = Inr ws" "TrimSpace (cir_ID r) = cir_ID r"
  shows "\<exists>x. stored (commit ws (st_ledger ctx)) dec_Invoice (invoiceKey (cir_ID r)) x \<and> inv_HashVersion x = ''v2''
    \<and> inv_DataHash x = invoiceHash r"
proof -
  from assms(2) obtain x ws' where ws: "ws = Put (invoiceKey (TrimSpace (cir_ID r))) (Doc (enc_Invoice x)) # ws'"
    and x: "inv_HashVersion x = ''v2''" "inv_DataHash x = invoiceHash r"
    and ws': "invoiceKey (TrimSpace (cir_ID r)) \<notin> write_key ` set ws'"
    by (auto simp: create_call_def invoiceHash_def dest!: CreateInvoice_effect)
  have "get_kv (commit ws (st_ledger ctx)) (invoiceKey (TrimSpace (cir_ID r))) = Some (Doc (enc_Invoice x))"
    using ws' assms(1) by (simp add: ws get_commit_other wf_put_kv get_put_kv)
  with x assms(3) show ?thesis by (auto simp: stored_def)
qed

text \<open>Whatever is called afterwards, the invoice is read with the facts it was recorded with.\<close>

lemma recorded_invoice:
  assumes "reachable (st_ledger ctx)" "invoke ctx (create_call r prin corr) = Inr ws" "TrimSpace (cir_ID r) = cir_ID r"
    and "run any_call (submit ctx (create_call r prin corr)) (st_ledger ctx')" "\<And>k. st_get_err ctx' k = None"
  obtains y where "ReadInvoice ctx' (cir_ID r) = Inr y" "inv_HashVersion y = ''v2''" "inv_DataHash y = invoiceHash r"
proof -
  have submit: "submit ctx (create_call r prin corr) = commit ws (st_ledger ctx)" using assms(2) by (rule submit_Inr)
  have after: "reachable (commit ws (st_ledger ctx))"
    using assms(1) run_step [of any_call "[]" ctx "create_call r prin corr"] by (simp add: reachable_def submit any_call_def)
  obtain x where x: "stored (commit ws (st_ledger ctx)) dec_Invoice (invoiceKey (cir_ID r)) x" "inv_HashVersion x = ''v2''"
    "inv_DataHash x = invoiceHash r"
    using created_invoice [OF typed_wf [OF reachable_typed [OF assms(1)]] assms(2,3)] by blast
  obtain y where y: "stored (st_ledger ctx') dec_Invoice (invoiceKey (cir_ID r)) y" "invoice_facts y = invoice_facts x"
    using invoice_facts_run [OF after _ x(1)] assms(4) unfolding submit by blast
  have "inv_HashVersion (invoice_facts z) = inv_HashVersion z" "inv_DataHash (invoice_facts z) = inv_DataHash z" for z
    by (simp_all add: invoice_facts_def)
  then have "inv_HashVersion y = inv_HashVersion x" "inv_DataHash y = inv_DataHash x" using y(2) by metis+
  moreover have "ReadInvoice ctx' (cir_ID r) = Inr y" using y(1) assms(3,5) by (simp add: ReadInvoice_Inr)
  ultimately show thesis using x that by simp
qed

section \<open>A concrete content\<close>

definition demo_content :: createInvoiceRequest where
  "demo_content = \<lparr>cir_AmountCents = 100, cir_Buyer = ''b'', cir_BuyerMSPID = ''Org2MSP'', cir_Currency = ''CNY'',
     cir_ID = ''i'', cir_InvoiceNo = ''n'', cir_IssueDate = ''2024-01-02'', cir_Issuer = ''a'', cir_ProjectID = ''p'',
     cir_TaxCents = 5\<rparr>"

definition demo_member :: Principal where
  "demo_member = \<lparr>prc_DisplayName = ''U'', prc_MSPID = ''Org1MSP'', prc_OrganizationID = [], prc_Role = ''PROJECT_MEMBER'',
     prc_Username = ''u''\<rparr>"

lemma demo_formats: "FormatInt 100 = ''100''" "FormatInt 5 = ''5''"
  by code_simp+

lemma demo_creates:
  "\<exists>ws. invoke (demo_ctx ''Org1MSP'' ''t8'' l7) (create_call demo_content demo_member []) = Inr ws"
  by (simp add: create_call_def demo_content_def demo_member_def demo_formats invoiceHash_def demo_states play play_all
      CreateInvoice_def check_linked_project_def check_correction_def checkedAddMoney_def InvoiceNumberExists_def
      cong: play_cong del: put_kv.simps)

section \<open>Properties\<close>

text \<open>
  C34. An invoice recorded by a request verifies for ever: after any later transactions the contract
  reads it under its identifier, declares the hash of a presented content matching exactly when it is
  the hash of the recorded content, which it is for every content that agrees in the printed fields,
  and valid exactly when the invoice is not voided besides. (The handlers trim or generate the
  identifier.)
\<close>

theorem recorded_invoice_verifies:
  assumes "reachable (st_ledger ctx)" "invoke ctx (create_call r prin corr) = Inr ws" "TrimSpace (cir_ID r) = cir_ID r"
    and "run any_call (submit ctx (create_call r prin corr)) (st_ledger ctx')" "\<And>k. st_get_err ctx' k = None"
  shows "\<exists>x res. ReadInvoice ctx' (cir_ID r) = Inr x \<and> inv_HashVersion x = ''v2''
    \<and> VerifyInvoice ctx' (cir_ID r) (invoiceHash (presented v)) = Inr res \<and> vr_Invoice res = x
    \<and> (vr_DataHashMatched res \<longleftrightarrow> invoiceHash (presented v) = invoiceHash r)
    \<and> (vr_Valid res \<longleftrightarrow> invoiceHash (presented v) = invoiceHash r \<and> inv_Status x \<noteq> ''VOIDED'')
    \<and> (printed (presented v) = printed r \<longrightarrow> invoiceHash (presented v) = invoiceHash r)"
proof -
  obtain x where "ReadInvoice ctx' (cir_ID r) = Inr x" "inv_HashVersion x = ''v2''" "inv_DataHash x = invoiceHash r"
    using recorded_invoice [OF assms] .
  then show ?thesis
    using hash_input_printed [of "presented v" r] by (simp add: VerifyInvoice_def Let_def invoiceHash_def)
qed

theorem recorded_invoice_verifies_witness:
  "\<exists>res. VerifyInvoice (demo_ctx ''Org2MSP'' ''w'' (submit (demo_ctx ''Org1MSP'' ''t8'' l7) (create_call demo_content demo_member [])))
      ''i'' (invoiceHash demo_content) = Inr res \<and> vr_DataHashMatched res"
proof -
  let ?v = "\<lparr>vfr_AmountCents = 100, vfr_Buyer = ''b'', vfr_BuyerMSPID = ''Org2MSP'', vfr_Currency = ''CNY'',
    vfr_InvoiceNo = ''n'', vfr_IssueDate = ''2024-01-02'', vfr_Issuer = ''a'', vfr_TaxCents = 5\<rparr>"
  let ?l = "submit (demo_ctx ''Org1MSP'' ''t8'' l7) (create_call demo_content demo_member [])"
  have r: "reachable (st_ledger (demo_ctx ''Org1MSP'' ''t8'' l7))" by (simp add: demo_ctx_simps demo_reachable)
  obtain ws where ws: "invoke (demo_ctx ''Org1MSP'' ''t8'' l7) (create_call demo_content demo_member []) = Inr ws"
    using demo_creates by blast
  have same: "printed (presented ?v) = printed demo_content"
    by (simp add: printed_def presented_def demo_content_def)
  have id: "cir_ID demo_content = ''i''" "TrimSpace (cir_ID demo_content) = cir_ID demo_content"
    by (simp_all add: demo_content_def play)
  have run: "run any_call ?l (st_ledger (demo_ctx ''Org2MSP'' ''w'' ?l))" by (simp add: demo_ctx_simps run_refl)
  have err: "st_get_err (demo_ctx ''Org2MSP'' ''w'' ?l) k = None" for k by (simp add: demo_ctx_def)
  from recorded_invoice_verifies [OF r ws id(2) run err, of ?v] same show ?thesis unfolding id(1) by metis
qed

text \<open>
  C35. The text that is hashed since version 2 determines every printed field, whatever characters the
  fields contain; the text of the legacy hash does not: two invoices of different parties share it, and
  with it their legacy hash.
\<close>

theorem content_hash_text_is_unambiguous:
  assumes "list_all valid_utf8 (fst (printed r))" "list_all valid_utf8 (fst (printed q))"
  shows "(json_text (hash_input r) = json_text (hash_input q) \<longleftrightarrow> printed r = printed q)
    \<and> (\<exists>x y. cir_Issuer x \<noteq> cir_Issuer y \<and> cir_Buyer x \<noteq> cir_Buyer y \<and> legacy_text x = legacy_text y
        \<and> invoiceHashLegacy x = invoiceHashLegacy y)"
proof -
  have "json_text (hash_input r) = json_text (hash_input q)" if "printed r = printed q"
    using that by (simp add: printed_def hash_input_def)
  moreover have "legacy_text (demo_content\<lparr>cir_Issuer := ''a|b'', cir_Buyer := ''c''\<rparr>)
      = legacy_text (demo_content\<lparr>cir_Issuer := ''a'', cir_Buyer := ''b|c''\<rparr>)"
    by (simp add: legacy_text_def)
  then have "\<exists>x y. cir_Issuer x \<noteq> cir_Issuer y \<and> cir_Buyer x \<noteq> cir_Buyer y \<and> legacy_text x = legacy_text y
      \<and> invoiceHashLegacy x = invoiceHashLegacy y"
    by (intro exI [of _ "demo_content\<lparr>cir_Issuer := ''a|b'', cir_Buyer := ''c''\<rparr>"]
        exI [of _ "demo_content\<lparr>cir_Issuer := ''a'', cir_Buyer := ''b|c''\<rparr>"]) (simp add: invoiceHashLegacy_def)
  ultimately show ?thesis using hash_text_inject [OF assms] by blast
qed

theorem content_hash_text_is_unambiguous_witness:
  "json_text (hash_input (demo_content\<lparr>cir_Issuer := ''a|b'', cir_Buyer := ''c''\<rparr>))
    \<noteq> json_text (hash_input (demo_content\<lparr>cir_Issuer := ''a'', cir_Buyer := ''b|c''\<rparr>))"
proof -
  have "list_all valid_utf8 [''n'', ''2024-01-02'', ''a|b'', ''c'', ''a'', ''b|c'', ''Org2MSP'', ''CNY'']" by code_simp
  then show ?thesis
    by (subst content_hash_text_is_unambiguous [THEN conjunct1]) (simp_all add: printed_def demo_content_def)
qed

end
