(* ===== verification/Typing.thy ===== *)
theory Typing
  imports Portal
begin

text \<open>
  The key families of the world state. Together with the typing of the entries it makes the ledger a
  typed store: every key belongs to one of twelve families, and what is stored under it has the form
  of that family.
\<close>

definition families :: "string set" where
  "families = {''INVOICE'', ''INVOICE_NUMBER'', ''FLOW'', ''TRANSFER_REQUEST'', ''VOID_REQUEST'', ''USER'', ''ORGANIZATION'',
     ''PROJECT'', ''PROJECT_MEMBER'', ''PROJECT_EVENT'', ''REIMBURSEMENT'', ''REIMBURSEMENT_INVOICE''}"

lemma invoke_families: "invoke ctx c = Inr ws \<Longrightarrow> writes_in families ws"
  by (cases c) (auto simp: families_def invoice_families_def dest!: families_directory families_invoice families_project
      families_reimbursement elim!: list.pred_mono_strong)

definition in_families :: "ledger \<Rightarrow> bool" where
  "in_families l \<longleftrightarrow> (\<forall>k b. get_kv l k = Some b \<longrightarrow> family k \<in> families)"

interpretation family: ledger_invariant any_call wf_ledger in_families
proof unfold_locales
  fix ctx c ws
  assume a: "wf_ledger (st_ledger ctx)" "in_families (st_ledger ctx)" "invoke ctx c = Inr ws"
  have "family k \<in> families" if "get_kv (commit ws (st_ledger ctx)) k = Some b" for k b
    using commit_cases [OF a(1), of ws k] that a(2) invoke_families [OF a(3)]
    by (fastforce simp: in_families_def list_all_iff)
  then show "in_families (commit ws (st_ledger ctx))" by (simp add: in_families_def)
qed (auto simp: in_families_def get_kv_def intro: run_wf wf_empty)

text \<open>
  C10. The world state is typed: in every ledger the contract can reach, whatever was called, the keys
  are sorted and distinct, every key belongs to one of the twelve families, and every entry is a
  well-formed record of its family. Invoices, users, organizations, members, flows and events stand under
  the key of their own identifiers; projects, reimbursements, transfer and void requests carry the
  identifier of their key without the blanks around it, for the contract also stores copies of these under
  padded keys; the indices hold identifiers without such blanks.
\<close>

theorem every_entry_is_well_typed:
  assumes "reachable l"
  shows "wf_ledger l \<and> (\<forall>k b. get_kv l k = Some b \<longrightarrow> family k \<in> families \<and> entry_ok k b)"
  using reachable_typed [OF assms] family.holds assms
  by (auto simp: reachable_def in_families_def intro: typed_wf typed_entry)

theorem every_entry_is_well_typed_witness:
  "entry_ok (invoiceKey ''i'') (Doc (enc_Invoice demo_invoice)) \<and> family (invoiceKey ''i'') \<in> families"
proof -
  have "get_kv l8 (invoiceKey ''i'') = Some (Doc (enc_Invoice demo_invoice))" by (simp add: at_l8)
  with every_entry_is_well_typed [of l8] demo_reachable(8) show ?thesis by blast
qed

end
