(* ===== verification/Recognition.thy ===== *)
theory Recognition
  imports Ocr
begin

text \<open>
  What the recognition of invoices promises: amounts and dates are read as they are printed, the
  language model only suggests, and a suggestion never drops what was recognised.
\<close>

section \<open>Suggestions\<close>

lemma or_cents_cases:
  "or_cents a f = a \<or> (or_cents a f = f \<and> a = 0)" "0 < sint f \<Longrightarrow> 0 \<le> sint (or_cents a f) \<Longrightarrow> 0 < sint (or_cents a f)"
  by (auto simp: or_cents_def less_le sint64_eq_iff)

lemma merge_answer_Inr:
  assumes "merge_answer f a = Inr g"
  shows "0 \<le> sint (fld_AmountCents g) \<and> 0 \<le> sint (fld_TaxCents g) \<and> 0 \<le> sint (fld_TotalCents g)
    \<and> fld_AmountCents g = or_cents (fld_AmountCents a) (fld_AmountCents f)
    \<and> fld_TaxCents g = or_cents (fld_TaxCents a) (fld_TaxCents f)
    \<and> fld_TotalCents g = or_cents (fld_TotalCents a) (fld_TotalCents f)
    \<and> fld_BuyerName g = or_text (fld_BuyerName a) (fld_BuyerName f)
    \<and> fld_InvoiceNo g = or_text (fld_InvoiceNo a) (fld_InvoiceNo f)
    \<and> fld_Issuer g = or_text (fld_Issuer a) (fld_Issuer f)
    \<and> fld_IssueDate g = normalizeDate (or_text (fld_IssueDate a) (fld_IssueDate f))"
  using assms by (auto simp: merge_answer_def Let_def split: if_splits)

lemma correct_Inr:
  assumes "correct w s f ws = Inr (g, cs)"
  shows "\<exists>status body a. cld_send w (ai_call s f ws) = Inr (status, body) \<and> read_answer status body = Inr (a, cs)
    \<and> merge_answer f a = Inr g"
  using assms by (auto simp: correct_def res_inv)

text \<open>
  C39. A suggestion of the language model keeps what the recognition found and the model leaves out: a text
  or an amount the model leaves out is the recognised one, and so is a date that was brought into its
  standard form; no amount is negative, no recognised amount becomes zero and no recognised number, issuer
  or buyer becomes empty. A date the model does give replaces the recognised one: it is brought into its
  standard form, an existing day since 2000, or becomes empty where that fails, whatever was recognised.
\<close>

theorem suggestions_keep_what_was_recognised:
  assumes "correct w s f ws = Inr (g, cs)"
  shows "\<exists>status body a. cld_send w (ai_call s f ws) = Inr (status, body) \<and> read_answer status body = Inr (a, cs)
    \<and> (\<forall>cents \<in> {fld_AmountCents, fld_TaxCents, fld_TotalCents}.
        cents g = (if cents a = 0 \<and> 0 < sint (cents f) then cents f else cents a)
        \<and> 0 \<le> sint (cents g) \<and> (0 < sint (cents f) \<longrightarrow> 0 < sint (cents g)))
    \<and> (\<forall>name \<in> {fld_BuyerName, fld_InvoiceNo, fld_Issuer}.
        name g = (if name a = [] then name f else name a) \<and> (name f \<noteq> [] \<longrightarrow> name g \<noteq> []))
    \<and> (fld_IssueDate a = [] \<longrightarrow> (\<exists>t. fld_IssueDate f = normalizeDate t) \<longrightarrow> fld_IssueDate g = fld_IssueDate f)
    \<and> (fld_IssueDate a \<noteq> [] \<longrightarrow> fld_IssueDate g = normalizeDate (fld_IssueDate a))
    \<and> (fld_IssueDate g = [] \<or> (\<exists>y m d. parse_iso_date (fld_IssueDate g) = Some (y, m, d) \<and> 2000 \<le> y))"
proof -
  obtain status body a where a: "cld_send w (ai_call s f ws) = Inr (status, body)" "read_answer status body = Inr (a, cs)"
    "merge_answer f a = Inr g" using correct_Inr [OF assms] by blast
  note g = merge_answer_Inr [OF a(3)]
  have "cents g = (if cents a = 0 \<and> 0 < sint (cents f) then cents f else cents a) \<and> 0 \<le> sint (cents g)
      \<and> (0 < sint (cents f) \<longrightarrow> 0 < sint (cents g))"
    if "cents \<in> {fld_AmountCents, fld_TaxCents, fld_TotalCents}" for cents
  proof -
    from that g have c: "cents g = or_cents (cents a) (cents f)" "0 \<le> sint (cents g)" by auto
    then have "0 < sint (cents f) \<longrightarrow> 0 < sint (cents g)" using or_cents_cases(2) by metis
    with c show ?thesis by (simp add: or_cents_def)
  qed
  moreover have "name g = (if name a = [] then name f else name a) \<and> (name f \<noteq> [] \<longrightarrow> name g \<noteq> [])"
    if "name \<in> {fld_BuyerName, fld_InvoiceNo, fld_Issuer}" for name
    using that g by (auto simp: or_text_def)
  moreover have "fld_IssueDate a = [] \<longrightarrow> (\<exists>t. fld_IssueDate f = normalizeDate t) \<longrightarrow> fld_IssueDate g = fld_IssueDate f"
    "fld_IssueDate a \<noteq> [] \<longrightarrow> fld_IssueDate g = normalizeDate (fld_IssueDate a)"
    using g normalizeDate_idem by (auto simp: or_text_def)
  moreover have "fld_IssueDate g = [] \<or> (\<exists>y m d. parse_iso_date (fld_IssueDate g) = Some (y, m, d) \<and> 2000 \<le> y)"
    using g normalizeDate_cases by metis
  ultimately show ?thesis
    using a(1,2) by (intro exI [of _ status] exI [of _ body] exI [of _ a] conjI ballI) blast+
qed

text \<open>A model that answers with an empty object.\<close>

definition demo_completion :: json where
  "demo_completion = JObj [(''choices'', JArr [JObj [(''message'', JObj [(''content'', JStr ''{}'')])]])]"

definition demo_model :: cloud where
  "demo_model = \<lparr>cld_client = (\<lambda>_. None), cld_recognize = (\<lambda>_ _. Inr None),
     cld_send = (\<lambda>_. Inr (200, json_text demo_completion)), cld_cpu = \<lparr>cpu_fused = False, cpu_wide = (\<lambda>_. 0)\<rparr>\<rparr>"

definition demo_recognised :: InvoiceFields where
  "demo_recognised = zero_InvoiceFields\<lparr>fld_TotalCents := 105, fld_IssueDate := ''2024-03-05''\<rparr>"

lemma demo_answer: "read_answer 200 (json_text demo_completion) = Inr (zero_InvoiceFields, None)"
proof -
  have "length (json_text demo_completion) \<le> 100" by code_simp
  then have t: "take (2 * 2 ^ 20) (json_text demo_completion) = json_text demo_completion" by simp
  have "list_all valid_utf8 [''choices'', ''message'', ''content'', ''{}'']" by code_simp
  then have "printable max_nesting demo_completion" by (simp add: demo_completion_def max_nesting_def)
  from read_value_text [OF this, of "[]"] have d: "decode_first (json_text demo_completion) = Some demo_completion"
    by (simp add: decode_first_def)
  have f: "EqualFold ''choices'' ''choices''" "EqualFold ''message'' ''message''" "EqualFold ''content'' ''content''" by simp_all
  have "dec_completion demo_completion = Inr (Some [''{}''])"
    by (simp add: dec_completion_def demo_completion_def read_slice_def)
  moreover have "parse_json (stripCodeFence ''{}'') = Some (JObj [])" by code_simp
  moreover have "dec_answer (JObj []) = Inr (zero_InvoiceFields, None)" by (simp add: dec_answer_def)
  ultimately show ?thesis using t d by (simp add: read_answer_def del: mult_numeral_1)
qed

theorem suggestions_keep_what_was_recognised_witness:
  "\<forall>s. \<exists>g cs. correct demo_model s demo_recognised [] = Inr (g, cs) \<and> 0 < sint (fld_TotalCents g)
     \<and> fld_IssueDate g = ''2024-03-05''"
proof
  fix s
  have cents: "sint (fld_TotalCents demo_recognised) = 105" by (simp add: demo_recognised_def)
  have date: "fld_IssueDate demo_recognised = normalizeDate ''2024-03-05''" "fld_IssueDate demo_recognised = ''2024-03-05''"
    unfolding demo_recognised_def by code_simp+
  obtain g cs where g: "correct demo_model s demo_recognised [] = Inr (g, cs)"
    by (simp add: correct_def demo_model_def demo_answer merge_answer_def demo_recognised_def zero_InvoiceFields_def or_cents_def)
  have empty: "fld_IssueDate a = []"
    if "cld_send demo_model (ai_call s demo_recognised []) = Inr (status, body)" "read_answer status body = Inr (a, cs)" for status body a
    using that by (auto simp: demo_model_def demo_answer zero_InvoiceFields_def)
  from suggestions_keep_what_was_recognised [OF g] show "\<exists>g cs. correct demo_model s demo_recognised [] = Inr (g, cs)
     \<and> 0 < sint (fld_TotalCents g) \<and> fld_IssueDate g = ''2024-03-05''"
  proof (elim exE conjE)
    fix status body a
    assume a: "cld_send demo_model (ai_call s demo_recognised []) = Inr (status, body)" "read_answer status body = Inr (a, cs)"
      and kept: "\<forall>cents \<in> {fld_AmountCents, fld_TaxCents, fld_TotalCents}.
        cents g = (if cents a = 0 \<and> 0 < sint (cents demo_recognised) then cents demo_recognised else cents a)
        \<and> 0 \<le> sint (cents g) \<and> (0 < sint (cents demo_recognised) \<longrightarrow> 0 < sint (cents g))"
      and "fld_IssueDate a = [] \<longrightarrow> (\<exists>t. fld_IssueDate demo_recognised = normalizeDate t) \<longrightarrow> fld_IssueDate g = fld_IssueDate demo_recognised"
    then have "fld_IssueDate g = ''2024-03-05''" using empty [OF a] date by metis
    moreover have "0 < sint (fld_TotalCents demo_recognised) \<longrightarrow> 0 < sint (fld_TotalCents g)" using kept by blast
    then have "0 < sint (fld_TotalCents g)" unfolding cents by simp
    ultimately show ?thesis using g by blast
  qed
qed

section \<open>The model only suggests\<close>

text \<open>A service with another configuration of the language model.\<close>

definition with_model :: "string \<Rightarrow> string \<Rightarrow> string \<Rightarrow> OcrService \<Rightarrow> OcrService" where
  "with_model k u n s = s\<lparr>ocr_aiAPIKey := k, ocr_aiBaseURL := u, ocr_aiModel := n\<rparr>"

lemma finish_recognition_keeps:
  assumes "finish_recognition w s r = q" "\<not> rcg_AIUsed r" "rcg_SuggestedFields r = None"
  shows "rcg_Fields q = rcg_Fields r \<and> rcg_OCRRequestID q = rcg_OCRRequestID r \<and> rcg_AIEnabled q = rcg_AIEnabled r
    \<and> rcg_Warnings q = rcg_Warnings r @ (if AIEnabled s \<and> \<not> rcg_AIUsed q then [o_ai_down] else [])
    \<and> (rcg_AIUsed q \<longleftrightarrow> rcg_SuggestedFields q \<noteq> None) \<and> (rcg_AIUsed q \<longrightarrow> AIEnabled s)"
  using assms by (auto simp: finish_recognition_def split: if_splits sum.splits)

lemma recognise_send [simp]: "recognise (w\<lparr>cld_send := m\<rparr>) s = recognise w s"
  by (simp add: recognise_def fun_eq_iff Let_def split: option.split)

lemma recognise_model [simp]: "recognise w (with_model k u n s) = recognise w s"
  by (simp add: recognise_def fun_eq_iff Let_def with_model_def Enabled_def split: option.split)

text \<open>
  C40. The language model only suggests: whatever it answers and however it is configured, the
  recognition fails in the same cases with the same error, and otherwise returns the same fields with
  the same findings; a model that is configured and does not answer adds one warning and nothing else.
\<close>

theorem the_model_only_suggests:
  "case (RecognizeInvoice (w\<lparr>cld_send := m\<rparr>) s filename bytes,
      RecognizeInvoice (w\<lparr>cld_send := m'\<rparr>) (with_model k u n s) filename bytes) of
     (Inl e, Inl e') \<Rightarrow> e = e'
   | (Inr r, Inr r') \<Rightarrow> rcg_Fields r = rcg_Fields r' \<and> rcg_OCRRequestID r = rcg_OCRRequestID r'
       \<and> rcg_Warnings r = validate (rcg_Fields r) @ (if AIEnabled s \<and> \<not> rcg_AIUsed r then [o_ai_down] else [])
       \<and> (rcg_AIUsed r \<longleftrightarrow> rcg_SuggestedFields r \<noteq> None) \<and> (rcg_AIUsed r \<longleftrightarrow> AIEnabled s \<and> rcg_AIUsed r)
   | _ \<Rightarrow> False"
proof (cases "recognise w s filename bytes")
  case (Inl e)
  then show ?thesis by (simp add: RecognizeInvoice_def)
next
  case (Inr p)
  obtain f i where p: "p = (f, i)" by fastforce
  let ?r = "\<lambda>s. \<lparr>rcg_AIEnabled = AIEnabled s, rcg_AIUsed = False, rcg_Corrections = None, rcg_Fields = f,
    rcg_OCRRequestID = i, rcg_SuggestedFields = None, rcg_Warnings = validate f\<rparr>"
  note keeps = finish_recognition_keeps [OF refl, of "?r _", simplified]
  show ?thesis
    using keeps [of "w\<lparr>cld_send := m\<rparr>" s s] keeps [of "w\<lparr>cld_send := m'\<rparr>" "with_model k u n s" "with_model k u n s"]
    by (auto simp: RecognizeInvoice_def Inr p)
qed

section \<open>Amounts and dates\<close>

text \<open>
  C38. What is printed on an invoice is read exactly: an amount of at most ten trillion with two places,
  whatever other characters are around and between its digits, is read as its number of cents, on
  processors that fuse operations and on those that do not; and a date since 2000, with or without
  leading zeros, is brought into its standard form from each of the usual notations.
\<close>

theorem printed_amounts_and_dates_are_read:
  assumes "n \<le> 10 ^ 15" "filter money_char (TrimSpace s) = cents_text n"
    and "parse_iso_date (iso_text y m d) = Some (y, m, d)" "2000 \<le> y"
    and "{s1, s2} \<subseteq> {u_year, u_month, ''/'', ''.'', ''-''}" "s3 \<in> {u_day, []}"
  shows "sint (parseCents cpu s) = int n
    \<and> normalizeDate (nat_digits (nat y) @ s1 @ nat_digits (nat m) @ s2 @ nat_digits (nat d) @ s3) = iso_text y m d
    \<and> normalizeDate (iso_text y m d) = iso_text y m d"
proof (intro conjI)
  have b: "y < 10000" "1 \<le> m" "m \<le> 12" "1 \<le> d" "d \<le> days_in_month y m"
    using iso_text_of [OF assms(3)] by auto
  then show "normalizeDate (nat_digits (nat y) @ s1 @ nat_digits (nat m) @ s2 @ nat_digits (nat d) @ s3) = iso_text y m d"
    using assms(4-6) by (intro normalize_printed) (simp_all add: nat_digits_all digits_val_nat_digits)
  show "sint (parseCents cpu s) = int n" by (rule amounts_are_read_exactly [OF assms(1,2)])
qed (rule normalizeDate_iso [OF assms(3,4)])

lemma digit_chars:
  "digit_char 0 = CHR ''0''" "digit_char 1 = CHR ''1''" "digit_char (Suc 0) = CHR ''1''" "digit_char 2 = CHR ''2''" "digit_char 3 = CHR ''3''"
  "digit_char 4 = CHR ''4''" "digit_char 5 = CHR ''5''" "digit_char 6 = CHR ''6''" "digit_char 7 = CHR ''7''"
  "digit_char 8 = CHR ''8''" "digit_char 9 = CHR ''9''"
  by code_simp+

text \<open>A currency, a thousands separator and a Chinese date.\<close>

theorem printed_amounts_and_dates_are_read_witness:
  "sint (parseCents \<lparr>cpu_fused = True, cpu_wide = (\<lambda>_. 0)\<rparr> ''CNY1,234.50'') = 123450
    \<and> normalizeDate (''2024'' @ u_year @ ''3'' @ u_month @ ''5'' @ u_day) = ''2024-03-05''"
proof -
  have "TrimSpace ''CNY1,234.50'' = ''CNY1,234.50''" by (rule TrimSpace_same) (auto simp: space1_def)
  then have "filter money_char (TrimSpace ''CNY1,234.50'') = cents_text 123450"
    by (simp add: money_char_def is_digit_def cents_text_def nat_digits.simps pad2_def digit_chars)
  moreover have "parse_iso_date (iso_text 2024 3 5) = Some (2024, 3, 5)" "iso_text 2024 3 5 = ''2024-03-05''" by code_simp+
  moreover have "nat_digits (nat 2024) = ''2024''" "nat_digits (nat 3) = ''3''" "nat_digits (nat 5) = ''5''"
    by (simp_all add: nat_digits.simps digit_chars)
  ultimately show ?thesis
    using printed_amounts_and_dates_are_read [where n = 123450 and s = "''CNY1,234.50''" and y = 2024 and m = 3
        and d = 5 and ?s1.0 = u_year and ?s2.0 = u_month and ?s3.0 = u_day] by simp
qed

section \<open>Two gaps\<close>

text \<open>
  An image that fails to decode leaves the fields it did decode behind: here the seller of a first image,
  rejected because its total is a number, is returned with the total of the second one.
\<close>

lemma rejected_image_leaves_fields:
  "\<exists>p. read_images
     [Some (Some (Some (KvText (json_text (JObj [(''sellerName'', JStr ''A''), (''totalAmount'', JInt 7)]))))),
      Some (Some (Some (KvText (json_text (JObj [(''totalAmount'', JStr ''8'')])))))] zero_payload = Some p
    \<and> pay_SellerName p = ''A'' \<and> pay_TotalAmount p = ''8''"
proof -
  have "list_all valid_utf8 [''sellerName'', ''totalAmount'', ''A'', ''8'']" by code_simp
  then have "parse_json (json_text (JObj [(''sellerName'', JStr ''A''), (''totalAmount'', JInt 7)]))
      = Some (JObj [(''sellerName'', JStr ''A''), (''totalAmount'', JInt 7)])"
    "parse_json (json_text (JObj [(''totalAmount'', JStr ''8'')])) = Some (JObj [(''totalAmount'', JStr ''8'')])"
    by (intro parse_json_text; simp add: max_nesting_def)+
  moreover have "fill_payload [(''sellerName'', JStr ''A''), (''totalAmount'', JInt 7)] zero_payload
      = (zero_payload\<lparr>pay_SellerName := ''A''\<rparr>, False)"
    "fill_payload [(''totalAmount'', JStr ''8'')] (zero_payload\<lparr>pay_SellerName := ''A''\<rparr>)
      = (zero_payload\<lparr>pay_SellerName := ''A'', pay_TotalAmount := ''8''\<rparr>, True)"
    by code_simp+
  ultimately show ?thesis
    by (simp add: unmarshalUnifiedData_def unmarshal_payload_def del: json_text.simps)
qed

text \<open>A date of the model that is no day erases the recognised one.\<close>

lemma unreadable_suggestion_erases_the_date:
  assumes "fld_IssueDate a \<noteq> []" "normalizeDate (fld_IssueDate a) = []" "merge_answer f a = Inr g"
  shows "fld_IssueDate g = []"
  using merge_answer_Inr [OF assms(3)] assms(1,2) by (simp add: or_text_def)

end
