(* ===== verification/Startup.thy ===== *)
theory Startup
  imports Portal
begin

text \<open>
  The process, \<open>backend/main.go\<close>: what \<open>main\<close> sets up before it serves, the health check, and the
  dispatch between the health check, the interface below \<open>/api\<close> and the files of the web client. A
  website that was started on an account file of ordinary members satisfies the assumptions of the
  invariants of \<open>Website\<close> and \<open>Portal\<close>, which the locale \<open>process_invariant\<close> carries over to the process.
\<close>

section \<open>Starting\<close>

text \<open>The package variables of \<open>fabric\<close> before \<open>Init\<close>.\<close>

definition no_gateways :: gateways where
  "no_gateways = \<lparr>gwy_chaincodeName = [], gwy_channelName = [], gwy_testNetwork = [], gwy_clients = [], gwy_open = 0\<rparr>"

definition listen_address :: "host \<Rightarrow> string" where
  "listen_address h = ''0.0.0.0:'' @ envOr h ''PORT'' ''8080''"

text \<open>\<open>log.Fatalf\<close> ends the process with a message; otherwise it serves at an address.\<close>

definition start :: "sdk \<Rightarrow> host \<Rightarrow> ledger \<Rightarrow> (server \<times> OcrService \<times> string) res" where
  "start k h l =
    (case initGateways k h no_gateways of
       (Inl e, g) \<Rightarrow> Inl (''connect to Fabric failed: '' @ e)
     | (Inr _, g) \<Rightarrow>
        (case NewService h of
           (Inl e, h') \<Rightarrow> Inl (''local account store check failed: '' @ e)
         | (Inr authService, h') \<Rightarrow>
             Inr (\<lparr>srv_auth = authService, srv_host = h', srv_gate = g, srv_ledger = l\<rparr>, NewOcrService h',
               listen_address h')))"

section \<open>Serving\<close>

definition health :: "env \<Rightarrow> server \<Rightarrow> response \<times> server" where
  "health env s =
    (let (r, g) = ContractFor (env_sdk env) (srv_host s) ''Org1MSP'' (srv_gate s);
         s' = s\<lparr>srv_gate := g\<rparr>;
         chaincode = (''chaincode'', JStr (gwy_chaincodeName g)) in
     case (case r of Inl _ \<Rightarrow> False | Inr ct \<Rightarrow> (case evaluate env ct QGetAllInvoices s' of Inl _ \<Rightarrow> False | Inr _ \<Rightarrow> True)) of
       False \<Rightarrow> (reply 503 (JObj [(''backend'', JStr ''ok''), chaincode, (''error'', JStr m_fabric_down),
                  (''fabric'', JStr ''unavailable''), (''status'', JStr ''degraded'')]), s')
     | True \<Rightarrow> (reply 200 (JObj [(''backend'', JStr ''ok''), chaincode, (''fabric'', JStr ''reachable''),
                  (''status'', JStr ''ok'')]), s'))"

text \<open>A reply, or a file that \<open>net/http\<close> serves from the path (it answers 404 when there is none).\<close>

datatype answer = Reply response | StaticFile string

definition web_dir :: "host \<Rightarrow> string" where
  "web_dir h = envOr h ''WEB_DIR'' ''../web''"

text \<open>A path is given by its cleaned segments; redirecting to the cleaned path is the router's own.\<close>

definition dispatch :: "env \<Rightarrow> string \<Rightarrow> string list \<Rightarrow> request \<Rightarrow> server \<Rightarrow> answer \<times> server" where
  "dispatch env verb path req s =
    (case path of
       [] \<Rightarrow> if verb = ''GET'' then (StaticFile (web_dir (srv_host s) @ ''/index.html''), s)
             else (Reply \<lparr>rsp_status = 404, rsp_body = None, rsp_cookie = None\<rparr>, s)
     | p # rest \<Rightarrow>
        if p = ''api'' then (let (r, s') = serve env verb rest req s in (Reply r, s'))
        else if verb = ''GET'' \<and> path = [''health''] then (let (r, s') = health env s in (Reply r, s'))
        else if (verb = ''GET'' \<or> verb = ''HEAD'') \<and> p = ''assets''
        then (StaticFile (join_path (web_dir (srv_host s) # rest)), s)
        else (Reply \<lparr>rsp_status = 404, rsp_body = None, rsp_cookie = None\<rparr>, s))"

section \<open>Invariants of the process\<close>

text \<open>The other requests change at most the clients of the gateway.\<close>

lemma health_gate:
  assumes "gateways_ok (srv_gate s)" "health env s = (r, s')"
  shows "\<exists>g. s' = s\<lparr>srv_gate := g\<rparr> \<and> gateways_ok g"
proof -
  obtain c g where c: "ContractFor (env_sdk env) (srv_host s) ''Org1MSP'' (srv_gate s) = (c, g)" by fastforce
  then have "s' = s\<lparr>srv_gate := g\<rparr>" using assms(2) by (auto simp: health_def Let_def split: bool.splits)
  with ContractFor_ok(1) [OF assms(1) c] show ?thesis by blast
qed

lemma dispatch_cases:
  assumes "dispatch env verb path req s = (a, s')" "gateways_ok (srv_gate s)"
  obtains rest r where "serve env verb rest req s = (r, s')" | g where "s' = s\<lparr>srv_gate := g\<rparr>" "gateways_ok g"
proof -
  have "(\<exists>rest r. serve env verb rest req s = (r, s')) \<or> (\<exists>r. health env s = (r, s')) \<or> s' = s"
    using assms(1) by (auto simp: dispatch_def split: list.splits if_splits prod.splits)
  moreover have "s = s\<lparr>srv_gate := srv_gate s\<rparr>" by simp
  ultimately show thesis using that health_gate [OF assms(2)] assms(2) by metis
qed

text \<open>An invariant of the interface that does not speak of the gateway is one of the process.\<close>

locale process_invariant = server_invariant +
  assumes gate: "I s \<Longrightarrow> I (s\<lparr>srv_gate := g\<rparr>)"
begin

lemma dispatch_keeps:
  assumes "network_ok (env_net env)" "gateways_ok (srv_gate s)" "I s" "dispatch env verb path req s = (a, s')"
  shows "gateways_ok (srv_gate s') \<and> I s'"
  using assms(4,2)
proof (rule dispatch_cases)
  fix rest r assume "serve env verb rest req s = (r, s')"
  with assms(1-3) show ?thesis using keep serve_gateways by blast
next
  fix g assume "s' = s\<lparr>srv_gate := g\<rparr>" "gateways_ok g"
  with assms(3) gate show ?thesis by simp
qed

end

section \<open>What the accounts are after a start\<close>

definition random_works :: "host \<Rightarrow> bool" where
  "random_works h \<longleftrightarrow> 8 \<le> length (hst_rand h) \<and> None \<notin> set (take 8 (hst_rand h))"

text \<open>An account in the account file the environment names.\<close>

definition from_file :: "host \<Rightarrow> account \<Rightarrow> bool" where
  "from_file h x \<longleftrightarrow> (\<exists>as. read_accounts (envOr h ''AUTH_DATA_FILE'' ''data/accounts.json'') h = Inr as \<and> x \<in> set as)"

definition members_only :: "host \<Rightarrow> bool" where
  "members_only h \<longleftrightarrow> (\<forall>x. from_file h x \<longrightarrow>
     prc_Role (acc_Principal x) = ''PROJECT_MEMBER'' \<and> prc_Username (acc_Principal x) \<notin> set builtin_names)"

text \<open>Accounts under their own, well-formed names, none with more than its privilege.\<close>

definition accounts_ok :: "Service \<Rightarrow> bool" where
  "accounts_ok s \<longleftrightarrow> svc_sessions s = [] \<and> (\<forall>u x. map_of (svc_accounts s) u = Some x \<longrightarrow>
     prc_Username (acc_Principal x) = u \<and> usernamePattern u \<and> privilege_ok (acc_Principal x))"

lemma map_of_put_account: "map_of (put_account a xs) = (map_of xs)(prc_Username (acc_Principal a) \<mapsto> a)"
  by (simp add: put_account_def update_conv')

lemma accounts_ok_put:
  assumes "accounts_ok s" "usernamePattern (prc_Username (acc_Principal a))" "privilege_ok (acc_Principal a)"
  shows "accounts_ok (s\<lparr>svc_accounts := put_account a (svc_accounts s)\<rparr>)"
  using assms by (simp add: accounts_ok_def map_of_put_account)

lemma loadAccounts_ok:
  assumes "accounts_ok s" "loadAccounts s h = Inr t"
    and "\<And>as a. read_accounts (svc_accountFile s) h = Inr as \<Longrightarrow> a \<in> set as \<Longrightarrow>
      prc_Role (acc_Principal a) = ''PROJECT_MEMBER'' \<and> prc_Username (acc_Principal a) \<notin> set builtin_names"
  shows "accounts_ok t \<and> dom (map_of (svc_accounts s)) \<subseteq> dom (map_of (svc_accounts t))
    \<and> (\<forall>u x. map_of (svc_accounts t) u = Some x \<longrightarrow> map_of (svc_accounts s) u = Some x
      \<or> (\<exists>as. read_accounts (svc_accountFile s) h = Inr as \<and> x \<in> set as))"
proof -
  obtain as where as: "read_accounts (svc_accountFile s) h = Inr as"
    and t: "t = s\<lparr>svc_accounts := fold put_account (filter account_valid as) (svc_accounts s)\<rparr>"
    using assms(2) by (auto simp: loadAccounts_def res_inv)
  have "accounts_ok (s\<lparr>svc_accounts := fold put_account xs (svc_accounts s)\<rparr>)
      \<and> dom (map_of (svc_accounts s)) \<subseteq> dom (map_of (fold put_account xs (svc_accounts s)))
      \<and> (\<forall>u x. map_of (fold put_account xs (svc_accounts s)) u = Some x \<longrightarrow> map_of (svc_accounts s) u = Some x \<or> x \<in> set xs)"
    if "\<forall>a \<in> set xs. usernamePattern (prc_Username (acc_Principal a)) \<and> privilege_ok (acc_Principal a)" for xs
    using that
  proof (induction xs rule: rev_induct)
    case (snoc a xs)
    then show ?case
      using accounts_ok_put [of "s\<lparr>svc_accounts := fold put_account xs (svc_accounts s)\<rparr>" a]
      by (auto simp: map_of_put_account split: if_splits)
  qed (use assms(1) in simp)
  moreover have "\<forall>a \<in> set (filter account_valid as). usernamePattern (prc_Username (acc_Principal a)) \<and> privilege_ok (acc_Principal a)"
    using assms(3) [OF as] by (auto simp: account_valid_def privilege_ok_def)
  ultimately show ?thesis unfolding t using as by fastforce
qed

text \<open>The built-in accounts are added one after the other.\<close>

lemma addDemoAccount_ok:
  assumes "accounts_ok s" "hst_rand h = Some r # rs" "(u, m, role) \<in> set demo_accounts"
    and "addDemoAccount u n m role pw (s, h) = (t, k)"
  shows "accounts_ok t \<and> dom (map_of (svc_accounts t)) = insert u (dom (map_of (svc_accounts s)))
    \<and> k = h\<lparr>hst_rand := rs\<rparr> \<and> svc_accountFile t = svc_accountFile s"
proof -
  have u: "usernamePattern u" "u \<in> set builtin_names"
    using demo_accounts_ok [OF assms(3)] assms(3) demo_account_names(1) by (auto simp flip: demo_account_names(1) intro: rev_image_eqI)
  obtain a where t: "t = s\<lparr>svc_accounts := AList.update u a (svc_accounts s)\<rparr>" "k = h\<lparr>hst_rand := rs\<rparr>"
    and a: "acc_Principal a = \<lparr>prc_DisplayName = n, prc_MSPID = m, prc_OrganizationID = [], prc_Role = role, prc_Username = u\<rparr>"
    using assms(2,4) by (auto simp: addDemoAccount_def newAccount_def newToken_def rand_read_def)
  have "privilege_ok (acc_Principal a)" using assms(3) u(2) by (simp add: privilege_ok_def a)
  with accounts_ok_put [of s a] assms(1) u a t show ?thesis by (simp add: put_account_def update_conv')
qed

definition demo_specs :: "host \<Rightarrow> (string \<times> string \<times> string \<times> string \<times> string) list" where
  "demo_specs h =
    [(''issuer-org1'', n_issuer, ''Org1MSP'', ''ISSUER'', envOr h ''DEMO_ISSUER_PASSWORD'' ''issuer123''),
     (''holder-org2'', n_holder, ''Org2MSP'', ''HOLDER'', envOr h ''DEMO_HOLDER_PASSWORD'' ''holder123''),
     (''auditor'', n_auditor, ''Org1MSP'', ''AUDITOR'', envOr h ''DEMO_AUDITOR_PASSWORD'' ''auditor123''),
     (''project-member'', n_member, ''Org1MSP'', ''PROJECT_MEMBER'', envOr h ''DEMO_PROJECT_MEMBER_PASSWORD'' ''member123''),
     (''project-reviewer'', n_reviewer, ''Org1MSP'', ''PROJECT_REVIEWER'', envOr h ''DEMO_PROJECT_REVIEWER_PASSWORD'' ''review123''),
     (''finance-admin'', n_finance, ''Org2MSP'', ''FINANCE_ADMIN'', envOr h ''DEMO_FINANCE_ADMIN_PASSWORD'' ''finance123''),
     (''org-admin'', n_orgadmin, ''Org1MSP'', ''ORG_ADMIN'', envOr h ''DEMO_ORG_ADMIN_PASSWORD'' ''orgadmin123''),
     (''org-admin-org2'', n_orgadmin2, ''Org2MSP'', ''ORG_ADMIN'', envOr h ''DEMO_ORG_ADMIN_ORG2_PASSWORD'' ''orgadmin234'')]"

definition add_all :: "(string \<times> string \<times> string \<times> string \<times> string) list \<Rightarrow> Service \<times> host \<Rightarrow> Service \<times> host" where
  "add_all specs sh = fold (\<lambda>(u, n, m, r, p). addDemoAccount u n m r p) specs sh"

definition empty_service :: "host \<Rightarrow> Service" where
  "empty_service h = \<lparr>svc_accounts = [], svc_accountFile = envOr h ''AUTH_DATA_FILE'' ''data/accounts.json'', svc_sessions = []\<rparr>"

lemma NewService_add_all:
  "NewService h = (let (s, h') = add_all (demo_specs h) (empty_service h, h) in (wrapE m_store_check (loadAccounts s h'), h'))"
  by (simp add: NewService_def add_all_def demo_specs_def empty_service_def Let_def split_beta)

lemma add_all_ok:
  assumes "accounts_ok s" "length specs \<le> length (hst_rand h)" "None \<notin> set (take (length specs) (hst_rand h))"
    and "\<forall>(u, n, m, r, p) \<in> set specs. (u, m, r) \<in> set demo_accounts" "add_all specs (s, h) = (t, k)"
  shows "accounts_ok t \<and> dom (map_of (svc_accounts t)) = fst ` set specs \<union> dom (map_of (svc_accounts s))
    \<and> (\<exists>rs. k = h\<lparr>hst_rand := rs\<rparr>) \<and> svc_accountFile t = svc_accountFile s"
  using assms
proof (induction specs arbitrary: s h)
  case Nil
  have "\<exists>rs. k = k\<lparr>hst_rand := rs\<rparr>" by (rule exI [of _ "hst_rand k"]) simp
  with Nil show ?case by (simp add: add_all_def)
next
  case (Cons spec specs)
  obtain u n m r p where spec: "spec = (u, n, m, r, p)" by (metis prod.collapse)
  obtain x rs where rand: "hst_rand h = Some x # rs" using Cons.prems(2,3) by (cases "hst_rand h"; cases "hd (hst_rand h)") auto
  obtain s' h' where s': "addDemoAccount u n m r p (s, h) = (s', h')" by fastforce
  have "(u, m, r) \<in> set demo_accounts" using Cons.prems(4) by (simp add: spec)
  note ok = addDemoAccount_ok [OF Cons.prems(1) rand this s']
  have "add_all specs (s', h') = (t, k)" using Cons.prems(5) s' by (simp add: add_all_def spec)
  with Cons.IH [of s' h'] Cons.prems(2-4) ok rand show ?case by (auto simp: spec)
qed

lemma ReadFile_rand: "ReadFile (h\<lparr>hst_rand := rs\<rparr>) p = ReadFile h p"
  by (simp add: ReadFile_def split: option.split)

lemma builtin_accounts:
  assumes "random_works h" "add_all (demo_specs h) (empty_service h, h) = (t, k)"
  shows "accounts_ok t" "dom (map_of (svc_accounts t)) = set builtin_names"
    "svc_accountFile t = envOr h ''AUTH_DATA_FILE'' ''data/accounts.json''" "read_accounts f k = read_accounts f h"
proof -
  have e: "accounts_ok (empty_service h)" by (simp add: accounts_ok_def empty_service_def)
  have n: "length (demo_specs h) = 8" by (simp add: demo_specs_def)
  have d: "\<forall>(u, n, m, r, p) \<in> set (demo_specs h). (u, m, r) \<in> set demo_accounts"
    by (simp add: demo_specs_def demo_accounts_def)
  have ok: "accounts_ok t" "dom (map_of (svc_accounts t)) = fst ` set (demo_specs h)"
    "\<exists>rs. k = h\<lparr>hst_rand := rs\<rparr>" "svc_accountFile t = envOr h ''AUTH_DATA_FILE'' ''data/accounts.json''"
    using add_all_ok [OF e _ _ d assms(2)] assms(1) by (simp_all add: random_works_def n) (simp_all add: empty_service_def)
  obtain rs where k: "k = h\<lparr>hst_rand := rs\<rparr>" using ok(3) by blast
  show "read_accounts f k = read_accounts f h"
    unfolding k read_accounts_def ReadFile_rand ..
  show "dom (map_of (svc_accounts t)) = set builtin_names"
    unfolding ok(2) by (simp add: demo_specs_def builtin_names_def)
  show "accounts_ok t" by (rule ok(1))
  show "svc_accountFile t = envOr h ''AUTH_DATA_FILE'' ''data/accounts.json''" by (rule ok(4))
qed

lemma NewService_ok:
  assumes "random_works h" "members_only h" "NewService h = (Inr s, h')"
  shows "auth_ok s \<and> svc_sessions s = []
    \<and> (\<forall>u x. map_of (svc_accounts s) u = Some x \<longrightarrow> u \<in> set builtin_names \<or> from_file h x)"
proof -
  obtain t k where t: "add_all (demo_specs h) (empty_service h, h) = (t, k)" by fastforce
  note built = builtin_accounts [OF assms(1) t]
  have load: "loadAccounts t k = Inr s" using assms(3) t by (auto simp: NewService_add_all wrapE_Inr)
  have "prc_Role (acc_Principal a) = ''PROJECT_MEMBER'' \<and> prc_Username (acc_Principal a) \<notin> set builtin_names"
    if "read_accounts (svc_accountFile t) k = Inr as" "a \<in> set as" for as a
    using that assms(2) unfolding built(3,4) members_only_def from_file_def by blast
  then have loaded: "accounts_ok s" "set builtin_names \<subseteq> dom (map_of (svc_accounts s))"
    "\<And>u x. map_of (svc_accounts s) u = Some x \<Longrightarrow> map_of (svc_accounts t) u = Some x
      \<or> (\<exists>as. read_accounts (svc_accountFile t) k = Inr as \<and> x \<in> set as)"
    using loadAccounts_ok [OF built(1) load] unfolding built(2) by blast+
  then have "auth_ok s" "svc_sessions s = []" by (auto simp: accounts_ok_def auth_ok_def)
  moreover have "u \<in> set builtin_names \<or> from_file h x" if "map_of (svc_accounts s) u = Some x" for u x
    using loaded(3) [OF that] built(2) unfolding built(3,4) from_file_def by blast
  ultimately show ?thesis by blast
qed

lemma start_ok:
  assumes "start k h l = Inr (s, ocr, addr)" "random_works h" "members_only h"
  shows "gateways_ok (srv_gate s)" "auth_ok (srv_auth s)" "srv_ledger s = l"
    "\<And>u x. map_of (svc_accounts (srv_auth s)) u = Some x \<Longrightarrow> u \<in> set builtin_names \<or> from_file h x"
proof -
  obtain u g a h' where g: "initGateways k h no_gateways = (Inr u, g)" and a: "NewService h = (Inr a, h')"
    and s: "s = \<lparr>srv_auth = a, srv_host = h', srv_gate = g, srv_ledger = l\<rparr>"
    using assms(1) by (auto simp: start_def split: prod.splits sum.splits)
  have "gateways_ok (no_gateways\<lparr>gwy_testNetwork := x, gwy_channelName := y, gwy_chaincodeName := z\<rparr>)" for x y z
    by (simp add: no_gateways_def gateways_ok_def)
  then show "gateways_ok (srv_gate s)"
    using g ContractFor_ok(1) by (fastforce simp: s initGateways_def Let_def split: if_splits sum.splits option.splits prod.splits)
  show "auth_ok (srv_auth s)" "srv_ledger s = l"
    "\<And>u x. map_of (svc_accounts (srv_auth s)) u = Some x \<Longrightarrow> u \<in> set builtin_names \<or> from_file h x"
    using NewService_ok [OF assms(2,3) a] by (simp_all add: s)
qed

section \<open>A process that starts\<close>

definition boot_host :: host where
  "boot_host = demo_host\<lparr>hst_getenv := (\<lambda>n. if n = ''FABRIC_TEST_NETWORK'' then ''/net'' else []),
     hst_rand := replicate 8 (Some (replicate 32 0)),
     hst_files := (\<lambda>p. if p \<in> {''data/accounts.json'', ''data/accounts.json.bak''} then None else Some (Raw []))\<rparr>"

definition boot_sdk :: sdk where
  "boot_sdk = demo_sdk\<lparr>sdk_readdir := (\<lambda>_. Inr [''cert.pem''])\<rparr>"

lemma boot_reads: "read_accounts ''data/accounts.json'' boot_host = Inr []"
  by (simp add: read_accounts_def ReadFile_def boot_host_def demo_host_def)

lemma boot_assumptions: "random_works boot_host" "members_only boot_host"
proof -
  show "random_works boot_host" by (simp add: random_works_def boot_host_def)
  have "envOr boot_host ''AUTH_DATA_FILE'' ''data/accounts.json'' = ''data/accounts.json''"
    by (simp add: envOr_def boot_host_def)
  with boot_reads show "members_only boot_host" by (simp add: members_only_def from_file_def)
qed

lemma boot_gateways: "\<exists>g. initGateways boot_sdk boot_host no_gateways = (Inr (), g)"
  by (simp add: initGateways_def boot_host_def boot_sdk_def demo_sdk_def demo_host_def ContractFor_def no_gateways_def
      profileFor_def connect_def newConnection_def newIdentity_def newSign_def readFirstFile_def read_file_def ReadFile_def
      checkE_def envOr_def Let_def)

lemma boot_accounts: "\<exists>s h. NewService boot_host = (Inr s, h)"
proof -
  obtain t k where t: "add_all (demo_specs boot_host) (empty_service boot_host, boot_host) = (t, k)" by fastforce
  have "read_accounts (svc_accountFile t) k = Inr []"
    using builtin_accounts(3,4) [OF boot_assumptions(1) t] boot_reads by (simp add: envOr_def boot_host_def)
  then show ?thesis by (simp add: NewService_add_all t loadAccounts_def)
qed

lemma boot: "\<exists>s ocr addr. start boot_sdk boot_host l = Inr (s, ocr, addr)"
  using boot_gateways boot_accounts by (auto simp: start_def split: sum.splits prod.splits)

end
