(* ===== verification/Registration.thy ===== *)
theory Registration
  imports Startup
begin

text \<open>
  Registrations that overlap. The handler \<open>registerUser\<close> checks the name, asks for two clients, talks to
  the network twice and enters the account store twice more; other requests are served in between. (The
  check under the lock of \<open>RegisterAccount\<close> repeats the one before it, so the whole counts as one step.) Its steps
  are given one by one, they compose to the handler, and a run of the process interleaves the steps of
  any number of registrations with other requests. In every such run each account stands for a user who
  is registered in the ledger, and no session has a privilege beyond its account's.
\<close>

section \<open>The steps of a registration\<close>

datatype stage =
    Begun
  | Named Principal string
  | Opened Principal string contract
  | Chosen Principal string BusinessOrganization
  | Connected Principal string BusinessOrganization contract
  | Enrolled Principal string
  | Saved Principal
  | Answered response

fun reg_step :: "env \<Rightarrow> gin \<Rightarrow> stage \<Rightarrow> server \<Rightarrow> stage \<times> server" where
  "reg_step env c Begun s =
     (case ShouldBindJSON dec_registerRequest valid_registerRequest c of
        None \<Rightarrow> (Answered badRequest, s)
      | Some r \<Rightarrow>
          (let prin = \<lparr>prc_DisplayName = TrimSpace (rgr_DisplayName r), prc_MSPID = [],
                 prc_OrganizationID = TrimSpace (rgr_OrganizationID r), prc_Role = ''PROJECT_MEMBER'',
                 prc_Username = TrimSpace (rgr_Username r)\<rparr> in
           case ValidateRegistration (srv_auth s) prin (rgr_Password r) of
             Inl e \<Rightarrow> (Answered (error_reply 422 e), s)
           | Inr _ \<Rightarrow> (Named prin (rgr_Password r), s)))"
| "reg_step env c (Named prin pw) s =
     (case contractOf env ''Org1MSP'' s of
        (Inl e, s) \<Rightarrow> (Answered e, s)
      | (Inr directory, s) \<Rightarrow> (Opened prin pw directory, s))"
| "reg_step env c (Opened prin pw directory) s =
     (case fetch env directory (QReadBusinessOrganization (prc_OrganizationID prin)) (Unmarshal dec_BusinessOrganization) s of
        Inl e \<Rightarrow> (Answered e, s)
      | Inr organization \<Rightarrow>
          if org_Status organization \<noteq> ''ACTIVE'' then (Answered (error_reply 422 m_org_inactive), s)
          else (Chosen prin pw organization, s))"
| "reg_step env c (Chosen prin pw organization) s =
     (case contractOf env (org_MSPID organization) s of
        (Inl e, s) \<Rightarrow> (Answered e, s)
      | (Inr ct, s) \<Rightarrow> (Connected prin pw organization ct, s))"
| "reg_step env c (Connected prin pw organization ct) s =
     (case SubmitTransaction (env_net env) ct
         (TxRegisterBusinessUser (prc_Username prin) (prc_DisplayName prin) (org_MSPID organization)
           (prc_Role prin) (org_ID organization)) (srv_ledger s) of
        (Some e, l) \<Rightarrow> (Answered (transactionError e), s\<lparr>srv_ledger := l\<rparr>)
      | (None, l) \<Rightarrow>
          (Enrolled (prin\<lparr>prc_MSPID := org_MSPID organization, prc_OrganizationID := org_ID organization\<rparr>) pw,
           s\<lparr>srv_ledger := l\<rparr>))"
| "reg_step env c (Enrolled prin pw) s =
     (case RegisterAccount (srv_auth s) prin pw (srv_host s) of
        (Some _, a, h) \<Rightarrow> (Answered serverError, s\<lparr>srv_auth := a, srv_host := h\<rparr>)
      | (None, a, h) \<Rightarrow> (Saved prin, s\<lparr>srv_auth := a, srv_host := h\<rparr>))"
| "reg_step env c (Saved prin) s =
     (let (rsp, a, h) = StartRegisteredSession (srv_auth s) prin (srv_host s)
      in (Answered rsp, s\<lparr>srv_auth := a, srv_host := h\<rparr>))"
| "reg_step env c (Answered rsp) s = (Answered rsp, s)"

text \<open>The steps, taken without interruption, are the handler.\<close>

definition reg_iter :: "nat \<Rightarrow> env \<Rightarrow> gin \<Rightarrow> stage \<times> server \<Rightarrow> stage \<times> server" where
  "reg_iter n env c gs = ((\<lambda>(g, s). reg_step env c g s) ^^ n) gs"

lemma reg_iter_simps:
  "reg_iter 0 env c gs = gs" "reg_iter (Suc n) env c (g, s) = reg_iter n env c (reg_step env c g s)"
  by (simp_all add: reg_iter_def funpow_swap1)

lemma reg_iter_Answered [simp]: "reg_iter n env c (Answered r, s) = (Answered r, s)"
  by (induction n) (simp_all add: reg_iter_simps)

lemma registerUser_steps: "reg_iter 7 env c (Begun, s) = (let (r, s') = registerUser env c s in (Answered r, s'))"
  by (simp add: numeral_eq_Suc reg_iter_simps registerUser_def Let_def bound_def orReply_def withContract_def
      split: option.split sum.split prod.split)

section \<open>Accounts and the ledger\<close>

text \<open>The principal is registered in the ledger, with the same particulars.\<close>

definition backed :: "ledger \<Rightarrow> Principal \<Rightarrow> bool" where
  "backed l prin \<longleftrightarrow> (\<exists>x. stored l dec_BusinessUser (userKey (prc_Username prin)) x
     \<and> usr_DisplayName x = prc_DisplayName prin \<and> usr_MSPID x = prc_MSPID prin
     \<and> usr_OrganizationID x = prc_OrganizationID prin \<and> usr_Role x = prc_Role prin)"

definition process_ok :: "server \<Rightarrow> bool" where
  "process_ok s \<longleftrightarrow> auth_ok (srv_auth s) \<and> names_free (srv_ledger s) \<and> reachable (srv_ledger s)
     \<and> (\<forall>u x. map_of (svc_accounts (srv_auth s)) u = Some x \<longrightarrow> u \<in> set builtin_names \<or> backed (srv_ledger s) (acc_Principal x))"

text \<open>Accounts and the entries of the directory are never lost while the process runs.\<close>

definition directory_key :: "string \<Rightarrow> bool" where
  "directory_key k \<longleftrightarrow> (\<exists>u. k = userKey u) \<or> (\<exists>i. k = organizationKey i)"

lemma directory_keys [simp]: "directory_key (userKey u)" "directory_key (organizationKey i)"
  by (auto simp: directory_key_def)

definition later :: "server \<Rightarrow> server \<Rightarrow> bool" where
  "later s s' \<longleftrightarrow>
     (\<forall>k b. directory_key k \<longrightarrow> get_kv (srv_ledger s) k = Some b \<longrightarrow> get_kv (srv_ledger s') k = Some b)
     \<and> (\<forall>u x. map_of (svc_accounts (srv_auth s)) u = Some x \<longrightarrow> map_of (svc_accounts (srv_auth s')) u = Some x)"

lemma later_refl: "later s s"
  by (simp add: later_def)

lemma later_trans: "later s t \<Longrightarrow> later t u \<Longrightarrow> later s u"
  by (simp add: later_def)

definition named :: "Principal \<Rightarrow> bool" where
  "named prin \<longleftrightarrow> usernamePattern (prc_Username prin) \<and> prc_Username prin \<notin> set builtin_names
     \<and> prc_Role prin = ''PROJECT_MEMBER'' \<and> TrimSpace (prc_DisplayName prin) = prc_DisplayName prin"

fun stage_ok :: "server \<Rightarrow> stage \<Rightarrow> bool" where
  "stage_ok s (Named prin pw) \<longleftrightarrow> named prin"
| "stage_ok s (Opened prin pw ct) \<longleftrightarrow> named prin"
| "stage_ok s (Chosen prin pw organization) \<longleftrightarrow> named prin \<and> organization_ok organization"
| "stage_ok s (Connected prin pw organization ct) \<longleftrightarrow> named prin \<and> organization_ok organization"
| "stage_ok s (Enrolled prin pw) \<longleftrightarrow> named prin \<and> backed (srv_ledger s) prin"
| "stage_ok s (Saved prin) \<longleftrightarrow> (\<exists>x. map_of (svc_accounts (srv_auth s)) (prc_Username prin) = Some x \<and> acc_Principal x = prin)"
| "stage_ok s _ \<longleftrightarrow> True"

lemma stored_later:
  "later s s' \<Longrightarrow> directory_key k \<Longrightarrow> stored (srv_ledger s) dec k x \<Longrightarrow> stored (srv_ledger s') dec k x"
  by (auto simp: later_def stored_def)

lemma backed_later: "later s s' \<Longrightarrow> backed (srv_ledger s) prin \<Longrightarrow> backed (srv_ledger s') prin"
  unfolding backed_def by (meson directory_keys stored_later)

lemma stage_ok_later: "stage_ok s g \<Longrightarrow> later s s' \<Longrightarrow> stage_ok s' g"
  by (cases g) (auto simp: backed_later, auto simp: later_def)

text \<open>A registered user and a created organization stay as they are, whatever is called.\<close>

lemma only_creation_writes_organizations:
  assumes "invoke ctx c = Inr ws"
  shows "(\<exists>i n t p d f. c = TxCreateBusinessOrganization i n t p d f)
    \<or> list_all (\<lambda>w. family (write_key w) \<noteq> ''ORGANIZATION'') ws"
  using assms
  by (cases c) (auto simp: invoice_families_def dest!: families_directory families_invoice families_project
      families_reimbursement elim!: list.pred_mono_strong)

lemma directory_stays:
  assumes "wf_ledger (st_ledger ctx)" "directory_key k" "get_kv (st_ledger ctx) k = Some b"
  shows "get_kv (submit ctx c) k = Some b"
proof (cases "invoke ctx c")
  case (Inr ws)
  have "k \<notin> write_key ` set ws"
  proof
    assume k: "k \<in> write_key ` set ws"
    from assms(2) consider u where "k = userKey u" | i where "k = organizationKey i" by (auto simp: directory_key_def)
    then show False
    proof cases
      case 1
      with k obtain n d m r x where "c = TxRegisterBusinessUser n d m r x"
        using only_registration_writes_users [OF Inr] by (auto simp: list_all_iff) (metis family_keys(3))
      with Inr k 1 show False using assms(3) by (auto dest!: RegisterBusinessUser_effect)
    next
      case 2
      with k obtain j n t p d f where "c = TxCreateBusinessOrganization j n t p d f"
        using only_creation_writes_organizations [OF Inr] by (auto simp: list_all_iff) (metis family_keys)
      with Inr k 2 show False using assms(3) by (auto dest!: CreateBusinessOrganization_effect)
    qed
  qed
  with assms Inr show ?thesis by (simp add: submit_Inr get_commit_other)
qed (use assms in \<open>simp add: submit_Inl\<close>)

lemma backed_submit:
  "wf_ledger (st_ledger ctx) \<Longrightarrow> backed (st_ledger ctx) prin \<Longrightarrow> backed (submit ctx c) prin"
  using directory_stays [OF _ directory_keys(1)] unfolding backed_def stored_def by blast

lemma same_records [simp]:
  "process_ok (s\<lparr>srv_gate := g\<rparr>) = process_ok s" "process_ok (s\<lparr>srv_host := h\<rparr>) = process_ok s"
  "later s0 (s\<lparr>srv_gate := g\<rparr>) = later s0 s" "later s0 (s\<lparr>srv_host := h\<rparr>) = later s0 s"
  by (simp_all add: process_ok_def later_def)

section \<open>Each step keeps accounts and ledger together\<close>

definition keeps :: "server \<Rightarrow> stage \<times> server \<Rightarrow> bool" where
  "keeps s gs \<longleftrightarrow> gateways_ok (srv_gate (snd gs)) \<and> process_ok (snd gs) \<and> later s (snd gs) \<and> stage_ok (snd gs) (fst gs)"

lemma keeps_contractOf:
  assumes "gateways_ok (srv_gate s)" "process_ok s" "contractOf env m s = (r, s')"
  shows "gateways_ok (srv_gate s') \<and> process_ok s' \<and> later s s'"
proof -
  obtain x g where g: "ContractFor (env_sdk env) (srv_host s) m (srv_gate s) = (x, g)" by fastforce
  with assms(3) have "s' = s\<lparr>srv_gate := g\<rparr>" by (simp add: contractOf_def)
  with ContractFor_ok(1) [OF assms(1) g] assms(2) show ?thesis by (simp add: later_refl)
qed

lemma named_valid:
  assumes "process_ok s" "ValidateRegistration (srv_auth s) prin pw = Inr ()" "prc_Role prin = ''PROJECT_MEMBER''"
    and "TrimSpace (prc_DisplayName prin) = prc_DisplayName prin"
  shows "named prin"
proof -
  have "set builtin_names \<subseteq> dom (map_of (svc_accounts (srv_auth s)))" using assms(1) by (simp add: process_ok_def auth_ok_def)
  with assms(2-4) show ?thesis by (auto simp: named_def ValidateRegistration_def split: if_splits)
qed

text \<open>The organization a peer answers with is the stored one.\<close>

lemma fetched_organization:
  assumes "network_ok (env_net env)" "reachable (srv_ledger s)"
    and "fetch env ct (QReadBusinessOrganization i) (Unmarshal dec_BusinessOrganization) s = Inr x"
  shows "organization_ok x"
proof -
  let ?ctx = "net_stub (env_net env) (ctr_MSPID ct) (srv_ledger s)"
  have "ReadBusinessOrganization ?ctx i = Inr x"
    using assms(3) by (auto simp: fetch_def evaluate_def EvaluateTransaction_def doc_payload_def Unmarshal_def res_inv
        split: sum.splits option.splits)
  moreover have "typed (st_ledger ?ctx)" using assms(1,2) reachable_typed by (simp add: network_ok_def)
  ultimately show ?thesis by (auto dest: typed_ReadBusinessOrganization)
qed

lemma registered_backed:
  assumes "network_ok net" "wf_ledger l" "named prin" "organization_ok x"
    and "SubmitTransaction net ct (TxRegisterBusinessUser (prc_Username prin) (prc_DisplayName prin) (org_MSPID x)
      (prc_Role prin) (org_ID x)) l = (e, l')"
  shows "e = None \<Longrightarrow> backed l' (prin\<lparr>prc_MSPID := org_MSPID x, prc_OrganizationID := org_ID x\<rparr>)"
proof -
  assume "e = None"
  let ?ctx = "net_stub net (ctr_MSPID ct) l"
  have l: "st_ledger ?ctx = l" using assms(1) by (simp add: network_ok_def)
  obtain ws where ws: "RegisterBusinessUser ?ctx (prc_Username prin) (prc_DisplayName prin) (org_MSPID x)
      (prc_Role prin) (org_ID x) = Inr ws" "l' = commit ws l"
    using assms(5) \<open>e = None\<close> by (auto simp: SubmitTransaction_def split: option.splits sum.splits)
  have "TrimSpace (org_ID x) = org_ID x" "TrimSpace (org_MSPID x) = org_MSPID x"
    using assms(4) by (auto simp: organization_ok_def demo_trim)
  moreover have "TrimSpace (prc_Username prin) = prc_Username prin" "TrimSpace (prc_DisplayName prin) = prc_DisplayName prin"
    "prc_Role prin = ''PROJECT_MEMBER''"
    using assms(3) TrimSpace_username by (auto simp: named_def)
  ultimately show ?thesis
    using RegisterBusinessUser_effect [OF ws(1)] assms(2) by (auto simp: ws(2) backed_def stored_def get_put_kv)
qed

lemma keeps_submit:
  assumes "network_ok (env_net env)" "process_ok s" "named prin"
    and "SubmitTransaction (env_net env) ct (TxRegisterBusinessUser (prc_Username prin) d m r x) (srv_ledger s) = (e, l)"
  shows "process_ok (s\<lparr>srv_ledger := l\<rparr>) \<and> later s (s\<lparr>srv_ledger := l\<rparr>)"
proof -
  let ?ctx = "net_stub (env_net env) (ctr_MSPID ct) (srv_ledger s)" and ?c = "TxRegisterBusinessUser (prc_Username prin) d m r x"
  have ctx: "st_ledger ?ctx = srv_ledger s" using assms(1) by (simp add: network_ok_def)
  have ok: "names_free (srv_ledger s)" "wf_ledger (srv_ledger s)" "reachable (srv_ledger s)"
    using assms(2) by (simp_all add: process_ok_def names_free_def)
  have "TrimSpace (prc_Username prin) = prc_Username prin" using assms(3) TrimSpace_username by (simp add: named_def)
  then have "names_free (submit ?ctx ?c)" using names_free_register [of ?ctx] ok(1) assms(3) by (simp add: ctx named_def)
  moreover have "reachable (submit ?ctx ?c)"
    using run_step [of any_call "[]" ?ctx ?c] ok(3) by (simp add: ctx reachable_def any_call_def)
  moreover have "backed (submit ?ctx ?c) q" if "backed (srv_ledger s) q" for q
    using backed_submit [of ?ctx] ok(2) that by (simp add: ctx)
  moreover have "get_kv (submit ?ctx ?c) k = Some b" if "directory_key k" "get_kv (srv_ledger s) k = Some b" for k b
    using directory_stays [of ?ctx] ok(2) that by (simp add: ctx)
  ultimately have "process_ok (s\<lparr>srv_ledger := submit ?ctx ?c\<rparr>) \<and> later s (s\<lparr>srv_ledger := submit ?ctx ?c\<rparr>)"
    using assms(2) unfolding process_ok_def later_def by simp blast
  with SubmitTransaction_ledger [OF assms(1,4)] assms(2) later_refl [of s] show ?thesis by auto
qed

lemma keeps_account:
  assumes "process_ok s" "named prin" "backed (srv_ledger s) prin" "RegisterAccount (srv_auth s) prin pw h = (e, a, h')"
  shows "process_ok (s\<lparr>srv_auth := a, srv_host := h'\<rparr>) \<and> later s (s\<lparr>srv_auth := a, srv_host := h'\<rparr>)
    \<and> (e = None \<longrightarrow> stage_ok (s\<lparr>srv_auth := a, srv_host := h'\<rparr>) (Saved prin))"
proof -
  have "auth_registers (srv_auth s) a" using assms(2,4) unfolding auth_registers_def named_def by blast
  then have "auth_ok a" using assms(1) auth_ok_registers by (auto simp: process_ok_def)
  moreover from RegisterAccount_cases [OF assms(4)]
  have cases: "e \<noteq> None \<and> map_of (svc_accounts a) = map_of (svc_accounts (srv_auth s))
    \<or> (\<exists>x. acc_Principal x = prin \<and> map_of (svc_accounts a) = (map_of (svc_accounts (srv_auth s)))(prc_Username prin \<mapsto> x)
        \<and> map_of (svc_accounts (srv_auth s)) (prc_Username prin) = None)"
    by (auto simp: update_conv')
  have "u \<in> set builtin_names \<or> backed (srv_ledger s) (acc_Principal x)" if "map_of (svc_accounts a) u = Some x" for u x
  proof (cases "map_of (svc_accounts (srv_auth s)) u = Some x")
    case True
    with assms(1) show ?thesis unfolding process_ok_def by blast
  next
    case False
    with that cases assms(3) show ?thesis by (auto split: if_splits)
  qed
  moreover have "map_of (svc_accounts a) u = Some x" if "map_of (svc_accounts (srv_auth s)) u = Some x" for u x
    using that cases by auto
  moreover have "e = None \<Longrightarrow> \<exists>x. map_of (svc_accounts a) (prc_Username prin) = Some x \<and> acc_Principal x = prin"
    using cases by auto
  ultimately show ?thesis using assms(1) by (simp add: process_ok_def later_def)
qed

lemma keeps_session:
  assumes "process_ok s" "stage_ok s (Saved prin)" "startSession (srv_auth s) prin h = (r, a, h')"
  shows "process_ok (s\<lparr>srv_auth := a, srv_host := h'\<rparr>) \<and> later s (s\<lparr>srv_auth := a, srv_host := h'\<rparr>)"
proof -
  have "auth_ok a" using assms auth_ok_session by (fastforce simp: process_ok_def)
  moreover have "svc_accounts a = svc_accounts (srv_auth s)"
    using assms(3) by (auto simp: startSession_def split: prod.splits option.splits)
  ultimately show ?thesis using assms(1) by (simp add: process_ok_def later_def)
qed

lemma reg_step_keeps:
  assumes "network_ok (env_net env)" "gateways_ok (srv_gate s)" "process_ok s" "stage_ok s g"
  shows "keeps s (reg_step env c g s)"
proof (cases g)
  case Begun
  show ?thesis
    using assms named_valid [OF assms(3)]
    by (auto simp: Begun keeps_def later_refl Let_def split: option.split sum.split)
next
  case (Named prin pw)
  show ?thesis
    using assms keeps_contractOf [OF assms(2,3)] by (auto simp: Named keeps_def split: prod.split sum.split)
next
  case (Opened prin pw ct)
  have "reachable (srv_ledger s)" using assms(3) by (simp add: process_ok_def)
  then show ?thesis
    using assms fetched_organization [OF assms(1)] by (auto simp: Opened keeps_def later_refl split: sum.split)
next
  case (Chosen prin pw organization)
  show ?thesis
    using assms keeps_contractOf [OF assms(2,3)] by (auto simp: Chosen keeps_def split: prod.split sum.split)
next
  case (Connected prin pw organization ct)
  then have n: "named prin" "organization_ok organization" using assms(4) by simp_all
  have "wf_ledger (srv_ledger s)" using assms(3) by (simp add: process_ok_def names_free_def)
  from registered_backed [OF assms(1) this n] keeps_submit [OF assms(1,3) n(1)] n(1) assms(2) show ?thesis
    by (auto simp: Connected keeps_def named_def split: prod.split option.split)
next
  case (Enrolled prin pw)
  then have "named prin" "backed (srv_ledger s) prin" using assms(4) by simp_all
  from keeps_account [OF assms(3) this] assms(2) show ?thesis
    by (auto simp: Enrolled keeps_def split: prod.split option.split)
next
  case (Saved prin)
  then have "stage_ok s (Saved prin)" using assms(4) by simp
  from keeps_session [OF assms(3) this] assms(2) show ?thesis
    by (auto simp: Saved keeps_def StartRegisteredSession_def split: prod.split)
qed (use assms in \<open>simp add: keeps_def later_refl\<close>)

lemma reg_iter_keeps:
  "network_ok (env_net env) \<Longrightarrow> gateways_ok (srv_gate s) \<Longrightarrow> process_ok s \<Longrightarrow> stage_ok s g \<Longrightarrow>
     keeps s (reg_iter n env c (g, s))"
proof (induction n arbitrary: g s)
  case (Suc n)
  obtain g' s' where step: "reg_step env c g s = (g', s')" by fastforce
  with reg_step_keeps [OF Suc.prems, of c]
  have k: "gateways_ok (srv_gate s')" "process_ok s'" "stage_ok s' g'" "later s s'" by (simp_all add: keeps_def)
  from Suc.IH [OF Suc.prems(1) k(1-3)] k(4) later_trans show ?case
    by (auto simp: keeps_def reg_iter_simps step)
qed (simp add: keeps_def later_refl reg_iter_simps)

lemma registerUser_keeps:
  assumes "network_ok (env_net env)" "gateways_ok (srv_gate s)" "process_ok s" "registerUser env c s = (r, s')"
  shows "process_ok s' \<and> later s s'"
  using reg_iter_keeps [OF assms(1-3), of Begun 7 c] assms(4) by (simp add: registerUser_steps keeps_def)

section \<open>Each request keeps accounts and ledger together\<close>

lemma acts_keeps:
  assumes "network_ok (env_net env)" "process_ok s" "acts env prin s (r, s')"
  shows "process_ok s' \<and> later s s'"
proof -
  let ?ctx = "net_stub (env_net env) (prc_MSPID prin) (srv_ledger s)"
  have ctx: "st_ledger ?ctx = srv_ledger s" using assms(1) by (simp add: network_ok_def)
  have auth: "srv_auth s' = srv_auth s" using assms(3) by (simp add: acts_def)
  have sub: "submitted_for env prin (srv_ledger s) (srv_ledger s')" using assms(3) by (simp add: acts_def)
  have ok: "names_free (srv_ledger s)" "wf_ledger (srv_ledger s)" "reachable (srv_ledger s)"
    using assms(2) by (simp_all add: process_ok_def names_free_def)
  have other: "\<nexists>n d m r x. tx = TxRegisterBusinessUser n d m r x" if "operator_of tx = Some u" for tx u
    using that by auto
  have "names_free (srv_ledger s')"
    using sub ok(1) names_free_submit [of ?ctx, OF _ other] unfolding submitted_for_def ctx by metis
  moreover have "reachable (srv_ledger s')" by (rule submitted_run [OF assms(1) sub ok(3)])
  moreover have "backed (srv_ledger s') q" if "backed (srv_ledger s) q" for q
    using sub backed_submit [of ?ctx] ok(2) that by (auto simp: submitted_for_def ctx)
  moreover have "get_kv (srv_ledger s') k = Some b" if "directory_key k" "get_kv (srv_ledger s) k = Some b" for k b
    using sub directory_stays [of ?ctx] ok(2) that by (auto simp: submitted_for_def ctx)
  ultimately show ?thesis using assms(2) by (simp add: auth process_ok_def later_def) blast
qed

lemma startSession_accounts: "svc_accounts (fst (snd (startSession a prin h))) = svc_accounts a"
  by (simp add: startSession_def split: prod.split option.split)

lemma logs_in_keeps:
  assumes "process_ok s" "srv_ledger s' = srv_ledger s" "logs_in (srv_auth s) (srv_auth s')"
  shows "process_ok s' \<and> later s s'"
proof -
  have "svc_accounts (srv_auth s') = svc_accounts (srv_auth s)"
    using assms(3) startSession_accounts unfolding logs_in_def by fastforce
  with auth_ok_logs_in [OF _ assms(3)] assms(1,2) show ?thesis by (simp add: process_ok_def later_def)
qed

lemma serve_register:
  "serve env ''POST'' [''auth'', ''register''] req s = registerUser env \<lparr>gin_request = req\<lparr>rq_id := []\<rparr>, gin_principal = None\<rparr> s"
  by (simp add: serve_def RegisterRoutes_def Let_def)

lemma serve_keeps:
  assumes "network_ok (env_net env)" "gateways_ok (srv_gate s)" "process_ok s" "serve env verb path req s = (r, s')"
  shows "process_ok s' \<and> later s s'"
  using assms(1,2,4)
proof (rule serve_cases)
  assume "verb = ''POST''" "path = [''auth'', ''register'']"
  with registerUser_keeps [OF assms(1-3)] assms(4) show ?thesis by (simp add: serve_register)
qed (use assms(3) acts_keeps [OF assms(1,3)] logs_in_keeps [OF assms(3)] later_refl in blast)+

interpretation whole: process_invariant "\<lambda>s. process_ok s \<and> later s1 s" for s1
  by unfold_locales (use serve_keeps later_trans in auto)

section \<open>Runs of the process\<close>

text \<open>
  A state of the process: the server and the registrations on their way, each with its request. Between
  two steps time passes, files and random bytes change and the network answers anew.
\<close>

inductive process_run :: "server \<Rightarrow> server \<Rightarrow> (gin \<times> stage) list \<Rightarrow> bool" where
  process_start: "process_run s0 s0 []"
| process_request: "process_run s0 s ts \<Longrightarrow> network_ok (env_net env) \<Longrightarrow>
    dispatch env verb path req (s\<lparr>srv_host := h\<rparr>) = (a, s') \<Longrightarrow> process_run s0 s' ts"
| process_register: "process_run s0 s ts \<Longrightarrow> process_run s0 s (ts @ [(c, Begun)])"
| process_step: "process_run s0 s ts \<Longrightarrow> network_ok (env_net env) \<Longrightarrow> i < length ts \<Longrightarrow>
    ts ! i = (c, g) \<Longrightarrow> reg_step env c g (s\<lparr>srv_host := h\<rparr>) = (g', s') \<Longrightarrow> process_run s0 s' (ts[i := (c, g')])"

lemma process_keeps:
  assumes "process_run s0 s ts" "gateways_ok (srv_gate s0)" "process_ok s0"
  shows "gateways_ok (srv_gate s) \<and> process_ok s \<and> (\<forall>t \<in> set ts. stage_ok s (snd t))"
  using assms
proof (induction rule: process_run.induct)
  case (process_request s0 s ts env verb path req h a s')
  let ?s = "s\<lparr>srv_host := h\<rparr>"
  have ok: "gateways_ok (srv_gate ?s)" "process_ok ?s" "\<forall>t \<in> set ts. stage_ok s (snd t)"
    using process_request.IH process_request.prems by auto
  from whole.dispatch_keeps [OF process_request.hyps(2) ok(1) _ process_request.hyps(3), of s] ok(2) later_refl [of s]
  have "gateways_ok (srv_gate s') \<and> process_ok s' \<and> later s s'" by simp
  with ok(3) stage_ok_later show ?case by blast
next
  case (process_step s0 s ts env i c g h g' s')
  let ?s = "s\<lparr>srv_host := h\<rparr>"
  have ok: "gateways_ok (srv_gate ?s)" "process_ok ?s" "\<forall>t \<in> set ts. stage_ok s (snd t)"
    using process_step.IH process_step.prems by auto
  have "later s ?s" using later_refl [of s] by simp
  with ok(3) process_step.hyps(3,4) have "stage_ok ?s g" by (metis nth_mem snd_conv stage_ok_later)
  from reg_step_keeps [OF process_step.hyps(2) ok(1,2) this, of c] process_step.hyps(5)
  have k: "gateways_ok (srv_gate s')" "process_ok s'" "later ?s s'" "stage_ok s' g'" by (simp_all add: keeps_def)
  have "later s s'" using later_trans [OF \<open>later s ?s\<close> k(3)] .
  with ok(3) k stage_ok_later show ?case by (auto dest!: set_update_subset_insert [THEN subsetD])
qed auto

section \<open>No privilege by way of the website\<close>

lemma session_account:
  assumes "auth_ok (srv_auth s)" "session_of s req = Some prin"
  shows "\<exists>x. map_of (svc_accounts (srv_auth s)) (prc_Username prin) = Some x \<and> acc_Principal x = prin"
proof -
  obtain t x where "map_of (svc_sessions (srv_auth s)) t = Some x" "ses_principal x = prin"
    using assms(2) by (auto simp: session_of_def principalFromCookie_def split: option.splits if_splits)
  with assms(1) show ?thesis by (auto simp: auth_ok_def)
qed

lemma backed_members:
  assumes "\<forall>x. from_file h x \<longrightarrow> backed l (acc_Principal x)" "reachable l"
    and "\<forall>u \<in> set builtin_names. get_kv l (userKey u) = None"
  shows "members_only h"
  unfolding members_only_def
proof (intro allI impI)
  fix x assume "from_file h x"
  with assms(1) obtain y where y: "stored l dec_BusinessUser (userKey (prc_Username (acc_Principal x))) y"
    "usr_Role y = prc_Role (acc_Principal x)" by (auto simp: backed_def)
  then have "user_ok y" using typed_entry [OF _ reachable_typed [OF assms(2)]] by (fastforce simp: stored_def)
  with y assms(3) show "prc_Role (acc_Principal x) = ''PROJECT_MEMBER'' \<and> prc_Username (acc_Principal x) \<notin> set builtin_names"
    by (auto simp: user_ok_def stored_def)
qed

lemma started_ok:
  assumes "start k h l = Inr (s0, ocr, addr)" "random_works h" "\<forall>x. from_file h x \<longrightarrow> backed l (acc_Principal x)"
    and "reachable l" "\<forall>u \<in> set builtin_names. get_kv l (userKey u) = None"
  shows "gateways_ok (srv_gate s0)" "process_ok s0" "srv_ledger s0 = l"
proof -
  note ok = start_ok [OF assms(1,2) backed_members [OF assms(3-5)]]
  show "gateways_ok (srv_gate s0)" "srv_ledger s0 = l" by (fact ok)+
  have "names_free l" using assms(4,5) typed_wf [OF reachable_typed] by (simp add: names_free_def)
  with ok assms(3,4) show "process_ok s0" unfolding process_ok_def by blast
qed

text \<open>
  C26. A website that was started on a working random source, on an account file whose accounts are
  registered in the ledger, and on a ledger that the contract can reach and in which no built-in name is
  registered, never grants a privilege: whatever requests it serves, however their registrations
  overlap, and with whatever files, clock and random bytes, each session it recognises belongs to an
  account of that name, which has the role and organization of a built-in account, or the role of an
  ordinary member who is registered in the ledger with the same particulars; every account but the
  built-in ones stands for such a member; and no built-in name is ever registered in the ledger, so that
  the officers' own authority is not shadowed by way of the website.
\<close>

theorem a_started_website_grants_no_privilege:
  assumes "start k h l = Inr (s0, ocr, addr)" "random_works h" "\<forall>x. from_file h x \<longrightarrow> backed l (acc_Principal x)"
    and "reachable l" "\<forall>u \<in> set builtin_names. get_kv l (userKey u) = None" "process_run s0 s ts"
  shows "(\<forall>req prin. session_of s req = Some prin \<longrightarrow>
      (\<exists>x. map_of (svc_accounts (srv_auth s)) (prc_Username prin) = Some x \<and> acc_Principal x = prin)
      \<and> (if prc_Username prin \<in> set builtin_names
         then (prc_Username prin, prc_MSPID prin, prc_Role prin) \<in> set demo_accounts
         else prc_Role prin = ''PROJECT_MEMBER'' \<and> backed (srv_ledger s) prin))
    \<and> (\<forall>u x. map_of (svc_accounts (srv_auth s)) u = Some x \<longrightarrow> u \<in> set builtin_names \<or> backed (srv_ledger s) (acc_Principal x))
    \<and> (\<forall>u \<in> set builtin_names. get_kv (srv_ledger s) (userKey u) = None)"
proof -
  from process_keeps [OF assms(6) started_ok(1,2) [OF assms(1-5)]] have "process_ok s" by blast
  then have p: "auth_ok (srv_auth s)" "names_free (srv_ledger s)"
    "\<And>u x. map_of (svc_accounts (srv_auth s)) u = Some x \<Longrightarrow> u \<in> set builtin_names \<or> backed (srv_ledger s) (acc_Principal x)"
    unfolding process_ok_def by blast+
  then show ?thesis
    using session_privilege [OF p(1)] session_account [OF p(1)] unfolding privilege_ok_def names_free_def by metis
qed

definition boot_login :: request where
  "boot_login = \<lparr>rq_cookie = None, rq_id = [], rq_query = [],
     rq_body = Doc (JObj [(''username'', JStr ''finance-admin''), (''password'', JStr ''finance123'')]), rq_file = None, rq_size = 0\<rparr>"

lemma boot_finance:
  assumes "start boot_sdk boot_host l = Inr (s, ocr, addr)"
  obtains x where "map_of (svc_accounts (srv_auth s)) ''finance-admin'' = Some x" "passwordMatches ''finance123'' x"
    "prc_Username (acc_Principal x) = ''finance-admin''"
proof -
  obtain t k where t: "add_all (demo_specs boot_host) (empty_service boot_host, boot_host) = (t, k)" by fastforce
  have "read_accounts (svc_accountFile t) k = Inr []"
    using builtin_accounts(3,4) [OF boot_assumptions(1) t] boot_reads by (simp add: envOr_def boot_host_def)
  then have "srv_auth s = t"
    using assms by (auto simp: start_def NewService_add_all t loadAccounts_def split: prod.splits sum.splits)
  moreover have "\<exists>x. map_of (svc_accounts t) ''finance-admin'' = Some x \<and> passwordMatches ''finance123'' x
      \<and> prc_Username (acc_Principal x) = ''finance-admin''"
    using t by (auto simp: add_all_def demo_specs_def addDemoAccount_def newAccount_def newToken_def rand_read_def
        boot_host_def numeral_eq_Suc update_conv' put_account_def passwordMatches_def envOr_def)
  ultimately show thesis using that by blast
qed

definition boot_token :: string where
  "boot_token = base64_raw_url (replicate 32 0)"

lemma boot_session:
  assumes "start boot_sdk boot_host l = Inr (s, ocr, addr)"
  obtains s' prin where "process_run s s' []" "srv_ledger s' = srv_ledger s" "prc_Username prin = ''finance-admin''"
    "\<And>req. rq_cookie req = Some boot_token \<Longrightarrow>
      session_of s' req = Some prin \<and> session_of (s'\<lparr>srv_host := boot_host\<rparr>) req = Some prin"
proof -
  obtain x where x: "map_of (svc_accounts (srv_auth s)) ''finance-admin'' = Some x" "passwordMatches ''finance123'' x"
    "prc_Username (acc_Principal x) = ''finance-admin''"
    using boot_finance [OF assms] .
  obtain r s' where run: "dispatch (demo_env ''t'') ''POST'' [''api'', ''auth'', ''login''] boot_login (s\<lparr>srv_host := boot_host\<rparr>) = (r, s')"
    by fastforce
  have run': "process_run s s' []" by (rule process_request [OF process_start demo_net_ok run])
  have bind: "ShouldBindJSON dec_login (\<lambda>(u, p). v_required u \<and> v_required p) \<lparr>gin_request = boot_login\<lparr>rq_id := i\<rparr>, gin_principal = None\<rparr>
      = Some (''finance-admin'', ''finance123'')" for i
    by (simp add: ShouldBindJSON_Some dec_login_def v_required_def plain_names_fold boot_login_def)
  have "lookup_route RegisterRoutes ''POST'' [''auth'', ''login''] = Some ([''auth'', ''login''], Public, login_handler)"
    by (simp add: RegisterRoutes_def Let_def)
  then have "map_of (svc_sessions (srv_auth s')) boot_token = Some \<lparr>ses_principal = acc_Principal x, ses_expiresAt = session_ns\<rparr>
      \<and> srv_ledger s' = srv_ledger s \<and> hst_now (srv_host s') = 0"
    using run x unfolding dispatch_def serve_def
    by (auto simp: login_handler_def Login_def bind startSession_def newToken_def rand_read_def boot_host_def demo_host_def
        numeral_eq_Suc update_conv' boot_token_def split: prod.splits)
  then show thesis
    using that [OF run' _ x(3)] by (simp add: session_of_def principalFromCookie_def session_ns_def boot_host_def demo_host_def)
qed

lemma boot_file: "\<forall>x. from_file boot_host x \<longrightarrow> backed [] (acc_Principal x)"
  using boot_reads by (simp add: from_file_def envOr_def boot_host_def)

theorem a_started_website_grants_no_privilege_witness:
  "\<exists>s req prin. session_of s req = Some prin \<and> prc_Username prin = ''finance-admin''
     \<and> (prc_Username prin, prc_MSPID prin, prc_Role prin) \<in> set demo_accounts"
proof -
  let ?req = "boot_login\<lparr>rq_cookie := Some boot_token\<rparr>"
  obtain s ocr addr where s: "start boot_sdk boot_host [] = Inr (s, ocr, addr)" using boot by blast
  obtain s' prin where run: "process_run s s' []" "prc_Username prin = ''finance-admin''"
    and session: "\<And>req. rq_cookie req = Some boot_token \<Longrightarrow>
      session_of s' req = Some prin \<and> session_of (s'\<lparr>srv_host := boot_host\<rparr>) req = Some prin"
    using boot_session [OF s] by metis
  have "session_of s' ?req = Some prin" using session [of ?req] by simp
  moreover have "''finance-admin'' \<in> set builtin_names" by (simp add: builtin_names_def)
  moreover have "reachable []" "\<forall>u \<in> set builtin_names. get_kv [] (userKey u) = None"
    by (simp_all add: reachable_def run_refl get_kv_def)
  note all = a_started_website_grants_no_privilege [OF s boot_assumptions(1) boot_file this run(1)]
  ultimately show ?thesis using all run(2) by metis
qed

end
