(* ===== verification/Process.thy ===== *)
theory Process
  imports Registration
begin

text \<open>
  Two properties of the runs of \<open>Registration\<close>: a registration that was answered with a success is complete,
  and no two of them share a name, however they overlapped; and in a process that was started properly
  only a session of the finance administrator turns a reimbursement into a paid one. For the first, each
  stage of a registration is tied to its request, to the ledger and to the accounts (\<open>follows\<close>); the steps of
  the others keep that, because nothing removes an entry of the directory or an account (\<open>later\<close>).
\<close>

section \<open>Acknowledged registrations\<close>

text \<open>The request, and the member it asks for, in an organization with the given certificate.\<close>

definition asked :: "gin \<Rightarrow> registerRequest \<Rightarrow> bool" where
  "asked c q \<longleftrightarrow> ShouldBindJSON dec_registerRequest valid_registerRequest c = Some q"

definition registrant :: "registerRequest \<Rightarrow> string \<Rightarrow> Principal" where
  "registrant q m = \<lparr>prc_DisplayName = TrimSpace (rgr_DisplayName q), prc_MSPID = m,
     prc_OrganizationID = TrimSpace (rgr_OrganizationID q), prc_Role = ''PROJECT_MEMBER'',
     prc_Username = TrimSpace (rgr_Username q)\<rparr>"

lemma registrant_simps [simp]:
  "prc_Username (registrant q m) = TrimSpace (rgr_Username q)" "prc_OrganizationID (registrant q m) = TrimSpace (rgr_OrganizationID q)"
  "(registrant q m)\<lparr>prc_MSPID := m'\<rparr> = registrant q m'" "prc_DisplayName (registrant q m) = TrimSpace (rgr_DisplayName q)"
  "prc_Role (registrant q m) = ''PROJECT_MEMBER''" "prc_MSPID (registrant q m) = m"
  by (simp_all add: registrant_def)

text \<open>What the ledger and the accounts hold of a registration that got that far.\<close>

definition enrolled :: "ledger \<Rightarrow> registerRequest \<Rightarrow> Principal \<Rightarrow> bool" where
  "enrolled l q prin \<longleftrightarrow> backed l prin
     \<and> (\<exists>x. stored l dec_BusinessOrganization (organizationKey (TrimSpace (rgr_OrganizationID q))) x
          \<and> org_Status x = ''ACTIVE'' \<and> prin = registrant q (org_MSPID x))"

definition has_account :: "Service \<Rightarrow> registerRequest \<Rightarrow> Principal \<Rightarrow> bool" where
  "has_account a q prin \<longleftrightarrow> (\<exists>x. map_of (svc_accounts a) (prc_Username prin) = Some x \<and> acc_Principal x = prin
     \<and> passwordMatches (rgr_Password q) x)"

fun follows :: "server \<Rightarrow> gin \<Rightarrow> stage \<Rightarrow> bool" where
  "follows s c Begun \<longleftrightarrow> True"
| "follows s c (Named prin pw) \<longleftrightarrow> (\<exists>q. asked c q \<and> prin = registrant q [] \<and> pw = rgr_Password q)"
| "follows s c (Opened prin pw ct) \<longleftrightarrow> (\<exists>q. asked c q \<and> prin = registrant q [] \<and> pw = rgr_Password q)"
| "follows s c (Chosen prin pw x) \<longleftrightarrow>
     (\<exists>q. asked c q \<and> prin = registrant q [] \<and> pw = rgr_Password q \<and> org_ID x = TrimSpace (rgr_OrganizationID q))"
| "follows s c (Connected prin pw x ct) \<longleftrightarrow>
     (\<exists>q. asked c q \<and> prin = registrant q [] \<and> pw = rgr_Password q \<and> org_ID x = TrimSpace (rgr_OrganizationID q))"
| "follows s c (Enrolled prin pw) \<longleftrightarrow> (\<exists>q. asked c q \<and> pw = rgr_Password q \<and> enrolled (srv_ledger s) q prin)"
| "follows s c (Saved prin) \<longleftrightarrow> (\<exists>q. asked c q \<and> enrolled (srv_ledger s) q prin \<and> has_account (srv_auth s) q prin)"
| "follows s c (Answered r) \<longleftrightarrow> (rsp_status r = 200 \<longrightarrow>
     (\<exists>q prin token. asked c q \<and> enrolled (srv_ledger s) q prin \<and> has_account (srv_auth s) q prin
       \<and> r = (reply 200 (enc_Principal prin))\<lparr>rsp_cookie := Some (token, 28800)\<rparr>))"

lemma enrolled_later:
  assumes "later s s'" "enrolled (srv_ledger s) q prin"
  shows "enrolled (srv_ledger s') q prin"
proof -
  obtain x where "stored (srv_ledger s) dec_BusinessOrganization (organizationKey (TrimSpace (rgr_OrganizationID q))) x"
    "org_Status x = ''ACTIVE''" "prin = registrant q (org_MSPID x)" "backed (srv_ledger s) prin"
    using assms(2) by (auto simp: enrolled_def)
  with stored_later [OF assms(1) directory_keys(2)] backed_later [OF assms(1)] show ?thesis
    unfolding enrolled_def by metis
qed

lemma has_account_later: "later s s' \<Longrightarrow> has_account (srv_auth s) q prin \<Longrightarrow> has_account (srv_auth s') q prin"
  by (auto simp: later_def has_account_def)

lemma follows_later: "later s s' \<Longrightarrow> follows s c g \<Longrightarrow> follows s' c g"
  by (cases g) (auto dest: enrolled_later has_account_later)

lemma error_statuses [simp]:
  "rsp_status badRequest = 400" "rsp_status serverError = 500" "rsp_status (transactionError e) = 422"
  by (simp_all add: badRequest_def serverError_def transactionError_def)

text \<open>The organization a registration chooses is the one it asked for.\<close>

lemma fetched_identifier:
  assumes "network_ok (env_net env)" "reachable (srv_ledger s)"
    and "fetch env ct (QReadBusinessOrganization i) (Unmarshal dec_BusinessOrganization) s = Inr x"
  shows "org_ID x = TrimSpace i"
proof -
  let ?ctx = "net_stub (env_net env) (ctr_MSPID ct) (srv_ledger s)"
  have "ReadBusinessOrganization ?ctx i = Inr x"
    using assms(3) by (auto simp: fetch_def evaluate_def EvaluateTransaction_def doc_payload_def Unmarshal_def res_inv
        split: sum.splits option.splits)
  then have "stored (srv_ledger s) dec_BusinessOrganization (organizationKey (TrimSpace i)) x"
    using assms(1) by (simp add: read_inv network_ok_def)
  then show ?thesis using typed_entry [OF _ reachable_typed [OF assms(2)]] by (fastforce simp: stored_def)
qed

lemma enrolled_submit:
  assumes "network_ok net" "wf_ledger l" "named (registrant q [])" "organization_ok x" "org_ID x = TrimSpace (rgr_OrganizationID q)"
    and "SubmitTransaction net ct (TxRegisterBusinessUser (prc_Username (registrant q [])) (prc_DisplayName (registrant q []))
      (org_MSPID x) (prc_Role (registrant q [])) (org_ID x)) l = (None, l')"
  shows "enrolled l' q (registrant q (org_MSPID x)) \<and> get_kv l (userKey (TrimSpace (rgr_Username q))) = None"
proof -
  let ?ctx = "net_stub net (ctr_MSPID ct) l"
  have l: "st_ledger ?ctx = l" using assms(1) by (simp add: network_ok_def)
  obtain ws where ws: "RegisterBusinessUser ?ctx (TrimSpace (rgr_Username q)) (TrimSpace (rgr_DisplayName q)) (org_MSPID x)
      ''PROJECT_MEMBER'' (org_ID x) = Inr ws" "l' = commit ws l"
    using assms(6) by (auto simp: SubmitTransaction_def split: option.splits sum.splits)
  have trim: "TrimSpace (org_MSPID x) = org_MSPID x" using assms(4) by (auto simp: organization_ok_def demo_trim)
  from RegisterBusinessUser_effect [OF ws(1)] obtain y where
    y: "ReadBusinessOrganization ?ctx (org_ID x) = Inr y" "org_Status y = ''ACTIVE''" "org_MSPID y = org_MSPID x"
    "get_kv l (userKey (TrimSpace (rgr_Username q))) = None"
    by (auto simp: trim l assms(5))
  then have "stored l dec_BusinessOrganization (organizationKey (TrimSpace (rgr_OrganizationID q))) y"
    using l by (simp add: read_inv assms(5))
  then have "stored l' dec_BusinessOrganization (organizationKey (TrimSpace (rgr_OrganizationID q))) y"
    using RegisterBusinessUser_effect [OF ws(1)] assms(2) by (auto simp: ws(2) stored_def get_put_kv)
  moreover have "backed l' (registrant q (org_MSPID x))"
    using registered_backed [OF assms(1-4) assms(6)] assms(5) by (simp add: registrant_def)
  ultimately show ?thesis using y by (auto simp: enrolled_def)
qed

lemma follows_step:
  assumes "network_ok (env_net env)" "process_ok s" "stage_ok s g" "follows s c g" "reg_step env c g s = (g', s')"
    and "later s s'"
  shows "follows s' c g'"
proof (cases g)
  case Begun
  with assms(5) show ?thesis by (auto simp: Let_def asked_def registrant_def split: option.splits sum.splits)
next
  case (Named prin pw)
  with assms(4,5) show ?thesis by (auto simp: contractOf_def Let_def split: prod.splits sum.splits)
next
  case (Opened prin pw ct)
  have "reachable (srv_ledger s)" using assms(2) by (simp add: process_ok_def)
  note id = fetched_identifier [OF assms(1) this]
  have failed: "rsp_status e \<noteq> 200" if "fetch env ct k d s = Inl e" for k and d :: "blob \<Rightarrow> BusinessOrganization res" and e
    using that by (auto simp: fetch_def split: sum.splits)
  obtain q where q: "asked c q" "prin = registrant q []" "pw = rgr_Password q" using assms(4) Opened by auto
  show ?thesis
  proof (cases "fetch env ct (QReadBusinessOrganization (prc_OrganizationID prin)) (Unmarshal dec_BusinessOrganization) s")
    case (Inl e)
    with failed assms(5) show ?thesis by (auto simp: Opened)
  next
    case (Inr x)
    with id [OF Inr] assms(5) q show ?thesis by (auto simp: Opened split: if_splits)
  qed
next
  case (Chosen prin pw x)
  with assms(4,5) show ?thesis by (auto simp: contractOf_def Let_def split: prod.splits sum.splits)
next
  case (Connected prin pw x ct)
  with assms(4) obtain q where q: "asked c q" "prin = registrant q []" "pw = rgr_Password q" "org_ID x = TrimSpace (rgr_OrganizationID q)"
    by auto
  have ok: "named (registrant q [])" "organization_ok x" "wf_ledger (srv_ledger s)"
    using assms(2,3) Connected q(2) by (simp_all add: process_ok_def names_free_def)
  obtain e l where tx: "SubmitTransaction (env_net env) ct (TxRegisterBusinessUser (prc_Username (registrant q []))
      (prc_DisplayName (registrant q [])) (org_MSPID x) (prc_Role (registrant q [])) (org_ID x)) (srv_ledger s) = (e, l)" by fastforce
  show ?thesis
  proof (cases e)
    case None
    with enrolled_submit [OF assms(1) ok(3,1,2) q(4)] tx have "enrolled l q (registrant q (org_MSPID x))" by simp
    moreover have "g' = Enrolled (registrant q (org_MSPID x)) pw" "s' = s\<lparr>srv_ledger := l\<rparr>"
      using assms(5) tx None q(4) by (simp_all add: Connected q(2) registrant_def)
    ultimately show ?thesis using q(1,3) by auto
  next
    case (Some a)
    then show ?thesis using assms(5) tx by (auto simp: Connected q(2))
  qed
next
  case (Enrolled prin pw)
  then obtain q where q: "asked c q" "pw = rgr_Password q" "enrolled (srv_ledger s) q prin" using assms(4) by auto
  obtain e a h where ra: "RegisterAccount (srv_auth s) prin pw (srv_host s) = (e, a, h)" by (metis prod_cases3)
  show ?thesis
  proof (cases e)
    case None
    with RegisterAccount_cases [OF ra] have "has_account a q prin" by (auto simp: has_account_def q(2) update_conv')
    moreover have "g' = Saved prin" "s' = s\<lparr>srv_auth := a, srv_host := h\<rparr>" using assms(5) ra None by (simp_all add: Enrolled)
    ultimately show ?thesis using q by auto
  next
    case (Some x)
    then show ?thesis using assms(5) ra by (auto simp: Enrolled)
  qed
next
  case (Saved prin)
  then obtain q where q: "asked c q" "enrolled (srv_ledger s) q prin" "has_account (srv_auth s) q prin" using assms(4) by auto
  from q(2,3) assms(6) have "enrolled (srv_ledger s') q prin" "has_account (srv_auth s') q prin"
    by (auto intro: enrolled_later has_account_later)
  with q(1) assms(5) show ?thesis
    by (auto simp: Saved Let_def StartRegisteredSession_def startSession_def split: prod.splits option.splits) blast
next
  case (Answered r)
  then have "g' = g" "s' = s" using assms(5) by simp_all
  with assms(4) show ?thesis by simp
qed

text \<open>Two registrations on their way past the ledger have different names.\<close>

fun past :: "stage \<Rightarrow> bool" where
  "past (Enrolled _ _) \<longleftrightarrow> True"
| "past (Saved _) \<longleftrightarrow> True"
| "past (Answered r) \<longleftrightarrow> rsp_status r = 200"
| "past _ \<longleftrightarrow> False"

definition username_of :: "gin \<Rightarrow> string" where
  "username_of c = (case ShouldBindJSON dec_registerRequest valid_registerRequest c of None \<Rightarrow> []
     | Some q \<Rightarrow> TrimSpace (rgr_Username q))"

lemma asked_username: "asked c q \<Longrightarrow> username_of c = TrimSpace (rgr_Username q)"
  by (simp add: asked_def username_of_def)

lemma past_taken: "past g \<Longrightarrow> follows s c g \<Longrightarrow> get_kv (srv_ledger s) (userKey (username_of c)) \<noteq> None"
  by (cases g) (auto simp: asked_username enrolled_def backed_def stored_def)

lemma reg_step_past:
  assumes "network_ok (env_net env)" "process_ok s" "stage_ok s g" "follows s c g" "reg_step env c g s = (g', s')"
    and "past g'" "\<not> past g"
  shows "get_kv (srv_ledger s) (userKey (username_of c)) = None"
proof (cases g)
  case (Connected prin pw x ct)
  with assms(4) obtain q where q: "asked c q" "prin = registrant q []" "org_ID x = TrimSpace (rgr_OrganizationID q)" by auto
  have ok: "named (registrant q [])" "organization_ok x" "wf_ledger (srv_ledger s)"
    using assms(2,3) Connected q(2) by (simp_all add: process_ok_def names_free_def)
  obtain e l where tx: "SubmitTransaction (env_net env) ct (TxRegisterBusinessUser (prc_Username (registrant q []))
      (prc_DisplayName (registrant q [])) (org_MSPID x) (prc_Role (registrant q [])) (org_ID x)) (srv_ledger s) = (e, l)" by fastforce
  with assms(5,6) have "e = None" by (cases e) (auto simp: Connected q(2))
  with enrolled_submit [OF assms(1) ok(3,1,2) q(3)] tx show ?thesis by (simp add: asked_username [OF q(1)])
next
  case (Opened prin pw ct)
  have "rsp_status e \<noteq> 200" if "fetch env ct k d s = Inl e" for k and d :: "blob \<Rightarrow> BusinessOrganization res" and e
    using that by (auto simp: fetch_def split: sum.splits)
  with assms(5,6) show ?thesis by (auto simp: Opened split: sum.splits if_splits)
qed (use assms(5-7) in \<open>auto simp: Let_def contractOf_def split: option.splits sum.splits prod.splits\<close>)


text \<open>The invariant of a process: every registration follows its request, and no name is past the ledger twice.\<close>

definition registrations_ok :: "server \<Rightarrow> (gin \<times> stage) list \<Rightarrow> bool" where
  "registrations_ok s ts \<longleftrightarrow> (\<forall>(c, g) \<in> set ts. follows s c g)
     \<and> (\<forall>i < length ts. \<forall>j < length ts. i \<noteq> j \<longrightarrow> past (snd (ts ! i)) \<longrightarrow> past (snd (ts ! j)) \<longrightarrow>
          username_of (fst (ts ! i)) \<noteq> username_of (fst (ts ! j)))"

lemma registrations_later: "later s s' \<Longrightarrow> registrations_ok s ts \<Longrightarrow> registrations_ok s' ts"
  unfolding registrations_ok_def using follows_later by blast

lemma registrations_append: "registrations_ok s ts \<Longrightarrow> registrations_ok s (ts @ [(c, Begun)])"
  by (auto simp: registrations_ok_def nth_append less_Suc_eq)

lemma registrations_step:
  assumes "registrations_ok s ts" "i < length ts" "ts ! i = (c, g)" "network_ok (env_net env)" "gateways_ok (srv_gate s)"
    and "process_ok s" "stage_ok s g" "reg_step env c g s = (g', s')"
  shows "registrations_ok s' (ts[i := (c, g')])"
proof -
  have f: "follows s c g" and later: "later s s'"
    using assms(1-3) nth_mem [OF assms(2)] reg_step_keeps [OF assms(4-7), of c] assms(8)
    by (auto simp: registrations_ok_def keeps_def)
  have all: "follows s' d h" if "(d, h) \<in> set (ts[i := (c, g')])" for d h
  proof (cases "(d, h) = (c, g')")
    case True
    with follows_step [OF assms(4,6,7) f assms(8) later] show ?thesis by simp
  next
    case False
    with that have "(d, h) \<in> set ts" by (auto dest!: set_update_subset_insert [THEN subsetD])
    with assms(1) follows_later [OF later] show ?thesis by (auto simp: registrations_ok_def)
  qed
  have new: "username_of c \<noteq> username_of (fst (ts ! j))"
    if j: "j < length ts" "j \<noteq> i" and p: "past g'" "past (snd (ts ! j))" for j
  proof (cases "past g")
    case True
    with assms(1-3) j p(2) show ?thesis unfolding registrations_ok_def by (metis fst_conv snd_conv)
  next
    case False
    have "follows s (fst (ts ! j)) (snd (ts ! j))" using assms(1) nth_mem [OF j(1)] by (auto simp: registrations_ok_def)
    with past_taken [OF p(2)] reg_step_past [OF assms(4,6,7) f assms(8) p(1) False] show ?thesis by metis
  qed
  have old: "username_of (fst (ts ! j)) \<noteq> username_of (fst (ts ! k))"
    if "j < length ts" "k < length ts" "j \<noteq> k" "past (snd (ts ! j))" "past (snd (ts ! k))" for j k
    using assms(1) that by (simp add: registrations_ok_def)
  have "username_of (fst (ts[i := (c, g')] ! j)) \<noteq> username_of (fst (ts[i := (c, g')] ! k))"
    if jk: "j < length ts" "k < length ts" "j \<noteq> k" "past (snd (ts[i := (c, g')] ! j))" "past (snd (ts[i := (c, g')] ! k))" for j k
  proof (cases "j = i \<or> k = i")
    case True
    with jk new [of j] new [of k] show ?thesis by (auto simp: nth_list_update)
  next
    case False
    with jk old [of j k] show ?thesis by (simp add: nth_list_update)
  qed
  with all show ?thesis by (auto simp: registrations_ok_def)
qed

lemma process_registrations:
  assumes "process_run s0 s ts" "gateways_ok (srv_gate s0)" "process_ok s0"
  shows "registrations_ok s ts"
  using assms
proof (induction rule: process_run.induct)
  case (process_start s0)
  show ?case by (simp add: registrations_ok_def)
next
  case (process_request s0 s ts env verb path req h a s')
  let ?s = "s\<lparr>srv_host := h\<rparr>"
  have "gateways_ok (srv_gate ?s)" "process_ok ?s"
    using process_keeps [OF process_request.hyps(1) process_request.prems] by simp_all
  from whole.dispatch_keeps [OF process_request.hyps(2) this(1) _ process_request.hyps(3), of s] this(2) later_refl [of s]
  have "later s s'" by simp
  with process_request.IH process_request.prems registrations_later show ?case by blast
next
  case (process_register s0 s ts c)
  then show ?case by (simp add: registrations_append)
next
  case (process_step s0 s ts env i c g h g' s')
  let ?s = "s\<lparr>srv_host := h\<rparr>"
  have ok: "gateways_ok (srv_gate ?s)" "process_ok ?s" "\<forall>t \<in> set ts. stage_ok s (snd t)"
    using process_keeps [OF process_step.hyps(1) process_step.prems] by simp_all
  have "later s ?s" using later_refl [of s] by simp
  with ok(3) process_step.hyps(3,4) have "stage_ok ?s g" by (metis nth_mem snd_conv stage_ok_later)
  moreover have "registrations_ok ?s ts"
    using registrations_later [OF \<open>later s ?s\<close>] process_step.IH process_step.prems by blast
  ultimately show ?case using registrations_step process_step.hyps(2-5) ok(1,2) by blast
qed

text \<open>
  C27. In a process that was started properly, a registration that was answered with a success is complete
  and stays so, however it overlapped with other registrations and requests: its request was well formed,
  the organization it names is in the ledger and active, its name has an account with the password of the
  request, of an ordinary member of that organization with its certificate, who is registered in the
  ledger with the same particulars, and the reply carries a session of eight hours for that member. No two
  registrations are answered with a success under the same name.
\<close>

theorem acknowledged_registrations_are_complete:
  assumes "start k h l = Inr (s0, ocr, addr)" "random_works h" "\<forall>x. from_file h x \<longrightarrow> backed l (acc_Principal x)"
    and "reachable l" "\<forall>u \<in> set builtin_names. get_kv l (userKey u) = None" "process_run s0 s ts"
  shows "(\<forall>i c r. i < length ts \<longrightarrow> ts ! i = (c, Answered r) \<longrightarrow> rsp_status r = 200 \<longrightarrow>
      (\<exists>q x y token. ShouldBindJSON dec_registerRequest valid_registerRequest c = Some q
        \<and> stored (srv_ledger s) dec_BusinessOrganization (organizationKey (TrimSpace (rgr_OrganizationID q))) y
        \<and> org_Status y = ''ACTIVE''
        \<and> map_of (svc_accounts (srv_auth s)) (TrimSpace (rgr_Username q)) = Some x \<and> passwordMatches (rgr_Password q) x
        \<and> acc_Principal x = registrant q (org_MSPID y) \<and> backed (srv_ledger s) (acc_Principal x)
        \<and> r = (reply 200 (enc_Principal (acc_Principal x)))\<lparr>rsp_cookie := Some (token, 8 * 60 * 60)\<rparr>))
    \<and> (\<forall>i j c d r t. i < length ts \<longrightarrow> j < length ts \<longrightarrow> i \<noteq> j \<longrightarrow> ts ! i = (c, Answered r) \<longrightarrow> ts ! j = (d, Answered t) \<longrightarrow>
        rsp_status r = 200 \<longrightarrow> rsp_status t = 200 \<longrightarrow> username_of c \<noteq> username_of d)"
proof (intro conjI allI impI)
  note ok = process_registrations [OF assms(6) started_ok(1,2) [OF assms(1-5)]]
  fix i c r assume i: "i < length ts" "ts ! i = (c, Answered r)" "rsp_status r = 200"
  then have "follows s c (Answered r)" using ok nth_mem [OF i(1)] by (auto simp: registrations_ok_def)
  with i(3) obtain q prin token where q: "asked c q" "enrolled (srv_ledger s) q prin" "has_account (srv_auth s) q prin"
    "r = (reply 200 (enc_Principal prin))\<lparr>rsp_cookie := Some (token, 28800)\<rparr>" by auto
  from q(2) obtain y where "stored (srv_ledger s) dec_BusinessOrganization (organizationKey (TrimSpace (rgr_OrganizationID q))) y"
    "org_Status y = ''ACTIVE''" "prin = registrant q (org_MSPID y)" "backed (srv_ledger s) prin" by (auto simp: enrolled_def)
  moreover from q(3) obtain x where "map_of (svc_accounts (srv_auth s)) (prc_Username prin) = Some x" "acc_Principal x = prin"
    "passwordMatches (rgr_Password q) x" by (auto simp: has_account_def)
  ultimately show "\<exists>q x y token. ShouldBindJSON dec_registerRequest valid_registerRequest c = Some q
        \<and> stored (srv_ledger s) dec_BusinessOrganization (organizationKey (TrimSpace (rgr_OrganizationID q))) y
        \<and> org_Status y = ''ACTIVE''
        \<and> map_of (svc_accounts (srv_auth s)) (TrimSpace (rgr_Username q)) = Some x \<and> passwordMatches (rgr_Password q) x
        \<and> acc_Principal x = registrant q (org_MSPID y) \<and> backed (srv_ledger s) (acc_Principal x)
        \<and> r = (reply 200 (enc_Principal (acc_Principal x)))\<lparr>rsp_cookie := Some (token, 8 * 60 * 60)\<rparr>"
    using q(1,4) by (intro exI [of _ q] exI [of _ x] exI [of _ y] exI [of _ token]) (simp add: asked_def)
next
  note ok = process_registrations [OF assms(6) started_ok(1,2) [OF assms(1-5)]]
  fix i j c d r t
  assume "i < length ts" "j < length ts" "i \<noteq> j" "ts ! i = (c, Answered r)" "ts ! j = (d, Answered t)"
    "rsp_status r = 200" "rsp_status t = 200"
  with ok show "username_of c \<noteq> username_of d" unfolding registrations_ok_def by (metis fst_conv past.simps(3) snd_conv)
qed

text \<open>Steps without interruption.\<close>

lemma process_steps:
  "process_run s0 s ts \<Longrightarrow> i < length ts \<Longrightarrow> ts ! i = (c, g) \<Longrightarrow> network_ok (env_net env) \<Longrightarrow>
     reg_iter (Suc n) env c (g, s\<lparr>srv_host := h\<rparr>) = (g', s') \<Longrightarrow> process_run s0 s' (ts[i := (c, g')])"
proof (induction n arbitrary: s ts g h)
  case 0
  then show ?case using process_step [of s0 s ts env i c g h g' s'] by (simp add: reg_iter_simps)
next
  case (Suc n)
  obtain g1 s1 where step: "reg_step env c g (s\<lparr>srv_host := h\<rparr>) = (g1, s1)" by fastforce
  have "process_run s0 s1 (ts[i := (c, g1)])" using process_step [OF Suc.prems(1,4,2,3) step] .
  moreover have "reg_iter (Suc n) env c (g1, s1\<lparr>srv_host := srv_host s1\<rparr>) = (g', s')"
    using Suc.prems(5) step by (simp add: reg_iter_simps)
  ultimately show ?case using Suc.IH [of s1 "ts[i := (c, g1)]" g1 "srv_host s1"] Suc.prems(2,4) by simp
qed

text \<open>A client for either organization can be had in the process.\<close>

definition boot_env :: "string \<Rightarrow> env" where
  "boot_env tx = demo_env tx\<lparr>env_sdk := boot_sdk\<rparr>"

lemma boot_client:
  assumes "gateways_ok (srv_gate s)" "m \<in> {''Org1MSP'', ''Org2MSP''}"
  obtains ct g where "contractOf (boot_env tx) m (s\<lparr>srv_host := boot_host\<rparr>) = (Inr ct, s\<lparr>srv_host := boot_host, srv_gate := g\<rparr>)"
    "ctr_MSPID ct = m" "gateways_ok g"
proof -
  obtain x g where c: "ContractFor boot_sdk boot_host m (srv_gate s) = (x, g)" by fastforce
  have "\<exists>ct. x = Inr ct"
    using c assms(2) by (auto simp: ContractFor_def boot_host_def boot_sdk_def demo_sdk_def demo_host_def profileFor_def connect_def
        newConnection_def newIdentity_def newSign_def readFirstFile_def read_file_def ReadFile_def checkE_def split: option.splits)
  then obtain ct where ct: "x = Inr ct" ..
  have "ctr_MSPID ct = m" "gateways_ok g" using ContractFor_ok [OF assms(1) c] by (simp_all add: ct)
  with c ct show thesis by (intro that) (simp_all add: contractOf_def boot_env_def)
qed


definition mia :: registerRequest where
  "mia = \<lparr>rgr_DisplayName = ''Mia'', rgr_OrganizationID = ''o'', rgr_Password = ''secret'', rgr_Role = [], rgr_Username = ''mia''\<rparr>"

definition boot_registration :: gin where
  "boot_registration = \<lparr>gin_request = boot_login\<lparr>rq_body := Doc (JObj [(''displayName'', JStr ''Mia''), (''organizationId'', JStr ''o''),
     (''password'', JStr ''secret''), (''username'', JStr ''mia'')])\<rparr>, gin_principal = None\<rparr>"

lemma boot_asked: "ShouldBindJSON dec_registerRequest valid_registerRequest boot_registration = Some mia"
proof -
  have v: "valid_registerRequest mia" unfolding mia_def by code_simp
  have "dec_registerRequest (JObj [(''displayName'', JStr ''Mia''), (''organizationId'', JStr ''o''),
     (''password'', JStr ''secret''), (''username'', JStr ''mia'')]) = Inr mia"
    by (simp add: dec_registerRequest_def plain_names_fold mia_def)
  with v show ?thesis by (simp add: ShouldBindJSON_Some boot_registration_def boot_login_def)
qed

lemma mia_simps [simp]:
  "TrimSpace (rgr_DisplayName mia) = ''Mia''" "TrimSpace (rgr_OrganizationID mia) = ''o''"
  "TrimSpace (rgr_Username mia) = ''mia''" "rgr_Password mia = ''secret''"
  unfolding mia_def by code_simp+

lemma boot_validates:
  assumes "map_of (svc_accounts a) ''mia'' = None" "prc_Username prin = ''mia''" "prc_DisplayName prin = ''Mia''"
    and "prc_OrganizationID prin = ''o''" "prc_Role prin = ''PROJECT_MEMBER''"
  shows "ValidateRegistration a prin ''secret'' = Inr ()"
proof -
  have "usernamePattern ''mia''" "validRole ''PROJECT_MEMBER''" by code_simp+
  with assms show ?thesis by (simp add: ValidateRegistration_def)
qed

lemma boot_machine:
  "hst_mkdir_err boot_host = (\<lambda>_. None)" "hst_write_err boot_host = (\<lambda>_. None)" "hst_rename_err boot_host = (\<lambda>_. None)"
  "hst_read_err boot_host = (\<lambda>_. None)" "hst_files boot_host ''data/accounts.json'' = None"
  "hst_rand boot_host = replicate 8 (Some (replicate 32 0))"
  by (simp_all add: boot_host_def demo_host_def)

lemma first_save:
  assumes "hst_mkdir_err h = (\<lambda>_. None)" "hst_write_err h = (\<lambda>_. None)" "hst_rename_err h = (\<lambda>_. None)"
    and "hst_read_err h = (\<lambda>_. None)" "hst_files h (svc_accountFile s) = None"
  shows "\<exists>k. saveRegisteredAccountsLocked s h = (None, k) \<and> hst_rand k = hst_rand h"
  using assms by (simp add: saveRegisteredAccountsLocked_def save_ops_def ReadFile_def Let_def)

lemma boot_saves:
  assumes "map_of (svc_accounts a) ''mia'' = None" "svc_accountFile a = ''data/accounts.json''"
  shows "\<exists>b h. RegisterAccount a (registrant mia ''Org1MSP'') ''secret'' boot_host = (None, b, h) \<and> hst_rand h \<noteq> [] \<and> hd (hst_rand h) \<noteq> None"
proof -
  let ?prin = "registrant mia ''Org1MSP''" and ?h = "boot_host\<lparr>hst_rand := replicate 7 (Some (replicate 32 0))\<rparr>"
  have "validMSPID ''Org1MSP''" by (simp add: validMSPID_def)
  moreover obtain x where x: "newAccount ?prin ''secret'' boot_host = (Some x, ?h)"
    by (simp add: newAccount_def newToken_def rand_read_def boot_machine numeral_eq_Suc)
  moreover obtain k where "saveRegisteredAccountsLocked (a\<lparr>svc_accounts := AList.update ''mia'' x (svc_accounts a)\<rparr>) ?h = (None, k)"
    "hst_rand k = replicate 7 (Some (replicate 32 0))"
    using first_save [of ?h "a\<lparr>svc_accounts := AList.update ''mia'' x (svc_accounts a)\<rparr>"] assms(2) boot_machine by auto
  ultimately show ?thesis
    using boot_validates [OF assms(1), of ?prin] assms(1) by (simp add: RegisterAccount_def)
qed

lemma boot_chooses:
  assumes "ctr_MSPID ct = m" "get_kv (srv_ledger s) (organizationKey ''o'') = Some (Doc (enc_BusinessOrganization demo_org))"
  shows "fetch (boot_env tx) ct (QReadBusinessOrganization ''o'') (Unmarshal dec_BusinessOrganization) s = Inr demo_org"
  using assms by (simp add: fetch_def evaluate_def EvaluateTransaction_def boot_env_def demo_env_def demo_net_def doc_payload_def
      Unmarshal_def ReadBusinessOrganization_def demo_ctx_simps play play_all)

lemma boot_enrols:
  assumes "ctr_MSPID ct = ''Org1MSP''"
  shows "\<exists>l. SubmitTransaction (env_net (boot_env tx)) ct
    (TxRegisterBusinessUser ''mia'' ''Mia'' ''Org1MSP'' ''PROJECT_MEMBER'' ''o'') l1 = (None, l)"
proof -
  have "TrimSpace ''mia'' = ''mia''" "TrimSpace ''Mia'' = ''Mia''" by code_simp+
  with assms show ?thesis by (simp add: SubmitTransaction_def boot_env_def demo_env_def demo_net_def demo_states play play_all
      RegisterBusinessUser_def cong: play_cong del: put_kv.simps)
qed

lemma boot_account_file:
  assumes "start boot_sdk boot_host l = Inr (s, ocr, addr)"
  shows "svc_accountFile (srv_auth s) = ''data/accounts.json''"
proof -
  obtain t k where t: "add_all (demo_specs boot_host) (empty_service boot_host, boot_host) = (t, k)" by fastforce
  note built = builtin_accounts(3,4) [OF boot_assumptions(1) t]
  have "read_accounts (svc_accountFile t) k = Inr []" using built boot_reads by (simp add: envOr_def boot_host_def)
  then have "srv_auth s = t"
    using assms by (auto simp: start_def NewService_add_all t loadAccounts_def split: prod.splits sum.splits)
  with built show ?thesis by (simp add: envOr_def boot_host_def)
qed

lemma boot_registers:
  assumes "gateways_ok (srv_gate s)" "srv_ledger s = l1" "map_of (svc_accounts (srv_auth s)) ''mia'' = None"
    and "svc_accountFile (srv_auth s) = ''data/accounts.json''"
  shows "\<exists>r s'. registerUser (boot_env ''t2'') boot_registration (s\<lparr>srv_host := boot_host\<rparr>) = (r, s') \<and> rsp_status r = 200"
proof -
  let ?env = "boot_env ''t2''"
  obtain ct g where ct: "contractOf ?env ''Org1MSP'' (s\<lparr>srv_host := boot_host\<rparr>) = (Inr ct, s\<lparr>srv_host := boot_host, srv_gate := g\<rparr>)"
    "ctr_MSPID ct = ''Org1MSP''" "gateways_ok g" using boot_client [OF assms(1), of "''Org1MSP''"] by blast
  obtain cu f where cu: "contractOf ?env ''Org1MSP'' (s\<lparr>srv_host := boot_host, srv_gate := g\<rparr>)
      = (Inr cu, s\<lparr>srv_host := boot_host, srv_gate := f\<rparr>)" "ctr_MSPID cu = ''Org1MSP''"
  proof -
    have "gateways_ok (srv_gate (s\<lparr>srv_gate := g\<rparr>))" "''Org1MSP'' \<in> {''Org1MSP'', ''Org2MSP''}" using ct(3) by simp_all
    from boot_client [OF this, of "''t2''"] obtain cu f where
      "contractOf ?env ''Org1MSP'' (s\<lparr>srv_gate := g\<rparr>\<lparr>srv_host := boot_host\<rparr>) = (Inr cu, s\<lparr>srv_gate := g\<rparr>\<lparr>srv_host := boot_host, srv_gate := f\<rparr>)"
      "ctr_MSPID cu = ''Org1MSP''" .
    moreover have "s\<lparr>srv_gate := g, srv_host := boot_host\<rparr> = s\<lparr>srv_host := boot_host, srv_gate := g\<rparr>" by simp
    ultimately show thesis using that [of cu f] by simp
  qed
  have org: "fetch ?env ct (QReadBusinessOrganization ''o'') (Unmarshal dec_BusinessOrganization) (s\<lparr>srv_host := boot_host, srv_gate := g\<rparr>) = Inr demo_org"
    using boot_chooses [OF ct(2)] assms(2) by (simp add: demo_states)
  have x: "org_Status demo_org = ''ACTIVE''" "org_MSPID demo_org = ''Org1MSP''" "org_ID demo_org = ''o''"
    by (simp_all add: demo_org_def)
  obtain l where l: "SubmitTransaction (env_net ?env) cu (TxRegisterBusinessUser ''mia'' ''Mia'' ''Org1MSP'' ''PROJECT_MEMBER'' ''o'') l1 = (None, l)"
    using boot_enrols [OF cu(2)] by blast
  obtain a h where a: "RegisterAccount (srv_auth s) (registrant mia ''Org1MSP'') ''secret'' boot_host = (None, a, h)"
    "hst_rand h \<noteq> []" "hd (hst_rand h) \<noteq> None" using boot_saves [OF assms(3,4)] by blast
  obtain r b k where session: "StartRegisteredSession a (registrant mia ''Org1MSP'') h = (r, b, k)" "rsp_status r = 200"
    using a(2,3) by (cases "hst_rand h") (auto simp: StartRegisteredSession_def startSession_def newToken_def rand_read_def reply_def)
  note p = registrant_def [of mia, unfolded mia_simps]
  have "ValidateRegistration (srv_auth s) \<lparr>prc_DisplayName = ''Mia'', prc_MSPID = [], prc_OrganizationID = ''o'',
      prc_Role = ''PROJECT_MEMBER'', prc_Username = ''mia''\<rparr> ''secret'' = Inr ()"
    by (rule boot_validates [OF assms(3)]) simp_all
  then show ?thesis
    using ct(1) cu(1) org x l a(1) session assms(2)
    by (simp add: registerUser_def bound_def boot_asked orReply_def withContract_def Let_def p)
qed

theorem acknowledged_registrations_are_complete_witness:
  "\<exists>(s :: server) x. map_of (svc_accounts (srv_auth s)) ''mia'' = Some x \<and> passwordMatches ''secret'' x \<and> backed (srv_ledger s) (acc_Principal x)"
proof -
  have free: "\<forall>u \<in> set builtin_names. get_kv l1 (userKey u) = None"
    by (simp add: builtin_names_def demo_accounts_def demo_states play)
  have empty: "\<not> from_file boot_host x" for x using boot_reads by (simp add: from_file_def envOr_def boot_host_def)
  then have file_backed: "\<forall>x. from_file boot_host x \<longrightarrow> backed l1 (acc_Principal x)" by blast
  obtain s0 ocr addr where s0: "start boot_sdk boot_host l1 = Inr (s0, ocr, addr)" using boot by blast
  note st = started_ok [OF s0 boot_assumptions(1) file_backed demo_reachable(1) free]
  have "''mia'' \<notin> set builtin_names" by (simp add: builtin_names_def demo_accounts_def)
  then have new: "map_of (svc_accounts (srv_auth s0)) ''mia'' = None"
    using start_ok(4) [OF s0 boot_assumptions(1) backed_members [OF file_backed demo_reachable(1) free], of "''mia''"] empty
    by (cases "map_of (svc_accounts (srv_auth s0)) ''mia''") auto
  obtain r s where r: "registerUser (boot_env ''t2'') boot_registration (s0\<lparr>srv_host := boot_host\<rparr>) = (r, s)" "rsp_status r = 200"
    using boot_registers [OF st(1,3) new boot_account_file [OF s0]] by blast
  have "process_run s0 s0 [(boot_registration, Begun)]" using process_register [OF process_start] by fastforce
  moreover have "reg_iter (Suc 6) (boot_env ''t2'') boot_registration (Begun, s0\<lparr>srv_host := boot_host\<rparr>) = (Answered r, s)"
    using registerUser_steps [of "boot_env ''t2''" boot_registration "s0\<lparr>srv_host := boot_host\<rparr>"] r(1) by simp
  moreover have "network_ok (env_net (boot_env ''t2''))" using demo_net_ok by (simp add: boot_env_def)
  ultimately have run: "process_run s0 s [(boot_registration, Answered r)]"
    using process_steps [of s0 s0 "[(boot_registration, Begun)]" 0 boot_registration Begun "boot_env ''t2''" 6 boot_host "Answered r" s]
    by simp
  note complete = acknowledged_registrations_are_complete [OF s0 boot_assumptions(1) file_backed demo_reachable(1) free run]
  have "0 < length [(boot_registration, Answered r)]" "[(boot_registration, Answered r)] ! 0 = (boot_registration, Answered r)"
    by simp_all
  from complete [THEN conjunct1, rule_format, OF this r(2)] obtain x
    where "map_of (svc_accounts (srv_auth s)) ''mia'' = Some x" "passwordMatches ''secret'' x" "backed (srv_ledger s) (acc_Principal x)"
    unfolding boot_asked by (elim exE conjE) simp
  then show ?thesis by blast
qed

section \<open>Payments in a running process\<close>

text \<open>The step of a registration submits at most the registration.\<close>

lemma reg_step_ledger:
  assumes "reg_step env c g s = (g', s')" "network_ok (env_net env)"
  shows "srv_ledger s' = srv_ledger s
    \<or> (\<exists>v u d m r x. srv_ledger s' = submit (net_stub (env_net env) v (srv_ledger s)) (TxRegisterBusinessUser u d m r x))"
proof (cases g)
  case (Connected prin pw organization ct)
  obtain e l where tx: "SubmitTransaction (env_net env) ct (TxRegisterBusinessUser (prc_Username prin) (prc_DisplayName prin)
      (org_MSPID organization) (prc_Role prin) (org_ID organization)) (srv_ledger s) = (e, l)" by fastforce
  then have "srv_ledger s' = l" using assms(1) by (auto simp: Connected split: option.splits)
  with SubmitTransaction_ledger [OF assms(2) tx] show ?thesis by blast
qed (use assms in \<open>auto simp: Let_def contractOf_def split: option.splits sum.splits prod.splits if_splits\<close>)

lemma reg_step_pays_nothing:
  assumes "reg_step env c g s = (g', s')" "network_ok (env_net env)" "reachable (srv_ledger s)"
    and "stored (srv_ledger s) dec_Reimbursement (reimbursementKey i) x" "rmb_Status x \<noteq> ''PAID''"
    and "stored (srv_ledger s') dec_Reimbursement (reimbursementKey i) y"
  shows "rmb_Status y \<noteq> ''PAID''"
proof
  assume paid: "rmb_Status y = ''PAID''"
  with assms(4-6) obtain v u d m r o' where tx: "srv_ledger s' =
      submit (net_stub (env_net env) v (srv_ledger s)) (TxRegisterBusinessUser u d m r o')"
    using reg_step_ledger [OF assms(1,2)] by (auto dest: stored_unique)
  from paying_call [of "net_stub (env_net env) v (srv_ledger s)" i x _ y] assms(2-6) paid show False
    unfolding tx by (force simp: net_ledger)
qed

text \<open>
  C25. In a process that was started on a working random source, on an account file whose accounts are
  registered in the ledger, and on a ledger that the contract can reach and in which no built-in name is
  registered, a reimbursement becomes paid only in a request with a session of the finance
  administrator's account at Org2; no step of a registration on its way pays one.
\<close>

theorem payments_need_the_finance_session:
  assumes "start k h l = Inr (s0, ocr, addr)" "random_works h" "\<forall>x. from_file h x \<longrightarrow> backed l (acc_Principal x)"
    and "reachable l" "\<forall>u \<in> set builtin_names. get_kv l (userKey u) = None" "process_run s0 s ts"
    and "network_ok (env_net env)" "stored (srv_ledger s) dec_Reimbursement (reimbursementKey i) x" "rmb_Status x \<noteq> ''PAID''"
    and "stored (srv_ledger s') dec_Reimbursement (reimbursementKey i) y" "rmb_Status y = ''PAID''"
  shows "(dispatch env verb path req (s\<lparr>srv_host := m\<rparr>) = (a, s') \<longrightarrow>
      (\<exists>prin. session_of (s\<lparr>srv_host := m\<rparr>) req = Some prin \<and> prc_Username prin = ''finance-admin''
        \<and> prc_MSPID prin = ''Org2MSP'' \<and> prc_Role prin = ''FINANCE_ADMIN''))
    \<and> reg_step env c g (s\<lparr>srv_host := m\<rparr>) \<noteq> (g', s')"
proof -
  let ?s = "s\<lparr>srv_host := m\<rparr>"
  from process_keeps [OF assms(6) started_ok(1,2) [OF assms(1-5)]]
  have ok: "gateways_ok (srv_gate ?s)" "auth_ok (srv_auth ?s)" "reachable (srv_ledger ?s)"
    by (simp_all add: process_ok_def)
  have "\<exists>prin. session_of ?s req = Some prin \<and> prc_Username prin = ''finance-admin''
      \<and> prc_MSPID prin = ''Org2MSP'' \<and> prc_Role prin = ''FINANCE_ADMIN''"
    if "dispatch env verb path req ?s = (a, s')"
    using that ok(1)
  proof (rule dispatch_cases)
    fix rest r assume "serve env verb rest req ?s = (r, s')"
    with paying_session [OF ok assms(7)] assms(8-11) show ?thesis by simp
  next
    fix f assume "s' = ?s\<lparr>srv_gate := f\<rparr>"
    with assms(8-11) show ?thesis by (auto dest: stored_unique)
  qed
  moreover have "reg_step env c g ?s \<noteq> (g', s')"
    using reg_step_pays_nothing [OF _ assms(7) ok(3)] assms(8-11) by fastforce
  ultimately show ?thesis by blast
qed

lemma boot_payment:
  assumes "gateways_ok (srv_gate s)" "srv_ledger s = l10" "session_of (s\<lparr>srv_host := boot_host\<rparr>) req = Some prin"
    and "prc_Username prin = ''finance-admin''" "prc_MSPID prin = ''Org2MSP''" "prc_Role prin = ''FINANCE_ADMIN''"
  shows "\<exists>a s'. dispatch (boot_env ''t11'') ''POST'' [''api'', ''reimbursements'', ''r'', ''pay''] req (s\<lparr>srv_host := boot_host\<rparr>) = (a, s')
    \<and> srv_ledger s' = l11"
proof -
  obtain ct g where ct: "contractOf (boot_env ''t11'') ''Org2MSP'' (s\<lparr>srv_host := boot_host\<rparr>) = (Inr ct, s\<lparr>srv_host := boot_host, srv_gate := g\<rparr>)"
    "ctr_MSPID ct = ''Org2MSP''" using boot_client [OF assms(1), of "''Org2MSP''" "''t11''"] by blast
  have "srv_ledger (snd (submitting (boot_env tx) ct c t r)) = submit (demo_ctx ''Org2MSP'' tx (srv_ledger t)) c" for tx c t r
    using demo_submitting [OF ct(2), of tx c t r] by (simp add: submitting_def boot_env_def split: prod.split option.split)
  then have "srv_ledger (snd (serve (boot_env ''t11'') ''POST'' [''reimbursements'', ''r'', ''pay''] req (s\<lparr>srv_host := boot_host\<rparr>))) = l11"
    using assms(2-) ct(1)
    by (simp add: serve_def demo_lookup Require_def RequireRole_def PrincipalFromContext_def payReimbursement_def
        loggedIn_def withContract_def contractForRequest_def session_of_def l11_def)
  then show ?thesis by (auto simp: dispatch_def split: prod.split)
qed

theorem payments_need_the_finance_session_witness:
  "\<exists>s req prin. session_of s req = Some prin \<and> prc_Username prin = ''finance-admin''
     \<and> prc_MSPID prin = ''Org2MSP'' \<and> prc_Role prin = ''FINANCE_ADMIN''"
proof -
  have free: "\<forall>u \<in> set builtin_names. get_kv l10 (userKey u) = None"
    by (simp add: builtin_names_def demo_accounts_def demo_states play)
  have file_backed: "\<forall>x. from_file boot_host x \<longrightarrow> backed l10 (acc_Principal x)"
    using boot_reads by (simp add: from_file_def envOr_def boot_host_def)
  obtain s0 ocr addr where s0: "start boot_sdk boot_host l10 = Inr (s0, ocr, addr)" using boot by blast
  note st = started_ok [OF s0 boot_assumptions(1) file_backed demo_reachable(10) free]
  obtain s prin where s: "process_run s0 s []" "srv_ledger s = srv_ledger s0" "prc_Username prin = ''finance-admin''"
    "\<And>req. rq_cookie req = Some boot_token \<Longrightarrow>
      session_of s req = Some prin \<and> session_of (s\<lparr>srv_host := boot_host\<rparr>) req = Some prin"
    using boot_session [OF s0] by metis
  from process_keeps [OF s(1) st(1,2)] have ok: "gateways_ok (srv_gate s)" "auth_ok (srv_auth s)"
    by (simp_all add: process_ok_def)
  let ?req = "boot_login\<lparr>rq_cookie := Some boot_token\<rparr>"
  have session: "session_of (s\<lparr>srv_host := boot_host\<rparr>) ?req = Some prin" by (simp add: s(4))
  from session_privilege [OF _ session] ok(2) s(3) have "prc_MSPID prin = ''Org2MSP''" "prc_Role prin = ''FINANCE_ADMIN''"
    by (auto simp: privilege_ok_def builtin_names_def demo_accounts_def)
  with boot_payment [OF ok(1) _ session s(3)] st(3) s(2) obtain a s' where
    pay: "dispatch (boot_env ''t11'') ''POST'' [''api'', ''reimbursements'', ''r'', ''pay''] ?req (s\<lparr>srv_host := boot_host\<rparr>) = (a, s')"
    "srv_ledger s' = l11" by auto
  have "network_ok (env_net (boot_env ''t11''))" using demo_net_ok by (simp add: boot_env_def)
  from payments_need_the_finance_session [OF s0 boot_assumptions(1) file_backed demo_reachable(10) free s(1) this,
      of "''r''" demo_approved s'] demo_paid st(3) s(2) pay show ?thesis by fastforce
qed

end
