(* ===== verification/Replies.thy ===== *)
theory Replies
  imports Portal
begin

text \<open>
  What a reply says of the ledger. Every handler that submits a transaction replies with a success
  exactly when the transaction was committed and confirmed; otherwise it replies with an error, and the
  ledger is as before unless the network lost the confirmation. The proof follows the handlers, as in
  \<open>Impersonation\<close>.
\<close>

section \<open>Truthful replies\<close>

definition committed :: "env \<Rightarrow> Principal \<Rightarrow> ledger \<Rightarrow> call \<Rightarrow> ledger \<Rightarrow> bool" where
  "committed env prin l tx l' \<longleftrightarrow> operator_of tx = Some (prc_Username prin)
     \<and> (\<exists>ws. invoke (net_stub (env_net env) (prc_MSPID prin) l) tx = Inr ws \<and> l' = commit ws l)"

definition unconfirmed :: "env \<Rightarrow> call \<Rightarrow> bool" where
  "unconfirmed env tx \<longleftrightarrow> net_unconfirmed (env_net env) tx \<noteq> None"

definition tells :: "env \<Rightarrow> Principal \<Rightarrow> server \<Rightarrow> response \<times> server \<Rightarrow> bool" where
  "tells env prin s0 rs \<longleftrightarrow>
     (if rsp_status (fst rs) < 400
      then \<exists>tx. committed env prin (srv_ledger s0) tx (srv_ledger (snd rs)) \<and> \<not> unconfirmed env tx
      else srv_ledger (snd rs) = srv_ledger s0
        \<or> (\<exists>tx. committed env prin (srv_ledger s0) tx (srv_ledger (snd rs)) \<and> unconfirmed env tx))"

definition failing :: "response + 'a \<Rightarrow> bool" where
  "failing m \<longleftrightarrow> (\<forall>r. m = Inl r \<longrightarrow> 400 \<le> rsp_status r)"

named_theorems tells_intro \<open>introduction rules for the replies of a handler\<close>

lemma tells_error [tells_intro]: "same s0 s \<Longrightarrow> 400 \<le> n \<Longrightarrow> tells env prin s0 (error_reply n m, s)"
  by (simp add: tells_def same_def)

lemma tells_failing: "same s0 s \<Longrightarrow> 400 \<le> rsp_status r \<Longrightarrow> tells env prin s0 (r, s)"
  by (simp add: tells_def same_def)

lemma tells_bound [tells_intro]:
  "same s0 s \<Longrightarrow> (\<And>x. m = Some x \<Longrightarrow> tells env prin s0 (k x)) \<Longrightarrow> tells env prin s0 (bound m s k)"
  by (cases m) (auto simp: badRequest_def intro: tells_error)

lemma tells_loggedIn [tells_intro]:
  "gin_principal c = Some prin \<Longrightarrow> tells env prin s0 (k prin) \<Longrightarrow> tells env prin s0 (loggedIn c s k)"
  by (simp add: loggedIn_def PrincipalFromContext_def)

lemma failing_contractOf: "contractOf env m s = (r, s') \<Longrightarrow> failing r"
  by (auto simp: contractOf_def failing_def serverError_def split: prod.splits sum.splits)

lemma failing_contractForRequest: "contractForRequest env c s = (r, s') \<Longrightarrow> failing r"
  using failing_contractOf by (auto simp: contractForRequest_def failing_def split: option.splits)

lemma tells_contractOf [tells_intro]:
  assumes "same s0 s" "m = prc_MSPID prin"
    and "\<And>ct s'. same s0 s' \<Longrightarrow> ctr_MSPID ct = prc_MSPID prin \<Longrightarrow> tells env prin s0 (k ct s')"
  shows "tells env prin s0 (withContract (contractOf env m s) k)"
proof -
  obtain r s' where r: "contractOf env m s = (r, s')" by fastforce
  show ?thesis
    using contractOf_same [OF assms(1) r] failing_contractOf [OF r] assms(3) unfolding withContract_def r
    by (cases r) (auto simp: assms(2) failing_def intro: tells_failing)
qed

lemma tells_contractForRequest [tells_intro]:
  assumes "same s0 s" "gin_principal c = Some prin"
    and "\<And>ct s'. same s0 s' \<Longrightarrow> ctr_MSPID ct = prc_MSPID prin \<Longrightarrow> tells env prin s0 (k ct s')"
  shows "tells env prin s0 (withContract (contractForRequest env c s) k)"
proof -
  obtain r s' where r: "contractForRequest env c s = (r, s')" by fastforce
  show ?thesis
    using contractForRequest_same [OF assms(1) r] failing_contractForRequest [OF r] assms(2,3)
    by (cases r) (auto simp: withContract_def r failing_def intro: tells_failing)
qed

lemma failing_readInvoice: "readInvoice env c s = (r, s') \<Longrightarrow> failing r"
  using failing_contractForRequest [of env c s]
  by (auto simp: readInvoice_def read_visible_def fetch_def orTransactionError_def transactionError_def serverError_def
      failing_def split: prod.splits sum.splits if_splits option.splits)

lemma tells_readInvoice [tells_intro]:
  assumes "same s0 s" "\<And>x s'. same s0 s' \<Longrightarrow> tells env prin s0 (k x s')"
  shows "tells env prin s0 (case readInvoice env c s of (m, s) \<Rightarrow> orReply m s (\<lambda>x. k x s))"
proof -
  obtain r s' where r: "readInvoice env c s = (r, s')" by fastforce
  have "same s0 s'" using same_readInvoice [OF assms(1), of env c] r by simp
  then show ?thesis
    using failing_readInvoice [OF r] assms(2) by (cases r) (auto simp: r failing_def intro: tells_failing)
qed

lemma tells_newID [tells_intro]:
  assumes "same s0 s" "\<And>x s'. same s0 s' \<Longrightarrow> tells env prin s0 (k x s')"
  shows "tells env prin s0 (case newID pre s of (x, s) \<Rightarrow> k x s)"
  using same_newID [OF assms(1), of pre] assms(2) by (cases "newID pre s") simp

lemma tells_maybe_newID [tells_intro]:
  assumes "same s0 s" "\<And>x s'. same s0 s' \<Longrightarrow> tells env prin s0 (k x s')"
  shows "tells env prin s0 (case (if b then (case newID pre s of (i, t) \<Rightarrow> (f i, t)) else (y, s)) of (x, s) \<Rightarrow> k x s)"
  using same_newID [OF assms(1), of pre] assms by (cases "newID pre s") simp

lemma tells_if [tells_intro]:
  "(b \<Longrightarrow> tells env prin s0 x) \<Longrightarrow> (\<not> b \<Longrightarrow> tells env prin s0 y) \<Longrightarrow> tells env prin s0 (if b then x else y)"
  by simp

lemma tells_submitting [tells_intro]:
  assumes "network_ok (env_net env)" "same s0 s" "ctr_MSPID ct = prc_MSPID prin"
    and "operator_of tx = Some (prc_Username prin)" "n < 400"
  shows "tells env prin s0 (submitting env ct tx s (message_reply n m xs))"
  using assms
  by (auto simp: submitting_def SubmitTransaction_def transactionError_def tells_def committed_def unconfirmed_def same_def
      split: option.split sum.split)

section \<open>The handlers\<close>

definition tells_always :: "handler \<Rightarrow> bool" where
  "tells_always f \<longleftrightarrow> (\<forall>env c s prin. network_ok (env_net env) \<longrightarrow> gateways_ok (srv_gate s) \<longrightarrow>
     gin_principal c = Some prin \<longrightarrow> tells env prin s (f env c s))"

lemma tells_alwaysI:
  "(\<And>env c s prin. network_ok (env_net env) \<Longrightarrow> gateways_ok (srv_gate s) \<Longrightarrow> gin_principal c = Some prin \<Longrightarrow>
     tells env prin s (f env c s)) \<Longrightarrow> tells_always f"
  by (simp add: tells_always_def)

lemma tells_invoice_handlers:
  "tells_always linkInvoiceProject" "tells_always unlinkInvoiceProject"
  "tells_always requestInvoiceTransfer" "tells_always respondInvoiceTransfer"
  "tells_always cancelInvoiceTransfer" "tells_always voidInvoice" "tells_always requestInvoiceVoid"
  "tells_always reviewInvoiceVoid" "tells_always createInvoice" "tells_always correctInvoice"
  unfolding Let_def create_call_def
    linkInvoiceProject_def unlinkInvoiceProject_def requestInvoiceTransfer_def
    respondInvoiceTransfer_def cancelInvoiceTransfer_def voidInvoice_def requestInvoiceVoid_def
    reviewInvoiceVoid_def createInvoice_def correctInvoice_def
  by (assumption | rule tells_alwaysI same_refl tells_intro refl | simp; fail)+

lemma tells_project_handlers:
  "tells_always createProject" "tells_always updateProject" "tells_always submitProject"
  "tells_always reviewProject" "tells_always requestProjectClosure"
  "tells_always reviewProjectClosure" "tells_always finalizeProjectSettlement"
  "tells_always addProjectMember" "tells_always createBusinessOrganization"
  unfolding Let_def
    createProject_def updateProject_def submitProject_def reviewProject_def
    requestProjectClosure_def reviewProjectClosure_def finalizeProjectSettlement_def
    addProjectMember_def createBusinessOrganization_def
  by (assumption | rule tells_alwaysI same_refl tells_intro refl | simp; fail)+

lemma tells_reimbursement_handlers:
  "tells_always createReimbursement" "tells_always resubmitReimbursement"
  "tells_always withdrawReimbursement" "tells_always reviewReimbursement"
  "tells_always payReimbursement"
  unfolding Let_def
    createReimbursement_def resubmitReimbursement_def withdrawReimbursement_def
    reviewReimbursement_def payReimbursement_def
  by (assumption | rule tells_alwaysI same_refl tells_intro refl | simp; fail)+

text \<open>The routes that submit a transaction of their session.\<close>

definition submits :: "string \<Rightarrow> string list \<Rightarrow> bool" where
  "submits verb pattern \<longleftrightarrow> verb \<noteq> ''GET'' \<and> hd pattern \<notin> {''auth'', ''ocr''} \<and> last pattern \<noteq> ''verify''"

lemma submitting_routes_tell:
  assumes "(verb, pattern, g, f) \<in> set RegisterRoutes" "submits verb pattern"
  shows "g \<noteq> Public \<and> tells_always f"
proof -
  have "list_all (\<lambda>(m, p, g, f). submits m p \<longrightarrow> g \<noteq> Public \<and> tells_always f) RegisterRoutes"
    by (simp add: RegisterRoutes_def Let_def submits_def tells_invoice_handlers tells_project_handlers tells_reimbursement_handlers)
  with assms show ?thesis by (auto simp: list_all_iff)
qed

section \<open>Properties\<close>

text \<open>
  C24. Replies are truthful: a request that submits a transaction is answered with a success exactly
  when a transaction of its session's principal was accepted by the contract, committed and confirmed;
  with an error, the ledger is unchanged unless the network lost the confirmation of a commit.
\<close>

theorem replies_are_truthful:
  assumes "network_ok (env_net env)" "gateways_ok (srv_gate s)" "serve env verb path req s = (r, s')"
    and "lookup_route RegisterRoutes verb path = Some (pattern, g, f)" "submits verb pattern"
  shows "if rsp_status r < 400
    then \<exists>prin tx. session_of s req = Some prin \<and> allowed g prin
      \<and> committed env prin (srv_ledger s) tx (srv_ledger s') \<and> \<not> unconfirmed env tx
    else srv_ledger s' = srv_ledger s
      \<or> (\<exists>prin tx. session_of s req = Some prin \<and> committed env prin (srv_ledger s) tx (srv_ledger s') \<and> unconfirmed env tx)"
proof -
  let ?c = "\<lparr>gin_request = req\<lparr>rq_id := path_id pattern path\<rparr>, gin_principal = None\<rparr>"
  have route: "g \<noteq> Public" "tells_always f"
    using submitting_routes_tell assms(5) lookup_route_in [OF assms(4)] by blast+
  have run: "run_guard g f env ?c s = (r, s')" using assms(3,4) by (simp add: serve_def)
  show ?thesis
  proof (cases "session_of s req")
    case None
    with run route(1) have "r = error_reply 401 m_login_first" "s' = s"
      by (cases g; simp add: Require_def session_of_def)+
    then show ?thesis by simp
  next
    case (Some prin)
    let ?d = "?c\<lparr>gin_principal := Some prin\<rparr>"
    have "s' = s \<and> 400 \<le> rsp_status r \<or> allowed g prin \<and> f env ?d s = (r, s')"
      using run route(1) Some
      by (cases g) (auto simp: Require_def RequireRole_def PrincipalFromContext_def session_of_def allowed_def split: if_splits)
    moreover have "tells env prin s (f env ?d s)" using route(2) assms(1,2) by (simp add: tells_always_def)
    ultimately show ?thesis using Some by (auto simp: tells_def split: if_splits)
  qed
qed

theorem replies_are_truthful_witness:
  "\<exists>tx. committed (demo_env ''t11'') (demo_principal (''finance-admin'', ''Org2MSP'', ''FINANCE_ADMIN'')) l10 tx l11"
proof -
  let ?s = "demo_server (''finance-admin'', ''Org2MSP'', ''FINANCE_ADMIN'')"
  obtain r where r: "serve (demo_env ''t11'') ''POST'' [''reimbursements'', ''r'', ''pay''] (demo_request (Raw [])) (?s l10) = (r, ?s l11)"
    using demo_payment by (metis prod.collapse)
  have "submits ''POST'' [''reimbursements'', '':id'', ''pay'']" by (simp add: submits_def)
  from replies_are_truthful [OF demo_net_ok _ r demo_lookup this] demo_gate_ok demo_paid_differs show ?thesis
    by (auto simp: demo_session split: if_splits)
qed

end
