(* ===== verification/Spec2Isabelle.thy ===== *)
theory Spec2Isabelle
  imports Closure Authority Numbers History Queries Branches ProjectViews Fingerprint Typing Recognition Process Replies
begin

text \<open>
  The invoice ledger (\<open>src/project/invoice-ledger\<close>): invoices, projects and reimbursements of two
  organizations, kept by a Hyperledger Fabric contract (\<open>chaincode/invoice_contract.go\<close>) behind a web
  backend (\<open>backend/\<close>). The browser talks to the backend over HTTP, the backend evaluates and submits
  transactions through one gateway client per organization, the contract reads and writes a key-value
  ledger whose values are JSON documents.

  The contract.
  \<^item> \<open>Prelude\<close>, \<open>GoStrings\<close>, \<open>GoTime\<close>, \<open>Json\<close>: what the program uses of Go's library: results as sums
    with \<open>bindE\<close>, \<open>strings\<close>, \<open>strconv\<close>, \<open>time\<close> and \<open>encoding/json\<close>. Strings are lists of bytes,
    \<open>int64\<close> is a 64-bit word.
  \<^item> \<open>Ledger\<close>: the world state as a sorted list with the laws of a key-value store as a locale, and the
    stub (\<open>GetState\<close>, \<open>PutState\<close>, \<open>DelState\<close>, \<open>GetStateByRange\<close>, time, certificate, history), each
    operation of which can fail. A call returns its writes; \<open>submit\<close> commits them if it succeeds.
  \<^item> \<open>Entities\<close>, \<open>Reads\<close>: the stored structs, their JSON forms and keys, and the reading functions.
  \<^item> \<open>Access\<close>, \<open>Directory\<close>, \<open>Projects\<close>, \<open>Reimbursements\<close>, \<open>Invoices\<close>, \<open>Contract\<close>: one definition per
    function of \<open>invoice_contract.go\<close> under its own name, each with an effect lemma that says what a
    successful call checked and wrote; \<open>invoke\<close> dispatches a \<open>call\<close>; \<open>run\<close> and \<open>reachable\<close> are
    sequences of submitted calls.
  \<^item> \<open>Integrity\<close> (every reachable ledger is typed), \<open>Lifecycles\<close> (the state machines of invoices,
    projects and reimbursements), \<open>Settlement\<close>, \<open>Closure\<close> (money), \<open>Numbers\<close>, \<open>History\<close>,
    \<open>Authority\<close>, \<open>Queries\<close>: the lemmas the properties of this theory rest on. Invariants are instances
    of the locales \<open>ledger_invariant\<close> and \<open>ledger_evolution\<close>.
  \<^item> \<open>JsonText\<close>: JSON documents as bytes: the parser of \<open>encoding/json\<close>, and that it reads back what the
    printer of \<open>Json\<close> writes. So the ledger, the account file and the answers of peers, which hold values,
    can stand for their bytes.
  \<^item> \<open>Scenario\<close>, \<open>Branches\<close>: runs computed in the kernel, from which the witnesses are taken.

  The backend.
  \<^item> \<open>Messages\<close>, \<open>Sha256\<close>, \<open>Decode\<close>: its texts (UTF-8 in hexadecimal), the digest, reading JSON members.
  \<^item> \<open>Accounts\<close>, \<open>Http\<close>: \<open>auth/auth.go\<close>: accounts, their file, registration, sessions, middleware. The
    machine is the record \<open>host\<close>; every file operation can fail.
  \<^item> \<open>Gateway\<close>, \<open>Network\<close>: \<open>fabric/gateway.go\<close> and what evaluating and submitting mean. The Fabric
    library and the peers are the parameters \<open>sdk\<close> and \<open>network\<close>; \<open>network_ok\<close> is what is assumed of
    the latter: a peer runs the contract on the current ledger under the client's certificate.
  \<^item> \<open>Floats\<close>, \<open>OcrText\<close>, \<open>Ocr\<close>: \<open>ocr/service.go\<close>: binary floating point with its error bounds, the
    clean-up of amounts and dates, recognition and the correction by a language model. The two cloud
    services and the processor (whether it fuses operations, how it converts values out of range) are
    the parameter \<open>cloud\<close>, of which nothing is assumed.
  \<^item> \<open>Requests\<close>, \<open>Visibility\<close>, \<open>Server\<close>, \<open>Handlers\<close>, \<open>Readers\<close>, \<open>Routes\<close>: \<open>api/invoice.go\<close>: one
    definition per handler under its own name, and \<open>serve\<close> for one request.
  \<^item> \<open>Startup\<close>: \<open>backend/main.go\<close>: \<open>start\<close>, \<open>health\<close>, \<open>dispatch\<close>, and the locale \<open>process_invariant\<close>, which
    carries the invariants of the interface over to the process. \<open>Registration\<close> takes the one handler that
    changes both the ledger and the accounts apart into the steps between which other requests are
    served (\<open>reg_step\<close>, which compose to \<open>registerUser\<close>), and has the runs of the process in which they
    overlap; \<open>Process\<close> shows what holds of a registration once it was answered with a success, and who
    turns reimbursements into paid ones.
  \<^item> \<open>Impersonation\<close> follows every handler to its one transaction; \<open>Website\<close> has runs of requests and
    the locale \<open>server_invariant\<close>. \<open>Replies\<close> follows the submitting handlers to their replies.

  The properties. C1 to C9: money, the life cycles and what never changes. C10 (\<open>Typing\<close>): the world
  state is typed. C11 to C13: who may do what. C14 to C18: evidence, numbers, arithmetic, stored bytes.
  C19 to C22: queries and progress. C23 (\<open>Portal\<close>), C24 (\<open>Replies\<close>), C25 and C27 (\<open>Process\<close>) and C26
  (\<open>Registration\<close>): what a request may do, what its reply says, under which privilege, and what
  an acknowledged registration leaves. C28 to C30 (\<open>Store\<close>): the account file and sessions. C31, C36, C37
  (\<open>Views\<close>), C32 (\<open>Agreement\<close>) and C33 (\<open>ProjectViews\<close>): what is shown. C34, C35 (\<open>Fingerprint\<close>):
  content hashes. C38 to C40 (\<open>Recognition\<close>): recognition.

  Choices. Transactions are executed one after the other, as Fabric's read-set check makes them. The
  tag rules of \<open>ShouldBindJSON\<close> are those the request structs use. Strings that enter the ledger are
  taken to be valid UTF-8, which is what decoding a request body gives. Case
  folding in \<open>ToLower\<close> and \<open>ToUpper\<close> is exact for the texts the contract compares and leaves other
  bytes alone, so that the keyword of a list search ignores the case of ASCII letters only. The order in which Go visits a map and the order \<open>sort.Slice\<close> gives to equal elements
  are parameters. What a mutex of \<open>auth\<close> or \<open>fabric\<close> protects is one step; of the requests, registrations
  overlap step by step, and the others, which change the state in one place each, are served as a whole.
  The parser has the nesting bound of the library, 10000; otherwise no definition needs
  fuel: all recursion is structural or measured by a length.

  Not modelled: the browser client, scripts and documents, the unit tests, the packed copies of the
  program, and the course laboratories (go-ethereum) elsewhere in the repository; of the modelled
  packages, the calls into gin, gRPC, the Fabric gateway, the cloud services and \<open>net/http\<close> themselves,
  which are parameters, and logging.
\<close>

section \<open>Money\<close>

lemma run_submit_canonical:
  "run canonical l m \<Longrightarrow> canonical_call c \<Longrightarrow> run canonical l (submit (demo_ctx a t m) c)"
  using run_step [of canonical l "demo_ctx a t m" c] by (simp add: demo_ctx_simps canonical_def)

lemma demo_canonical:
  "run canonical [] l10" "run canonical [] l12"
proof -
  note defs = l1_def l2_def l3_def l4_def l5_def l6_def l7_def l8_def l9_def l10_def
  show 10: "run canonical [] l10"
    unfolding defs by (intro run_submit_canonical run_refl) (simp_all add: demo_trim)
  show "run canonical [] l12"
    unfolding l12_def l11_def by (intro run_submit_canonical 10) (simp_all add: demo_trim)
qed

lemma submit_changed: "submit ctx c \<noteq> st_ledger ctx \<Longrightarrow> \<exists>ws. invoke ctx c = Inr ws"
  by (cases "invoke ctx c") (auto simp: submit_Inl)

lemma demo_finalizes:
  "\<exists>ws. invoke (demo_ctx ''Org2MSP'' ''t12'' l11) (TxFinalizeProjectSettlement ''p'' ''finance-admin'') = Inr ws"
proof (rule submit_changed)
  have "get_kv l12 (projectKey ''p'') \<noteq> get_kv l11 (projectKey ''p'')"
    by (simp add: demo_states) (simp add: demo_settling_def demo_project_def zero_Project_def)
  then show "submit (demo_ctx ''Org2MSP'' ''t12'' l11) (TxFinalizeProjectSettlement ''p'' ''finance-admin'')
      \<noteq> st_ledger (demo_ctx ''Org2MSP'' ''t12'' l11)"
    by (auto simp: demo_ctx_simps simp flip: l12_def)
qed

lemma demo_pays:
  "\<exists>ws. invoke (demo_ctx ''Org2MSP'' ''t11'' l10) (TxPayReimbursement ''r'' ''finance-admin'') = Inr ws"
proof (rule submit_changed)
  have "get_kv l11 (projectKey ''p'') \<noteq> get_kv l10 (projectKey ''p'')"
    by (simp add: demo_states) (simp add: demo_settling_def demo_project_def zero_Project_def)
  then show "submit (demo_ctx ''Org2MSP'' ''t11'' l10) (TxPayReimbursement ''r'' ''finance-admin'')
      \<noteq> st_ledger (demo_ctx ''Org2MSP'' ''t11'' l10)"
    by (auto simp: demo_ctx_simps simp flip: l11_def)
qed

lemma demo_run10: "run any_call l10 l12" unfolding l12_def l11_def by (intro run_submit run_refl)

lemma demo_reviews:
  "\<exists>ws. invoke (demo_ctx ''Org1MSP'' ''t10'' l9) (TxReviewReimbursement ''r'' ''APPROVE'' ''ok'' ''project-reviewer'') = Inr ws"
proof (rule submit_changed)
  have "get_kv l10 (projectKey ''p'') \<noteq> get_kv l9 (projectKey ''p'')"
    by (simp add: demo_states) (simp add: demo_settling_def demo_project_def zero_Project_def)
  then show "submit (demo_ctx ''Org1MSP'' ''t10'' l9) (TxReviewReimbursement ''r'' ''APPROVE'' ''ok'' ''project-reviewer'')
      \<noteq> st_ledger (demo_ctx ''Org1MSP'' ''t10'' l9)"
    by (auto simp: demo_ctx_simps simp flip: l10_def)
qed

lemma demo_pays_padded:
  "\<exists>ws. invoke (demo_ctx ''Org2MSP'' ''d11'' l10) (TxPayReimbursement '' r'' ''finance-admin'') = Inr ws"
proof (rule submit_changed)
  have "get_kv d11 (projectKey ''p'') \<noteq> get_kv l10 (projectKey ''p'')"
    by (simp add: demo_states) (simp add: demo_settling_def demo_project_def zero_Project_def)
  then show "submit (demo_ctx ''Org2MSP'' ''d11'' l10) (TxPayReimbursement '' r'' ''finance-admin'')
      \<noteq> st_ledger (demo_ctx ''Org2MSP'' ''d11'' l10)"
    by (auto simp: demo_ctx_simps simp flip: d11_def)
qed

lemma demo_voids:
  "\<exists>ws. invoke (demo_ctx ''Org1MSP'' ''v9'' l8) (TxVoidInvoice ''i'' ''x'' ''issuer-org1'') = Inr ws"
proof (rule submit_changed)
  have "inv_Status demo_voided \<noteq> inv_Status demo_invoice"
    by (simp add: demo_voided_def demo_fields)
  then have "get_kv v9 (invoiceKey ''i'') \<noteq> get_kv l8 (invoiceKey ''i'')"
    by (auto simp: demo_states)
  then show "submit (demo_ctx ''Org1MSP'' ''v9'' l8) (TxVoidInvoice ''i'' ''x'' ''issuer-org1'')
      \<noteq> st_ledger (demo_ctx ''Org1MSP'' ''v9'' l8)"
    by (auto simp: demo_ctx_simps simp flip: v9_def)
qed

lemma demo_stored:
  "stored l8 dec_Invoice (invoiceKey ''i'') demo_invoice"
  "stored v9 dec_Invoice (invoiceKey ''i'') demo_voided"
  "stored l10 dec_Project (projectKey ''p'') (demo_settling\<lparr>prj_AvailableCents := 895, prj_ReservedCents := 105\<rparr>)"
  "stored l10 dec_Reimbursement (reimbursementKey ''r'') demo_approved"
  "stored l11 dec_Project (projectKey ''p'') (demo_settling\<lparr>prj_AvailableCents := 895, prj_ReservedCents := 0, prj_PaidCents := 105\<rparr>)"
  "stored l8 dec_Project (projectKey ''p'') demo_settling"
  "stored l12 dec_Reimbursement (reimbursementKey ''r'') (demo_approved\<lparr>rmb_Status := ''PAID''\<rparr>)"
  "stored l12 dec_Project (projectKey ''p'') (demo_settling\<lparr>prj_AvailableCents := 0, prj_ReservedCents := 0,
     prj_PaidCents := 105, prj_RecoveredCents := 895, prj_Status := ''ARCHIVED''\<rparr>)"
  by (simp_all add: stored_def demo_states)

text \<open>
  C1. In every ledger the contract can reach, the budget of a project is within bounds and none of its four
  balances is negative. In settlement and in the archive they add up to the budget; in every phase before
  they add up to zero, so that nothing is spent before it is released. An archived project holds nothing
  available or reserved.
\<close>

theorem project_money_is_conserved:
  assumes "reachable l" "stored l dec_Project (projectKey i) p"
  shows "0 < sint (prj_BudgetCents p) \<and> sint (prj_BudgetCents p) \<le> 10000000000
    \<and> 0 \<le> sint (prj_AvailableCents p) \<and> 0 \<le> sint (prj_ReservedCents p)
    \<and> 0 \<le> sint (prj_PaidCents p) \<and> 0 \<le> sint (prj_RecoveredCents p)
    \<and> sint (prj_AvailableCents p) + sint (prj_ReservedCents p) + sint (prj_PaidCents p) + sint (prj_RecoveredCents p)
      = (if prj_Status p \<in> {''FINANCIAL_SETTLEMENT'', ''ARCHIVED''} then sint (prj_BudgetCents p) else 0)
    \<and> (prj_Status p = ''ARCHIVED'' \<longrightarrow> prj_AvailableCents p = 0 \<and> prj_ReservedCents p = 0)"
proof -
  have "project_ok p"
    using assms(2) typed_entry [OF _ reachable_typed [OF assms(1)]] by (fastforce simp: stored_def)
  then show ?thesis by (auto simp: project_ok_def balanced_def)
qed

theorem project_money_is_conserved_witness:
  "reachable l10 \<and> prj_ReservedCents (demo_settling\<lparr>prj_AvailableCents := 895, prj_ReservedCents := 105\<rparr>) = 105
    \<and> (895 :: int) + 105 + 0 + 0 = 1000"
  using project_money_is_conserved [OF demo_reachable(10) demo_stored(3)]
  by (simp add: demo_reachable demo_project_fields)

text \<open>
  C2. In every ledger reached by calls that name their record by its stored identifier, without blanks around
  it (\<open>canonical\<close>; what other calls can do is the padded payment below), the reserved and the paid
  balance of a project are exactly the sums of its approved and of its paid reimbursements.
\<close>

theorem balances_are_sums_of_claims:
  assumes "run canonical [] l" "stored l dec_Project (projectKey i) p" "TrimSpace i = i"
  shows "sint (prj_ReservedCents p) = claims ''APPROVED_RESERVED'' i l \<and> sint (prj_PaidCents p) = claims ''PAID'' i l"
  using settlement.holds [OF assms(1)] assms(2,3) by (auto simp: settled_def books_def stored_def)

theorem balances_are_sums_of_claims_witness:
  "run canonical [] l10 \<and> claims ''APPROVED_RESERVED'' ''p'' l10 = 105 \<and> claims ''PAID'' ''p'' l10 = 0"
  using balances_are_sums_of_claims [OF demo_canonical(1) demo_stored(3)] demo_canonical(1)
  by (simp add: play)

text \<open>
  C3. In the same ledgers an invoice backs at most one reimbursement that is not withdrawn, among those
  stored under an identifier without blanks around it, and the invoice behind such a reimbursement exists
  and is not voided.
\<close>

theorem invoice_backs_one_open_reimbursement:
  assumes "run canonical [] l" "TrimSpace i = i" "TrimSpace j = j"
    and "stored l dec_Reimbursement (reimbursementKey i) r" "stored l dec_Reimbursement (reimbursementKey j) s"
    and "rmb_Status r \<noteq> ''WITHDRAWN''" "rmb_Status s \<noteq> ''WITHDRAWN''" "rmb_InvoiceID r = rmb_InvoiceID s"
  shows "i = j \<and> (\<exists>x. stored l dec_Invoice (invoiceKey (rmb_InvoiceID r)) x \<and> inv_Status x \<noteq> ''VOIDED'')"
proof -
  have l: "get_kv l (reimbursementInvoiceKey (rmb_InvoiceID r)) = Some (Raw i)" "live l (rmb_InvoiceID r)"
    "get_kv l (reimbursementInvoiceKey (rmb_InvoiceID s)) = Some (Raw j)"
    using links.holds [OF assms(1)] assms(2-7) by (simp_all add: linked_def)
  with assms(8) show ?thesis by (simp add: live_def)
qed

theorem invoice_backs_one_open_reimbursement_witness:
  "\<exists>x. stored l10 dec_Invoice (invoiceKey ''i'') x \<and> inv_Status x \<noteq> ''VOIDED''"
  using invoice_backs_one_open_reimbursement [OF demo_canonical(1) _ _ demo_stored(4) demo_stored(4)]
  by (simp add: play)

text \<open>
  C4. In the same ledgers an archived project has no open reimbursement: each one stored under an identifier
  without blanks around it is paid or withdrawn.
\<close>

theorem archived_project_has_no_open_claim:
  assumes "run canonical [] l" "stored l dec_Project (projectKey i) p" "prj_Status p = ''ARCHIVED''" "TrimSpace i = i"
    and "stored l dec_Reimbursement (reimbursementKey j) r" "TrimSpace j = j" "rmb_ProjectID r = i"
  shows "rmb_Status r = ''PAID'' \<or> rmb_Status r = ''WITHDRAWN''"
  using closure.holds [OF assms(1)] assms(2-7) unfolding closed_def by blast

theorem archived_project_has_no_open_claim_witness:
  "run canonical [] l12 \<and> rmb_Status (demo_approved\<lparr>rmb_Status := ''PAID''\<rparr>) \<in> {''PAID'', ''WITHDRAWN''}"
  using archived_project_has_no_open_claim [OF demo_canonical(2) demo_stored(8) _ _ demo_stored(7)] demo_canonical(2)
  by (simp add: play)

section \<open>The machines\<close>

text \<open>
  C5. Refinement: a successful call leaves a stored project as it is or takes it one step of the
  project machine.
\<close>

theorem project_calls_refine_machine:
  assumes "reachable (st_ledger ctx)" "invoke ctx c = Inr ws" "TrimSpace i = i"
    and "stored (st_ledger ctx) dec_Project (projectKey i) x"
  shows "\<exists>y. stored (submit ctx c) dec_Project (projectKey i) y \<and> (y = x \<or> project_step x y)"
  using project_one_step [OF assms(2) reachable_typed [OF assms(1)] assms(3,4)] by (simp add: submit_Inr [OF assms(2)])

theorem project_calls_refine_machine_witness:
  "\<exists>x y. stored l11 dec_Project (projectKey ''p'') x \<and> stored l12 dec_Project (projectKey ''p'') y \<and> (y = x \<or> project_step x y)"
proof -
  obtain ws where "invoke (demo_ctx ''Org2MSP'' ''t12'' l11) (TxFinalizeProjectSettlement ''p'' ''finance-admin'') = Inr ws"
    using demo_finalizes by blast
  then show ?thesis
    using project_calls_refine_machine [of "demo_ctx ''Org2MSP'' ''t12'' l11" _ ws "''p''"] demo_stored(5)
    by (auto simp: demo_ctx_simps demo_reachable demo_trim l12_def)
qed

text \<open>C6. Refinement of the reimbursement machine, in the same sense.\<close>

theorem reimbursement_calls_refine_machine:
  assumes "reachable (st_ledger ctx)" "invoke ctx c = Inr ws" "TrimSpace i = i"
    and "stored (st_ledger ctx) dec_Reimbursement (reimbursementKey i) x"
  shows "\<exists>y. stored (submit ctx c) dec_Reimbursement (reimbursementKey i) y \<and> (y = x \<or> reimbursement_step x y)"
  using reimbursement_one_step [OF assms(2) reachable_typed [OF assms(1)] assms(3,4)] by (simp add: submit_Inr [OF assms(2)])

theorem reimbursement_calls_refine_machine_witness:
  "\<exists>y. stored l11 dec_Reimbursement (reimbursementKey ''r'') y \<and> (y = demo_approved \<or> reimbursement_step demo_approved y)"
proof -
  obtain ws where "invoke (demo_ctx ''Org2MSP'' ''t11'' l10) (TxPayReimbursement ''r'' ''finance-admin'') = Inr ws"
    using demo_pays by blast
  then show ?thesis
    using reimbursement_calls_refine_machine [of "demo_ctx ''Org2MSP'' ''t11'' l10" _ ws "''r''"]
    by (auto simp: demo_ctx_simps demo_reachable demo_stored demo_trim l11_def)
qed

text \<open>
  C7. The facts of an invoice (number, dates, parties, amounts, hash, correction) never change, no
  invoice is ever deleted, and a voided one is found unchanged in every later ledger.
\<close>

theorem invoices_never_change:
  assumes "reachable l" "run any_call l m" "stored l dec_Invoice (invoiceKey i) x"
  shows "\<exists>y. stored m dec_Invoice (invoiceKey i) y \<and> invoice_facts y = invoice_facts x
    \<and> (inv_Status x = ''VOIDED'' \<longrightarrow> y = x)"
proof -
  obtain y where y: "stored m dec_Invoice (invoiceKey i) y" "rtranclp invoice_step x y"
    using invoice_run [OF assms] by blast
  moreover have "y = x" if "inv_Status x = ''VOIDED''" by (rule final_rtranclp [OF y(2) voided_final [OF that]])
  moreover have "invoice_facts y = invoice_facts x"
    using invoice_facts_run [OF assms] y(1) by (auto dest: stored_unique)
  ultimately show ?thesis by blast
qed

theorem invoices_never_change_witness:
  "\<exists>y. stored (submit (demo_ctx ''Org1MSP'' ''w'' v9) (TxVoidInvoice ''i'' ''y'' ''issuer-org1'')) dec_Invoice (invoiceKey ''i'') y
    \<and> y = demo_voided"
  using invoices_never_change [OF demo_reachable(13) run_submit [OF run_refl] demo_stored(2)]
  by (simp add: demo_voided_def)

text \<open>
  C8. Once a project is approved, its budget, name and content are fixed for good, and it never
  leaves the approved phases; an archived project does not change at all.
\<close>

theorem approved_budget_is_fixed:
  assumes "reachable l" "run any_call l m" "stored l dec_Project (projectKey i) x" "TrimSpace i = i"
    and "prj_Status x \<in> {''EXECUTING'', ''CLOSURE_REVIEW'', ''FINANCIAL_SETTLEMENT'', ''ARCHIVED''}"
  shows "\<exists>y. stored m dec_Project (projectKey i) y
    \<and> prj_Status y \<in> {''EXECUTING'', ''CLOSURE_REVIEW'', ''FINANCIAL_SETTLEMENT'', ''ARCHIVED''}
    \<and> prj_BudgetCents y = prj_BudgetCents x \<and> prj_Name y = prj_Name x \<and> prj_Content y = prj_Content x
    \<and> (prj_Status x = ''ARCHIVED'' \<longrightarrow> y = x)"
proof -
  obtain y where y: "stored m dec_Project (projectKey i) y" "rtranclp project_step x y"
    using project_run [OF assms(1-4)] by blast
  moreover have "prj_Status x = ''ARCHIVED'' \<longrightarrow> y = x"
    using final_rtranclp [OF y(2)] archived_final by blast
  ultimately show ?thesis
    using rtranclp_project_approved [OF y(2)] assms(5) by (auto simp: approved_def)
qed

theorem approved_budget_is_fixed_witness:
  "\<exists>y. stored l12 dec_Project (projectKey ''p'') y \<and> prj_BudgetCents y = 1000"
  using approved_budget_is_fixed [OF demo_reachable(8) demo_runs(2) demo_stored(6)]
  by (auto simp: play)

text \<open>
  C9. A reimbursement keeps its claim (project, invoice, applicant, amount) for ever, and once it
  is paid or withdrawn it does not change again.
\<close>

theorem reimbursement_claim_is_fixed:
  assumes "reachable l" "run any_call l m" "stored l dec_Reimbursement (reimbursementKey i) x" "TrimSpace i = i"
  shows "\<exists>y. stored m dec_Reimbursement (reimbursementKey i) y \<and> claim_of y = claim_of x
    \<and> (rmb_Status x = ''PAID'' \<or> rmb_Status x = ''WITHDRAWN'' \<longrightarrow> y = x)"
proof -
  obtain y where y: "stored m dec_Reimbursement (reimbursementKey i) y" "rtranclp reimbursement_step x y"
    using reimbursement_run [OF assms] by blast
  moreover have "claim_of y = claim_of x"
    by (rule rtranclp_keeps [OF y(2) reimbursement_step_claim])
  moreover have "rmb_Status x = ''PAID'' \<or> rmb_Status x = ''WITHDRAWN'' \<longrightarrow> y = x"
    using final_rtranclp [OF y(2)] closed_reimbursement_final by blast
  ultimately show ?thesis by blast
qed

theorem reimbursement_claim_is_fixed_witness:
  "\<exists>y. stored l12 dec_Reimbursement (reimbursementKey ''r'') y \<and> claim_of y = claim_of demo_approved"
  using reimbursement_claim_is_fixed [OF demo_reachable(10) demo_run10 demo_stored(4)]
  by (auto simp: play)

section \<open>Authority\<close>

text \<open>
  C11. The officers alone decide and pay: on a reachable ledger a payment or a final settlement succeeds
  only for the finance administrator's account with an Org2 certificate, and a decision on a project, a
  closure or a reimbursement only for the project reviewer's account with an Org1 certificate.
\<close>

theorem only_officers_decide_and_pay:
  assumes "reachable (st_ledger ctx)"
  shows "(PayReimbursement ctx i f = Inr ws \<or> FinalizeProjectSettlement ctx i f = Inr ws
      \<longrightarrow> TrimSpace f = ''finance-admin'' \<and> st_mspid ctx = Inr ''Org2MSP'')
    \<and> (ReviewProject ctx i d opn f = Inr ws \<or> ReviewProjectClosure ctx i d opn f = Inr ws
        \<or> ReviewReimbursement ctx i d opn f = Inr ws
      \<longrightarrow> TrimSpace f = ''project-reviewer'' \<and> st_mspid ctx = Inr ''Org1MSP'')"
  using reachable_typed [OF assms]
  by (auto dest!: PayReimbursement_effect FinalizeProjectSettlement_effect ReviewProject_effect
      ReviewProjectClosure_effect ReviewReimbursement_effect dest: finance_manager review_manager)

theorem only_officers_decide_and_pay_witness:
  "(\<exists>ws. PayReimbursement (demo_ctx ''Org2MSP'' ''t11'' l10) ''r'' ''finance-admin'' = Inr ws)
    \<and> st_mspid (demo_ctx ''Org2MSP'' ''t11'' l10) = Inr ''Org2MSP'' \<and> st_mspid (demo_ctx ''Org1MSP'' ''t10'' l9) = Inr ''Org1MSP''"
  using only_officers_decide_and_pay [of "demo_ctx ''Org2MSP'' ''t11'' l10" "''r''" "''finance-admin''"]
    only_officers_decide_and_pay [of "demo_ctx ''Org1MSP'' ''t10'' l9" "''r''" "''project-reviewer''" _ "''APPROVE''" "''ok''"]
    demo_pays demo_reviews
  by (auto simp: demo_ctx_simps demo_reachable)

lemma voided_by_org1:
  assumes "reachable (st_ledger ctx)" "stored (st_ledger ctx) dec_Invoice (invoiceKey i) x"
    and "VoidInvoice ctx i rs op = Inr ws \<or> ReviewInvoiceVoid ctx i d rs op = Inr ws"
  shows "inv_IssuerMSPID x = ''Org1MSP'' \<and> TrimSpace op = ''issuer-org1''"
proof -
  note t = reachable_typed [OF assms(1)]
  from assms(3) show ?thesis
  proof
    assume "VoidInvoice ctx i rs op = Inr ws"
    from VoidInvoice_effect [OF this] t assms(2) show ?thesis
      by (auto simp: read_inv dest: void_issuer stored_unique)
  next
    assume "ReviewInvoiceVoid ctx i d rs op = Inr ws"
    from ReviewInvoiceVoid_effect [OF this] t assms(2) show ?thesis
      by (auto simp: read_inv dest: void_issuer stored_unique)
  qed
qed

lemma no_direct_transfer:
  assumes "reachable (st_ledger ctx)"
  shows "TransferInvoice ctx i t tm op \<noteq> Inr ws"
proof
  assume "TransferInvoice ctx i t tm op = Inr ws"
  then obtain u where "ReadBusinessUser ctx (TrimSpace t) = Inr u" "usr_Role u = ''HOLDER''"
    using TransferInvoice_effect [of ctx i t tm op ws] by (auto simp: requireActiveHolder_Inr)
  then show False
    using reachable_typed [OF assms] by (auto dest!: typed_ReadBusinessUser simp: user_ok_def)
qed

text \<open>
  C12. Two roles the contract asks for can never be registered. Voiding needs an issuer of the
  organization that issued the invoice, and the only issuer is the built-in account of Org1, so an
  invoice issued by Org2 can never be voided; the direct transfer needs a registered holder, so it always
  fails.
\<close>

theorem issuers_and_holders_are_out_of_reach:
  assumes "reachable (st_ledger ctx)" "stored (st_ledger ctx) dec_Invoice (invoiceKey i) x"
  shows "(VoidInvoice ctx i rs op = Inr ws \<or> ReviewInvoiceVoid ctx i d rs op = Inr ws
      \<longrightarrow> inv_IssuerMSPID x = ''Org1MSP'' \<and> TrimSpace op = ''issuer-org1'')
    \<and> TransferInvoice ctx i t tm op \<noteq> Inr ws"
  using voided_by_org1 [OF assms] no_direct_transfer [OF assms(1)] by blast

theorem issuers_and_holders_are_out_of_reach_witness:
  "(\<exists>ws. VoidInvoice (demo_ctx ''Org1MSP'' ''v9'' l8) ''i'' ''x'' ''issuer-org1'' = Inr ws)
    \<and> inv_IssuerMSPID demo_invoice = ''Org1MSP'' \<and> TrimSpace ''issuer-org1'' = ''issuer-org1''
    \<and> TransferInvoice (demo_ctx ''Org1MSP'' ''v9'' l8) ''i'' ''u2'' ''Org1MSP'' ''issuer-org1'' \<noteq> Inr []"
  using issuers_and_holders_are_out_of_reach [of "demo_ctx ''Org1MSP'' ''v9'' l8" "''i''" demo_invoice "''x''" "''issuer-org1''"]
    demo_voids
  by (auto simp: demo_ctx_simps demo_reachable demo_stored)

text \<open>
  C13. Registering a user under the name of a built-in account takes that account's authority away:
  no payment by that name succeeds any more.
\<close>

theorem shadowed_finance_admin_cannot_pay:
  assumes "reachable (st_ledger ctx)" "ReadBusinessUser ctx ''finance-admin'' = Inr u"
  shows "PayReimbursement ctx i f \<noteq> Inr ws"
proof
  assume p: "PayReimbursement ctx i f = Inr ws"
  note t = reachable_typed [OF assms(1)]
  obtain p where m: "requireProjectManager ctx p (TrimSpace f) ''FINANCE_ADMIN'' = Inr ()"
    using PayReimbursement_effect [OF p] by blast
  with finance_manager [OF m t] assms(2) show False
    using shadowed_manager [OF m t, of u] by simp
qed

theorem shadowed_finance_admin_cannot_pay_witness:
  "PayReimbursement (demo_ctx ''Org2MSP'' ''w'' x2) ''r'' ''finance-admin'' \<noteq> Inr []"
  by (rule shadowed_finance_admin_cannot_pay [where u = x_user])
    (simp_all add: demo_ctx_simps demo_reachable play_reads play at_x2)

section \<open>Evidence\<close>

text \<open>
  C14. Evidence is append-only: a transaction does not touch the flows and events of other
  transactions. (Transaction ids are hexadecimal, so they contain no separator.)
\<close>

theorem evidence_is_append_only:
  assumes "wf_ledger (st_ledger ctx)" "CHR ''#'' \<notin> set t" "CHR ''#'' \<notin> set (st_txid ctx)" "t \<noteq> st_txid ctx"
  shows "get_kv (submit ctx c) (flowKey i t) = get_kv (st_ledger ctx) (flowKey i t)
    \<and> get_kv (submit ctx c) (projectEventKey i t) = get_kv (st_ledger ctx) (projectEventKey i t)"
proof (cases "invoke ctx c")
  case (Inl e)
  then show ?thesis by (simp add: submit_Inl)
next
  case (Inr ws)
  then show ?thesis
    using evidence_untouched [OF Inr assms(2-4)] by (simp add: submit_Inr get_commit_other [OF assms(1)])
qed

theorem evidence_is_append_only_witness:
  "get_kv l12 (flowKey ''i'' ''t8'') = get_kv l11 (flowKey ''i'' ''t8'')"
  using evidence_is_append_only [of "demo_ctx ''Org2MSP'' ''t12'' l11" "''t8''"
      "TxFinalizeProjectSettlement ''p'' ''finance-admin''" "''i''"]
  by (simp add: demo_ctx_simps demo_states flip: l12_def)

text \<open>
  C15. Every successful call on a project, an invoice or a reimbursement leaves a flow or an event
  under its own transaction id.
\<close>

theorem every_change_leaves_evidence:
  assumes "invoke ctx c = Inr ws" "\<not> directory_call c" "wf_ledger (st_ledger ctx)"
  shows "\<exists>i. get_kv (submit ctx c) (flowKey i (st_txid ctx)) \<noteq> None
    \<or> get_kv (submit ctx c) (projectEventKey i (st_txid ctx)) \<noteq> None"
proof -
  obtain k b ws' where ws: "ws = ws' @ [Put k b]"
    and k: "(\<exists>i. k = flowKey i (st_txid ctx)) \<or> (\<exists>i. k = projectEventKey i (st_txid ctx))"
    using invoke_leaves_evidence [OF assms(1,2)]
    by (cases ws rule: rev_cases) (auto simp: leaves_evidence_def)
  have "get_kv (submit ctx c) k = Some b"
    using ws by (simp add: submit_Inr [OF assms(1)] get_put_kv)
  with k show ?thesis by auto
qed

theorem every_change_leaves_evidence_witness:
  "\<exists>i. get_kv l12 (flowKey i ''t12'') \<noteq> None \<or> get_kv l12 (projectEventKey i ''t12'') \<noteq> None"
proof -
  obtain ws where "invoke (demo_ctx ''Org2MSP'' ''t12'' l11) (TxFinalizeProjectSettlement ''p'' ''finance-admin'') = Inr ws"
    using demo_finalizes by blast
  from every_change_leaves_evidence [OF this] show ?thesis
    by (simp add: demo_ctx_simps demo_states flip: l12_def)
qed

section \<open>Invoice numbers and content\<close>

text \<open>
  C16. An invoice number is unique among the invoices that are not voided; a second record under a
  number is the correction of a voided one.
\<close>

theorem live_invoice_numbers_are_unique:
  assumes "reachable l" "stored l dec_Invoice (invoiceKey i) x" "stored l dec_Invoice (invoiceKey j) y"
    and "inv_InvoiceNo x = inv_InvoiceNo y" "i \<noteq> j"
  shows "(inv_CorrectionOf x = j \<and> inv_Status y = ''VOIDED'') \<or> (inv_CorrectionOf y = i \<and> inv_Status x = ''VOIDED'')"
proof -
  have t: "typed l" by (rule reachable_typed [OF assms(1)])
  have "inv_ID x = i" "inv_ID y = j"
    using assms(2,3) typed_entry [OF _ t] by (fastforce simp: stored_def)+
  moreover have "corrects x y \<or> corrects y x"
    using numbers.holds assms unfolding numbered_def reachable_def by blast
  ultimately show ?thesis by (simp add: corrects_def)
qed

theorem live_invoice_numbers_are_unique_witness:
  "inv_CorrectionOf demo_correction = ''i'' \<and> inv_Status demo_voided = ''VOIDED''
    \<and> stored v10 dec_Invoice (invoiceKey ''i2'') demo_correction"
proof -
  have "stored v10 dec_Invoice (invoiceKey ''i2'') demo_correction" "stored v10 dec_Invoice (invoiceKey ''i'') demo_voided"
    by (simp_all add: stored_def demo_states)
  with live_invoice_numbers_are_unique [OF branches_reachable(1) this] show ?thesis by (simp add: play)
qed

text \<open>
  C17. Money arithmetic is exact: the addition never wraps, it accepts two amounts precisely when neither
  is negative and the mathematical sum is within the limit, and then returns that sum; an amount that is
  printed in decimal is parsed back unchanged when it is within the limit and refused otherwise.
\<close>

theorem money_arithmetic_is_exact:
  "(checkedAddMoney a b = Inr c \<longleftrightarrow>
      0 \<le> sint a \<and> 0 \<le> sint b \<and> sint a + sint b \<le> 10000000000 \<and> sint c = sint a + sint b)
    \<and> parseNonNegative (FormatInt v) f = (if 0 \<le> sint v \<and> sint v \<le> 10000000000 then Inr v
        else Inl (f @ '' must be a non-negative integer in cents''))"
proof -
  have "sint (a + b) = sint a + sint b" if "0 \<le> sint a" "0 \<le> sint b" "sint a + sint b \<le> 10000000000"
    using that by (intro sint64_add) auto
  then show ?thesis by (auto simp: checkedAddMoney_Inr sint64_eq_iff parseNonNegative_def ParseInt_FormatInt)
qed

section \<open>The stored bytes\<close>

lemma demo_printable:
  "printable max_nesting (enc_Invoice zero_Invoice)" "printable max_nesting (enc_InvoiceFlow zero_InvoiceFlow)"
  "printable max_nesting (enc_InvoiceVoidRequest zero_InvoiceVoidRequest)" "printable max_nesting (enc_BusinessUser demo_user)"
  "printable max_nesting (enc_BusinessOrganization demo_org)" "printable max_nesting (enc_Project demo_project)"
  "printable max_nesting (enc_ProjectMember demo_leader)" "printable max_nesting (enc_InvoiceTransfer zero_InvoiceTransfer)"
  "printable max_nesting (enc_ProjectEvent zero_ProjectEvent)" "printable max_nesting (enc_Reimbursement demo_reimbursement)"
  by (auto simp: max_nesting_def valid_utf8_ascii JInt64_def epoch_def demo_hash_def list_all_iff
    enc_Invoice_def enc_InvoiceFlow_def enc_InvoiceVoidRequest_def enc_BusinessUser_def enc_BusinessOrganization_def enc_Project_def
    enc_ProjectMember_def enc_InvoiceTransfer_def enc_ProjectEvent_def enc_Reimbursement_def
    zero_Invoice_def zero_InvoiceFlow_def zero_InvoiceVoidRequest_def zero_InvoiceTransfer_def zero_ProjectEvent_def
    demo_user_def demo_org_def demo_project_def demo_leader_def demo_reimbursement_def zero_Project_def zero_Reimbursement_def
    zero_BusinessUser_def zero_BusinessOrganization_def zero_ProjectMember_def)

text \<open>
  C18. Every record of the ledger is read back unchanged from the bytes it is stored as, provided its
  texts are valid UTF-8 (\<open>encoding/json\<close> replaces other bytes), whatever characters, quotes and numbers
  it contains.
\<close>

theorem records_round_trip:
  assumes "\<forall>j \<in> {enc_Invoice iv, enc_InvoiceFlow flow, enc_InvoiceVoidRequest vreq, enc_BusinessUser usr,
      enc_BusinessOrganization org, enc_Project proj, enc_ProjectMember memb, enc_InvoiceTransfer tr, enc_ProjectEvent ev,
      enc_Reimbursement rmb}. printable max_nesting j"
  shows "unmarshal_text dec_Invoice (json_text (enc_Invoice iv)) = Inr iv
    \<and> unmarshal_text dec_InvoiceFlow (json_text (enc_InvoiceFlow flow)) = Inr flow
    \<and> unmarshal_text dec_InvoiceVoidRequest (json_text (enc_InvoiceVoidRequest vreq)) = Inr vreq
    \<and> unmarshal_text dec_BusinessUser (json_text (enc_BusinessUser usr)) = Inr usr
    \<and> unmarshal_text dec_BusinessOrganization (json_text (enc_BusinessOrganization org)) = Inr org
    \<and> unmarshal_text dec_Project (json_text (enc_Project proj)) = Inr proj
    \<and> unmarshal_text dec_ProjectMember (json_text (enc_ProjectMember memb)) = Inr memb
    \<and> unmarshal_text dec_InvoiceTransfer (json_text (enc_InvoiceTransfer tr)) = Inr tr
    \<and> unmarshal_text dec_ProjectEvent (json_text (enc_ProjectEvent ev)) = Inr ev
    \<and> unmarshal_text dec_Reimbursement (json_text (enc_Reimbursement rmb)) = Inr rmb"
  using assms by (intro conjI unmarshal_json_text) simp_all


theorem records_round_trip_witness:
  "unmarshal_text dec_Project (json_text (enc_Project demo_project)) = Inr demo_project"
  using records_round_trip [of zero_Invoice zero_InvoiceFlow zero_InvoiceVoidRequest demo_user demo_org demo_project demo_leader
      zero_InvoiceTransfer zero_ProjectEvent demo_reimbursement] demo_printable
  by simp

section \<open>Queries and progress\<close>

text \<open>
  C19. On a reachable ledger of a healthy peer no list can fail. The lists of all invoices,
  reimbursements, projects and business organizations contain exactly the stored records. A member of a
  project is listed exactly when the user name sorts before \<open>U+FFFF\<close>: the scan loses the names that
  start with a character outside the basic plane.
\<close>

theorem stored_records_are_listed:
  assumes "reachable (st_ledger ctx)" "healthy ctx"
  shows "(\<exists>xs. GetAllInvoices ctx = Inr xs \<and>
      set xs = {x. \<exists>i. stored (st_ledger ctx) dec_Invoice (invoiceKey i) x})
    \<and> (\<exists>xs. GetAllReimbursements ctx = Inr xs \<and>
      set xs = {x. \<exists>i. stored (st_ledger ctx) dec_Reimbursement (reimbursementKey i) x})
    \<and> (\<exists>xs. GetAllProjects ctx = Inr xs \<and>
      set xs = {x. \<exists>i. stored (st_ledger ctx) dec_Project (projectKey i) x})
    \<and> (\<exists>xs. GetAllBusinessOrganizations ctx = Inr xs \<and>
      set xs = {x. \<exists>i. stored (st_ledger ctx) dec_BusinessOrganization (organizationKey i) x})
    \<and> (\<exists>xs. GetProjectMembers ctx pid = Inr xs \<and>
      (\<forall>u x. stored (st_ledger ctx) dec_ProjectMember (projectMemberKey (TrimSpace pid) u) x \<longrightarrow> (x \<in> set xs \<longleftrightarrow> u < uffff)))"
proof -
  note t = reachable_typed [OF assms(1)]
  obtain ms where "GetProjectMembers ctx pid = Inr ms" using GetProjectMembers_total [OF assms(2) t] by blast
  with project_members_seen [OF _ t] show ?thesis
    using GetAllInvoices_complete [OF assms(2) t] GetAllReimbursements_complete [OF assms(2) t]
      GetAllProjects_complete [OF assms(2) t] GetAllBusinessOrganizations_complete [OF assms(2) t] by blast
qed

theorem stored_records_are_listed_witness:
  "(\<exists>xs ys. GetAllInvoices (demo_ctx ''Org1MSP'' ''w'' l8) = Inr xs \<and> demo_invoice \<in> set xs
      \<and> GetAllProjects (demo_ctx ''Org1MSP'' ''w'' l8) = Inr ys \<and> demo_settling \<in> set ys)
    \<and> (\<exists>ms. GetProjectMembers (demo_ctx ''Org1MSP'' ''w'' l3) ''p'' = Inr ms \<and> demo_leader \<in> set ms)"
proof
  show "\<exists>xs ys. GetAllInvoices (demo_ctx ''Org1MSP'' ''w'' l8) = Inr xs \<and> demo_invoice \<in> set xs
      \<and> GetAllProjects (demo_ctx ''Org1MSP'' ''w'' l8) = Inr ys \<and> demo_settling \<in> set ys"
    using stored_records_are_listed [of "demo_ctx ''Org1MSP'' ''w'' l8" "''p''"] demo_stored(1,6)
    by (auto simp: demo_ctx_simps demo_reachable)
  have "''u'' < uffff" by code_simp
  moreover have "stored l3 dec_ProjectMember (projectMemberKey ''p'' ''u'') demo_leader"
    by (simp add: stored_def demo_states play)
  moreover have "TrimSpace ''p'' = ''p''" by (simp add: play)
  ultimately show "\<exists>ms. GetProjectMembers (demo_ctx ''Org1MSP'' ''w'' l3) ''p'' = Inr ms \<and> demo_leader \<in> set ms"
    using stored_records_are_listed [of "demo_ctx ''Org1MSP'' ''w'' l3" "''p''"]
    by (auto simp: demo_ctx_simps demo_reachable)
qed

text \<open>
  C20. A project in settlement can be archived: when nothing is reserved and no reimbursement of it
  awaits action, the finance administrator's call succeeds on a healthy peer, unless somebody
  registered under the administrator's name.
\<close>

theorem settlement_can_be_finalized:
  assumes "healthy ctx" "reachable (st_ledger ctx)" "st_mspid ctx = Inr ''Org2MSP''"
    and "stored (st_ledger ctx) dec_Project (projectKey i) p" "TrimSpace i = i"
    and "prj_Status p = ''FINANCIAL_SETTLEMENT''" "prj_ReservedCents p = 0"
    and "get_kv (st_ledger ctx) (userKey ''finance-admin'') = None"
    and "\<And>j r. stored (st_ledger ctx) dec_Reimbursement (reimbursementKey j) r \<Longrightarrow> rmb_ProjectID r = i \<Longrightarrow>
      rmb_Status r = ''PAID'' \<or> rmb_Status r = ''WITHDRAWN'' \<or> rmb_Status r = ''APPROVED_RESERVED''"
  shows "\<exists>q. stored (submit ctx (TxFinalizeProjectSettlement i ''finance-admin'')) dec_Project (projectKey i) q
    \<and> prj_Status q = ''ARCHIVED'' \<and> sint (prj_RecoveredCents q) = sint (prj_BudgetCents p) - sint (prj_PaidCents p)"
proof -
  note t = reachable_typed [OF assms(2)]
  obtain ws where ws: "FinalizeProjectSettlement ctx i ''finance-admin'' = Inr ws"
    using finalize_succeeds [OF assms(1) t assms(3-8)] assms(9) by fastforce
  have rp: "ReadProject ctx i = Inr p" using assms(1,4,5) by (simp add: read_inv healthy_def)
  have p: "prj_ID p = i" "project_ok p" using typed_ReadProject [OF rp t] assms(5) by auto
  obtain now e where w: "ws = project_writes ctx i
        (p\<lparr>prj_RecoveredCents := prj_RecoveredCents p + prj_AvailableCents p, prj_AvailableCents := 0,
           prj_Status := ''ARCHIVED'', prj_UpdatedAt := now\<rparr>) e"
    using FinalizeProjectSettlement_effect [OF ws] rp p(1) by auto
  have "submit ctx (TxFinalizeProjectSettlement i ''finance-admin'') = commit ws (st_ledger ctx)"
    using ws by (simp add: submit_Inr)
  moreover have "prj_RecoveredCents p = 0" "sint (prj_AvailableCents p) = sint (prj_BudgetCents p) - sint (prj_PaidCents p)"
    using p(2) assms(6,7) by (auto simp: project_ok_def balanced_def)
  ultimately show ?thesis by (auto simp: w project_writes_def)
qed

theorem settlement_can_be_finalized_witness:
  "\<exists>q. stored (submit (demo_ctx ''Org2MSP'' ''w'' l8) (TxFinalizeProjectSettlement ''p'' ''finance-admin''))
     dec_Project (projectKey ''p'') q \<and> prj_Status q = ''ARCHIVED'' \<and> sint (prj_RecoveredCents q) = 1000"
proof -
  have none: "\<not> stored l8 dec_Reimbursement (reimbursementKey j) r" for j r
    by (simp add: stored_def demo_states play)
  show ?thesis
    using settlement_can_be_finalized [of "demo_ctx ''Org2MSP'' ''w'' l8" "''p''" demo_settling]
    by (simp add: demo_ctx_simps demo_reachable demo_stored none play demo_states)
qed

text \<open>
  C21. A transfer is completed only by the recipient it names, while it is pending, and only if the
  requester still holds the invoice; it then makes that recipient the holder.
\<close>

theorem handoff_goes_to_the_named_recipient:
  assumes "RespondInvoiceTransfer ctx i d rsp rcp = Inr ws" "ToUpper (TrimSpace d) = ''ACCEPT''"
  shows "\<exists>t x y. ReadInvoiceTransfer ctx i = Inr t \<and> trf_Status t = ''PENDING'' \<and> TrimSpace rcp = trf_To t
    \<and> st_mspid ctx = Inr (trf_ToMSPID t)
    \<and> ReadInvoice ctx i = Inr x \<and> inv_CurrentHolder x = trf_From t \<and> inv_Status x \<noteq> ''VOIDED''
    \<and> stored (commit ws (st_ledger ctx)) dec_Invoice (invoiceKey i) y
    \<and> inv_CurrentHolder y = trf_To t \<and> inv_HolderMSPID y = trf_ToMSPID t \<and> invoice_facts y = invoice_facts x"
  using RespondInvoiceTransfer_effect [OF assms(1)] assms(2)
  by (elim exE conjE disjE) (auto simp: requireActiveBusinessUser_Inr invoice_facts_def)

theorem handoff_goes_to_the_named_recipient_witness:
  "\<exists>ws y. RespondInvoiceTransfer (demo_ctx ''Org2MSP'' ''a10'' a9) ''i'' ''ACCEPT'' ''ok'' ''holder-org2'' = Inr ws
    \<and> stored (commit ws a9) dec_Invoice (invoiceKey ''i'') y \<and> inv_CurrentHolder y = ''holder-org2''"
proof -
  obtain ws where ws: "RespondInvoiceTransfer (demo_ctx ''Org2MSP'' ''a10'' a9) ''i'' ''ACCEPT'' ''ok'' ''holder-org2'' = Inr ws"
    using a9_accepted by blast
  from handoff_goes_to_the_named_recipient [OF ws] ws show ?thesis
    by (auto simp: branch_trim upper_byte_def demo_trim demo_ctx_simps)
qed

section \<open>A known gap\<close>

text \<open>
  C22. The handlers read a reimbursement under the trimmed identifier and write it under the one
  given. A payment under a padded identifier therefore pays the claim out of the project and leaves
  the claim itself approved: it can be paid again.
\<close>

theorem padded_payment_leaves_the_claim_open:
  assumes "PayReimbursement ctx i f = Inr ws" "TrimSpace i \<noteq> i" "typed (st_ledger ctx)"
  shows "\<exists>r p q. stored (st_ledger ctx) dec_Reimbursement (reimbursementKey (TrimSpace i)) r
    \<and> rmb_Status r = ''APPROVED_RESERVED''
    \<and> stored (commit ws (st_ledger ctx)) dec_Reimbursement (reimbursementKey (TrimSpace i)) r
    \<and> stored (st_ledger ctx) dec_Project (projectKey (rmb_ProjectID r)) p
    \<and> stored (commit ws (st_ledger ctx)) dec_Project (projectKey (rmb_ProjectID r)) q
    \<and> sint (prj_PaidCents q) = sint (prj_PaidCents p) + sint (rmb_AmountCents r)"
proof -
  obtain r p now e where r: "ReadReimbursement ctx i = Inr r" "rmb_Status r = ''APPROVED_RESERVED''"
    and p: "ReadProject ctx (rmb_ProjectID r) = Inr p" "sint (rmb_AmountCents r) \<le> sint (prj_ReservedCents p)"
    and ws: "ws = [put_project (pay_out (rmb_AmountCents r) now p),
      put_reimbursement i (r\<lparr>rmb_Status := ''PAID'', rmb_UpdatedAt := now\<rparr>), put_event ctx (prj_ID p) e]"
    using PayReimbursement_effect [OF assms(1)] by blast
  have ok: "reimbursement_ok r" "project_ok p" "prj_ID p = rmb_ProjectID r"
    using r(1) p(1) assms(3) by (auto dest!: typed_ReadReimbursement typed_ReadProject simp: reimbursement_ok_def)
  have rs: "stored (st_ledger ctx) dec_Reimbursement (reimbursementKey (TrimSpace i)) r"
    using r(1) by (simp add: read_inv)
  moreover have "stored (st_ledger ctx) dec_Project (projectKey (rmb_ProjectID r)) p"
    using own_project(3) [OF p(1) assms(3)] ok(3) by simp
  moreover have "sint (prj_PaidCents (pay_out (rmb_AmountCents r) now p)) = sint (prj_PaidCents p) + sint (rmb_AmountCents r)"
    using balance_sint(3) [OF ok(2) reimbursement_ok_amount [OF ok(1)] p(2)] by simp
  ultimately show ?thesis
    using ws assms(2) r(2) ok(3)
    by (intro exI [of _ r] exI [of _ p] exI [of _ "pay_out (rmb_AmountCents r) now p"]) (auto simp: stored_put)
qed

theorem padded_payment_leaves_the_claim_open_witness:
  "\<exists>r. stored d11 dec_Reimbursement (reimbursementKey ''r'') r \<and> rmb_Status r = ''APPROVED_RESERVED''"
proof -
  obtain ws where ws: "invoke (demo_ctx ''Org2MSP'' ''d11'' l10) (TxPayReimbursement '' r'' ''finance-admin'') = Inr ws"
    using demo_pays_padded by blast
  then have "d11 = commit ws l10" by (simp add: d11_def submit_Inr demo_ctx_simps)
  with padded_payment_leaves_the_claim_open [of "demo_ctx ''Org2MSP'' ''d11'' l10" "'' r''" "''finance-admin''" ws] ws
  show ?thesis by (auto simp: demo_trim demo_ctx_simps reachable_typed demo_reachable)
qed

end
